(* ===== verification/Prelude.thy ===== *)
theory Prelude
  imports Main "HOL-Library.Word"
begin

unbundle bit_operations_syntax

text \<open>
  Shared vocabulary of the development: machine integers as words, byte memories as functions
  from addresses to bytes, C's little-endian loads and stores, and the generic lemmas about them
  that the component theories use.  Collections: \<open>mem_simps\<close> (reads against writes),
  \<open>le_simps\<close> (little-endian codecs), \<open>ppm_consts\<close> (constants of the driver's headers).
\<close>

named_theorems mem_simps \<open>reads from a memory that was written\<close>
named_theorems le_simps \<open>little-endian encodings\<close>
named_theorems ppm_consts \<open>constants of the driver headers\<close>

type_synonym u8 = "8 word"
type_synonym u16 = "16 word"
type_synonym u32 = "32 word"
type_synonym u64 = "64 word"
type_synonym byte = "8 word"
type_synonym mem = "nat \<Rightarrow> byte"

section \<open>Memories\<close>

definition mem_write :: "mem \<Rightarrow> nat \<Rightarrow> byte list \<Rightarrow> mem" where
  "mem_write m a bs = (\<lambda>i. if a \<le> i \<and> i < a + length bs then bs ! (i - a) else m i)"

definition mem_read :: "mem \<Rightarrow> nat \<Rightarrow> nat \<Rightarrow> byte list" where
  "mem_read m a n = map m [a..<a + n]"

definition same_outside :: "mem \<Rightarrow> mem \<Rightarrow> nat \<Rightarrow> nat \<Rightarrow> bool" where
  "same_outside m m' lo hi \<longleftrightarrow> (\<forall>i. i < lo \<or> hi \<le> i \<longrightarrow> m' i = m i)"

lemma length_mem_read [simp]: "length (mem_read m a n) = n"
  by (simp add: mem_read_def)

lemma mem_read_nth [simp]: "i < n \<Longrightarrow> mem_read m a n ! i = m (a + i)"
  by (simp add: mem_read_def)

lemma mem_read_0 [simp]: "mem_read m a 0 = []"
  by (simp add: mem_read_def)

lemma mem_read_Suc: "mem_read m a (Suc n) = m a # mem_read m (Suc a) n"
  by (simp add: mem_read_def upt_rec)

lemma mem_read_add: "mem_read m a (n + k) = mem_read m a n @ mem_read m (a + n) k"
  by (rule nth_equalityI) (auto simp: nth_append)

lemma mem_write_Nil [simp]: "mem_write m a [] = m"
  by (auto simp: mem_write_def fun_eq_iff)

lemma mem_write_same [mem_simps]:
  "n = length bs \<Longrightarrow> mem_read (mem_write m a bs) a n = bs"
  by (rule nth_equalityI) (auto simp: mem_write_def)

lemma mem_read_cong:
  "(\<And>i. a \<le> i \<Longrightarrow> i < a + n \<Longrightarrow> m i = m' i) \<Longrightarrow> mem_read m a n = mem_read m' a n"
  by (simp add: mem_read_def)

lemma mem_write_disjoint [mem_simps]:
  "b + length bs \<le> a \<or> a + n \<le> b \<Longrightarrow> mem_read (mem_write m b bs) a n = mem_read m a n"
  by (rule mem_read_cong) (auto simp: mem_write_def)

lemma mem_write_append:
  "mem_write m a (xs @ ys) = mem_write (mem_write m a xs) (a + length xs) ys"
  by (auto simp: mem_write_def fun_eq_iff nth_append)

lemma same_outside_refl [simp]: "same_outside m m lo hi"
  by (simp add: same_outside_def)

lemma same_outside_trans:
  "same_outside m m' lo hi \<Longrightarrow> same_outside m' m'' lo hi \<Longrightarrow> same_outside m m'' lo hi"
  by (simp add: same_outside_def)

lemma same_outside_mono:
  "same_outside m m' lo hi \<Longrightarrow> lo' \<le> lo \<Longrightarrow> hi \<le> hi' \<Longrightarrow> same_outside m m' lo' hi'"
  by (auto simp: same_outside_def)

lemma same_outside_write:
  "lo \<le> a \<Longrightarrow> a + length bs \<le> hi \<Longrightarrow> same_outside m (mem_write m a bs) lo hi"
  by (auto simp: same_outside_def mem_write_def)

lemma same_outside_upd:
  "lo \<le> a \<Longrightarrow> a < hi \<Longrightarrow> same_outside m (m(a := v)) lo hi"
  by (auto simp: same_outside_def)

lemma same_outside_read:
  "same_outside m m' lo hi \<Longrightarrow> a + n \<le> lo \<or> hi \<le> a \<Longrightarrow> mem_read m' a n = mem_read m a n"
  by (rule mem_read_cong) (auto simp: same_outside_def)

section \<open>Little-endian codecs\<close>

fun le_bytes :: "nat \<Rightarrow> nat \<Rightarrow> byte list" where
  "le_bytes 0 v = []"
| "le_bytes (Suc n) v = word_of_nat v # le_bytes n (v div 256)"

fun le_nat :: "byte list \<Rightarrow> nat" where
  "le_nat [] = 0"
| "le_nat (b # bs) = unat b + 256 * le_nat bs"

lemma le_bytes_numeral:
  "le_bytes (numeral k) v = word_of_nat v # le_bytes (pred_numeral k) (v div 256)"
  by (simp only: numeral_eq_Suc le_bytes.simps)

lemma mem_read_numeral:
  "mem_read m a (numeral k) = m a # mem_read m (Suc a) (pred_numeral k)"
  by (simp only: numeral_eq_Suc mem_read_Suc)

lemma length_le_bytes [simp]: "length (le_bytes n v) = n"
  by (induction n arbitrary: v) auto

lemma le_nat_le_bytes [le_simps]: "le_nat (le_bytes n v) = v mod 256 ^ n"
proof (induction n arbitrary: v)
  case 0
  show ?case by simp
next
  case (Suc n)
  have "unat (word_of_nat v :: byte) = v mod 256"
    by (simp add: unat_of_nat)
  then show ?case
    by (simp add: Suc mod_mult2_eq)
qed

lemma le_nat_bound: "le_nat bs < 256 ^ length bs"
proof (induction bs)
  case Nil
  show ?case by simp
next
  case (Cons b bs)
  have "unat b < 256"
    using unsigned_less [of b] by simp
  then show ?case using Cons by simp
qed

lemma le_bytes_le_nat [le_simps]: "n = length bs \<Longrightarrow> le_bytes n (le_nat bs) = bs"
proof (induction bs arbitrary: n)
  case (Cons b bs)
  have "unat b < 256"
    using unsigned_less [of b] by simp
  then have "unat (word_of_nat (unat b + 256 * le_nat bs) :: byte) = unat b"
    by (subst unat_of_nat) simp
  then have "(word_of_nat (unat b + 256 * le_nat bs) :: byte) = b"
    by (rule word_unat_eq_iff [THEN iffD2])
  moreover have "(unat b + 256 * le_nat bs) div 256 = le_nat bs"
    using \<open>unat b < 256\<close> by simp
  ultimately show ?case using Cons by (simp del: of_nat_add)
qed simp

definition load_le :: "mem \<Rightarrow> nat \<Rightarrow> nat \<Rightarrow> nat" where
  "load_le m a n = le_nat (mem_read m a n)"

definition store_le :: "mem \<Rightarrow> nat \<Rightarrow> nat \<Rightarrow> nat \<Rightarrow> mem" where
  "store_le m a n v = mem_write m a (le_bytes n v)"

lemma load_store_le [le_simps]: "load_le (store_le m a n v) a n = v mod 256 ^ n"
  by (simp add: load_le_def store_le_def mem_simps le_simps)

lemma load_store_disjoint [mem_simps]:
  "b + k \<le> a \<or> a + n \<le> b \<Longrightarrow> load_le (store_le m b k v) a n = load_le m a n"
  by (simp add: load_le_def store_le_def mem_simps)

lemma load_write_disjoint [mem_simps]:
  "b + length bs \<le> a \<or> a + n \<le> b \<Longrightarrow> load_le (mem_write m b bs) a n = load_le m a n"
  by (simp add: load_le_def mem_simps)

lemma read_store_disjoint [mem_simps]:
  "b + k \<le> a \<or> a + n \<le> b \<Longrightarrow> mem_read (store_le m b k v) a n = mem_read m a n"
  by (simp add: store_le_def mem_simps)

lemma store_le_other [mem_simps]: "i < a \<or> a + n \<le> i \<Longrightarrow> store_le m a n v i = m i"
  by (auto simp: store_le_def mem_write_def)

lemma store_le_2_other [mem_simps]: "i \<noteq> a \<Longrightarrow> i \<noteq> Suc a \<Longrightarrow> store_le m a 2 v i = m i"
  by (rule store_le_other) auto

lemma same_outside_store:
  "lo \<le> a \<Longrightarrow> a + n \<le> hi \<Longrightarrow> same_outside m (store_le m a n v) lo hi"
  by (simp add: store_le_def same_outside_write)

lemma same_outside_load:
  "same_outside m m' lo hi \<Longrightarrow> a + n \<le> lo \<or> hi \<le> a \<Longrightarrow> load_le m' a n = load_le m a n"
  by (simp add: load_le_def same_outside_read)

section \<open>Words\<close>

lemma unat_sub_le: "b \<le> (a :: 'a :: len word) \<Longrightarrow> unat (a - b) = unat a - unat b"
  by (rule unat_sub)

lemma unat_add_lt:
  "unat a + unat b < 2 ^ LENGTH('a) \<Longrightarrow> unat (a + b :: 'a :: len word) = unat a + unat b"
  by (simp add: unat_word_ariths)

lemma u32_less: "unat (x :: u32) < 4294967296"
  using unsigned_less [of x] by simp

lemma u16_less: "unat (x :: u16) < 65536"
  using unsigned_less [of x] by simp

end
