(* ===== verification/Ppm_Types.thy ===== *)
theory Ppm_Types
  imports Prelude
begin

text \<open>
  The data the kernel driver shares between its parts: the return codes, event and parameter
  descriptions of \<open>driver/ppm_events_public.h\<close>, the ring descriptors and the consumer of
  \<open>driver/ppm.h\<close> and \<open>driver/ppm_ringbuffer.h\<close>, and the arguments that
  \<open>record_event_consumer\<close> hands to a filler (\<open>driver/ppm_events.h\<close>).  The build modelled is
  the kernel module on 64-bit x86 Linux, without \<open>PPM_ENABLE_SENTINEL\<close>.
\<close>

section \<open>Constants\<close>

definition RING_BUF_SIZE :: u32 where [ppm_consts]: "RING_BUF_SIZE = 8388608"
definition PAGE_SIZE :: u32 where [ppm_consts]: "PAGE_SIZE = 4096"
definition STR_STORAGE_SIZE :: u32 where [ppm_consts]: "STR_STORAGE_SIZE = 4096"
definition PPM_MAX_ARG_SIZE :: u32 where [ppm_consts]: "PPM_MAX_ARG_SIZE = 65000"
definition PPM_EVENT_MAX :: nat where [ppm_consts]: "PPM_EVENT_MAX = 344"
definition RW_SNAPLEN :: u32 where [ppm_consts]: "RW_SNAPLEN = 80"
definition RW_MAX_SNAPLEN :: u32 where [ppm_consts]: "RW_MAX_SNAPLEN = 65000"
definition RW_SNAPLEN_EVENT :: u32 where [ppm_consts]: "RW_SNAPLEN_EVENT = 4096"
definition RW_MAX_FULLCAPTURE_PORT_SNAPLEN :: u32 where
  [ppm_consts]: "RW_MAX_FULLCAPTURE_PORT_SNAPLEN = 16000"
definition DPI_LOOKAHEAD_SIZE :: u32 where [ppm_consts]: "DPI_LOOKAHEAD_SIZE = 16"
definition SECOND_IN_NS :: u64 where [ppm_consts]: "SECOND_IN_NS = 1000000000"
definition AF_UNIX :: nat where [ppm_consts]: "AF_UNIX = 1"
definition AF_INET :: nat where [ppm_consts]: "AF_INET = 2"
definition AF_INET6 :: nat where [ppm_consts]: "AF_INET6 = 10"
definition PPM_PORT_MYSQL :: nat where [ppm_consts]: "PPM_PORT_MYSQL = 3306"
definition PPM_PORT_POSTGRES :: nat where [ppm_consts]: "PPM_PORT_POSTGRES = 5432"
definition PPM_PORT_STATSD :: nat where [ppm_consts]: "PPM_PORT_STATSD = 8125"
definition PPM_PORT_MONGODB :: nat where [ppm_consts]: "PPM_PORT_MONGODB = 27017"

text \<open>\<open>sizeof(struct ppm_evt_hdr)\<close>, packed: ts 8, tid 8, len 4, type 2, nparams 4.\<close>
definition EVT_HDR_SIZE :: nat where [ppm_consts]: "EVT_HDR_SIZE = 26"

datatype ppm_res =
    PPM_SUCCESS | PPM_FAILURE_BUFFER_FULL | PPM_FAILURE_INVALID_USER_MEMORY
  | PPM_FAILURE_BUG | PPM_SKIP_EVENT

definition UF_NONE :: u32 where [ppm_consts]: "UF_NONE = 0"
definition UF_USED :: u32 where [ppm_consts]: "UF_USED = 1"
definition UF_NEVER_DROP :: u32 where [ppm_consts]: "UF_NEVER_DROP = 2"
definition UF_ALWAYS_DROP :: u32 where [ppm_consts]: "UF_ALWAYS_DROP = 4"
definition UF_SIMPLEDRIVER_KEEP :: u32 where [ppm_consts]: "UF_SIMPLEDRIVER_KEEP = 8"
definition UF_ATOMIC :: u32 where [ppm_consts]: "UF_ATOMIC = 16"

definition EF_MODIFIES_STATE :: u32 where [ppm_consts]: "EF_MODIFIES_STATE = 32"

text \<open>The members of \<open>enum ppm_event_type\<close> that the driver's own code names.\<close>

definition PPME_GENERIC_E :: nat where [ppm_consts]: "PPME_GENERIC_E = 0"
definition PPME_GENERIC_X :: nat where [ppm_consts]: "PPME_GENERIC_X = 1"
definition PPME_SYSCALL_CLOSE_E :: nat where [ppm_consts]: "PPME_SYSCALL_CLOSE_E = 4"
definition PPME_SYSCALL_CLOSE_X :: nat where [ppm_consts]: "PPME_SYSCALL_CLOSE_X = 5"
definition PPME_SYSCALL_WRITE_X :: nat where [ppm_consts]: "PPME_SYSCALL_WRITE_X = 9"
definition PPME_SOCKET_BIND_X :: nat where [ppm_consts]: "PPME_SOCKET_BIND_X = 21"
definition PPME_SOCKET_SENDTO_X :: nat where [ppm_consts]: "PPME_SOCKET_SENDTO_X = 31"
definition PPME_SOCKET_SENDMSG_X :: nat where [ppm_consts]: "PPME_SOCKET_SENDMSG_X = 49"
definition PPME_DROP_E :: nat where [ppm_consts]: "PPME_DROP_E = 148"
definition PPME_DROP_X :: nat where [ppm_consts]: "PPME_DROP_X = 149"
definition PPME_SYSCALL_FCNTL_E :: nat where [ppm_consts]: "PPME_SYSCALL_FCNTL_E = 150"
definition PPME_SYSCALL_FCNTL_X :: nat where [ppm_consts]: "PPME_SYSCALL_FCNTL_X = 151"
definition PPME_SYSDIGEVENT_E :: nat where [ppm_consts]: "PPME_SYSDIGEVENT_E = 196"
definition PPME_CPU_HOTPLUG_E :: nat where [ppm_consts]: "PPME_CPU_HOTPLUG_E = 244"
definition PPME_PAGE_FAULT_E :: nat where [ppm_consts]: "PPME_PAGE_FAULT_E = 290"
definition PPME_SYSCALL_SECCOMP_E :: nat where [ppm_consts]: "PPME_SYSCALL_SECCOMP_E = 298"
definition PPME_TCP_RECEIVE_RESET_E :: nat where [ppm_consts]: "PPME_TCP_RECEIVE_RESET_E = 338"
definition PPME_TCP_SEND_RESET_E :: nat where [ppm_consts]: "PPME_TCP_SEND_RESET_E = 340"

section \<open>Event and parameter descriptions\<close>

datatype ppm_param_type =
    PT_NONE | PT_INT8 | PT_INT16 | PT_INT32 | PT_INT64 | PT_UINT8 | PT_UINT16 | PT_UINT32
  | PT_UINT64 | PT_CHARBUF | PT_BYTEBUF | PT_ERRNO | PT_SOCKADDR | PT_SOCKTUPLE | PT_FD | PT_PID
  | PT_FDLIST | PT_FSPATH | PT_SYSCALLID | PT_SIGTYPE | PT_RELTIME | PT_ABSTIME | PT_PORT
  | PT_L4PROTO | PT_SOCKFAMILY | PT_BOOL | PT_IPV4ADDR | PT_DYN | PT_FLAGS8 | PT_FLAGS16
  | PT_FLAGS32 | PT_UID | PT_GID | PT_DOUBLE | PT_SIGSET | PT_CHARBUFARRAY
  | PT_CHARBUF_PAIR_ARRAY | PT_IPV4NET | PT_IPV6ADDR | PT_IPV6NET | PT_IPADDR | PT_IPNET
  | PT_MODE | PT_FSRELPATH

datatype ppm_print_format = PF_NA | PF_DEC | PF_HEX | PF_10_PADDED_DEC | PF_ID | PF_DIR | PF_OCT

text \<open>
  \<open>info\<close> of \<open>struct ppm_param_info\<close> is an untyped pointer: null, a named flag table, the number
  of the parameter holding the directory file descriptor, or an array of parameter descriptions.
\<close>

datatype ppm_param_info =
    ParamInfo (pi_name: string) (pi_type: ppm_param_type) (pi_fmt: ppm_print_format)
      (pi_info: ppm_info_ref) (pi_ninfo: nat)
and ppm_info_ref = INFO_NULL | INFO_FLAGS string | INFO_DIRFD nat | INFO_DYN "ppm_param_info list"

record ppm_event_info =
  ei_name :: string
  ei_category :: nat
  ei_flags :: u32
  ei_nparams :: u32
  ei_params :: "ppm_param_info list"

type_synonym event_table = "nat \<Rightarrow> ppm_event_info"

text \<open>\<open>params\<close> is an array of \<open>PPM_MAX_EVENT_PARAMS\<close> entries; those not initialised are zero.\<close>

definition zero_param :: ppm_param_info where
  "zero_param = ParamInfo '''' PT_NONE PF_NA INFO_NULL 0"

definition param_at :: "ppm_event_info \<Rightarrow> nat \<Rightarrow> ppm_param_info" where
  "param_at ei i = (if i < length (ei_params ei) then ei_params ei ! i else zero_param)"

section \<open>Ring descriptors and consumers\<close>

record ppm_ring_buffer_info =
  rb_head :: u32
  rb_tail :: u32
  n_evts :: u64
  n_drops_buffer :: u64
  n_drops_pf :: u64
  n_preemptions :: u64
  n_context_switches :: u64

text \<open>
  The pointers \<open>info\<close>, \<open>buffer\<close> and \<open>str_storage\<close> of a ring are null until
  \<open>init_ring_buffer\<close> allocates them; the contents of the string page are in the filler's
  kernel memory, so the ring only records its address.
\<close>

record ppm_ring_buffer_context =
  rc_cpu_online :: bool
  rc_open :: bool
  rc_capture_enabled :: bool
  rc_info :: "ppm_ring_buffer_info option"
  rc_buffer :: "mem option"
  rc_last_print_time :: u64
  rc_nevents :: u32
  rc_preempt_count :: int
  rc_str_storage :: "u64 option"

record ppm_consumer_t =
  c_consumer_id :: nat
  c_ring_buffers :: "nat \<Rightarrow> ppm_ring_buffer_context"
  c_snaplen :: u32
  c_sampling_ratio :: u32
  c_do_dynamic_snaplen :: bool
  c_sampling_interval :: u32
  c_is_dropping :: int
  c_dropping_mode :: int
  c_need_to_insert_drop_e :: int
  c_need_to_insert_drop_x :: int
  c_fullcapture_port_range_start :: u16
  c_fullcapture_port_range_end :: u16
  c_statsd_port :: u16

section \<open>The event header\<close>

text \<open>Field offsets of the packed \<open>struct ppm_evt_hdr\<close>.\<close>

definition HDR_TS :: nat where [ppm_consts]: "HDR_TS = 0"
definition HDR_TID :: nat where [ppm_consts]: "HDR_TID = 8"
definition HDR_LEN :: nat where [ppm_consts]: "HDR_LEN = 16"
definition HDR_TYPE :: nat where [ppm_consts]: "HDR_TYPE = 20"
definition HDR_NPARAMS :: nat where [ppm_consts]: "HDR_NPARAMS = 22"

section \<open>What a filler works on\<close>

record pt_regs =
  r_args :: "nat \<Rightarrow> u64"
  r_ret :: int

text \<open>
  \<open>struct event_filler_arguments\<close>.  \<open>fa_ring\<close> is the memory of \<open>ring->buffer\<close> and \<open>fa_buffer\<close>
  the index in it that \<open>args->buffer\<close> points to; \<open>fa_kmem\<close> is the kernel memory a filler reads
  through pointers (the string page is part of it).  Pointers to tasks, socket buffers, sockets
  and devices are opaque numbers, 0 being null; \<open>fa_routing\<close> is the table
  \<open>cur_g_syscall_code_routing_table\<close> points to.
\<close>

record event_filler_arguments =
  fa_ring :: mem
  fa_buffer :: nat
  fa_buffer_size :: u32
  fa_curarg :: u32
  fa_nargs :: u32
  fa_arg_data_offset :: u32
  fa_arg_data_size :: u32
  fa_event_type :: nat
  fa_consumer :: ppm_consumer_t
  fa_kmem :: "u64 \<Rightarrow> byte"
  fa_str_storage :: u64
  fa_regs :: pt_regs
  fa_syscall_id :: u32
  fa_routing :: "(nat \<Rightarrow> nat) option"
  fa_is_socketcall :: bool
  fa_socketcall_args :: "nat \<Rightarrow> u64"
  fa_socketcall_syscall :: int
  fa_compat :: bool
  fa_fd :: int
  fa_enforce_snaplen :: bool
  fa_sched_prev :: u64
  fa_sched_next :: u64
  fa_signo :: int
  fa_spid :: int
  fa_dpid :: int
  fa_nevents :: u32
  fa_fault_address :: u64
  fa_fault_error :: u64
  fa_skb :: u64
  fa_sk :: u64
  fa_dev :: u64

end
