(* ===== verification/Event_Table.thy ===== *)
theory Event_Table
  imports Ppm_Types
begin

text \<open>
  The table \<open>g_event_info\<close> of \<open>driver/event_table.c\<close>, which tells the driver and the libraries
  the name, category, flags and parameters of each event type, with the dynamic parameter types of
  \<open>driver/dynamic_params_table.c\<close>.  The initialisers of the table are positional: the index of an
  entry is the event type.
\<close>

section \<open>Categories and flags\<close>

definition EC_UNKNOWN :: nat where [ppm_consts]: "EC_UNKNOWN = 0"
definition EC_OTHER :: nat where [ppm_consts]: "EC_OTHER = 1"
definition EC_FILE :: nat where [ppm_consts]: "EC_FILE = 2"
definition EC_NET :: nat where [ppm_consts]: "EC_NET = 3"
definition EC_IPC :: nat where [ppm_consts]: "EC_IPC = 4"
definition EC_MEMORY :: nat where [ppm_consts]: "EC_MEMORY = 5"
definition EC_PROCESS :: nat where [ppm_consts]: "EC_PROCESS = 6"
definition EC_SLEEP :: nat where [ppm_consts]: "EC_SLEEP = 7"
definition EC_SYSTEM :: nat where [ppm_consts]: "EC_SYSTEM = 8"
definition EC_SIGNAL :: nat where [ppm_consts]: "EC_SIGNAL = 9"
definition EC_USER :: nat where [ppm_consts]: "EC_USER = 10"
definition EC_TIME :: nat where [ppm_consts]: "EC_TIME = 11"
definition EC_PROCESSING :: nat where [ppm_consts]: "EC_PROCESSING = 12"
definition EC_IO_READ :: nat where [ppm_consts]: "EC_IO_READ = 32"
definition EC_IO_WRITE :: nat where [ppm_consts]: "EC_IO_WRITE = 33"
definition EC_IO_OTHER :: nat where [ppm_consts]: "EC_IO_OTHER = 34"
definition EC_WAIT :: nat where [ppm_consts]: "EC_WAIT = 64"
definition EC_SCHEDULER :: nat where [ppm_consts]: "EC_SCHEDULER = 128"
definition EC_INTERNAL :: nat where [ppm_consts]: "EC_INTERNAL = 256"

definition EF_NONE :: u32 where [ppm_consts]: "EF_NONE = 0"
definition EF_CREATES_FD :: u32 where [ppm_consts]: "EF_CREATES_FD = 1"
definition EF_DESTROYS_FD :: u32 where [ppm_consts]: "EF_DESTROYS_FD = 2"
definition EF_USES_FD :: u32 where [ppm_consts]: "EF_USES_FD = 4"
definition EF_READS_FROM_FD :: u32 where [ppm_consts]: "EF_READS_FROM_FD = 8"
definition EF_WRITES_TO_FD :: u32 where [ppm_consts]: "EF_WRITES_TO_FD = 16"
definition EF_UNUSED :: u32 where [ppm_consts]: "EF_UNUSED = 64"
definition EF_WAITS :: u32 where [ppm_consts]: "EF_WAITS = 128"
definition EF_SKIPPARSERESET :: u32 where [ppm_consts]: "EF_SKIPPARSERESET = 256"
definition EF_OLD_VERSION :: u32 where [ppm_consts]: "EF_OLD_VERSION = 512"
definition EF_DROP_SIMPLE_CONS :: u32 where [ppm_consts]: "EF_DROP_SIMPLE_CONS = 1024"
definition EF_NONE_PARSE :: u32 where [ppm_consts]: "EF_NONE_PARSE = 2048"

section \<open>Entries\<close>

definition par :: "string \<Rightarrow> ppm_param_type \<Rightarrow> ppm_print_format \<Rightarrow> ppm_param_info" where
  "par n t f = ParamInfo n t f INFO_NULL 0"

definition par_flags :: "string \<Rightarrow> ppm_param_type \<Rightarrow> ppm_print_format \<Rightarrow> string \<Rightarrow> ppm_param_info" where
  "par_flags n t f tbl = ParamInfo n t f (INFO_FLAGS tbl) 0"

definition par_dirfd :: "string \<Rightarrow> ppm_param_type \<Rightarrow> ppm_print_format \<Rightarrow> nat \<Rightarrow> ppm_param_info" where
  "par_dirfd n t f k = ParamInfo n t f (INFO_DIRFD k) 0"

definition par_dyn ::
    "string \<Rightarrow> ppm_param_type \<Rightarrow> ppm_print_format \<Rightarrow> ppm_param_info list \<Rightarrow> nat \<Rightarrow> ppm_param_info" where
  "par_dyn n t f ps k = ParamInfo n t f (INFO_DYN ps) k"

definition ev :: "string \<Rightarrow> nat \<Rightarrow> u32 \<Rightarrow> u32 \<Rightarrow> ppm_param_info list \<Rightarrow> ppm_event_info" where
  "ev n c f k ps = \<lparr>ei_name = n, ei_category = c, ei_flags = f, ei_nparams = k, ei_params = ps\<rparr>"

lemmas entry_defs = par_def par_flags_def par_dirfd_def par_dyn_def ev_def

definition sockopt_dynamic_param :: "ppm_param_info list" where
  "sockopt_dynamic_param =
     [par [] PT_BYTEBUF PF_HEX, par [] PT_ERRNO PF_DEC, par [] PT_UINT32 PF_DEC,
      par [] PT_UINT64 PF_DEC, par [] PT_RELTIME PF_DEC]"

definition ptrace_dynamic_param :: "ppm_param_info list" where
  "ptrace_dynamic_param = [par [] PT_UINT64 PF_HEX, par [] PT_SIGTYPE PF_DEC]"

definition bpf_dynamic_param :: "ppm_param_info list" where
  "bpf_dynamic_param = [par [] PT_FD PF_DEC, par [] PT_ERRNO PF_DEC]"

lemmas dynamic_params = sockopt_dynamic_param_def ptrace_dynamic_param_def bpf_dynamic_param_def

definition g_event_info_0 :: "ppm_event_info list" where
  "g_event_info_0 =
     [ev ''syscall'' EC_OTHER EF_NONE 2
        [par ''ID'' PT_SYSCALLID PF_DEC, par ''nativeID'' PT_UINT16 PF_DEC],
      ev ''syscall'' EC_OTHER EF_NONE 1
        [par ''ID'' PT_SYSCALLID PF_DEC],
      ev ''open'' EC_FILE (EF_CREATES_FD OR EF_MODIFIES_STATE) 0 [],
      ev ''open'' EC_FILE (EF_CREATES_FD OR EF_MODIFIES_STATE) 5
        [par ''fd'' PT_FD PF_DEC, par ''name'' PT_FSPATH PF_NA,
         par_flags ''flags'' PT_FLAGS32 PF_HEX ''file_flags'', par ''mode'' PT_UINT32 PF_OCT,
         par ''dev'' PT_UINT32 PF_HEX],
      ev ''close'' EC_IO_OTHER (EF_DESTROYS_FD OR EF_USES_FD OR EF_MODIFIES_STATE OR EF_DROP_SIMPLE_CONS) 1
        [par ''fd'' PT_FD PF_DEC],
      ev ''close'' EC_IO_OTHER (EF_DESTROYS_FD OR EF_USES_FD OR EF_MODIFIES_STATE OR EF_DROP_SIMPLE_CONS) 1
        [par ''res'' PT_ERRNO PF_DEC],
      ev ''read'' EC_IO_READ (EF_USES_FD OR EF_READS_FROM_FD OR EF_DROP_SIMPLE_CONS) 2
        [par ''fd'' PT_FD PF_DEC, par ''size'' PT_UINT32 PF_DEC],
      ev ''read'' EC_IO_READ (EF_USES_FD OR EF_READS_FROM_FD OR EF_DROP_SIMPLE_CONS) 2
        [par ''res'' PT_ERRNO PF_DEC, par ''data'' PT_BYTEBUF PF_NA],
      ev ''write'' EC_IO_WRITE (EF_USES_FD OR EF_WRITES_TO_FD OR EF_DROP_SIMPLE_CONS) 2
        [par ''fd'' PT_FD PF_DEC, par ''size'' PT_UINT32 PF_DEC],
      ev ''write'' EC_IO_WRITE (EF_USES_FD OR EF_WRITES_TO_FD OR EF_DROP_SIMPLE_CONS) 2
        [par ''res'' PT_ERRNO PF_DEC, par ''data'' PT_BYTEBUF PF_NA],
      ev ''brk'' EC_MEMORY EF_OLD_VERSION 1
        [par ''size'' PT_UINT32 PF_DEC],
      ev ''brk'' EC_MEMORY EF_OLD_VERSION 1
        [par ''res'' PT_UINT64 PF_HEX],
      ev ''execve'' EC_PROCESS (EF_MODIFIES_STATE OR EF_OLD_VERSION) 0 [],
      ev ''execve'' EC_PROCESS (EF_MODIFIES_STATE OR EF_OLD_VERSION) 8
        [par ''res'' PT_ERRNO PF_DEC, par ''exe'' PT_CHARBUF PF_NA, par ''args'' PT_BYTEBUF PF_NA,
         par ''tid'' PT_PID PF_DEC, par ''pid'' PT_PID PF_DEC, par ''ptid'' PT_PID PF_DEC,
         par ''cwd'' PT_CHARBUF PF_NA, par ''fdlimit'' PT_UINT64 PF_DEC],
      ev ''clone'' EC_PROCESS (EF_MODIFIES_STATE OR EF_OLD_VERSION) 0 [],
      ev ''clone'' EC_PROCESS (EF_MODIFIES_STATE OR EF_OLD_VERSION) 11
        [par ''res'' PT_PID PF_DEC, par ''exe'' PT_CHARBUF PF_NA, par ''args'' PT_BYTEBUF PF_NA,
         par ''tid'' PT_PID PF_DEC, par ''pid'' PT_PID PF_DEC, par ''ptid'' PT_PID PF_DEC,
         par ''cwd'' PT_CHARBUF PF_NA, par ''fdlimit'' PT_INT64 PF_DEC,
         par_flags ''flags'' PT_FLAGS32 PF_HEX ''clone_flags'', par ''uid'' PT_UINT32 PF_DEC,
         par ''gid'' PT_UINT32 PF_DEC],
      ev ''procexit'' EC_PROCESS (EF_MODIFIES_STATE OR EF_OLD_VERSION) 0 [],
      ev ''NA1'' EC_PROCESS EF_UNUSED 0 [],
      ev ''socket'' EC_NET (EF_CREATES_FD OR EF_MODIFIES_STATE) 3
        [par_flags ''domain'' PT_FLAGS32 PF_DEC ''socket_families'', par ''type'' PT_UINT32 PF_DEC,
         par ''proto'' PT_UINT32 PF_DEC],
      ev ''socket'' EC_NET (EF_CREATES_FD OR EF_MODIFIES_STATE) 1
        [par ''fd'' PT_FD PF_DEC],
      ev ''bind'' EC_NET (EF_USES_FD OR EF_MODIFIES_STATE) 1
        [par ''fd'' PT_FD PF_DEC],
      ev ''bind'' EC_NET (EF_USES_FD OR EF_MODIFIES_STATE) 2
        [par ''res'' PT_ERRNO PF_DEC, par ''addr'' PT_SOCKADDR PF_NA],
      ev ''connect'' EC_NET (EF_USES_FD OR EF_MODIFIES_STATE) 1
        [par ''fd'' PT_FD PF_DEC],
      ev ''connect'' EC_NET (EF_USES_FD OR EF_MODIFIES_STATE) 2
        [par ''res'' PT_ERRNO PF_DEC, par ''tuple'' PT_SOCKTUPLE PF_NA],
      ev ''listen'' EC_NET EF_USES_FD 2
        [par ''fd'' PT_FD PF_DEC, par ''backlog'' PT_UINT32 PF_DEC],
      ev ''listen'' EC_NET EF_USES_FD 1
        [par ''res'' PT_ERRNO PF_DEC],
      ev ''accept'' EC_NET (EF_CREATES_FD OR EF_MODIFIES_STATE OR EF_OLD_VERSION) 0 [],
      ev ''accept'' EC_NET (EF_CREATES_FD OR EF_MODIFIES_STATE OR EF_OLD_VERSION) 3
        [par ''fd'' PT_FD PF_DEC, par ''tuple'' PT_SOCKTUPLE PF_NA, par ''queuepct'' PT_UINT8 PF_DEC],
      ev ''send'' EC_IO_WRITE (EF_USES_FD OR EF_WRITES_TO_FD OR EF_DROP_SIMPLE_CONS) 2
        [par ''fd'' PT_FD PF_DEC, par ''size'' PT_UINT32 PF_DEC],
      ev ''send'' EC_IO_WRITE (EF_USES_FD OR EF_WRITES_TO_FD OR EF_DROP_SIMPLE_CONS) 2
        [par ''res'' PT_ERRNO PF_DEC, par ''data'' PT_BYTEBUF PF_NA],
      ev ''sendto'' EC_IO_WRITE (EF_USES_FD OR EF_WRITES_TO_FD OR EF_MODIFIES_STATE) 3
        [par ''fd'' PT_FD PF_DEC, par ''size'' PT_UINT32 PF_DEC, par ''tuple'' PT_SOCKTUPLE PF_NA],
      ev ''sendto'' EC_IO_WRITE (EF_USES_FD OR EF_WRITES_TO_FD OR EF_MODIFIES_STATE) 2
        [par ''res'' PT_ERRNO PF_DEC, par ''data'' PT_BYTEBUF PF_NA],
      ev ''recv'' EC_IO_READ (EF_USES_FD OR EF_READS_FROM_FD OR EF_DROP_SIMPLE_CONS) 2
        [par ''fd'' PT_FD PF_DEC, par ''size'' PT_UINT32 PF_DEC],
      ev ''recv'' EC_IO_READ (EF_USES_FD OR EF_READS_FROM_FD OR EF_DROP_SIMPLE_CONS) 2
        [par ''res'' PT_ERRNO PF_DEC, par ''data'' PT_BYTEBUF PF_NA],
      ev ''recvfrom'' EC_IO_READ (EF_USES_FD OR EF_READS_FROM_FD OR EF_MODIFIES_STATE) 2
        [par ''fd'' PT_FD PF_DEC, par ''size'' PT_UINT32 PF_DEC],
      ev ''recvfrom'' EC_IO_READ (EF_USES_FD OR EF_READS_FROM_FD OR EF_MODIFIES_STATE) 3
        [par ''res'' PT_ERRNO PF_DEC, par ''data'' PT_BYTEBUF PF_NA,
         par ''tuple'' PT_SOCKTUPLE PF_NA],
      ev ''shutdown'' EC_NET (EF_USES_FD OR EF_MODIFIES_STATE OR EF_DROP_SIMPLE_CONS) 2
        [par ''fd'' PT_FD PF_DEC, par_flags ''how'' PT_FLAGS8 PF_HEX ''shutdown_how''],
      ev ''shutdown'' EC_NET (EF_USES_FD OR EF_MODIFIES_STATE OR EF_DROP_SIMPLE_CONS) 1
        [par ''res'' PT_ERRNO PF_DEC],
      ev ''getsockname'' EC_NET EF_DROP_SIMPLE_CONS 0 [],
      ev ''getsockname'' EC_NET EF_DROP_SIMPLE_CONS 0 [],
      ev ''getpeername'' EC_NET EF_DROP_SIMPLE_CONS 0 [],
      ev ''getpeername'' EC_NET EF_DROP_SIMPLE_CONS 0 [],
      ev ''socketpair'' EC_IPC (EF_CREATES_FD OR EF_MODIFIES_STATE) 3
        [par_flags ''domain'' PT_FLAGS32 PF_DEC ''socket_families'', par ''type'' PT_UINT32 PF_DEC,
         par ''proto'' PT_UINT32 PF_DEC],
      ev ''socketpair'' EC_IPC (EF_CREATES_FD OR EF_MODIFIES_STATE) 5
        [par ''res'' PT_ERRNO PF_DEC, par ''fd1'' PT_FD PF_DEC, par ''fd2'' PT_FD PF_DEC,
         par ''source'' PT_UINT64 PF_HEX, par ''peer'' PT_UINT64 PF_HEX],
      ev ''setsockopt'' EC_NET EF_NONE 0 [],
      ev ''setsockopt'' EC_NET EF_USES_FD 6
        [par ''res'' PT_ERRNO PF_DEC, par ''fd'' PT_FD PF_DEC,
         par_flags ''level'' PT_FLAGS8 PF_DEC ''sockopt_levels'',
         par_flags ''optname'' PT_FLAGS8 PF_DEC ''sockopt_options'',
         par_dyn ''val'' PT_DYN PF_DEC sockopt_dynamic_param 5, par ''optlen'' PT_UINT32 PF_DEC],
      ev ''getsockopt'' EC_NET (EF_MODIFIES_STATE OR EF_DROP_SIMPLE_CONS) 0 [],
      ev ''getsockopt'' EC_NET (EF_USES_FD OR EF_MODIFIES_STATE OR EF_DROP_SIMPLE_CONS) 6
        [par ''res'' PT_ERRNO PF_DEC, par ''fd'' PT_FD PF_DEC,
         par_flags ''level'' PT_FLAGS8 PF_DEC ''sockopt_levels'',
         par_flags ''optname'' PT_FLAGS8 PF_DEC ''sockopt_options'',
         par_dyn ''val'' PT_DYN PF_DEC sockopt_dynamic_param 5, par ''optlen'' PT_UINT32 PF_DEC],
      ev ''sendmsg'' EC_IO_WRITE (EF_USES_FD OR EF_WRITES_TO_FD OR EF_MODIFIES_STATE) 3
        [par ''fd'' PT_FD PF_DEC, par ''size'' PT_UINT32 PF_DEC, par ''tuple'' PT_SOCKTUPLE PF_NA],
      ev ''sendmsg'' EC_IO_WRITE (EF_USES_FD OR EF_WRITES_TO_FD OR EF_MODIFIES_STATE) 2
        [par ''res'' PT_ERRNO PF_DEC, par ''data'' PT_BYTEBUF PF_NA],
      ev ''sendmmsg'' EC_IO_WRITE (EF_USES_FD OR EF_WRITES_TO_FD OR EF_MODIFIES_STATE) 1
        [par ''fd'' PT_FD PF_DEC],
      ev ''sendmmsg'' EC_IO_WRITE (EF_USES_FD OR EF_WRITES_TO_FD OR EF_MODIFIES_STATE) 3
        [par ''res'' PT_ERRNO PF_DEC, par ''vlen'' PT_UINT32 PF_DEC, par ''data'' PT_BYTEBUF PF_NA],
      ev ''recvmsg'' EC_IO_READ (EF_USES_FD OR EF_READS_FROM_FD OR EF_MODIFIES_STATE) 1
        [par ''fd'' PT_FD PF_DEC],
      ev ''recvmsg'' EC_IO_READ (EF_USES_FD OR EF_READS_FROM_FD OR EF_MODIFIES_STATE) 4
        [par ''res'' PT_ERRNO PF_DEC, par ''size'' PT_UINT32 PF_DEC, par ''data'' PT_BYTEBUF PF_NA,
         par ''tuple'' PT_SOCKTUPLE PF_NA],
      ev ''recvmmsg'' EC_IO_READ EF_DROP_SIMPLE_CONS 0 [],
      ev ''recvmmsg'' EC_IO_READ EF_DROP_SIMPLE_CONS 0 [],
      ev ''accept'' EC_NET (EF_CREATES_FD OR EF_MODIFIES_STATE OR EF_OLD_VERSION) 1
        [par ''flags'' PT_INT32 PF_HEX],
      ev ''accept'' EC_NET (EF_CREATES_FD OR EF_MODIFIES_STATE OR EF_OLD_VERSION) 3
        [par ''fd'' PT_FD PF_DEC, par ''tuple'' PT_SOCKTUPLE PF_NA, par ''queuepct'' PT_UINT8 PF_DEC],
      ev ''creat'' EC_FILE (EF_CREATES_FD OR EF_MODIFIES_STATE) 0 [],
      ev ''creat'' EC_FILE (EF_CREATES_FD OR EF_MODIFIES_STATE) 4
        [par ''fd'' PT_FD PF_DEC, par ''name'' PT_FSPATH PF_NA, par ''mode'' PT_UINT32 PF_OCT,
         par ''dev'' PT_UINT32 PF_HEX]]"

definition g_event_info_1 :: "ppm_event_info list" where
  "g_event_info_1 =
     [ev ''pipe'' EC_IPC (EF_CREATES_FD OR EF_MODIFIES_STATE) 0 [],
      ev ''pipe'' EC_IPC (EF_CREATES_FD OR EF_MODIFIES_STATE) 4
        [par ''res'' PT_ERRNO PF_DEC, par ''fd1'' PT_FD PF_DEC, par ''fd2'' PT_FD PF_DEC,
         par ''ino'' PT_UINT64 PF_DEC],
      ev ''eventfd'' EC_IPC (EF_CREATES_FD OR EF_MODIFIES_STATE OR EF_DROP_SIMPLE_CONS) 2
        [par ''initval'' PT_UINT64 PF_DEC, par ''flags'' PT_FLAGS32 PF_HEX],
      ev ''eventfd'' EC_IPC (EF_CREATES_FD OR EF_MODIFIES_STATE OR EF_DROP_SIMPLE_CONS) 1
        [par ''res'' PT_FD PF_DEC],
      ev ''futex'' EC_IPC EF_DROP_SIMPLE_CONS 3
        [par ''addr'' PT_UINT64 PF_HEX, par_flags ''op'' PT_FLAGS16 PF_HEX ''futex_operations'',
         par ''val'' PT_UINT64 PF_DEC],
      ev ''futex'' EC_IPC EF_DROP_SIMPLE_CONS 1
        [par ''res'' PT_ERRNO PF_DEC],
      ev ''stat'' EC_FILE EF_DROP_SIMPLE_CONS 0 [],
      ev ''stat'' EC_FILE EF_DROP_SIMPLE_CONS 2
        [par ''res'' PT_ERRNO PF_DEC, par ''path'' PT_FSPATH PF_NA],
      ev ''lstat'' EC_FILE EF_DROP_SIMPLE_CONS 0 [],
      ev ''lstat'' EC_FILE EF_DROP_SIMPLE_CONS 2
        [par ''res'' PT_ERRNO PF_DEC, par ''path'' PT_FSPATH PF_NA],
      ev ''fstat'' EC_FILE (EF_USES_FD OR EF_DROP_SIMPLE_CONS) 1
        [par ''fd'' PT_FD PF_NA],
      ev ''fstat'' EC_FILE (EF_USES_FD OR EF_DROP_SIMPLE_CONS) 1
        [par ''res'' PT_ERRNO PF_DEC],
      ev ''stat64'' EC_FILE EF_DROP_SIMPLE_CONS 0 [],
      ev ''stat64'' EC_FILE EF_DROP_SIMPLE_CONS 2
        [par ''res'' PT_ERRNO PF_DEC, par ''path'' PT_FSPATH PF_NA],
      ev ''lstat64'' EC_FILE EF_DROP_SIMPLE_CONS 0 [],
      ev ''lstat64'' EC_FILE EF_DROP_SIMPLE_CONS 2
        [par ''res'' PT_ERRNO PF_DEC, par ''path'' PT_FSPATH PF_NA],
      ev ''fstat64'' EC_FILE (EF_USES_FD OR EF_DROP_SIMPLE_CONS) 1
        [par ''fd'' PT_FD PF_NA],
      ev ''fstat64'' EC_FILE (EF_USES_FD OR EF_DROP_SIMPLE_CONS) 1
        [par ''res'' PT_ERRNO PF_DEC],
      ev ''epoll_wait'' EC_WAIT (EF_WAITS OR EF_DROP_SIMPLE_CONS) 1
        [par ''maxevents'' PT_ERRNO PF_DEC],
      ev ''epoll_wait'' EC_WAIT (EF_WAITS OR EF_DROP_SIMPLE_CONS) 2
        [par ''res'' PT_ERRNO PF_DEC, par ''fds'' PT_FDLIST PF_DEC],
      ev ''poll'' EC_WAIT (EF_WAITS OR EF_DROP_SIMPLE_CONS) 2
        [par ''fds'' PT_FDLIST PF_DEC, par ''timeout'' PT_INT64 PF_DEC],
      ev ''poll'' EC_WAIT (EF_WAITS OR EF_DROP_SIMPLE_CONS) 2
        [par ''res'' PT_ERRNO PF_DEC, par ''fds'' PT_FDLIST PF_DEC],
      ev ''select'' EC_WAIT (EF_WAITS OR EF_DROP_SIMPLE_CONS) 0 [],
      ev ''select'' EC_WAIT (EF_WAITS OR EF_DROP_SIMPLE_CONS) 1
        [par ''res'' PT_ERRNO PF_DEC],
      ev ''select'' EC_WAIT (EF_WAITS OR EF_DROP_SIMPLE_CONS) 0 [],
      ev ''select'' EC_WAIT (EF_WAITS OR EF_DROP_SIMPLE_CONS) 1
        [par ''res'' PT_ERRNO PF_DEC],
      ev ''lseek'' EC_FILE (EF_USES_FD OR EF_DROP_SIMPLE_CONS) 3
        [par ''fd'' PT_FD PF_DEC, par ''offset'' PT_UINT64 PF_DEC,
         par_flags ''whence'' PT_FLAGS8 PF_DEC ''lseek_whence''],
      ev ''lseek'' EC_FILE (EF_USES_FD OR EF_DROP_SIMPLE_CONS) 1
        [par ''res'' PT_ERRNO PF_DEC],
      ev ''llseek'' EC_FILE (EF_USES_FD OR EF_DROP_SIMPLE_CONS) 3
        [par ''fd'' PT_FD PF_DEC, par ''offset'' PT_UINT64 PF_DEC,
         par_flags ''whence'' PT_FLAGS8 PF_DEC ''lseek_whence''],
      ev ''llseek'' EC_FILE (EF_USES_FD OR EF_DROP_SIMPLE_CONS) 1
        [par ''res'' PT_ERRNO PF_DEC],
      ev ''ioctl'' EC_IO_OTHER (EF_USES_FD OR EF_OLD_VERSION) 2
        [par ''fd'' PT_FD PF_DEC, par ''request'' PT_UINT64 PF_HEX],
      ev ''ioctl'' EC_IO_OTHER (EF_USES_FD OR EF_OLD_VERSION) 1
        [par ''res'' PT_ERRNO PF_DEC],
      ev ''getcwd'' EC_FILE EF_DROP_SIMPLE_CONS 0 [],
      ev ''getcwd'' EC_FILE EF_DROP_SIMPLE_CONS 2
        [par ''res'' PT_ERRNO PF_DEC, par ''path'' PT_CHARBUF PF_NA],
      ev ''chdir'' EC_FILE EF_MODIFIES_STATE 0 [],
      ev ''chdir'' EC_FILE EF_MODIFIES_STATE 2
        [par ''res'' PT_ERRNO PF_DEC, par ''path'' PT_CHARBUF PF_NA],
      ev ''fchdir'' EC_FILE (EF_USES_FD OR EF_MODIFIES_STATE) 1
        [par ''fd'' PT_FD PF_NA],
      ev ''fchdir'' EC_FILE (EF_USES_FD OR EF_MODIFIES_STATE) 1
        [par ''res'' PT_ERRNO PF_DEC],
      ev ''mkdir'' EC_FILE EF_NONE 2
        [par ''path'' PT_FSPATH PF_NA, par ''mode'' PT_UINT32 PF_HEX],
      ev ''mkdir'' EC_FILE EF_NONE 1
        [par ''res'' PT_ERRNO PF_DEC],
      ev ''rmdir'' EC_FILE EF_NONE 1
        [par ''path'' PT_FSPATH PF_NA],
      ev ''rmdir'' EC_FILE EF_NONE 1
        [par ''res'' PT_ERRNO PF_DEC],
      ev ''openat'' EC_FILE (EF_CREATES_FD OR EF_MODIFIES_STATE OR EF_OLD_VERSION) 4
        [par ''dirfd'' PT_FD PF_DEC, par ''name'' PT_CHARBUF PF_NA,
         par_flags ''flags'' PT_FLAGS32 PF_HEX ''file_flags'', par ''mode'' PT_UINT32 PF_OCT],
      ev ''openat'' EC_FILE (EF_CREATES_FD OR EF_MODIFIES_STATE OR EF_OLD_VERSION) 1
        [par ''fd'' PT_FD PF_DEC],
      ev ''link'' EC_FILE EF_OLD_VERSION 2
        [par ''oldpath'' PT_FSPATH PF_NA, par ''newpath'' PT_FSPATH PF_NA],
      ev ''link'' EC_FILE EF_OLD_VERSION 1
        [par ''res'' PT_ERRNO PF_DEC],
      ev ''linkat'' EC_FILE EF_OLD_VERSION 4
        [par ''olddir'' PT_FD PF_DEC, par ''oldpath'' PT_CHARBUF PF_NA,
         par ''newdir'' PT_FD PF_DEC, par ''newpath'' PT_CHARBUF PF_NA],
      ev ''linkat'' EC_FILE EF_OLD_VERSION 1
        [par ''res'' PT_ERRNO PF_DEC],
      ev ''unlink'' EC_FILE EF_OLD_VERSION 1
        [par ''path'' PT_FSPATH PF_NA],
      ev ''unlink'' EC_FILE EF_OLD_VERSION 1
        [par ''res'' PT_ERRNO PF_DEC],
      ev ''unlinkat'' EC_FILE EF_OLD_VERSION 2
        [par ''dirfd'' PT_FD PF_DEC, par ''name'' PT_CHARBUF PF_NA],
      ev ''unlinkat'' EC_FILE EF_OLD_VERSION 1
        [par ''res'' PT_ERRNO PF_DEC],
      ev ''pread'' EC_IO_READ (EF_USES_FD OR EF_READS_FROM_FD OR EF_DROP_SIMPLE_CONS) 3
        [par ''fd'' PT_FD PF_DEC, par ''size'' PT_UINT32 PF_DEC, par ''pos'' PT_UINT64 PF_DEC],
      ev ''pread'' EC_IO_READ (EF_USES_FD OR EF_READS_FROM_FD OR EF_DROP_SIMPLE_CONS) 2
        [par ''res'' PT_ERRNO PF_DEC, par ''data'' PT_BYTEBUF PF_NA],
      ev ''pwrite'' EC_IO_WRITE (EF_USES_FD OR EF_WRITES_TO_FD OR EF_DROP_SIMPLE_CONS) 3
        [par ''fd'' PT_FD PF_DEC, par ''size'' PT_UINT32 PF_DEC, par ''pos'' PT_UINT64 PF_DEC],
      ev ''pwrite'' EC_IO_WRITE (EF_USES_FD OR EF_WRITES_TO_FD OR EF_DROP_SIMPLE_CONS) 2
        [par ''res'' PT_ERRNO PF_DEC, par ''data'' PT_BYTEBUF PF_NA],
      ev ''readv'' EC_IO_READ (EF_USES_FD OR EF_READS_FROM_FD OR EF_DROP_SIMPLE_CONS) 1
        [par ''fd'' PT_FD PF_DEC],
      ev ''readv'' EC_IO_READ (EF_USES_FD OR EF_READS_FROM_FD OR EF_DROP_SIMPLE_CONS) 3
        [par ''res'' PT_ERRNO PF_DEC, par ''size'' PT_UINT32 PF_DEC, par ''data'' PT_BYTEBUF PF_NA],
      ev ''writev'' EC_IO_WRITE (EF_USES_FD OR EF_WRITES_TO_FD OR EF_DROP_SIMPLE_CONS) 2
        [par ''fd'' PT_FD PF_DEC, par ''size'' PT_UINT32 PF_DEC],
      ev ''writev'' EC_IO_WRITE (EF_USES_FD OR EF_WRITES_TO_FD OR EF_DROP_SIMPLE_CONS) 2
        [par ''res'' PT_ERRNO PF_DEC, par ''data'' PT_BYTEBUF PF_NA]]"

definition g_event_info_2 :: "ppm_event_info list" where
  "g_event_info_2 =
     [ev ''preadv'' EC_IO_READ (EF_USES_FD OR EF_READS_FROM_FD OR EF_DROP_SIMPLE_CONS) 2
        [par ''fd'' PT_FD PF_DEC, par ''pos'' PT_UINT64 PF_DEC],
      ev ''preadv'' EC_IO_READ (EF_USES_FD OR EF_READS_FROM_FD OR EF_DROP_SIMPLE_CONS) 3
        [par ''res'' PT_ERRNO PF_DEC, par ''size'' PT_UINT32 PF_DEC, par ''data'' PT_BYTEBUF PF_NA],
      ev ''pwritev'' EC_IO_WRITE (EF_USES_FD OR EF_WRITES_TO_FD OR EF_DROP_SIMPLE_CONS) 3
        [par ''fd'' PT_FD PF_DEC, par ''size'' PT_UINT32 PF_DEC, par ''pos'' PT_UINT64 PF_DEC],
      ev ''pwritev'' EC_IO_WRITE (EF_USES_FD OR EF_WRITES_TO_FD OR EF_DROP_SIMPLE_CONS) 2
        [par ''res'' PT_ERRNO PF_DEC, par ''data'' PT_BYTEBUF PF_NA],
      ev ''dup'' EC_IO_OTHER (EF_CREATES_FD OR EF_USES_FD OR EF_MODIFIES_STATE) 1
        [par ''fd'' PT_FD PF_DEC],
      ev ''dup'' EC_IO_OTHER (EF_CREATES_FD OR EF_USES_FD OR EF_MODIFIES_STATE) 1
        [par ''res'' PT_FD PF_DEC],
      ev ''signalfd'' EC_SIGNAL (EF_CREATES_FD OR EF_MODIFIES_STATE) 3
        [par ''fd'' PT_FD PF_DEC, par ''mask'' PT_UINT32 PF_HEX, par ''flags'' PT_FLAGS8 PF_HEX],
      ev ''signalfd'' EC_SIGNAL (EF_CREATES_FD OR EF_MODIFIES_STATE) 1
        [par ''res'' PT_FD PF_DEC],
      ev ''kill'' EC_SIGNAL EF_NONE 2
        [par ''pid'' PT_PID PF_DEC, par ''sig'' PT_SIGTYPE PF_DEC],
      ev ''kill'' EC_SIGNAL EF_NONE 1
        [par ''res'' PT_ERRNO PF_DEC],
      ev ''tkill'' EC_SIGNAL EF_NONE 2
        [par ''tid'' PT_PID PF_DEC, par ''sig'' PT_SIGTYPE PF_DEC],
      ev ''tkill'' EC_SIGNAL EF_NONE 1
        [par ''res'' PT_ERRNO PF_DEC],
      ev ''tgkill'' EC_SIGNAL EF_NONE 3
        [par ''pid'' PT_PID PF_DEC, par ''tid'' PT_PID PF_DEC, par ''sig'' PT_SIGTYPE PF_DEC],
      ev ''tgkill'' EC_SIGNAL EF_NONE 1
        [par ''res'' PT_ERRNO PF_DEC],
      ev ''nanosleep'' EC_SLEEP (EF_WAITS OR EF_DROP_SIMPLE_CONS) 1
        [par ''interval'' PT_RELTIME PF_DEC],
      ev ''nanosleep'' EC_SLEEP (EF_WAITS OR EF_DROP_SIMPLE_CONS) 1
        [par ''res'' PT_ERRNO PF_DEC],
      ev ''timerfd_create'' EC_TIME (EF_CREATES_FD OR EF_MODIFIES_STATE OR EF_DROP_SIMPLE_CONS) 2
        [par ''clockid'' PT_UINT8 PF_DEC, par ''flags'' PT_FLAGS8 PF_HEX],
      ev ''timerfd_create'' EC_TIME (EF_CREATES_FD OR EF_MODIFIES_STATE OR EF_DROP_SIMPLE_CONS) 1
        [par ''res'' PT_FD PF_DEC],
      ev ''inotify_init'' EC_IPC (EF_CREATES_FD OR EF_MODIFIES_STATE) 1
        [par ''flags'' PT_FLAGS8 PF_HEX],
      ev ''inotify_init'' EC_IPC (EF_CREATES_FD OR EF_MODIFIES_STATE) 1
        [par ''res'' PT_FD PF_DEC],
      ev ''getrlimit'' EC_PROCESS EF_DROP_SIMPLE_CONS 1
        [par_flags ''resource'' PT_FLAGS8 PF_DEC ''rlimit_resources''],
      ev ''getrlimit'' EC_PROCESS EF_DROP_SIMPLE_CONS 3
        [par ''res'' PT_ERRNO PF_DEC, par ''cur'' PT_INT64 PF_DEC, par ''max'' PT_INT64 PF_DEC],
      ev ''setrlimit'' EC_PROCESS EF_DROP_SIMPLE_CONS 1
        [par_flags ''resource'' PT_FLAGS8 PF_DEC ''rlimit_resources''],
      ev ''setrlimit'' EC_PROCESS EF_DROP_SIMPLE_CONS 3
        [par ''res'' PT_ERRNO PF_DEC, par ''cur'' PT_INT64 PF_DEC, par ''max'' PT_INT64 PF_DEC],
      ev ''prlimit'' EC_PROCESS EF_NONE 2
        [par ''pid'' PT_PID PF_DEC, par_flags ''resource'' PT_FLAGS8 PF_DEC ''rlimit_resources''],
      ev ''prlimit'' EC_PROCESS EF_NONE 5
        [par ''res'' PT_ERRNO PF_DEC, par ''newcur'' PT_INT64 PF_DEC,
         par ''newmax'' PT_INT64 PF_DEC, par ''oldcur'' PT_INT64 PF_DEC,
         par ''oldmax'' PT_INT64 PF_DEC],
      ev ''switch'' EC_SCHEDULER (EF_SKIPPARSERESET OR EF_OLD_VERSION OR EF_DROP_SIMPLE_CONS) 1
        [par ''next'' PT_PID PF_DEC],
      ev ''NA2'' EC_SCHEDULER (EF_SKIPPARSERESET OR EF_UNUSED OR EF_OLD_VERSION) 0 [],
      ev ''drop'' EC_INTERNAL EF_SKIPPARSERESET 1
        [par ''ratio'' PT_UINT32 PF_DEC],
      ev ''drop'' EC_INTERNAL EF_SKIPPARSERESET 1
        [par ''ratio'' PT_UINT32 PF_DEC],
      ev ''fcntl'' EC_IO_OTHER (EF_USES_FD OR EF_MODIFIES_STATE OR EF_DROP_SIMPLE_CONS) 2
        [par ''fd'' PT_FD PF_DEC, par_flags ''cmd'' PT_FLAGS8 PF_DEC ''fcntl_commands''],
      ev ''fcntl'' EC_IO_OTHER (EF_USES_FD OR EF_MODIFIES_STATE OR EF_DROP_SIMPLE_CONS) 1
        [par ''res'' PT_FD PF_DEC],
      ev ''switch'' EC_SCHEDULER EF_DROP_SIMPLE_CONS 6
        [par ''next'' PT_PID PF_DEC, par ''pgft_maj'' PT_UINT64 PF_DEC,
         par ''pgft_min'' PT_UINT64 PF_DEC, par ''vm_size'' PT_UINT32 PF_DEC,
         par ''vm_rss'' PT_UINT32 PF_DEC, par ''vm_swap'' PT_UINT32 PF_DEC],
      ev ''NA2'' EC_SCHEDULER EF_UNUSED 0 [],
      ev ''execve'' EC_PROCESS (EF_MODIFIES_STATE OR EF_OLD_VERSION) 0 [],
      ev ''execve'' EC_PROCESS (EF_MODIFIES_STATE OR EF_OLD_VERSION) 13
        [par ''res'' PT_ERRNO PF_DEC, par ''exe'' PT_CHARBUF PF_NA, par ''args'' PT_BYTEBUF PF_NA,
         par ''tid'' PT_PID PF_DEC, par ''pid'' PT_PID PF_DEC, par ''ptid'' PT_PID PF_DEC,
         par ''cwd'' PT_CHARBUF PF_NA, par ''fdlimit'' PT_UINT64 PF_DEC,
         par ''pgft_maj'' PT_UINT64 PF_DEC, par ''pgft_min'' PT_UINT64 PF_DEC,
         par ''vm_size'' PT_UINT32 PF_DEC, par ''vm_rss'' PT_UINT32 PF_DEC,
         par ''vm_swap'' PT_UINT32 PF_DEC],
      ev ''clone'' EC_PROCESS (EF_MODIFIES_STATE OR EF_OLD_VERSION) 0 [],
      ev ''clone'' EC_PROCESS (EF_MODIFIES_STATE OR EF_OLD_VERSION) 16
        [par ''res'' PT_PID PF_DEC, par ''exe'' PT_CHARBUF PF_NA, par ''args'' PT_BYTEBUF PF_NA,
         par ''tid'' PT_PID PF_DEC, par ''pid'' PT_PID PF_DEC, par ''ptid'' PT_PID PF_DEC,
         par ''cwd'' PT_CHARBUF PF_NA, par ''fdlimit'' PT_INT64 PF_DEC,
         par ''pgft_maj'' PT_UINT64 PF_DEC, par ''pgft_min'' PT_UINT64 PF_DEC,
         par ''vm_size'' PT_UINT32 PF_DEC, par ''vm_rss'' PT_UINT32 PF_DEC,
         par ''vm_swap'' PT_UINT32 PF_DEC, par_flags ''flags'' PT_FLAGS32 PF_HEX ''clone_flags'',
         par ''uid'' PT_UINT32 PF_DEC, par ''gid'' PT_UINT32 PF_DEC],
      ev ''brk'' EC_MEMORY EF_DROP_SIMPLE_CONS 1
        [par ''addr'' PT_UINT64 PF_HEX],
      ev ''brk'' EC_MEMORY EF_DROP_SIMPLE_CONS 4
        [par ''res'' PT_UINT64 PF_HEX, par ''vm_size'' PT_UINT32 PF_DEC,
         par ''vm_rss'' PT_UINT32 PF_DEC, par ''vm_swap'' PT_UINT32 PF_DEC],
      ev ''mmap'' EC_MEMORY EF_DROP_SIMPLE_CONS 6
        [par ''addr'' PT_UINT64 PF_HEX, par ''length'' PT_UINT64 PF_DEC,
         par_flags ''prot'' PT_FLAGS32 PF_HEX ''prot_flags'',
         par_flags ''flags'' PT_FLAGS32 PF_HEX ''mmap_flags'', par ''fd'' PT_FD PF_DEC,
         par ''offset'' PT_UINT64 PF_DEC],
      ev ''mmap'' EC_MEMORY EF_DROP_SIMPLE_CONS 4
        [par ''res'' PT_UINT64 PF_HEX, par ''vm_size'' PT_UINT32 PF_DEC,
         par ''vm_rss'' PT_UINT32 PF_DEC, par ''vm_swap'' PT_UINT32 PF_DEC],
      ev ''mmap2'' EC_MEMORY EF_DROP_SIMPLE_CONS 6
        [par ''addr'' PT_UINT64 PF_HEX, par ''length'' PT_UINT64 PF_DEC,
         par_flags ''prot'' PT_FLAGS32 PF_HEX ''prot_flags'',
         par_flags ''flags'' PT_FLAGS32 PF_HEX ''mmap_flags'', par ''fd'' PT_FD PF_DEC,
         par ''pgoffset'' PT_UINT64 PF_DEC],
      ev ''mmap2'' EC_MEMORY EF_DROP_SIMPLE_CONS 4
        [par ''res'' PT_UINT64 PF_HEX, par ''vm_size'' PT_UINT32 PF_DEC,
         par ''vm_rss'' PT_UINT32 PF_DEC, par ''vm_swap'' PT_UINT32 PF_DEC],
      ev ''munmap'' EC_MEMORY EF_DROP_SIMPLE_CONS 2
        [par ''addr'' PT_UINT64 PF_HEX, par ''length'' PT_UINT64 PF_DEC],
      ev ''munmap'' EC_MEMORY EF_DROP_SIMPLE_CONS 4
        [par ''res'' PT_ERRNO PF_DEC, par ''vm_size'' PT_UINT32 PF_DEC,
         par ''vm_rss'' PT_UINT32 PF_DEC, par ''vm_swap'' PT_UINT32 PF_DEC],
      ev ''splice'' EC_IO_OTHER (EF_USES_FD OR EF_DROP_SIMPLE_CONS) 4
        [par ''fd_in'' PT_FD PF_DEC, par ''fd_out'' PT_FD PF_DEC, par ''size'' PT_UINT64 PF_DEC,
         par_flags ''flags'' PT_FLAGS32 PF_HEX ''splice_flags''],
      ev ''splice'' EC_IO_OTHER (EF_USES_FD OR EF_DROP_SIMPLE_CONS) 1
        [par ''res'' PT_ERRNO PF_DEC],
      ev ''ptrace'' EC_PROCESS EF_NONE 2
        [par_flags ''request'' PT_FLAGS16 PF_DEC ''ptrace_requests'', par ''pid'' PT_PID PF_DEC],
      ev ''ptrace'' EC_PROCESS EF_NONE 3
        [par ''res'' PT_ERRNO PF_DEC, par_dyn ''addr'' PT_DYN PF_HEX ptrace_dynamic_param 2,
         par_dyn ''data'' PT_DYN PF_HEX ptrace_dynamic_param 2],
      ev ''ioctl'' EC_IO_OTHER EF_USES_FD 3
        [par ''fd'' PT_FD PF_DEC, par ''request'' PT_UINT64 PF_HEX,
         par ''argument'' PT_UINT64 PF_HEX],
      ev ''ioctl'' EC_IO_OTHER EF_USES_FD 1
        [par ''res'' PT_ERRNO PF_DEC],
      ev ''execve'' EC_PROCESS (EF_MODIFIES_STATE OR EF_OLD_VERSION) 0 [],
      ev ''execve'' EC_PROCESS (EF_MODIFIES_STATE OR EF_OLD_VERSION) 14
        [par ''res'' PT_ERRNO PF_DEC, par ''exe'' PT_CHARBUF PF_NA, par ''args'' PT_BYTEBUF PF_NA,
         par ''tid'' PT_PID PF_DEC, par ''pid'' PT_PID PF_DEC, par ''ptid'' PT_PID PF_DEC,
         par ''cwd'' PT_CHARBUF PF_NA, par ''fdlimit'' PT_UINT64 PF_DEC,
         par ''pgft_maj'' PT_UINT64 PF_DEC, par ''pgft_min'' PT_UINT64 PF_DEC,
         par ''vm_size'' PT_UINT32 PF_DEC, par ''vm_rss'' PT_UINT32 PF_DEC,
         par ''vm_swap'' PT_UINT32 PF_DEC, par ''env'' PT_BYTEBUF PF_NA],
      ev ''rename'' EC_FILE EF_NONE 0 [],
      ev ''rename'' EC_FILE EF_NONE 3
        [par ''res'' PT_ERRNO PF_DEC, par ''oldpath'' PT_FSPATH PF_NA,
         par ''newpath'' PT_FSPATH PF_NA],
      ev ''renameat'' EC_FILE EF_NONE 0 [],
      ev ''renameat'' EC_FILE EF_NONE 5
        [par ''res'' PT_ERRNO PF_DEC, par ''olddirfd'' PT_FD PF_DEC,
         par_dirfd ''oldpath'' PT_FSRELPATH PF_NA 1, par ''newdirfd'' PT_FD PF_DEC,
         par_dirfd ''newpath'' PT_FSRELPATH PF_NA 3],
      ev ''symlink'' EC_FILE EF_NONE 0 [],
      ev ''symlink'' EC_FILE EF_NONE 3
        [par ''res'' PT_ERRNO PF_DEC, par ''target'' PT_CHARBUF PF_NA,
         par ''linkpath'' PT_FSPATH PF_NA]]"

definition g_event_info_3 :: "ppm_event_info list" where
  "g_event_info_3 =
     [ev ''symlinkat'' EC_FILE EF_NONE 0 [],
      ev ''symlinkat'' EC_FILE EF_NONE 4
        [par ''res'' PT_ERRNO PF_DEC, par ''target'' PT_CHARBUF PF_NA,
         par ''linkdirfd'' PT_FD PF_DEC, par_dirfd ''linkpath'' PT_FSRELPATH PF_NA 2],
      ev ''fork'' EC_PROCESS (EF_MODIFIES_STATE OR EF_OLD_VERSION) 0 [],
      ev ''fork'' EC_PROCESS (EF_MODIFIES_STATE OR EF_OLD_VERSION) 16
        [par ''res'' PT_PID PF_DEC, par ''exe'' PT_CHARBUF PF_NA, par ''args'' PT_BYTEBUF PF_NA,
         par ''tid'' PT_PID PF_DEC, par ''pid'' PT_PID PF_DEC, par ''ptid'' PT_PID PF_DEC,
         par ''cwd'' PT_CHARBUF PF_NA, par ''fdlimit'' PT_INT64 PF_DEC,
         par ''pgft_maj'' PT_UINT64 PF_DEC, par ''pgft_min'' PT_UINT64 PF_DEC,
         par ''vm_size'' PT_UINT32 PF_DEC, par ''vm_rss'' PT_UINT32 PF_DEC,
         par ''vm_swap'' PT_UINT32 PF_DEC, par_flags ''flags'' PT_FLAGS32 PF_HEX ''clone_flags'',
         par ''uid'' PT_UINT32 PF_DEC, par ''gid'' PT_UINT32 PF_DEC],
      ev ''vfork'' EC_PROCESS (EF_MODIFIES_STATE OR EF_OLD_VERSION) 0 [],
      ev ''vfork'' EC_PROCESS (EF_MODIFIES_STATE OR EF_OLD_VERSION) 16
        [par ''res'' PT_PID PF_DEC, par ''exe'' PT_CHARBUF PF_NA, par ''args'' PT_BYTEBUF PF_NA,
         par ''tid'' PT_PID PF_DEC, par ''pid'' PT_PID PF_DEC, par ''ptid'' PT_PID PF_DEC,
         par ''cwd'' PT_CHARBUF PF_NA, par ''fdlimit'' PT_INT64 PF_DEC,
         par ''pgft_maj'' PT_UINT64 PF_DEC, par ''pgft_min'' PT_UINT64 PF_DEC,
         par ''vm_size'' PT_UINT32 PF_DEC, par ''vm_rss'' PT_UINT32 PF_DEC,
         par ''vm_swap'' PT_UINT32 PF_DEC, par_flags ''flags'' PT_FLAGS32 PF_HEX ''clone_flags'',
         par ''uid'' PT_UINT32 PF_DEC, par ''gid'' PT_UINT32 PF_DEC],
      ev ''procexit'' EC_PROCESS EF_MODIFIES_STATE 1
        [par ''status'' PT_ERRNO PF_DEC],
      ev ''NA1'' EC_PROCESS EF_UNUSED 0 [],
      ev ''sendfile'' EC_IO_WRITE (EF_USES_FD OR EF_DROP_SIMPLE_CONS) 4
        [par ''out_fd'' PT_FD PF_DEC, par ''in_fd'' PT_FD PF_DEC, par ''offset'' PT_UINT64 PF_DEC,
         par ''size'' PT_UINT64 PF_DEC],
      ev ''sendfile'' EC_IO_WRITE (EF_USES_FD OR EF_DROP_SIMPLE_CONS) 2
        [par ''res'' PT_ERRNO PF_DEC, par ''offset'' PT_UINT64 PF_DEC],
      ev ''quotactl'' EC_USER EF_NONE 4
        [par_flags ''cmd'' PT_FLAGS16 PF_DEC ''quotactl_cmds'',
         par_flags ''type'' PT_FLAGS8 PF_DEC ''quotactl_types'', par ''id'' PT_UINT32 PF_DEC,
         par_flags ''quota_fmt'' PT_FLAGS8 PF_DEC ''quotactl_quota_fmts''],
      ev ''quotactl'' EC_USER EF_NONE 14
        [par ''res'' PT_ERRNO PF_DEC, par ''special'' PT_CHARBUF PF_NA,
         par ''quotafilepath'' PT_CHARBUF PF_NA, par ''dqb_bhardlimit'' PT_UINT64 PF_DEC,
         par ''dqb_bsoftlimit'' PT_UINT64 PF_DEC, par ''dqb_curspace'' PT_UINT64 PF_DEC,
         par ''dqb_ihardlimit'' PT_UINT64 PF_DEC, par ''dqb_isoftlimit'' PT_UINT64 PF_DEC,
         par ''dqb_btime'' PT_RELTIME PF_DEC, par ''dqb_itime'' PT_RELTIME PF_DEC,
         par ''dqi_bgrace'' PT_RELTIME PF_DEC, par ''dqi_igrace'' PT_RELTIME PF_DEC,
         par_flags ''dqi_flags'' PT_FLAGS8 PF_DEC ''quotactl_dqi_flags'',
         par_flags ''quota_fmt_out'' PT_FLAGS8 PF_DEC ''quotactl_quota_fmts''],
      ev ''setresuid'' EC_USER EF_MODIFIES_STATE 3
        [par ''ruid'' PT_UID PF_DEC, par ''euid'' PT_UID PF_DEC, par ''suid'' PT_UID PF_DEC],
      ev ''setresuid'' EC_USER EF_MODIFIES_STATE 1
        [par ''res'' PT_ERRNO PF_DEC],
      ev ''setresgid'' EC_USER EF_MODIFIES_STATE 3
        [par ''rgid'' PT_GID PF_DEC, par ''egid'' PT_GID PF_DEC, par ''sgid'' PT_GID PF_DEC],
      ev ''setresgid'' EC_USER EF_MODIFIES_STATE 1
        [par ''res'' PT_ERRNO PF_DEC],
      ev ''sysdigevent'' EC_INTERNAL EF_SKIPPARSERESET 2
        [par ''event_type'' PT_UINT32 PF_DEC, par ''event_data'' PT_UINT64 PF_DEC],
      ev ''sysdigevent'' EC_INTERNAL EF_UNUSED 0 [],
      ev ''setuid'' EC_USER EF_MODIFIES_STATE 1
        [par ''uid'' PT_UID PF_DEC],
      ev ''setuid'' EC_USER EF_MODIFIES_STATE 1
        [par ''res'' PT_ERRNO PF_DEC],
      ev ''setgid'' EC_USER EF_MODIFIES_STATE 1
        [par ''gid'' PT_GID PF_DEC],
      ev ''setgid'' EC_USER EF_MODIFIES_STATE 1
        [par ''res'' PT_ERRNO PF_DEC],
      ev ''getuid'' EC_USER EF_DROP_SIMPLE_CONS 0 [],
      ev ''getuid'' EC_USER EF_DROP_SIMPLE_CONS 1
        [par ''uid'' PT_UID PF_DEC],
      ev ''geteuid'' EC_USER EF_DROP_SIMPLE_CONS 0 [],
      ev ''geteuid'' EC_USER EF_DROP_SIMPLE_CONS 1
        [par ''euid'' PT_UID PF_DEC],
      ev ''getgid'' EC_USER EF_DROP_SIMPLE_CONS 0 [],
      ev ''getgid'' EC_USER EF_DROP_SIMPLE_CONS 1
        [par ''gid'' PT_GID PF_DEC],
      ev ''getegid'' EC_USER EF_DROP_SIMPLE_CONS 0 [],
      ev ''getegid'' EC_USER EF_DROP_SIMPLE_CONS 1
        [par ''egid'' PT_GID PF_DEC],
      ev ''getresuid'' EC_USER EF_DROP_SIMPLE_CONS 0 [],
      ev ''getresuid'' EC_USER EF_DROP_SIMPLE_CONS 4
        [par ''res'' PT_ERRNO PF_DEC, par ''ruid'' PT_UID PF_DEC, par ''euid'' PT_UID PF_DEC,
         par ''suid'' PT_UID PF_DEC],
      ev ''getresgid'' EC_USER EF_DROP_SIMPLE_CONS 0 [],
      ev ''getresgid'' EC_USER EF_DROP_SIMPLE_CONS 4
        [par ''res'' PT_ERRNO PF_DEC, par ''rgid'' PT_GID PF_DEC, par ''egid'' PT_GID PF_DEC,
         par ''sgid'' PT_GID PF_DEC],
      ev ''execve'' EC_PROCESS (EF_MODIFIES_STATE OR EF_OLD_VERSION) 0 [],
      ev ''execve'' EC_PROCESS (EF_MODIFIES_STATE OR EF_OLD_VERSION) 15
        [par ''res'' PT_ERRNO PF_DEC, par ''exe'' PT_CHARBUF PF_NA, par ''args'' PT_BYTEBUF PF_NA,
         par ''tid'' PT_PID PF_DEC, par ''pid'' PT_PID PF_DEC, par ''ptid'' PT_PID PF_DEC,
         par ''cwd'' PT_CHARBUF PF_NA, par ''fdlimit'' PT_UINT64 PF_DEC,
         par ''pgft_maj'' PT_UINT64 PF_DEC, par ''pgft_min'' PT_UINT64 PF_DEC,
         par ''vm_size'' PT_UINT32 PF_DEC, par ''vm_rss'' PT_UINT32 PF_DEC,
         par ''vm_swap'' PT_UINT32 PF_DEC, par ''comm'' PT_CHARBUF PF_NA,
         par ''env'' PT_BYTEBUF PF_NA],
      ev ''clone'' EC_PROCESS (EF_MODIFIES_STATE OR EF_OLD_VERSION) 0 [],
      ev ''clone'' EC_PROCESS (EF_MODIFIES_STATE OR EF_OLD_VERSION) 17
        [par ''res'' PT_PID PF_DEC, par ''exe'' PT_CHARBUF PF_NA, par ''args'' PT_BYTEBUF PF_NA,
         par ''tid'' PT_PID PF_DEC, par ''pid'' PT_PID PF_DEC, par ''ptid'' PT_PID PF_DEC,
         par ''cwd'' PT_CHARBUF PF_NA, par ''fdlimit'' PT_INT64 PF_DEC,
         par ''pgft_maj'' PT_UINT64 PF_DEC, par ''pgft_min'' PT_UINT64 PF_DEC,
         par ''vm_size'' PT_UINT32 PF_DEC, par ''vm_rss'' PT_UINT32 PF_DEC,
         par ''vm_swap'' PT_UINT32 PF_DEC, par ''comm'' PT_CHARBUF PF_NA,
         par_flags ''flags'' PT_FLAGS32 PF_HEX ''clone_flags'', par ''uid'' PT_UINT32 PF_DEC,
         par ''gid'' PT_UINT32 PF_DEC],
      ev ''fork'' EC_PROCESS (EF_MODIFIES_STATE OR EF_OLD_VERSION) 0 [],
      ev ''fork'' EC_PROCESS (EF_MODIFIES_STATE OR EF_OLD_VERSION) 17
        [par ''res'' PT_PID PF_DEC, par ''exe'' PT_CHARBUF PF_NA, par ''args'' PT_BYTEBUF PF_NA,
         par ''tid'' PT_PID PF_DEC, par ''pid'' PT_PID PF_DEC, par ''ptid'' PT_PID PF_DEC,
         par ''cwd'' PT_CHARBUF PF_NA, par ''fdlimit'' PT_INT64 PF_DEC,
         par ''pgft_maj'' PT_UINT64 PF_DEC, par ''pgft_min'' PT_UINT64 PF_DEC,
         par ''vm_size'' PT_UINT32 PF_DEC, par ''vm_rss'' PT_UINT32 PF_DEC,
         par ''vm_swap'' PT_UINT32 PF_DEC, par ''comm'' PT_CHARBUF PF_NA,
         par_flags ''flags'' PT_FLAGS32 PF_HEX ''clone_flags'', par ''uid'' PT_UINT32 PF_DEC,
         par ''gid'' PT_UINT32 PF_DEC],
      ev ''vfork'' EC_PROCESS (EF_MODIFIES_STATE OR EF_OLD_VERSION) 0 [],
      ev ''vfork'' EC_PROCESS (EF_MODIFIES_STATE OR EF_OLD_VERSION) 17
        [par ''res'' PT_PID PF_DEC, par ''exe'' PT_CHARBUF PF_NA, par ''args'' PT_BYTEBUF PF_NA,
         par ''tid'' PT_PID PF_DEC, par ''pid'' PT_PID PF_DEC, par ''ptid'' PT_PID PF_DEC,
         par ''cwd'' PT_CHARBUF PF_NA, par ''fdlimit'' PT_INT64 PF_DEC,
         par ''pgft_maj'' PT_UINT64 PF_DEC, par ''pgft_min'' PT_UINT64 PF_DEC,
         par ''vm_size'' PT_UINT32 PF_DEC, par ''vm_rss'' PT_UINT32 PF_DEC,
         par ''vm_swap'' PT_UINT32 PF_DEC, par ''comm'' PT_CHARBUF PF_NA,
         par_flags ''flags'' PT_FLAGS32 PF_HEX ''clone_flags'', par ''uid'' PT_UINT32 PF_DEC,
         par ''gid'' PT_UINT32 PF_DEC],
      ev ''clone'' EC_PROCESS EF_MODIFIES_STATE 0 [],
      ev ''clone'' EC_PROCESS EF_MODIFIES_STATE 20
        [par ''res'' PT_PID PF_DEC, par ''exe'' PT_CHARBUF PF_NA, par ''args'' PT_BYTEBUF PF_NA,
         par ''tid'' PT_PID PF_DEC, par ''pid'' PT_PID PF_DEC, par ''ptid'' PT_PID PF_DEC,
         par ''cwd'' PT_CHARBUF PF_NA, par ''fdlimit'' PT_INT64 PF_DEC,
         par ''pgft_maj'' PT_UINT64 PF_DEC, par ''pgft_min'' PT_UINT64 PF_DEC,
         par ''vm_size'' PT_UINT32 PF_DEC, par ''vm_rss'' PT_UINT32 PF_DEC,
         par ''vm_swap'' PT_UINT32 PF_DEC, par ''comm'' PT_CHARBUF PF_NA,
         par ''cgroups'' PT_BYTEBUF PF_NA, par_flags ''flags'' PT_FLAGS32 PF_HEX ''clone_flags'',
         par ''uid'' PT_UINT32 PF_DEC, par ''gid'' PT_UINT32 PF_DEC, par ''vtid'' PT_PID PF_DEC,
         par ''vpid'' PT_PID PF_DEC],
      ev ''fork'' EC_PROCESS EF_MODIFIES_STATE 0 [],
      ev ''fork'' EC_PROCESS EF_MODIFIES_STATE 20
        [par ''res'' PT_PID PF_DEC, par ''exe'' PT_CHARBUF PF_NA, par ''args'' PT_BYTEBUF PF_NA,
         par ''tid'' PT_PID PF_DEC, par ''pid'' PT_PID PF_DEC, par ''ptid'' PT_PID PF_DEC,
         par ''cwd'' PT_CHARBUF PF_NA, par ''fdlimit'' PT_INT64 PF_DEC,
         par ''pgft_maj'' PT_UINT64 PF_DEC, par ''pgft_min'' PT_UINT64 PF_DEC,
         par ''vm_size'' PT_UINT32 PF_DEC, par ''vm_rss'' PT_UINT32 PF_DEC,
         par ''vm_swap'' PT_UINT32 PF_DEC, par ''comm'' PT_CHARBUF PF_NA,
         par ''cgroups'' PT_BYTEBUF PF_NA, par_flags ''flags'' PT_FLAGS32 PF_HEX ''clone_flags'',
         par ''uid'' PT_UINT32 PF_DEC, par ''gid'' PT_UINT32 PF_DEC, par ''vtid'' PT_PID PF_DEC,
         par ''vpid'' PT_PID PF_DEC],
      ev ''vfork'' EC_PROCESS EF_MODIFIES_STATE 0 [],
      ev ''vfork'' EC_PROCESS EF_MODIFIES_STATE 20
        [par ''res'' PT_PID PF_DEC, par ''exe'' PT_CHARBUF PF_NA, par ''args'' PT_BYTEBUF PF_NA,
         par ''tid'' PT_PID PF_DEC, par ''pid'' PT_PID PF_DEC, par ''ptid'' PT_PID PF_DEC,
         par ''cwd'' PT_CHARBUF PF_NA, par ''fdlimit'' PT_INT64 PF_DEC,
         par ''pgft_maj'' PT_UINT64 PF_DEC, par ''pgft_min'' PT_UINT64 PF_DEC,
         par ''vm_size'' PT_UINT32 PF_DEC, par ''vm_rss'' PT_UINT32 PF_DEC,
         par ''vm_swap'' PT_UINT32 PF_DEC, par ''comm'' PT_CHARBUF PF_NA,
         par ''cgroups'' PT_BYTEBUF PF_NA, par_flags ''flags'' PT_FLAGS32 PF_HEX ''clone_flags'',
         par ''uid'' PT_UINT32 PF_DEC, par ''gid'' PT_UINT32 PF_DEC, par ''vtid'' PT_PID PF_DEC,
         par ''vpid'' PT_PID PF_DEC],
      ev ''container'' EC_INTERNAL (EF_SKIPPARSERESET OR EF_MODIFIES_STATE) 4
        [par ''id'' PT_CHARBUF PF_NA, par ''type'' PT_UINT32 PF_DEC, par ''name'' PT_CHARBUF PF_NA,
         par ''image'' PT_CHARBUF PF_NA],
      ev ''container'' EC_INTERNAL EF_UNUSED 0 [],
      ev ''execve'' EC_PROCESS EF_MODIFIES_STATE 0 [],
      ev ''execve'' EC_PROCESS EF_MODIFIES_STATE 16
        [par ''res'' PT_ERRNO PF_DEC, par ''exe'' PT_CHARBUF PF_NA, par ''args'' PT_BYTEBUF PF_NA,
         par ''tid'' PT_PID PF_DEC, par ''pid'' PT_PID PF_DEC, par ''ptid'' PT_PID PF_DEC,
         par ''cwd'' PT_CHARBUF PF_NA, par ''fdlimit'' PT_UINT64 PF_DEC,
         par ''pgft_maj'' PT_UINT64 PF_DEC, par ''pgft_min'' PT_UINT64 PF_DEC,
         par ''vm_size'' PT_UINT32 PF_DEC, par ''vm_rss'' PT_UINT32 PF_DEC,
         par ''vm_swap'' PT_UINT32 PF_DEC, par ''comm'' PT_CHARBUF PF_NA,
         par ''cgroups'' PT_BYTEBUF PF_NA, par ''env'' PT_BYTEBUF PF_NA],
      ev ''signaldeliver'' EC_SIGNAL EF_DROP_SIMPLE_CONS 3
        [par ''spid'' PT_PID PF_DEC, par ''dpid'' PT_PID PF_DEC, par ''sig'' PT_SIGTYPE PF_DEC],
      ev ''signaldeliver'' EC_SIGNAL EF_UNUSED 0 [],
      ev ''procinfo'' EC_INTERNAL (EF_SKIPPARSERESET OR EF_DROP_SIMPLE_CONS) 2
        [par ''cpu_usr'' PT_UINT64 PF_DEC, par ''cpu_sys'' PT_UINT64 PF_DEC],
      ev ''NA2'' EC_INTERNAL EF_UNUSED 0 [],
      ev ''getdents'' EC_FILE (EF_USES_FD OR EF_DROP_SIMPLE_CONS) 1
        [par ''fd'' PT_FD PF_NA],
      ev ''getdents'' EC_FILE (EF_USES_FD OR EF_DROP_SIMPLE_CONS) 1
        [par ''res'' PT_ERRNO PF_DEC],
      ev ''getdents64'' EC_FILE (EF_USES_FD OR EF_DROP_SIMPLE_CONS) 1
        [par ''fd'' PT_FD PF_NA],
      ev ''getdents64'' EC_FILE (EF_USES_FD OR EF_DROP_SIMPLE_CONS) 1
        [par ''res'' PT_ERRNO PF_DEC]]"

definition g_event_info_4 :: "ppm_event_info list" where
  "g_event_info_4 =
     [ev ''setns'' EC_PROCESS EF_USES_FD 2
        [par ''fd'' PT_FD PF_NA, par_flags ''nstype'' PT_FLAGS32 PF_HEX ''clone_flags''],
      ev ''setns'' EC_PROCESS EF_USES_FD 1
        [par ''res'' PT_ERRNO PF_DEC],
      ev ''flock'' EC_FILE EF_USES_FD 2
        [par ''fd'' PT_FD PF_NA, par_flags ''operation'' PT_FLAGS32 PF_HEX ''flock_flags''],
      ev ''flock'' EC_FILE EF_USES_FD 1
        [par ''res'' PT_ERRNO PF_DEC],
      ev ''cpu_hotplug'' EC_SYSTEM (EF_SKIPPARSERESET OR EF_MODIFIES_STATE) 2
        [par ''cpu'' PT_UINT32 PF_DEC, par ''action'' PT_UINT32 PF_DEC],
      ev ''NA2'' EC_SYSTEM EF_UNUSED 0 [],
      ev ''accept'' EC_NET (EF_CREATES_FD OR EF_MODIFIES_STATE) 0 [],
      ev ''accept'' EC_NET (EF_CREATES_FD OR EF_MODIFIES_STATE) 5
        [par ''fd'' PT_FD PF_DEC, par ''tuple'' PT_SOCKTUPLE PF_NA,
         par ''queuepct'' PT_UINT8 PF_DEC, par ''queuelen'' PT_UINT32 PF_DEC,
         par ''queuemax'' PT_UINT32 PF_DEC],
      ev ''accept'' EC_NET (EF_CREATES_FD OR EF_MODIFIES_STATE) 1
        [par ''flags'' PT_INT32 PF_HEX],
      ev ''accept'' EC_NET (EF_CREATES_FD OR EF_MODIFIES_STATE) 5
        [par ''fd'' PT_FD PF_DEC, par ''tuple'' PT_SOCKTUPLE PF_NA,
         par ''queuepct'' PT_UINT8 PF_DEC, par ''queuelen'' PT_UINT32 PF_DEC,
         par ''queuemax'' PT_UINT32 PF_DEC],
      ev ''semop'' EC_PROCESS EF_DROP_SIMPLE_CONS 1
        [par ''semid'' PT_INT32 PF_DEC],
      ev ''semop'' EC_PROCESS EF_DROP_SIMPLE_CONS 8
        [par ''res'' PT_ERRNO PF_DEC, par ''nsops'' PT_UINT32 PF_DEC,
         par ''sem_num_0'' PT_UINT16 PF_DEC, par ''sem_op_0'' PT_INT16 PF_DEC,
         par_flags ''sem_flg_0'' PT_FLAGS16 PF_HEX ''semop_flags'',
         par ''sem_num_1'' PT_UINT16 PF_DEC, par ''sem_op_1'' PT_INT16 PF_DEC,
         par_flags ''sem_flg_1'' PT_FLAGS16 PF_HEX ''semop_flags''],
      ev ''semctl'' EC_PROCESS EF_DROP_SIMPLE_CONS 4
        [par ''semid'' PT_INT32 PF_DEC, par ''semnum'' PT_INT32 PF_DEC,
         par_flags ''cmd'' PT_FLAGS16 PF_HEX ''semctl_commands'', par ''val'' PT_INT32 PF_DEC],
      ev ''semctl'' EC_PROCESS EF_DROP_SIMPLE_CONS 1
        [par ''res'' PT_ERRNO PF_DEC],
      ev ''ppoll'' EC_WAIT (EF_WAITS OR EF_DROP_SIMPLE_CONS) 3
        [par ''fds'' PT_FDLIST PF_DEC, par ''timeout'' PT_RELTIME PF_DEC,
         par ''sigmask'' PT_SIGSET PF_DEC],
      ev ''ppoll'' EC_WAIT (EF_WAITS OR EF_DROP_SIMPLE_CONS) 2
        [par ''res'' PT_ERRNO PF_DEC, par ''fds'' PT_FDLIST PF_DEC],
      ev ''mount'' EC_FILE EF_MODIFIES_STATE 1
        [par_flags ''flags'' PT_FLAGS32 PF_HEX ''mount_flags''],
      ev ''mount'' EC_FILE EF_MODIFIES_STATE 4
        [par ''res'' PT_ERRNO PF_DEC, par ''dev'' PT_CHARBUF PF_NA, par ''dir'' PT_FSPATH PF_NA,
         par ''type'' PT_CHARBUF PF_NA],
      ev ''umount'' EC_FILE EF_MODIFIES_STATE 1
        [par_flags ''flags'' PT_FLAGS32 PF_HEX ''umount_flags''],
      ev ''umount'' EC_FILE EF_MODIFIES_STATE 2
        [par ''res'' PT_ERRNO PF_DEC, par ''name'' PT_FSPATH PF_NA],
      ev ''k8s'' EC_INTERNAL (EF_SKIPPARSERESET OR EF_MODIFIES_STATE) 1
        [par ''json'' PT_CHARBUF PF_NA],
      ev ''NA3'' EC_SYSTEM EF_UNUSED 0 [],
      ev ''semget'' EC_PROCESS EF_DROP_SIMPLE_CONS 3
        [par ''key'' PT_INT32 PF_HEX, par ''nsems'' PT_INT32 PF_DEC,
         par_flags ''semflg'' PT_FLAGS32 PF_HEX ''semget_flags''],
      ev ''semget'' EC_PROCESS EF_DROP_SIMPLE_CONS 1
        [par ''res'' PT_ERRNO PF_DEC],
      ev ''access'' EC_FILE EF_DROP_SIMPLE_CONS 1
        [par_flags ''mode'' PT_FLAGS32 PF_HEX ''access_flags''],
      ev ''access'' EC_FILE EF_DROP_SIMPLE_CONS 2
        [par ''res'' PT_ERRNO PF_DEC, par ''name'' PT_FSPATH PF_NA],
      ev ''chroot'' EC_PROCESS EF_MODIFIES_STATE 0 [],
      ev ''chroot'' EC_PROCESS EF_MODIFIES_STATE 2
        [par ''res'' PT_ERRNO PF_DEC, par ''path'' PT_FSPATH PF_NA],
      ev ''tracer'' EC_OTHER EF_NONE 3
        [par ''id'' PT_INT64 PF_DEC, par ''tags'' PT_CHARBUFARRAY PF_NA,
         par ''args'' PT_CHARBUF_PAIR_ARRAY PF_NA],
      ev ''tracer'' EC_OTHER EF_NONE 3
        [par ''id'' PT_INT64 PF_DEC, par ''tags'' PT_CHARBUFARRAY PF_NA,
         par ''args'' PT_CHARBUF_PAIR_ARRAY PF_NA],
      ev ''mesos'' EC_INTERNAL (EF_SKIPPARSERESET OR EF_MODIFIES_STATE) 1
        [par ''json'' PT_CHARBUF PF_NA],
      ev ''NA4'' EC_SYSTEM EF_UNUSED 0 [],
      ev ''container'' EC_PROCESS EF_MODIFIES_STATE 1
        [par ''json'' PT_CHARBUF PF_NA],
      ev ''container'' EC_PROCESS EF_UNUSED 0 [],
      ev ''setsid'' EC_PROCESS EF_MODIFIES_STATE 0 [],
      ev ''setsid'' EC_PROCESS EF_MODIFIES_STATE 1
        [par ''res'' PT_PID PF_DEC],
      ev ''mkdir'' EC_FILE EF_NONE 1
        [par ''mode'' PT_UINT32 PF_HEX],
      ev ''mkdir'' EC_FILE EF_NONE 2
        [par ''res'' PT_ERRNO PF_DEC, par ''path'' PT_FSPATH PF_NA],
      ev ''rmdir'' EC_FILE EF_NONE 0 [],
      ev ''rmdir'' EC_FILE EF_NONE 2
        [par ''res'' PT_ERRNO PF_DEC, par ''path'' PT_FSPATH PF_NA],
      ev ''notification'' EC_OTHER EF_SKIPPARSERESET 2
        [par ''id'' PT_CHARBUF PF_DEC, par ''desc'' PT_CHARBUF PF_NA],
      ev ''NA4'' EC_SYSTEM EF_UNUSED 0 [],
      ev ''execve'' EC_PROCESS (EF_MODIFIES_STATE OR EF_OLD_VERSION) 0 [],
      ev ''execve'' EC_PROCESS (EF_MODIFIES_STATE OR EF_OLD_VERSION) 17
        [par ''res'' PT_ERRNO PF_DEC, par ''exe'' PT_CHARBUF PF_NA, par ''args'' PT_BYTEBUF PF_NA,
         par ''tid'' PT_PID PF_DEC, par ''pid'' PT_PID PF_DEC, par ''ptid'' PT_PID PF_DEC,
         par ''cwd'' PT_CHARBUF PF_NA, par ''fdlimit'' PT_UINT64 PF_DEC,
         par ''pgft_maj'' PT_UINT64 PF_DEC, par ''pgft_min'' PT_UINT64 PF_DEC,
         par ''vm_size'' PT_UINT32 PF_DEC, par ''vm_rss'' PT_UINT32 PF_DEC,
         par ''vm_swap'' PT_UINT32 PF_DEC, par ''comm'' PT_CHARBUF PF_NA,
         par ''cgroups'' PT_BYTEBUF PF_NA, par ''env'' PT_BYTEBUF PF_NA, par ''tty'' PT_INT32 PF_DEC],
      ev ''unshare'' EC_PROCESS EF_NONE 1
        [par_flags ''flags'' PT_FLAGS32 PF_HEX ''clone_flags''],
      ev ''unshare'' EC_PROCESS EF_NONE 1
        [par ''res'' PT_ERRNO PF_DEC],
      ev ''infra'' EC_INTERNAL EF_SKIPPARSERESET 4
        [par ''source'' PT_CHARBUF PF_DEC, par ''name'' PT_CHARBUF PF_NA,
         par ''description'' PT_CHARBUF PF_NA, par ''scope'' PT_CHARBUF PF_NA],
      ev ''NA4'' EC_SYSTEM EF_UNUSED 0 [],
      ev ''execve'' EC_PROCESS (EF_MODIFIES_STATE OR EF_OLD_VERSION) 1
        [par ''filename'' PT_FSPATH PF_NA],
      ev ''execve'' EC_PROCESS (EF_MODIFIES_STATE OR EF_OLD_VERSION) 17
        [par ''res'' PT_ERRNO PF_DEC, par ''exe'' PT_CHARBUF PF_NA, par ''args'' PT_BYTEBUF PF_NA,
         par ''tid'' PT_PID PF_DEC, par ''pid'' PT_PID PF_DEC, par ''ptid'' PT_PID PF_DEC,
         par ''cwd'' PT_CHARBUF PF_NA, par ''fdlimit'' PT_UINT64 PF_DEC,
         par ''pgft_maj'' PT_UINT64 PF_DEC, par ''pgft_min'' PT_UINT64 PF_DEC,
         par ''vm_size'' PT_UINT32 PF_DEC, par ''vm_rss'' PT_UINT32 PF_DEC,
         par ''vm_swap'' PT_UINT32 PF_DEC, par ''comm'' PT_CHARBUF PF_NA,
         par ''cgroups'' PT_BYTEBUF PF_NA, par ''env'' PT_BYTEBUF PF_NA, par ''tty'' PT_INT32 PF_DEC],
      ev ''page_fault'' EC_OTHER (EF_SKIPPARSERESET OR EF_DROP_SIMPLE_CONS) 3
        [par ''addr'' PT_UINT64 PF_HEX, par ''ip'' PT_UINT64 PF_HEX,
         par_flags ''error'' PT_FLAGS32 PF_HEX ''pf_flags''],
      ev ''NA5'' EC_OTHER EF_UNUSED 0 [],
      ev ''execve'' EC_PROCESS EF_MODIFIES_STATE 1
        [par ''filename'' PT_FSPATH PF_NA],
      ev ''execve'' EC_PROCESS EF_MODIFIES_STATE 19
        [par ''res'' PT_ERRNO PF_DEC, par ''exe'' PT_CHARBUF PF_NA, par ''args'' PT_BYTEBUF PF_NA,
         par ''tid'' PT_PID PF_DEC, par ''pid'' PT_PID PF_DEC, par ''ptid'' PT_PID PF_DEC,
         par ''cwd'' PT_CHARBUF PF_NA, par ''fdlimit'' PT_UINT64 PF_DEC,
         par ''pgft_maj'' PT_UINT64 PF_DEC, par ''pgft_min'' PT_UINT64 PF_DEC,
         par ''vm_size'' PT_UINT32 PF_DEC, par ''vm_rss'' PT_UINT32 PF_DEC,
         par ''vm_swap'' PT_UINT32 PF_DEC, par ''comm'' PT_CHARBUF PF_NA,
         par ''cgroups'' PT_BYTEBUF PF_NA, par ''env'' PT_BYTEBUF PF_NA,
         par ''tty'' PT_INT32 PF_DEC, par ''pgid'' PT_PID PF_DEC, par ''loginuid'' PT_INT32 PF_DEC],
      ev ''setpgid'' EC_PROCESS EF_MODIFIES_STATE 2
        [par ''pid'' PT_PID PF_DEC, par ''pgid'' PT_PID PF_DEC],
      ev ''setpgid'' EC_PROCESS EF_MODIFIES_STATE 1
        [par ''res'' PT_PID PF_DEC],
      ev ''bpf'' EC_OTHER EF_CREATES_FD 1
        [par ''cmd'' PT_INT64 PF_DEC],
      ev ''bpf'' EC_OTHER EF_CREATES_FD 1
        [par_dyn ''res_or_fd'' PT_DYN PF_DEC bpf_dynamic_param 2],
      ev ''seccomp'' EC_OTHER EF_NONE 1
        [par ''op'' PT_UINT64 PF_DEC, par ''flags'' PT_UINT64 PF_HEX],
      ev ''seccomp'' EC_OTHER EF_NONE 1
        [par ''res'' PT_ERRNO PF_DEC]]"

definition g_event_info_5 :: "ppm_event_info list" where
  "g_event_info_5 =
     [ev ''unlink'' EC_FILE EF_NONE 0 [],
      ev ''unlink'' EC_FILE EF_NONE 2
        [par ''res'' PT_ERRNO PF_DEC, par ''path'' PT_FSPATH PF_NA],
      ev ''unlinkat'' EC_FILE EF_NONE 0 [],
      ev ''unlinkat'' EC_FILE EF_NONE 4
        [par ''res'' PT_ERRNO PF_DEC, par ''dirfd'' PT_FD PF_DEC,
         par_dirfd ''name'' PT_FSRELPATH PF_NA 1,
         par_flags ''flags'' PT_FLAGS32 PF_HEX ''unlinkat_flags''],
      ev ''mkdirat'' EC_FILE EF_NONE 0 [],
      ev ''mkdirat'' EC_FILE EF_NONE 4
        [par ''res'' PT_ERRNO PF_DEC, par ''dirfd'' PT_FD PF_DEC,
         par_dirfd ''path'' PT_FSRELPATH PF_NA 1, par ''mode'' PT_UINT32 PF_HEX],
      ev ''openat'' EC_FILE (EF_CREATES_FD OR EF_MODIFIES_STATE) 0 [],
      ev ''openat'' EC_FILE (EF_CREATES_FD OR EF_MODIFIES_STATE) 6
        [par ''fd'' PT_FD PF_DEC, par ''dirfd'' PT_FD PF_DEC,
         par_dirfd ''name'' PT_FSRELPATH PF_NA 1,
         par_flags ''flags'' PT_FLAGS32 PF_HEX ''file_flags'', par ''mode'' PT_UINT32 PF_OCT,
         par ''dev'' PT_UINT32 PF_HEX],
      ev ''link'' EC_FILE EF_NONE 0 [],
      ev ''link'' EC_FILE EF_NONE 3
        [par ''res'' PT_ERRNO PF_DEC, par ''oldpath'' PT_FSPATH PF_NA,
         par ''newpath'' PT_FSPATH PF_NA],
      ev ''linkat'' EC_FILE EF_NONE 0 [],
      ev ''linkat'' EC_FILE EF_NONE 6
        [par ''res'' PT_ERRNO PF_DEC, par ''olddir'' PT_FD PF_DEC,
         par_dirfd ''oldpath'' PT_FSRELPATH PF_NA 1, par ''newdir'' PT_FD PF_DEC,
         par_dirfd ''newpath'' PT_FSRELPATH PF_NA 3,
         par_flags ''flags'' PT_FLAGS32 PF_HEX ''linkat_flags''],
      ev ''fchmodat'' EC_FILE EF_NONE 0 [],
      ev ''fchmodat'' EC_FILE EF_NONE 4
        [par ''res'' PT_ERRNO PF_DEC, par ''dirfd'' PT_FD PF_DEC,
         par_dirfd ''filename'' PT_FSRELPATH PF_NA 1,
         par_flags ''mode'' PT_MODE PF_OCT ''chmod_mode''],
      ev ''chmod'' EC_FILE EF_NONE 0 [],
      ev ''chmod'' EC_FILE EF_NONE 3
        [par ''res'' PT_ERRNO PF_DEC, par ''filename'' PT_FSPATH PF_NA,
         par_flags ''mode'' PT_MODE PF_OCT ''chmod_mode''],
      ev ''fchmod'' EC_FILE EF_NONE 0 [],
      ev ''fchmod'' EC_FILE EF_NONE 3
        [par ''res'' PT_ERRNO PF_DEC, par ''fd'' PT_FD PF_DEC,
         par_flags ''mode'' PT_MODE PF_OCT ''chmod_mode''],
      ev ''renameat2'' EC_FILE EF_NONE 0 [],
      ev ''renameat2'' EC_FILE EF_NONE 6
        [par ''res'' PT_ERRNO PF_DEC, par ''olddirfd'' PT_FD PF_DEC,
         par_dirfd ''oldpath'' PT_FSRELPATH PF_NA 1, par ''newdirfd'' PT_FD PF_DEC,
         par_dirfd ''newpath'' PT_FSRELPATH PF_NA 3,
         par_flags ''flags'' PT_FLAGS32 PF_HEX ''renameat2_flags''],
      ev ''userfaultfd'' EC_FILE (EF_CREATES_FD OR EF_MODIFIES_STATE) 0 [],
      ev ''userfaultfd'' EC_FILE (EF_CREATES_FD OR EF_MODIFIES_STATE) 2
        [par ''res'' PT_ERRNO PF_DEC, par_flags ''flags'' PT_FLAGS32 PF_HEX ''file_flags''],
      ev ''ingress'' EC_NET EF_DROP_SIMPLE_CONS 5
        [par ''dev'' PT_CHARBUF PF_NA, par ''skb_addr'' PT_UINT64 PF_HEX,
         par ''src_mac'' PT_BYTEBUF PF_NA, par ''dst_mac'' PT_BYTEBUF PF_NA,
         par ''tuple'' PT_SOCKTUPLE PF_NA],
      ev ''ingress'' EC_NET EF_UNUSED 0 [],
      ev ''egress'' EC_NET (EF_DROP_SIMPLE_CONS OR EF_NONE_PARSE) 5
        [par ''dev'' PT_CHARBUF PF_NA, par ''skb_addr'' PT_UINT64 PF_HEX,
         par ''src_mac'' PT_BYTEBUF PF_NA, par ''dst_mac'' PT_BYTEBUF PF_NA,
         par ''tuple'' PT_SOCKTUPLE PF_NA],
      ev ''egress'' EC_NET (EF_UNUSED OR EF_NONE_PARSE) 0 [],
      ev ''tcp_rcv_established'' EC_NET (EF_DROP_SIMPLE_CONS OR EF_NONE_PARSE) 2
        [par ''tuple'' PT_SOCKTUPLE PF_NA, par ''srtt'' PT_UINT32 PF_DEC],
      ev ''tcp_rcv_established'' EC_NET EF_UNUSED 0 [],
      ev ''tcp_close'' EC_NET (EF_DROP_SIMPLE_CONS OR EF_NONE_PARSE) 2
        [par ''tuple'' PT_SOCKTUPLE PF_NA, par ''srtt'' PT_UINT32 PF_DEC],
      ev ''tcp_close'' EC_NET EF_UNUSED 0 [],
      ev ''tcp_drop'' EC_NET (EF_DROP_SIMPLE_CONS OR EF_NONE_PARSE) 1
        [par ''tuple'' PT_SOCKTUPLE PF_NA],
      ev ''tcp_drop'' EC_NET EF_UNUSED 0 [],
      ev ''tcp_retransmit_skb'' EC_NET (EF_DROP_SIMPLE_CONS OR EF_NONE_PARSE) 2
        [par ''tuple'' PT_SOCKTUPLE PF_NA, par ''segs'' PT_INT32 PF_DEC],
      ev ''tcp_retransmit_skb'' EC_NET EF_UNUSED 0 [],
      ev ''tcp_connect'' EC_NET EF_UNUSED 0 [],
      ev ''tcp_connect'' EC_NET (EF_DROP_SIMPLE_CONS OR EF_NONE_PARSE) 2
        [par ''retval'' PT_UINT64 PF_DEC, par ''tuple'' PT_SOCKTUPLE PF_NA],
      ev ''tcp_set_state'' EC_NET (EF_DROP_SIMPLE_CONS OR EF_NONE_PARSE) 3
        [par ''tuple'' PT_SOCKTUPLE PF_NA, par ''old_state'' PT_INT32 PF_NA,
         par ''new_state'' PT_INT32 PF_NA],
      ev ''tcp_set_state'' EC_NET EF_UNUSED 0 [],
      ev ''tcp_send_reset'' EC_NET (EF_DROP_SIMPLE_CONS OR EF_NONE_PARSE) 2
        [par ''tuple'' PT_SOCKTUPLE PF_NA, par ''state'' PT_UINT32 PF_DEC],
      ev ''tcp_send_reset'' EC_NET EF_UNUSED 0 [],
      ev ''tcp_receive_reset'' EC_NET (EF_DROP_SIMPLE_CONS OR EF_NONE_PARSE) 2
        [par ''tuple'' PT_SOCKTUPLE PF_NA, par ''state'' PT_UINT32 PF_DEC],
      ev ''tcp_send_reset'' EC_NET EF_UNUSED 0 [],
      ev ''cpu_analysis'' EC_PROCESS EF_NONE_PARSE 6
        [par ''start_ts'' PT_UINT64 PF_DEC, par ''end_ts'' PT_UINT64 PF_DEC,
         par ''cnt'' PT_UINT32 PF_DEC, par ''time_specs'' PT_BYTEBUF PF_NA,
         par ''runq_latency'' PT_BYTEBUF PF_NA, par ''time_type'' PT_BYTEBUF PF_NA],
      ev ''cpu_analysis'' EC_PROCESS EF_UNUSED 0 []]"

definition g_event_info_rows :: "ppm_event_info list" where
  "g_event_info_rows = g_event_info_0 @ g_event_info_1 @ g_event_info_2 @ g_event_info_3 @ g_event_info_4 @ g_event_info_5"

definition zero_event :: ppm_event_info where
  "zero_event = ev [] EC_UNKNOWN EF_NONE 0 []"

definition g_event_info :: event_table where
  "g_event_info t = (if t < length g_event_info_rows then g_event_info_rows ! t else zero_event)"

section \<open>Consistency of the table\<close>

text \<open>
  A parameter description is usable by \<open>val_to_ring\<close> when it has a type the encoder knows of, a
  dynamic one lists as many types as \<open>ninfo\<close> says, and the descriptor that a relative path refers
  to is a parameter of type \<open>PT_FD\<close> of the same event.
\<close>

definition param_ok :: "ppm_param_info list \<Rightarrow> ppm_param_info \<Rightarrow> bool" where
  "param_ok ps p \<longleftrightarrow> pi_type p \<noteq> PT_NONE \<and>
     (case pi_info p of
        INFO_DYN qs \<Rightarrow> pi_type p = PT_DYN \<and> length qs = pi_ninfo p
      | INFO_DIRFD k \<Rightarrow> k < length ps \<and> pi_type (ps ! k) = PT_FD
      | _ \<Rightarrow> pi_type p \<noteq> PT_DYN)"

definition row_ok :: "ppm_event_info \<Rightarrow> bool" where
  "row_ok e \<longleftrightarrow>
     unat (ei_nparams e) \<le> length (ei_params e) \<and> length (ei_params e) \<le> 20 \<and>
     list_all (param_ok (ei_params e)) (ei_params e)"

definition exact_row :: "ppm_event_info \<Rightarrow> bool" where
  "exact_row e \<longleftrightarrow> length (ei_params e) = unat (ei_nparams e)"

lemmas row_simps = row_ok_def param_ok_def entry_defs dynamic_params

lemma rows_ok: "list_all row_ok g_event_info_rows"
proof -
  have "list_all row_ok g_event_info_0"
    by (simp add: g_event_info_0_def row_simps)
  moreover have "list_all row_ok g_event_info_1"
    by (simp add: g_event_info_1_def row_simps)
  moreover have "list_all row_ok g_event_info_2"
    by (simp add: g_event_info_2_def row_simps)
  moreover have "list_all row_ok g_event_info_3"
    by (simp add: g_event_info_3_def row_simps)
  moreover have "list_all row_ok g_event_info_4"
    by (simp add: g_event_info_4_def row_simps)
  moreover have "list_all row_ok g_event_info_5"
    by (simp add: g_event_info_5_def row_simps)
  ultimately show ?thesis by (simp add: g_event_info_rows_def)
qed

lemma length_rows: "length g_event_info_rows = PPM_EVENT_MAX"
  by (simp add: g_event_info_rows_def g_event_info_0_def g_event_info_1_def g_event_info_2_def
      g_event_info_3_def g_event_info_4_def g_event_info_5_def ppm_consts)

lemma exact_rows:
  "map exact_row g_event_info_rows = replicate 298 True @ [False] @ replicate 45 True"
  by code_simp

lemma g_event_info_ok: "row_ok (g_event_info t)"
  using rows_ok by (auto simp: g_event_info_def zero_event_def ev_def row_ok_def list_all_length)

lemma nparams_bound: "unat (ei_nparams (g_event_info t)) \<le> 20"
  using g_event_info_ok [of t] by (simp add: row_ok_def)

section \<open>Properties\<close>

text \<open>
  C29. The event table has one entry per event type, and every entry is well formed: it declares no
  more parameters than it describes, describes at most 20, and each description has a type, a
  dynamic one the number of types it announces, and a relative path a descriptor parameter of the
  same event.
\<close>

theorem event_table_well_formed:
  "length g_event_info_rows = PPM_EVENT_MAX \<and> row_ok (g_event_info t)"
  using length_rows g_event_info_ok by blast

text \<open>
  C30. The number of parameters an entry declares is the number it describes, for every event type
  except \<open>PPME_SYSCALL_SECCOMP_E\<close>, whose second parameter is described but never recorded.
\<close>

theorem event_table_counts:
  "length (ei_params (g_event_info t)) = unat (ei_nparams (g_event_info t)) \<longleftrightarrow> t \<noteq> PPME_SYSCALL_SECCOMP_E"
proof (cases "t < 344")
  case True
  then have t: "t < length g_event_info_rows" by (simp add: length_rows ppm_consts)
  then have "exact_row (g_event_info_rows ! t) = map exact_row g_event_info_rows ! t"
    by simp
  also have "\<dots> = (t \<noteq> 298)"
    using True unfolding exact_rows by (auto simp: nth_append nth_Cons')
  finally show ?thesis
    using t by (simp add: g_event_info_def exact_row_def ppm_consts)
next
  case False
  then show ?thesis
    by (simp add: g_event_info_def length_rows zero_event_def ev_def ppm_consts)
qed


end
