(* ===== verification/Val_To_Ring.thy ===== *)
theory Val_To_Ring
  imports Ppm_Types
begin

text \<open>
  How the driver encodes one event parameter (\<open>driver/ppm_events.c\<close>): copies from user memory
  that do not sleep, the snap length heuristics, and \<open>val_to_ring\<close>, which appends one parameter
  to the event being built.  The kernel services it calls are fields of \<open>kernel_env\<close>.
\<close>

section \<open>Kernel services\<close>

text \<open>
  \<open>access_ok\<close> stands for the kernel function of that name, \<open>copy_raw\<close> for the bytes the
  processor finds at a user address before it faults; \<open>copy_inatomic env a n\<close> is what
  \<open>__copy_from_user_inatomic\<close> copied when asked for \<open>n\<close> bytes (fewer on a page fault).  \<open>kstr a\<close> is the string at kernel
  address \<open>a\<close> without its terminator.  \<open>fd_is_null_dev\<close>: the file behind the descriptor has an
  inode whose device is \<open>PPM_NULL_RDEV\<close>.  \<open>stack_sock\<close> and \<open>stack_peer\<close> are
  what the uninitialised locals \<open>sock_address\<close> and \<open>peer_address\<close> hold.
\<close>

record sock =
  sk_present :: bool
  sk_family :: nat
  sk_getname :: "nat \<Rightarrow> int \<times> byte list"

record kernel_env =
  access_ok :: "u64 \<Rightarrow> nat \<Rightarrow> bool"
  copy_raw :: "u64 \<Rightarrow> nat \<Rightarrow> byte list"
  kstr :: "u64 \<Rightarrow> byte list"
  fd_is_null_dev :: "int \<Rightarrow> bool"
  g_tracers_enabled :: bool
  sockfd_lookup :: "int \<Rightarrow> sock option"
  stack_sock :: mem
  stack_peer :: mem

definition copy_inatomic :: "kernel_env \<Rightarrow> u64 \<Rightarrow> nat \<Rightarrow> byte list" where
  "copy_inatomic env a n = take n (copy_raw env a n)"

section \<open>Copies from user memory\<close>

text \<open>Returns the number of bytes not read, and the destination memory.\<close>

definition ppm_copy_from_user ::
    "kernel_env \<Rightarrow> mem \<Rightarrow> nat \<Rightarrow> u64 \<Rightarrow> nat \<Rightarrow> nat \<times> mem" where
  "ppm_copy_from_user env m to from n =
     (if access_ok env from n
      then let bs = copy_inatomic env from n in (n - length bs, mem_write m to bs)
      else (n, m))"

text \<open>The inner loop of \<open>ppm_strncpy_from_user\<close>: the position after the first zero byte.\<close>

fun scan_nul :: "mem \<Rightarrow> nat \<Rightarrow> nat \<Rightarrow> nat option" where
  "scan_nul m to 0 = None"
| "scan_nul m to (Suc k) = (if m to = 0 then Some 1 else map_option Suc (scan_nul m (Suc to) k))"

function strncpy_loop ::
    "kernel_env \<Rightarrow> mem \<Rightarrow> nat \<Rightarrow> u64 \<Rightarrow> nat \<Rightarrow> nat \<Rightarrow> int \<times> mem" where
  "strncpy_loop env m to from n string_length =
     (if n = 0 then (-1, m)
      else let bytes_to_read = min n 4 in
        if \<not> access_ok env from bytes_to_read then (-1, m)
        else let bs = copy_inatomic env from bytes_to_read; m' = mem_write m to bs in
          if bytes_to_read - length bs \<noteq> 0 then (-1, m')
          else case scan_nul m' to bytes_to_read of
              Some j \<Rightarrow> (int (string_length + j), m')
            | None \<Rightarrow> strncpy_loop env m' (to + bytes_to_read) (from + word_of_nat bytes_to_read)
                        (n - bytes_to_read) (string_length + bytes_to_read))"
  by pat_completeness auto
termination
  by (relation "measure (\<lambda>(env, m, to, from, n, l). n)") auto

declare strncpy_loop.simps [simp del]

definition ppm_strncpy_from_user ::
    "kernel_env \<Rightarrow> mem \<Rightarrow> nat \<Rightarrow> u64 \<Rightarrow> nat \<Rightarrow> int \<times> mem" where
  "ppm_strncpy_from_user env m to from n = strncpy_loop env m to from n 0"

text \<open>The C library's \<open>strlcpy\<close>: the length of the source, and the destination memory.\<close>

definition strlcpy :: "mem \<Rightarrow> nat \<Rightarrow> byte list \<Rightarrow> nat \<Rightarrow> nat \<times> mem" where
  "strlcpy m to s sz =
     (length s, if sz = 0 then m else mem_write m to (take (sz - 1) s @ [0]))"

section \<open>Snap length\<close>

definition in_port_range :: "nat \<Rightarrow> nat \<Rightarrow> nat \<Rightarrow> bool" where
  "in_port_range port mn mx \<longleftrightarrow> port \<ge> mn \<and> port \<le> mx"

text \<open>
  Errors of \<open>getname\<close> are negative; from Linux 4.17 on a success returns the address length.
  The port sits in network order at offset 2 of both \<open>sockaddr_in\<close> and \<open>sockaddr_in6\<close>.
\<close>

definition sock_getname :: "sock \<Rightarrow> mem \<Rightarrow> nat \<Rightarrow> int \<times> mem" where
  "sock_getname s m peer =
     (let (ret, bs) = sk_getname s peer in (if ret \<ge> 0 then 0 else ret, mem_write m 0 bs))"

definition sa_port :: "mem \<Rightarrow> nat" where
  "sa_port m = 256 * unat (m 2) + unat (m 3)"

definition addr_to_kernel :: "kernel_env \<Rightarrow> u64 \<Rightarrow> int \<Rightarrow> mem \<Rightarrow> int \<times> mem" where
  "addr_to_kernel env uaddr ulen kaddr =
     (if ulen < 0 \<or> ulen > 128 then (-22, kaddr)
      else if ulen = 0 then (0, kaddr)
      else let (notread, m) = ppm_copy_from_user env kaddr 0 uaddr (nat ulen) in
        if notread \<noteq> 0 then (-14, m) else (0, m))"

definition filler_arg :: "event_filler_arguments \<Rightarrow> nat \<Rightarrow> u64" where
  "filler_arg a i = (if \<not> fa_is_socketcall a then r_args (fa_regs a) i else fa_socketcall_args a i)"

text \<open>
  The peer address \<open>compute_snaplen\<close> looks at: the address argument of \<open>sendto\<close>, the one in the
  message header of \<open>sendmsg\<close> (native: pointer at 0, length at 8, 56 bytes; 32-bit: 0, 4, 28), or
  the address the socket is connected to.
\<close>

definition snaplen_peer ::
    "kernel_env \<Rightarrow> event_filler_arguments \<Rightarrow> sock \<Rightarrow> int \<times> mem" where
  "snaplen_peer env a s =
     (if fa_event_type a = PPME_SOCKET_SENDTO_X then
        if filler_arg a 4 = 0 then sock_getname s (stack_peer env) 1
        else if filler_arg a 5 \<noteq> 0
          then addr_to_kernel env (filler_arg a 4) (sint (ucast (filler_arg a 5) :: u32)) (stack_peer env)
          else sock_getname s (stack_peer env) 1
      else if fa_event_type a = PPME_SOCKET_SENDMSG_X then
        let (usrsockaddr, addrlen) =
          (if \<not> fa_compat a then
             let (notread, mh) = ppm_copy_from_user env (\<lambda>_. 0) 0 (filler_arg a 1) 56 in
               if notread \<noteq> 0 then (0, 0)
               else (word_of_nat (load_le mh 0 8), sint (word_of_nat (load_le mh 8 4) :: u32))
           else
             let (notread, mh) = ppm_copy_from_user env (\<lambda>_. 0) 0
                   (ucast (ucast (filler_arg a 1) :: u32)) 28 in
               if notread \<noteq> 0 then (0, 0)
               else (word_of_nat (load_le mh 0 4), sint (word_of_nat (load_le mh 4 4) :: u32)))
        in if usrsockaddr \<noteq> 0 \<and> addrlen \<noteq> 0
           then addr_to_kernel env usrsockaddr addrlen (stack_peer env)
           else sock_getname s (stack_peer env) 1
      else sock_getname s (stack_peer env) 1)"

text \<open>The four-byte HTTP markers, read as \<open>dpi_lookahead_init\<close> reads them.\<close>

definition http_intval :: "string \<Rightarrow> nat" where
  "http_intval s = le_nat (map of_char s)"

definition dpi_lookahead_init :: "nat list" where
  "dpi_lookahead_init = map http_intval
     [''GET '', ''POST'', ''PUT '', ''DELE'', ''TRAC'', ''CONN'', ''OPTI'']"

text \<open>The heuristics on the ports and the first bytes of the data.\<close>

definition snaplen_ports ::
    "ppm_consumer_t \<Rightarrow> u32 \<Rightarrow> u32 \<Rightarrow> nat \<Rightarrow> nat \<Rightarrow> mem \<Rightarrow> nat \<Rightarrow> u32" where
  "snaplen_ports c res dynamic_snaplen sport dport buf lookahead_size =
     (let min_port = unat (c_fullcapture_port_range_start c);
          max_port = unat (c_fullcapture_port_range_end c) in
      if max_port > 0 \<and> (in_port_range sport min_port max_port \<or> in_port_range dport min_port max_port)
      then RW_MAX_FULLCAPTURE_PORT_SNAPLEN
      else if sport = PPM_PORT_MYSQL \<or> dport = PPM_PORT_MYSQL then
        if lookahead_size \<ge> 5 then
          if buf 0 = 3 \<or> buf 1 = 3 \<or> buf 2 = 3 \<or> buf 3 = 3 \<or> buf 4 = 3 then dynamic_snaplen
          else if buf 2 = 0 \<and> buf 3 = 0 then dynamic_snaplen
          else res
        else res
      else if sport = PPM_PORT_POSTGRES \<or> dport = PPM_PORT_POSTGRES then
        if lookahead_size \<ge> 2 \<and>
           ((buf 0 = of_char (CHR ''Q'') \<and> buf 1 = 0) \<or>
            (buf 0 = of_char (CHR ''P'') \<and> buf 1 = 0) \<or>
            (buf 0 = of_char (CHR ''E'') \<and> buf 1 = 0))
        then dynamic_snaplen
        else if lookahead_size \<ge> 7 \<and> buf 4 = 0 \<and> buf 5 = 3 \<and> buf 6 = 0 then dynamic_snaplen
        else res
      else if (sport = PPM_PORT_MONGODB \<or> dport = PPM_PORT_MONGODB) \<or>
              (lookahead_size \<ge> 16 \<and>
               load_le buf 12 4 \<in> set [1, 2001, 2002, 2003, 2004, 2005, 2006, 2007])
        then dynamic_snaplen
      else if dport = unat (c_statsd_port c) then dynamic_snaplen
      else if lookahead_size \<ge> 5 \<and>
              (load_le buf 0 4 \<in> set dpi_lookahead_init \<or>
               (load_le buf 0 4 = http_intval ''HTTP'' \<and> buf 4 = of_char (CHR ''/'')))
        then dynamic_snaplen
      else res)"

definition compute_snaplen ::
    "kernel_env \<Rightarrow> event_filler_arguments \<Rightarrow> mem \<Rightarrow> nat \<Rightarrow> u32" where
  "compute_snaplen env a buf lookahead_size =
     (let c = fa_consumer a; res = c_snaplen c;
          dynamic_snaplen = (if c_snaplen c > 2000 then c_snaplen c else 2000) in
      if g_tracers_enabled env \<and> fa_event_type a = PPME_SYSCALL_WRITE_X \<and> fd_is_null_dev env (fa_fd a)
      then RW_SNAPLEN_EVENT
      else if \<not> c_do_dynamic_snaplen c then res
      else case sockfd_lookup env (fa_fd a) of None \<Rightarrow> res
        | Some s \<Rightarrow>
          if \<not> sk_present s then res
          else let (err, sock_address) = sock_getname s (stack_sock env) 0 in
            if err \<noteq> 0 then res
            else let (err, peer_address) = snaplen_peer env a s in
              if err \<noteq> 0 then res
              else let (sport, dport) =
                (if sk_family s = AF_INET \<or> sk_family s = AF_INET6
                 then (sa_port sock_address, sa_port peer_address) else (0, 0))
              in snaplen_ports c res dynamic_snaplen sport dport buf lookahead_size)"

section \<open>Appending one parameter\<close>

definition arg_dst :: "event_filler_arguments \<Rightarrow> nat" where
  "arg_dst a = fa_buffer a + unat (fa_arg_data_offset a)"

definition psize :: "event_filler_arguments \<Rightarrow> nat" where
  "psize a = fa_buffer a + 2 * unat (fa_curarg a)"

text \<open>
  The branches of the switch of \<open>val_to_ring\<close> on the parameter type.  Each returns the result
  code, the length added (meaningful on success) and the arguments with the memory updated.
\<close>

definition put_charbuf ::
    "kernel_env \<Rightarrow> event_filler_arguments \<Rightarrow> u32 \<Rightarrow> u64 \<Rightarrow> bool
       \<Rightarrow> ppm_res \<times> nat \<times> event_filler_arguments" where
  "put_charbuf env a max_arg_size val fromuser =
     (if val \<noteq> 0 then
        if fromuser then
          let (len, m) = ppm_strncpy_from_user env (fa_ring a) (arg_dst a) val (unat max_arg_size) in
            if len < 0 then (PPM_FAILURE_INVALID_USER_MEMORY, 0, a\<lparr>fa_ring := m\<rparr>)
            else (PPM_SUCCESS, nat len, a\<lparr>fa_ring := m(arg_dst a + nat len := 0)\<rparr>)
        else
          let (n, m) = strlcpy (fa_ring a) (arg_dst a) (kstr env val) (unat max_arg_size);
              len = (if Suc n > unat max_arg_size then unat max_arg_size else Suc n)
          in (PPM_SUCCESS, len, a\<lparr>fa_ring := m(arg_dst a + len := 0)\<rparr>)
      else
        let (n, m) = strlcpy (fa_ring a) (arg_dst a) (map of_char ''(NULL)'') (unat max_arg_size);
            len = (if Suc n > unat max_arg_size then unat max_arg_size else Suc n)
        in (PPM_SUCCESS, len, a\<lparr>fa_ring := m\<rparr>))"

text \<open>How much of a user buffer is kept once its first bytes have been looked at.\<close>

definition bytebuf_len ::
    "kernel_env \<Rightarrow> event_filler_arguments \<Rightarrow> u32 \<Rightarrow> u32 \<Rightarrow> u32 \<Rightarrow> u32" where
  "bytebuf_len env a look max_arg_size val_len =
     (let sl = compute_snaplen env a (\<lambda>i. fa_ring a (arg_dst a + i)) (unat look);
          val_len' = (if fa_enforce_snaplen a \<and> val_len > sl then sl else val_len)
      in if val_len' \<ge> max_arg_size then max_arg_size else val_len')"

definition put_bytebuf ::
    "kernel_env \<Rightarrow> event_filler_arguments \<Rightarrow> u32 \<Rightarrow> u64 \<Rightarrow> u32 \<Rightarrow> bool
       \<Rightarrow> ppm_res \<times> nat \<times> event_filler_arguments" where
  "put_bytebuf env a max_arg_size val val_len fromuser =
     (if val = 0 then (PPM_SUCCESS, 0, a)
      else if fromuser then
        let look = (if DPI_LOOKAHEAD_SIZE > val_len then val_len else DPI_LOOKAHEAD_SIZE) in
        if look \<ge> max_arg_size then (PPM_FAILURE_BUFFER_FULL, 0, a)
        else let (notread, m) = ppm_copy_from_user env (fa_ring a) (arg_dst a) val (unat look);
                 a1 = a\<lparr>fa_ring := m\<rparr> in
          if notread \<noteq> 0 then (PPM_FAILURE_INVALID_USER_MEMORY, 0, a1)
          else if look = val_len then (PPM_SUCCESS, unat val_len, a1)
          else
            let vl = bytebuf_len env a1 look max_arg_size val_len in
            if vl > look then
              let (notread2, m2) = ppm_copy_from_user env m (arg_dst a + unat look)
                    (val + ucast look) (unat (vl - look)) in
                if notread2 \<noteq> 0 then (PPM_FAILURE_INVALID_USER_MEMORY, 0, a\<lparr>fa_ring := m2\<rparr>)
                else (PPM_SUCCESS, unat vl, a\<lparr>fa_ring := m2\<rparr>)
            else (PPM_SUCCESS, unat vl, a1)
      else
        let sl = compute_snaplen env a (\<lambda>i. fa_kmem a (val + word_of_nat i)) (unat val_len);
            vl = (if fa_enforce_snaplen a \<and> val_len > sl then sl else val_len) in
        if vl \<ge> max_arg_size then (PPM_FAILURE_BUFFER_FULL, 0, a)
        else (PPM_SUCCESS, unat vl,
              a\<lparr>fa_ring := mem_write (fa_ring a) (arg_dst a)
                 (map (\<lambda>i. fa_kmem a (val + word_of_nat i)) [0..<unat vl])\<rparr>))"

definition put_raw ::
    "kernel_env \<Rightarrow> event_filler_arguments \<Rightarrow> u32 \<Rightarrow> u64 \<Rightarrow> u32 \<Rightarrow> bool
       \<Rightarrow> ppm_res \<times> nat \<times> event_filler_arguments" where
  "put_raw env a max_arg_size val val_len fromuser =
     (if val = 0 then (PPM_SUCCESS, 0, a)
      else if val_len \<ge> max_arg_size then (PPM_FAILURE_BUFFER_FULL, 0, a)
      else if fromuser then
        let (notread, m) = ppm_copy_from_user env (fa_ring a) (arg_dst a) val (unat val_len) in
          if notread \<noteq> 0 then (PPM_FAILURE_INVALID_USER_MEMORY, 0, a\<lparr>fa_ring := m\<rparr>)
          else (PPM_SUCCESS, unat val_len, a\<lparr>fa_ring := m\<rparr>)
      else (PPM_SUCCESS, unat val_len,
            a\<lparr>fa_ring := mem_write (fa_ring a) (arg_dst a)
               (map (\<lambda>i. fa_kmem a (val + word_of_nat i)) [0..<unat val_len])\<rparr>))"

definition put_num ::
    "event_filler_arguments \<Rightarrow> u32 \<Rightarrow> nat \<Rightarrow> u64 \<Rightarrow> ppm_res \<times> nat \<times> event_filler_arguments" where
  "put_num a max_arg_size n val =
     (if unat max_arg_size \<ge> n
      then (PPM_SUCCESS, n, a\<lparr>fa_ring := store_le (fa_ring a) (arg_dst a) n (unat val)\<rparr>)
      else (PPM_FAILURE_BUFFER_FULL, 0, a))"

definition num_size :: "ppm_param_type \<Rightarrow> nat option" where
  "num_size t =
     (if t \<in> set [PT_FLAGS8, PT_UINT8, PT_SIGTYPE, PT_INT8] then Some 1
      else if t \<in> set [PT_FLAGS16, PT_UINT16, PT_SYSCALLID, PT_INT16] then Some 2
      else if t \<in> set [PT_FLAGS32, PT_UINT32, PT_MODE, PT_UID, PT_GID, PT_SIGSET, PT_INT32] then Some 4
      else if t \<in> set [PT_RELTIME, PT_ABSTIME, PT_UINT64, PT_INT64, PT_ERRNO, PT_FD, PT_PID] then Some 8
      else None)"

definition put_param ::
    "kernel_env \<Rightarrow> event_filler_arguments \<Rightarrow> ppm_param_type \<Rightarrow> u32 \<Rightarrow> u64 \<Rightarrow> u32 \<Rightarrow> bool
       \<Rightarrow> ppm_res \<times> nat \<times> event_filler_arguments" where
  "put_param env a t max_arg_size val val_len fromuser =
     (if t \<in> set [PT_CHARBUF, PT_FSPATH, PT_FSRELPATH]
        then put_charbuf env a max_arg_size val fromuser
      else if t = PT_BYTEBUF then put_bytebuf env a max_arg_size val val_len fromuser
      else if t \<in> set [PT_SOCKADDR, PT_SOCKTUPLE, PT_FDLIST]
        then put_raw env a max_arg_size val val_len fromuser
      else case num_size t of
          Some n \<Rightarrow> put_num a max_arg_size n val
        | None \<Rightarrow> (PPM_FAILURE_BUG, 0, a))"

definition dyn_param :: "ppm_param_info \<Rightarrow> nat \<Rightarrow> ppm_param_info" where
  "dyn_param pi i =
     (case pi_info pi of
        INFO_DYN ps \<Rightarrow> if i < length ps then ps ! i else zero_param
      | _ \<Rightarrow> zero_param)"

definition max_arg_size :: "event_filler_arguments \<Rightarrow> u32" where
  "max_arg_size a = (if fa_arg_data_size a > PPM_MAX_ARG_SIZE then PPM_MAX_ARG_SIZE else fa_arg_data_size a)"

definition cur_param :: "event_table \<Rightarrow> event_filler_arguments \<Rightarrow> ppm_param_info" where
  "cur_param tbl a = param_at (tbl (fa_event_type a)) (unat (fa_curarg a))"

text \<open>The length slot starts at 0, or at 1 with the index of the dynamic type already written.\<close>

definition start_param :: "bool \<Rightarrow> u8 \<Rightarrow> event_filler_arguments \<Rightarrow> event_filler_arguments" where
  "start_param is_dyn dyn_idx a =
     (if is_dyn
      then a\<lparr>fa_ring := store_le ((fa_ring a)(arg_dst a := dyn_idx)) (psize a) 2 1,
             fa_arg_data_offset := fa_arg_data_offset a + 1,
             fa_arg_data_size := fa_arg_data_size a - 1\<rparr>
      else a\<lparr>fa_ring := store_le (fa_ring a) (psize a) 2 0\<rparr>)"

definition finish_param :: "nat \<Rightarrow> event_filler_arguments \<Rightarrow> event_filler_arguments" where
  "finish_param len a =
     a\<lparr>fa_ring := store_le (fa_ring a) (psize a) 2 (load_le (fa_ring a) (psize a) 2 + len),
       fa_curarg := fa_curarg a + 1,
       fa_arg_data_offset := fa_arg_data_offset a + word_of_nat len,
       fa_arg_data_size := fa_arg_data_size a - word_of_nat len\<rparr>"

definition val_to_ring ::
    "kernel_env \<Rightarrow> event_table \<Rightarrow> event_filler_arguments \<Rightarrow> u64 \<Rightarrow> u32 \<Rightarrow> bool \<Rightarrow> u8
       \<Rightarrow> ppm_res \<times> event_filler_arguments" where
  "val_to_ring env tbl a val val_len fromuser dyn_idx =
     (if fa_curarg a \<ge> fa_nargs a then (PPM_FAILURE_BUG, a)
      else if fa_arg_data_size a = 0 then (PPM_FAILURE_BUFFER_FULL, a)
      else
        let param_info = cur_param tbl a;
            is_dyn = (pi_type param_info = PT_DYN \<and> pi_info param_info \<noteq> INFO_NULL) in
        if is_dyn \<and> unat dyn_idx \<ge> pi_ninfo param_info then (PPM_FAILURE_BUG, a)
        else
          let param_info' = (if is_dyn then dyn_param param_info (unat dyn_idx) else param_info);
              (res, len, a') = put_param env (start_param is_dyn dyn_idx a) (pi_type param_info')
                (if is_dyn then max_arg_size a - 1 else max_arg_size a) val val_len fromuser in
          if res \<noteq> PPM_SUCCESS then (res, a') else (PPM_SUCCESS, finish_param len a'))"

section \<open>Bounds and frame of the copies\<close>

lemma copy_inatomic_le: "length (copy_inatomic env a n) \<le> n"
  by (simp add: copy_inatomic_def)

lemma ppm_copy_frame:
  assumes "ppm_copy_from_user env m to from n = (r, m')"
  shows "same_outside m m' to (to + n)"
  using assms copy_inatomic_le [of env "from" n]
  by (auto simp: ppm_copy_from_user_def Let_def split: if_splits intro!: same_outside_write)

lemma ppm_copy_success:
  assumes "ppm_copy_from_user env m to from n = (0, m')"
  shows "mem_read m' to n = copy_inatomic env from n"
  using assms copy_inatomic_le [of env "from" n]
  by (auto simp: ppm_copy_from_user_def Let_def mem_simps split: if_splits)

lemma scan_nul_Some:
  "scan_nul m to k = Some j \<Longrightarrow> 1 \<le> j \<and> j \<le> k \<and> m (to + j - 1) = 0 \<and> (\<forall>i < j - 1. m (to + i) \<noteq> 0)"
proof (induction m to k arbitrary: j rule: scan_nul.induct)
  case (1 m to)
  then show ?case by simp
next
  case (2 m to k)
  show ?case
  proof (cases "m to = 0")
    case True
    with 2 show ?thesis by auto
  next
    case False
    with 2 obtain j' where j': "scan_nul m (Suc to) k = Some j'" "j = Suc j'"
      by auto
    with 2 False have "m (to + i) \<noteq> 0" if "i < j'" for i
      using that by (cases i) auto
    with 2 False j' show ?thesis by auto
  qed
qed

lemma scan_nul_None: "scan_nul m to k = None \<Longrightarrow> i < k \<Longrightarrow> m (to + i) \<noteq> 0"
proof (induction m to k arbitrary: i rule: scan_nul.induct)
  case (1 m to)
  then show ?case by simp
next
  case (2 m to k)
  then show ?case
    by (cases i) (auto split: if_splits)
qed

lemma strncpy_loop_cases:
  assumes "strncpy_loop env m to from n l = (r, m')"
  obtains (fail) "r = -1" and "m' = m"
  | (fault) bs where "r = -1" and "n \<noteq> 0" and "bs = copy_inatomic env from (min n 4)"
      and "m' = mem_write m to bs"
  | (found) j where "n \<noteq> 0" and "m' = mem_write m to (copy_inatomic env from (min n 4))"
      and "scan_nul m' to (min n 4) = Some j" and "r = int (l + j)"
  | (more) m1 where "n \<noteq> 0" and "m1 = mem_write m to (copy_inatomic env from (min n 4))"
      and "scan_nul m1 to (min n 4) = None"
      and "strncpy_loop env m1 (to + min n 4) (from + word_of_nat (min n 4)) (n - min n 4) (l + min n 4)
             = (r, m')"
  using assms
  by (subst (asm) strncpy_loop.simps) (auto simp: Let_def split: if_splits option.splits)

lemma strncpy_chunk_frame:
  "same_outside m (mem_write m to (copy_inatomic env from (min n 4))) to (to + n)"
  by (rule same_outside_write) (auto intro: order_trans [OF copy_inatomic_le])

lemma strncpy_loop_frame:
  shows "strncpy_loop env m to from n l = (r, m') \<Longrightarrow> same_outside m m' to (to + n)"
proof (induction n arbitrary: m to "from" l rule: less_induct)
  case (less n)
  note chunk = strncpy_chunk_frame [of m to env "from" n]
  from less.prems show ?case
  proof (cases rule: strncpy_loop_cases)
    case (more m1)
    then have "same_outside m1 m' (to + min n 4) (to + min n 4 + (n - min n 4))"
      by (intro less.IH) auto
    then have "same_outside m1 m' to (to + n)"
      by (rule same_outside_mono) auto
    with chunk more show ?thesis
      by (blast intro: same_outside_trans)
  qed (use chunk in auto)
qed

lemma strncpy_loop_result:
  shows "strncpy_loop env m to from n l = (r, m') \<Longrightarrow> 0 \<le> r \<Longrightarrow>
    \<exists>k. r = int (l + k) \<and> 1 \<le> k \<and> k \<le> n \<and> m' (to + k - 1) = 0 \<and> (\<forall>i < k - 1. m' (to + i) \<noteq> 0)"
proof (induction n arbitrary: m to "from" l rule: less_induct)
  case (less n)
  from less.prems(1) show ?case
  proof (cases rule: strncpy_loop_cases)
    case (found j)
    then show ?thesis
      using scan_nul_Some [of m' to "min n 4" j] by (intro exI [of _ j]) auto
  next
    case (more m1)
    let ?c = "min n 4"
    have frame: "same_outside m1 m' (to + ?c) (to + ?c + (n - ?c))"
      using more by (intro strncpy_loop_frame)
    obtain k where k: "r = int (l + ?c + k)" "1 \<le> k" "k \<le> n - ?c" "m' (to + ?c + k - 1) = 0"
        "\<forall>i < k - 1. m' (to + ?c + i) \<noteq> 0"
      using less.IH [of "n - ?c", OF _ more(4) less.prems(2)] more by auto
    have "m' (to + i) \<noteq> 0" if "i < ?c + k - 1" for i
    proof (cases "i < ?c")
      case True
      then have "m' (to + i) = m1 (to + i)"
        using frame by (simp add: same_outside_def)
      with True more(3) show ?thesis
        by (simp add: scan_nul_None)
    next
      case False
      with k that show ?thesis
        using k(5) [rule_format, of "i - ?c"] by auto
    qed
    with k more show ?thesis
      by (intro exI [of _ "?c + k"]) (auto simp: add.assoc)
  qed (use less.prems in auto)
qed

lemma ppm_strncpy_frame:
  assumes "ppm_strncpy_from_user env m to from n = (r, m')"
  shows "same_outside m m' to (to + n)"
  using assms by (auto simp: ppm_strncpy_from_user_def intro: strncpy_loop_frame)

lemma ppm_strncpy_result:
  assumes "ppm_strncpy_from_user env m to from n = (r, m')" and "0 \<le> r"
  shows "1 \<le> nat r \<and> nat r \<le> n \<and> m' (to + nat r - 1) = 0 \<and> (\<forall>i < nat r - 1. m' (to + i) \<noteq> 0)"
proof -
  obtain k where "r = int (0 + k)" "1 \<le> k" "k \<le> n" "m' (to + k - 1) = 0" "\<forall>i < k - 1. m' (to + i) \<noteq> 0"
    using strncpy_loop_result [of env m to "from" n 0 r m'] assms
    by (auto simp: ppm_strncpy_from_user_def)
  then show ?thesis by simp
qed

lemma strlcpy_frame:
  "strlcpy m to s sz = (n, m') \<Longrightarrow> same_outside m m' to (to + sz)"
  by (auto simp: strlcpy_def split: if_splits intro!: same_outside_write)

section \<open>Each branch stays within its space\<close>

text \<open>
  \<open>put_ok\<close>: a branch of the switch only changes the ring memory, from the place of the parameter
  up to one byte past the space it was given, and on success reports a length within that space.
\<close>

definition put_ok ::
    "event_filler_arguments \<Rightarrow> u32 \<Rightarrow> ppm_res \<times> nat \<times> event_filler_arguments \<Rightarrow> bool" where
  "put_ok a x out \<longleftrightarrow>
     (case out of (res, len, a') \<Rightarrow>
        a' = a\<lparr>fa_ring := fa_ring a'\<rparr> \<and>
        same_outside (fa_ring a) (fa_ring a') (arg_dst a) (arg_dst a + unat x + 1) \<and>
        (res = PPM_SUCCESS \<longrightarrow> len \<le> unat x))"

lemma put_okI:
  "same_outside (fa_ring a) m (arg_dst a) (arg_dst a + unat x + 1) \<Longrightarrow> len \<le> unat x \<Longrightarrow>
   put_ok a x (res, len, a\<lparr>fa_ring := m\<rparr>)"
  by (simp add: put_ok_def)

lemma put_ok_same [simp]: "len \<le> unat x \<Longrightarrow> put_ok a x (res, len, a)"
  by (simp add: put_ok_def)

lemma same_outside_then_upd:
  "same_outside m m' lo hi \<Longrightarrow> lo \<le> p \<Longrightarrow> p \<le> hi \<Longrightarrow> same_outside m (m'(p := v)) lo (hi + 1)"
  by (auto simp: same_outside_def)

lemma same_outside_Suc: "same_outside m m' lo hi \<Longrightarrow> same_outside m m' lo (hi + 1)"
  by (auto simp: same_outside_def)

lemma put_charbuf_ok:
  shows "put_ok a x (put_charbuf env a x val fromuser)"
proof -
  have user: ?thesis if "val \<noteq> 0" "fromuser"
  proof -
    obtain len m where lm: "ppm_strncpy_from_user env (fa_ring a) (arg_dst a) val (unat x) = (len, m)"
      by fastforce
    have fr: "same_outside (fa_ring a) m (arg_dst a) (arg_dst a + unat x)"
      using ppm_strncpy_frame [OF lm] .
    show ?thesis
    proof (cases "len < 0")
      case True
      then show ?thesis
        using that lm fr by (auto simp: put_charbuf_def intro!: put_okI same_outside_Suc)
    next
      case False
      with ppm_strncpy_result [OF lm] have "nat len \<le> unat x" by simp
      with False show ?thesis
        using that lm fr by (auto simp: put_charbuf_def intro!: put_okI same_outside_then_upd)
    qed
  qed
  have kern: ?thesis if "val \<noteq> 0" "\<not> fromuser"
    using that strlcpy_frame [of "fa_ring a" "arg_dst a" "kstr env val" "unat x"]
    by (auto simp: put_charbuf_def Let_def split: prod.splits
          intro!: put_okI same_outside_then_upd)
  have null: ?thesis if "val = 0"
    using that strlcpy_frame [of "fa_ring a" "arg_dst a" "map of_char ''(NULL)''" "unat x"]
    by (auto simp: put_charbuf_def Let_def split: prod.splits intro!: put_okI same_outside_Suc)
  show ?thesis using user kern null by blast
qed

lemma copy_put_frame:
  assumes "ppm_copy_from_user env m to from n = (r, m')"
    and "lo \<le> to" and "to + n \<le> lo + k"
  shows "same_outside m m' lo (lo + k + 1)"
  using ppm_copy_frame [OF assms(1)] assms(2,3) by (auto intro: same_outside_mono)

lemma kernel_copy_frame:
  "n \<le> k \<Longrightarrow> same_outside m (mem_write m lo (map f [0..<n])) lo (lo + k + 1)"
  by (rule same_outside_write) auto

lemma put_raw_ok:
  shows "put_ok a x (put_raw env a x val val_len fromuser)"
proof (cases "val = 0 \<or> x \<le> val_len")
  case True
  then show ?thesis by (auto simp: put_raw_def)
next
  case False
  then have lt: "unat val_len \<le> unat x" by (simp add: word_le_nat_alt)
  show ?thesis
  proof (cases fromuser)
    case True
    obtain r m where "ppm_copy_from_user env (fa_ring a) (arg_dst a) val (unat val_len) = (r, m)"
      by fastforce
    with True False lt show ?thesis
      using copy_put_frame [of env "fa_ring a" "arg_dst a" val "unat val_len" r m "arg_dst a" "unat x"]
      by (auto simp: put_raw_def intro!: put_okI)
  qed (use False lt in \<open>auto simp: put_raw_def intro!: put_okI kernel_copy_frame\<close>)
qed

lemma put_bytebuf_user_ok:
  shows "put_ok a x (put_bytebuf env a x val val_len True)"
proof (cases "val = 0 \<or> x \<le> (if DPI_LOOKAHEAD_SIZE > val_len then val_len else DPI_LOOKAHEAD_SIZE)")
  case True
  then show ?thesis by (auto simp: put_bytebuf_def Let_def)
next
  case False
  define look where "look = (if DPI_LOOKAHEAD_SIZE > val_len then val_len else DPI_LOOKAHEAD_SIZE)"
  obtain r m where rm: "ppm_copy_from_user env (fa_ring a) (arg_dst a) val (unat look) = (r, m)"
    by fastforce
  define vl2 where "vl2 = bytebuf_len env (a\<lparr>fa_ring := m\<rparr>) look x val_len"
  obtain r2 m2 where rm2: "ppm_copy_from_user env m (arg_dst a + unat look) (val + ucast look)
      (unat (vl2 - look)) = (r2, m2)"
    by fastforce
  have look: "unat look \<le> unat x"
    using False by (auto simp: look_def word_le_nat_alt)
  have vl2: "unat vl2 \<le> unat x"
    by (auto simp: vl2_def bytebuf_len_def Let_def word_le_nat_alt)
  have f1: "same_outside (fa_ring a) m (arg_dst a) (arg_dst a + unat x + 1)"
    using copy_put_frame [OF rm, of "arg_dst a" "unat x"] look by simp
  have f2: "same_outside m m2 (arg_dst a) (arg_dst a + unat x + 1)" if "look < vl2"
    using copy_put_frame [OF rm2, of "arg_dst a" "unat x"] that vl2
    by (simp add: unat_sub less_imp_le word_less_nat_alt)
  have "put_bytebuf env a x val val_len True =
    (if r \<noteq> 0 then (PPM_FAILURE_INVALID_USER_MEMORY, 0, a\<lparr>fa_ring := m\<rparr>)
     else if look = val_len then (PPM_SUCCESS, unat val_len, a\<lparr>fa_ring := m\<rparr>)
     else if look < vl2 then
       if r2 \<noteq> 0 then (PPM_FAILURE_INVALID_USER_MEMORY, 0, a\<lparr>fa_ring := m2\<rparr>)
       else (PPM_SUCCESS, unat vl2, a\<lparr>fa_ring := m2\<rparr>)
     else (PPM_SUCCESS, unat vl2, a\<lparr>fa_ring := m\<rparr>))"
    using False
    unfolding put_bytebuf_def look_def [symmetric] Let_def rm
    by (simp add: vl2_def [symmetric] rm2)
  then show ?thesis
    using f1 f2 look vl2 by (auto intro!: put_okI intro: same_outside_trans)
qed

lemma put_bytebuf_ok:
  shows "put_ok a x (put_bytebuf env a x val val_len fromuser)"
proof (cases fromuser)
  case True
  then show ?thesis using put_bytebuf_user_ok by simp
next
  case False
  then show ?thesis
    by (auto simp: put_bytebuf_def Let_def word_le_nat_alt intro!: put_okI kernel_copy_frame)
qed

lemma put_num_ok: "put_ok a x (put_num a x n val)"
  by (auto simp: put_num_def intro!: put_okI same_outside_store)

lemma put_param_ok:
  shows "put_ok a x (put_param env a t x val val_len fromuser)"
  using put_charbuf_ok put_bytebuf_ok put_raw_ok put_num_ok
  by (auto simp: put_param_def split: option.splits)

section \<open>What a partly filled event holds\<close>

definition arg_lens :: "mem \<Rightarrow> nat \<Rightarrow> nat \<Rightarrow> nat list" where
  "arg_lens m b n = map (\<lambda>i. load_le m (b + 2 * i) 2) [0..<n]"

fun split_params :: "mem \<Rightarrow> nat \<Rightarrow> nat list \<Rightarrow> byte list list" where
  "split_params m p [] = []"
| "split_params m p (l # ls) = mem_read m p l # split_params m (p + l) ls"

definition params_of :: "event_filler_arguments \<Rightarrow> byte list list" where
  "params_of a = split_params (fa_ring a) (fa_buffer a + 2 * unat (fa_nargs a))
     (arg_lens (fa_ring a) (fa_buffer a) (unat (fa_curarg a)))"

definition wf_args :: "event_filler_arguments \<Rightarrow> bool" where
  "wf_args a \<longleftrightarrow>
     unat (fa_curarg a) \<le> unat (fa_nargs a) \<and>
     unat (fa_arg_data_offset a) + unat (fa_arg_data_size a) = unat (fa_buffer_size a) \<and>
     unat (fa_arg_data_offset a) =
       2 * unat (fa_nargs a) + sum_list (arg_lens (fa_ring a) (fa_buffer a) (unat (fa_curarg a)))"

lemma length_split_params [simp]: "length (split_params m p ls) = length ls"
  by (induction m p ls rule: split_params.induct) auto

lemma split_params_append:
  "split_params m p (xs @ ys) = split_params m p xs @ split_params m (p + sum_list xs) ys"
  by (induction xs arbitrary: p) (auto simp: add.assoc)

lemma split_params_cong:
  "(\<And>i. p \<le> i \<Longrightarrow> i < p + sum_list ls \<Longrightarrow> m i = m' i) \<Longrightarrow> split_params m p ls = split_params m' p ls"
  by (induction ls arbitrary: p) (auto intro!: mem_read_cong)

lemma arg_lens_cong:
  "(\<And>i. b \<le> i \<Longrightarrow> i < b + 2 * n \<Longrightarrow> m i = m' i) \<Longrightarrow> arg_lens m b n = arg_lens m' b n"
  by (auto simp: arg_lens_def load_le_def intro!: arg_cong [where f = le_nat] mem_read_cong)

lemma arg_lens_Suc: "arg_lens m b (Suc n) = arg_lens m b n @ [load_le m (b + 2 * n) 2]"
  by (simp add: arg_lens_def)

lemma concat_split_params: "concat (split_params m p ls) = mem_read m p (sum_list ls)"
  by (induction ls arbitrary: p) (auto simp: mem_read_add)

section \<open>\<open>val_to_ring\<close>, one step\<close>

lemma max_arg_size_bounds:
  "unat (max_arg_size a) \<le> unat (fa_arg_data_size a)" "unat (max_arg_size a) \<le> 65000"
  "fa_arg_data_size a \<noteq> 0 \<Longrightarrow> 1 \<le> unat (max_arg_size a)"
  by (auto simp: max_arg_size_def word_le_nat_alt word_less_nat_alt ppm_consts unat_gt_0 Suc_le_eq)

lemma val_to_ring_cases:
  assumes "val_to_ring env tbl a val val_len fromuser dyn_idx = (r, a')"
  obtains (early) "r \<noteq> PPM_SUCCESS" and "a' = a"
  | (put) d t x len a1 a2 where "fa_curarg a < fa_nargs a" and "d = 0 \<or> d = 1"
      and "unat x + d \<le> unat (fa_arg_data_size a)" and "unat x + d \<le> 65000"
      and "a1 = start_param (d = 1) dyn_idx a"
      and "put_param env a1 t x val val_len fromuser = (r, len, a2)"
      and "a' = (if r \<noteq> PPM_SUCCESS then a2 else finish_param len a2)"
proof -
  define pi where "pi = cur_param tbl a"
  define dy where "dy \<longleftrightarrow> pi_type pi = PT_DYN \<and> pi_info pi \<noteq> INFO_NULL"
  define d :: nat where "d = (if dy then 1 else 0)"
  define x where "x = (if dy then max_arg_size a - 1 else max_arg_size a)"
  define t where "t = pi_type (if dy then dyn_param pi (unat dyn_idx) else pi)"
  obtain res len a2 where p: "put_param env (start_param dy dyn_idx a) t x val val_len fromuser = (res, len, a2)"
    using prod_cases3 by blast
  have run: "val_to_ring env tbl a val val_len fromuser dyn_idx =
    (if fa_nargs a \<le> fa_curarg a then (PPM_FAILURE_BUG, a)
     else if fa_arg_data_size a = 0 then (PPM_FAILURE_BUFFER_FULL, a)
     else if dy \<and> pi_ninfo pi \<le> unat dyn_idx then (PPM_FAILURE_BUG, a)
     else if res \<noteq> PPM_SUCCESS then (res, a2) else (PPM_SUCCESS, finish_param len a2))"
    unfolding val_to_ring_def Let_def pi_def [symmetric] dy_def [symmetric] x_def [symmetric] t_def [symmetric] p
    by simp
  show thesis
  proof (cases "fa_nargs a \<le> fa_curarg a \<or> fa_arg_data_size a = 0 \<or> (dy \<and> pi_ninfo pi \<le> unat dyn_idx)")
    case True
    with assms run early show ?thesis by (auto split: if_splits)
  next
    case False
    note b = max_arg_size_bounds [of a]
    have "unat x + d = unat (max_arg_size a)"
      using b(3) False by (auto simp: x_def d_def unat_sub word_le_nat_alt)
    moreover have "r = res" "a' = (if r \<noteq> PPM_SUCCESS then a2 else finish_param len a2)"
      using assms False unfolding run by (auto split: if_splits)
    ultimately show ?thesis
      using put [of d x "start_param dy dyn_idx a" t len a2] p b False by (auto simp: d_def)
  qed
qed

lemma put_okD:
  assumes "put_ok a x (r, len, a')"
  shows "a' = a\<lparr>fa_ring := fa_ring a'\<rparr>"
    and "same_outside (fa_ring a) (fa_ring a') (arg_dst a) (arg_dst a + unat x + 1)"
    and "r = PPM_SUCCESS \<Longrightarrow> len \<le> unat x"
  using assms by (auto simp: put_ok_def)

text \<open>A filler leaves everything but the ring memory and the four cursor fields alone.\<close>

definition same_static :: "event_filler_arguments \<Rightarrow> event_filler_arguments \<Rightarrow> bool" where
  "same_static a a' \<longleftrightarrow>
     a' = a\<lparr>fa_ring := fa_ring a', fa_curarg := fa_curarg a', fa_arg_data_offset := fa_arg_data_offset a',
            fa_arg_data_size := fa_arg_data_size a'\<rparr>"

lemma same_static_refl [simp]: "same_static a a"
  by (simp add: same_static_def)

lemma same_staticD:
  assumes "same_static a a'"
  shows "fa_buffer a' = fa_buffer a" "fa_buffer_size a' = fa_buffer_size a" "fa_nargs a' = fa_nargs a"
    "fa_event_type a' = fa_event_type a" "fa_consumer a' = fa_consumer a" "fa_regs a' = fa_regs a"
    "fa_kmem a' = fa_kmem a" "fa_is_socketcall a' = fa_is_socketcall a"
    "fa_socketcall_args a' = fa_socketcall_args a"
  using assms by (cases a; cases a'; simp add: same_static_def)+

lemma same_static_trans: "same_static a b \<Longrightarrow> same_static b c \<Longrightarrow> same_static a c"
  by (cases a; cases b; cases c) (simp add: same_static_def)

text \<open>
  What \<open>val_to_ring\<close> does to the arguments, with the words read as numbers: \<open>d\<close> is 1 when the
  parameter carries its dynamic type, \<open>len\<close> the length of the value.
\<close>

definition param_added :: "event_filler_arguments \<Rightarrow> event_filler_arguments \<Rightarrow> nat \<Rightarrow> bool" where
  "param_added a a' n \<longleftrightarrow>
     unat (fa_curarg a) < unat (fa_nargs a) \<and> fa_curarg a' = fa_curarg a + 1 \<and>
     n \<le> unat (fa_arg_data_size a) \<and> n \<le> 65000 \<and>
     fa_arg_data_offset a' = fa_arg_data_offset a + word_of_nat n \<and>
     fa_arg_data_size a' = fa_arg_data_size a - word_of_nat n \<and>
     load_le (fa_ring a') (psize a) 2 = n \<and>
     (\<forall>i. fa_buffer a \<le> i \<and> i < arg_dst a \<and> i \<noteq> psize a \<and> i \<noteq> psize a + 1 \<longrightarrow>
        fa_ring a' i = fa_ring a i)"

text \<open>The state between \<open>start_param\<close> and \<open>finish_param\<close>, with \<open>d\<close> bytes of type index written.\<close>

definition param_open :: "event_filler_arguments \<Rightarrow> event_filler_arguments \<Rightarrow> nat \<Rightarrow> bool" where
  "param_open a b d \<longleftrightarrow>
     same_static a b \<and> fa_curarg b = fa_curarg a \<and>
     fa_arg_data_offset b = fa_arg_data_offset a + word_of_nat d \<and>
     fa_arg_data_size b = fa_arg_data_size a - word_of_nat d \<and>
     load_le (fa_ring b) (psize a) 2 = d \<and>
     same_outside (fa_ring a) (fa_ring b) (fa_buffer a) (fa_buffer a + unat (fa_buffer_size a) + 1) \<and>
     (\<forall>i. fa_buffer a \<le> i \<and> i < arg_dst a \<and> i \<noteq> psize a \<and> i \<noteq> psize a + 1 \<longrightarrow>
        fa_ring b i = fa_ring a i)"

lemma wf_args_layout:
  assumes "wf_args a" and "fa_curarg a < fa_nargs a"
  shows "psize a + 2 \<le> arg_dst a" "fa_buffer a \<le> psize a"
    "arg_dst a + unat (fa_arg_data_size a) = fa_buffer a + unat (fa_buffer_size a)"
  using assms by (auto simp: wf_args_def psize_def arg_dst_def word_less_nat_alt)

lemma start_param_open:
  assumes "wf_args a" and "fa_curarg a < fa_nargs a" and "d = 0 \<or> d = 1" and "d \<le> unat (fa_arg_data_size a)"
  shows "param_open a (start_param (d = 1) i a) d"
proof -
  note lay = wf_args_layout [OF assms(1,2)]
  have "same_outside (fa_ring a) (fa_ring (start_param (d = 1) i a)) (fa_buffer a)
      (fa_buffer a + unat (fa_buffer_size a) + 1)"
    using lay assms(3,4)
    by (auto simp: start_param_def intro!: same_outside_store
          intro: same_outside_trans [OF same_outside_upd same_outside_store])
  with assms(3) show ?thesis
    by (auto simp: param_open_def start_param_def same_static_def le_simps mem_simps)
qed

lemma param_open_dst:
  assumes "wf_args a" and "param_open a b d" and "d \<le> unat (fa_arg_data_size a)"
  shows "arg_dst b = arg_dst a + d"
proof -
  have "unat (word_of_nat d :: u32) = d"
    using assms(3) u32_less [of "fa_arg_data_size a"] by (simp add: unat_of_nat)
  then have "unat (fa_arg_data_offset a + word_of_nat d) = unat (fa_arg_data_offset a) + d"
    using assms(1,3) u32_less [of "fa_buffer_size a"] by (simp add: wf_args_def unat_add_lt)
  then show ?thesis
    using assms(2) by (simp add: param_open_def arg_dst_def same_staticD)
qed

lemma put_param_open:
  assumes "wf_args a" and "fa_curarg a < fa_nargs a" and op: "param_open a b d"
    and ok: "put_ok b x (r, len, c)" and x: "unat x + d \<le> unat (fa_arg_data_size a)"
  shows "param_open a c d"
proof -
  note lay = wf_args_layout [OF assms(1,2)]
  note dst = param_open_dst [OF assms(1) op]
  have c: "c = b\<lparr>fa_ring := fa_ring c\<rparr>"
    and fr: "same_outside (fa_ring b) (fa_ring c) (arg_dst b) (arg_dst b + unat x + 1)"
    using put_okD [OF ok] by auto
  have st: "same_static b c" "fa_curarg c = fa_curarg b" "fa_arg_data_offset c = fa_arg_data_offset b"
    "fa_arg_data_size c = fa_arg_data_size b"
    using c by (cases b; cases c; simp add: same_static_def)+
  have "load_le (fa_ring c) (psize a) 2 = load_le (fa_ring b) (psize a) 2"
    using lay dst x by (intro same_outside_load [OF fr]) auto
  moreover have "same_outside (fa_ring b) (fa_ring c) (fa_buffer a) (fa_buffer a + unat (fa_buffer_size a) + 1)"
    by (rule same_outside_mono [OF fr]) (use lay dst x in auto)
  moreover have "fa_ring c i = fa_ring b i" if "i < arg_dst a" for i
    using fr dst x that by (simp add: same_outside_def)
  ultimately show ?thesis
    using op st by (auto simp: param_open_def intro: same_static_trans same_outside_trans)
qed

lemma finish_param_added:
  assumes "wf_args a" and "fa_curarg a < fa_nargs a" and op: "param_open a b d"
    and n: "d + len \<le> unat (fa_arg_data_size a)" "d + len \<le> 65000"
  shows "param_added a (finish_param len b) (d + len)"
    and "same_static a (finish_param len b)"
    and "same_outside (fa_ring a) (fa_ring (finish_param len b)) (fa_buffer a)
           (fa_buffer a + unat (fa_buffer_size a) + 1)"
proof -
  note lay = wf_args_layout [OF assms(1,2)]
  have ps: "psize b = psize a" and ld: "load_le (fa_ring b) (psize a) 2 = d"
    and st: "same_static a b"
    using op by (auto simp: param_open_def psize_def same_staticD)
  show "same_static a (finish_param len b)"
    using st by (rule same_static_trans) (simp add: same_static_def finish_param_def)
  show "same_outside (fa_ring a) (fa_ring (finish_param len b)) (fa_buffer a)
           (fa_buffer a + unat (fa_buffer_size a) + 1)"
    using op lay by (auto simp: param_open_def finish_param_def ps
        intro: same_outside_trans [OF _ same_outside_store])
  show "param_added a (finish_param len b) (d + len)"
    using op n assms(2)
    by (simp add: param_added_def param_open_def finish_param_def ps ld le_simps mem_simps word_less_nat_alt)
qed

lemma val_to_ring_shape:
  assumes wf: "wf_args a"
    and run: "val_to_ring env tbl a val val_len fromuser dyn_idx = (r, a')"
  shows "same_static a a' \<and>
    same_outside (fa_ring a) (fa_ring a') (fa_buffer a) (fa_buffer a + unat (fa_buffer_size a) + 1) \<and>
    (r = PPM_SUCCESS \<longrightarrow> (\<exists>n. param_added a a' n))"
  using run
proof (cases rule: val_to_ring_cases)
  case early
  then show ?thesis by simp
next
  case (put d t x len a1 a2)
  have ok: "put_ok a1 x (r, len, a2)"
    using put_param_ok [of a1 x env t val val_len fromuser] put(6) by simp
  have "param_open a a1 d"
    unfolding put(5) by (rule start_param_open [OF wf put(1,2)]) (use put(3) in simp)
  then have op: "param_open a a2 d"
    using ok put(3) by (rule put_param_open [OF wf put(1)])
  show ?thesis
  proof (cases "r = PPM_SUCCESS")
    case False
    with put(7) op show ?thesis by (simp add: param_open_def)
  next
    case True
    with put_okD(3) [OF ok] put(3,4) have "d + len \<le> unat (fa_arg_data_size a)" "d + len \<le> 65000"
      by auto
    from finish_param_added [OF wf put(1) op this] True put(7) show ?thesis by auto
  qed
qed

lemmas val_to_ring_static = val_to_ring_shape [THEN conjunct1]
  and val_to_ring_frame = val_to_ring_shape [THEN conjunct2, THEN conjunct1]
  and val_to_ring_added = val_to_ring_shape [THEN conjunct2, THEN conjunct2, rule_format]

lemma param_added_wf:
  assumes wf: "wf_args a" and st: "same_static a a'" and ad: "param_added a a' n"
  shows "wf_args a'" and "params_of a' = params_of a @ [mem_read (fa_ring a') (arg_dst a) n]"
proof -
  note [simp] = same_staticD [OF st]
  let ?b = "fa_buffer a" and ?c = "unat (fa_curarg a)" and ?n = "unat (fa_nargs a)"
  let ?lens = "arg_lens (fa_ring a) ?b ?c"
  have cur: "?c < ?n" and n: "n \<le> unat (fa_arg_data_size a)"
    and ld: "load_le (fa_ring a') (psize a) 2 = n"
    and keep: "\<And>i. ?b \<le> i \<Longrightarrow> i < arg_dst a \<Longrightarrow> i \<noteq> psize a \<Longrightarrow> i \<noteq> psize a + 1 \<Longrightarrow> fa_ring a i = fa_ring a' i"
    using ad by (auto simp: param_added_def)
  have off: "unat (fa_arg_data_offset a) + unat (fa_arg_data_size a) = unat (fa_buffer_size a)"
    and offs: "unat (fa_arg_data_offset a) = 2 * ?n + sum_list ?lens"
    using wf by (auto simp: wf_args_def)
  have c': "unat (fa_curarg a') = Suc ?c"
    using ad cur u32_less [of "fa_nargs a"] by (simp add: param_added_def unat_word_ariths)
  have n32: "unat (word_of_nat n :: u32) = n"
    using n u32_less [of "fa_arg_data_size a"] by (simp add: unat_of_nat)
  have o': "unat (fa_arg_data_offset a') = unat (fa_arg_data_offset a) + n"
    using ad n off u32_less [of "fa_buffer_size a"] n32 by (simp add: param_added_def unat_add_lt)
  have s': "unat (fa_arg_data_size a') = unat (fa_arg_data_size a) - n"
    using ad n n32 by (simp add: param_added_def unat_sub_le word_le_nat_alt)
  have "arg_lens (fa_ring a') ?b ?c = ?lens"
    by (rule arg_lens_cong [symmetric], rule keep) (use cur offs in \<open>auto simp: arg_dst_def psize_def\<close>)
  then have lens': "arg_lens (fa_ring a') ?b (Suc ?c) = ?lens @ [n]"
    using ld by (simp add: arg_lens_Suc psize_def)
  show "wf_args a'"
    using cur off offs n c' o' s' lens' by (simp add: wf_args_def)
  have "split_params (fa_ring a') (?b + 2 * ?n) ?lens = split_params (fa_ring a) (?b + 2 * ?n) ?lens"
    by (rule split_params_cong [symmetric], rule keep) (use cur offs in \<open>auto simp: arg_dst_def psize_def\<close>)
  then show "params_of a' = params_of a @ [mem_read (fa_ring a') (arg_dst a) n]"
    using c' lens' offs by (simp add: params_of_def split_params_append arg_dst_def add.assoc)
qed

lemma val_to_ring_success:
  assumes "wf_args a"
    and "val_to_ring env tbl a val val_len fromuser dyn_idx = (PPM_SUCCESS, a')"
  shows "wf_args a'" and "same_static a a'" and "fa_curarg a' = fa_curarg a + 1"
    and "\<exists>p. params_of a' = params_of a @ [p] \<and> length p \<le> 65000"
proof -
  have st: "same_static a a'"
    using val_to_ring_static [OF assms] .
  obtain n where ad: "param_added a a' n"
    using val_to_ring_added [OF assms] by blast
  show "same_static a a'" by (rule st)
  show "fa_curarg a' = fa_curarg a + 1" using ad by (simp add: param_added_def)
  show "wf_args a'" using param_added_wf(1) [OF assms(1) st ad] .
  show "\<exists>p. params_of a' = params_of a @ [p] \<and> length p \<le> 65000"
    using param_added_wf(2) [OF assms(1) st ad] ad by (auto simp: param_added_def)
qed

section \<open>What the added parameter holds\<close>

lemma val_to_ring_plain:
  assumes "pi_type (cur_param tbl a) \<noteq> PT_DYN" and "fa_curarg a < fa_nargs a" and "fa_arg_data_size a \<noteq> 0"
  shows "val_to_ring env tbl a val val_len fromuser dyn_idx =
    (case put_param env (start_param False dyn_idx a) (pi_type (cur_param tbl a)) (max_arg_size a)
            val val_len fromuser of
       (r, len, a2) \<Rightarrow> if r = PPM_SUCCESS then (PPM_SUCCESS, finish_param len a2) else (r, a2))"
  using assms by (simp add: val_to_ring_def Let_def linorder_not_le [symmetric] split: prod.split)

lemma val_to_ring_content:
  assumes wf: "wf_args a"
    and t: "pi_type (cur_param tbl a) = t" "t \<noteq> PT_DYN"
    and fits: "fa_curarg a < fa_nargs a" "fa_arg_data_size a \<noteq> 0"
    and put: "put_param env (start_param False dyn_idx a) t (max_arg_size a) val val_len fromuser
                = (PPM_SUCCESS, len, a2)"
  shows "\<exists>a'. val_to_ring env tbl a val val_len fromuser dyn_idx = (PPM_SUCCESS, a') \<and> wf_args a' \<and>
    params_of a' = params_of a @ [mem_read (fa_ring a2) (arg_dst a) len]"
proof -
  note lay = wf_args_layout [OF wf fits(1)]
  note mx = max_arg_size_bounds [of a]
  have op: "param_open a (start_param False dyn_idx a) 0"
    using start_param_open [OF wf fits(1), of 0 dyn_idx] by simp
  have ok: "put_ok (start_param False dyn_idx a) (max_arg_size a) (PPM_SUCCESS, len, a2)"
    using put_param_ok [of "start_param False dyn_idx a" "max_arg_size a" env t val val_len fromuser] put
    by simp
  have op2: "param_open a a2 0"
    using put_param_open [OF wf fits(1) op ok] mx by simp
  have len: "0 + len \<le> unat (fa_arg_data_size a)" "0 + len \<le> 65000"
    using put_okD(3) [OF ok] mx by auto
  note fin = finish_param_added [OF wf fits(1) op2 len]
  have "psize a2 = psize a"
    using op2 by (simp add: param_open_def psize_def same_staticD)
  then have "mem_read (fa_ring (finish_param len a2)) (arg_dst a) len = mem_read (fa_ring a2) (arg_dst a) len"
    using lay by (simp add: finish_param_def mem_simps)
  then show ?thesis
    using param_added_wf [OF wf fin(2,1)] put by (simp add: val_to_ring_plain t fits)
qed

lemma start_param_plain:
  assumes "wf_args a" and "fa_curarg a < fa_nargs a"
  shows "arg_dst (start_param False i a) = arg_dst a"
  by (simp add: start_param_def arg_dst_def)

section \<open>Readable user memory\<close>

text \<open>
  \<open>readable env um from n\<close>: the \<open>n\<close> bytes at user address \<open>from\<close> are mapped and hold
  \<open>um 0 \<dots> um (n - 1)\<close>, so that a copy of any part of them is complete.
\<close>

definition readable :: "kernel_env \<Rightarrow> mem \<Rightarrow> u64 \<Rightarrow> nat \<Rightarrow> bool" where
  "readable env um from n \<longleftrightarrow>
     (\<forall>i k. i + k \<le> n \<longrightarrow> access_ok env (from + word_of_nat i) k \<and>
        copy_inatomic env (from + word_of_nat i) k = mem_read um i k)"

lemma mem_read_shift: "mem_read (\<lambda>i. m (j + i)) k n = mem_read m (j + k) n"
  by (rule nth_equalityI) (auto simp: add.assoc)

lemma readable_copy:
  assumes "readable env um from n" and "i + k \<le> n"
  shows "ppm_copy_from_user env m to (from + word_of_nat i) k = (0, mem_write m to (mem_read um i k))"
  using assms by (simp add: readable_def ppm_copy_from_user_def)

lemma readable_shift:
  assumes "readable env um from n" and "j \<le> n"
  shows "readable env (\<lambda>i. um (j + i)) (from + word_of_nat j) (n - j)"
  unfolding readable_def
proof (intro allI impI)
  fix i k assume "i + k \<le> n - j"
  then show "access_ok env (from + word_of_nat j + word_of_nat i) k \<and>
      copy_inatomic env (from + word_of_nat j + word_of_nat i) k = mem_read (\<lambda>i. um (j + i)) i k"
    using assms(1) [unfolded readable_def, rule_format, of "j + i" k] assms(2) by (simp add: add.assoc mem_read_shift)
qed

lemma scan_nul_first:
  "k < n \<Longrightarrow> m (to + k) = 0 \<Longrightarrow> (\<And>i. i < k \<Longrightarrow> m (to + i) \<noteq> 0) \<Longrightarrow> scan_nul m to n = Some (Suc k)"
proof (induction m to n arbitrary: k rule: scan_nul.induct)
  case (2 m to n)
  show ?case
  proof (cases k)
    case 0
    with 2 show ?thesis by simp
  next
    case (Suc k')
    have "scan_nul m (Suc to) n = Some (Suc k')"
      using Suc 2(2,3) 2(4) [of "Suc _"] 2(4) [of 0] by (intro 2(1)) auto
    with Suc 2(4) [of 0] show ?thesis by simp
  qed
qed simp

lemma scan_nul_nowhere:
  "(\<And>i. i < n \<Longrightarrow> m (to + i) \<noteq> 0) \<Longrightarrow> scan_nul m to n = None"
proof (induction m to n rule: scan_nul.induct)
  case (2 m to n)
  have "scan_nul m (Suc to) n = None"
    using 2(2) [of "Suc _"] 2(2) [of 0] by (intro 2(1)) auto
  with 2(2) [of 0] show ?case by simp
qed simp

lemma scan_nul_cong:
  "(\<And>i. i < n \<Longrightarrow> m (to + i) = m' (to' + i)) \<Longrightarrow> scan_nul m to n = scan_nul m' to' n"
proof (induction n arbitrary: to to')
  case (Suc n)
  have "scan_nul m (Suc to) n = scan_nul m' (Suc to') n"
    using Suc.prems [of "Suc _"] by (intro Suc.IH) auto
  with Suc.prems [of 0] show ?case by simp
qed simp

lemma strncpy_loop_readable:
  assumes "readable env um from n" and "n \<noteq> 0"
  shows "strncpy_loop env m to from n l =
    (let c = min n 4; m' = mem_write m to (mem_read um 0 c) in
     case scan_nul um 0 c of Some j \<Rightarrow> (int (l + j), m')
     | None \<Rightarrow> strncpy_loop env m' (to + c) (from + word_of_nat c) (n - c) (l + c))"
proof -
  let ?c = "min n 4"
  have cp: "access_ok env from ?c" "copy_inatomic env from ?c = mem_read um 0 ?c"
    using assms(1) [unfolded readable_def, rule_format, of 0 ?c] by auto
  have "scan_nul (mem_write m to (mem_read um 0 ?c)) to ?c = scan_nul um 0 ?c"
    by (rule scan_nul_cong) (simp add: mem_write_def)
  then show ?thesis
    using assms(2) cp by (subst strncpy_loop.simps) (simp add: Let_def)
qed

lemma strncpy_loop_exact:
  assumes "readable env um from n" and "k < n" and "um k = 0" and "\<And>i. i < k \<Longrightarrow> um i \<noteq> 0"
  shows "\<exists>m'. strncpy_loop env m to from n l = (int (l + Suc k), m') \<and>
           mem_read m' to (Suc k) = mem_read um 0 (Suc k)"
  using assms
proof (induction n arbitrary: m to "from" l um k rule: less_induct)
  case (less n)
  let ?c = "min n 4"
  let ?m = "mem_write m to (mem_read um 0 ?c)"
  show ?case
  proof (cases "k < ?c")
    case True
    have sc: "scan_nul um 0 ?c = Some (Suc k)"
      by (rule scan_nul_first) (use True less.prems in auto)
    have "mem_read ?m to (Suc k) = mem_read um 0 (Suc k)"
      by (rule nth_equalityI) (use True in \<open>auto simp: mem_write_def\<close>)
    then show ?thesis
      using less.prems(2) sc by (simp add: strncpy_loop_readable [OF less.prems(1)] Let_def)
  next
    case False
    have sc: "scan_nul um 0 ?c = None"
      by (rule scan_nul_nowhere) (use False less.prems in auto)
    obtain m' where m': "strncpy_loop env ?m (to + ?c) (from + word_of_nat ?c) (n - ?c) (l + ?c)
          = (int (l + ?c + Suc (k - ?c)), m')"
        "mem_read m' (to + ?c) (Suc (k - ?c)) = mem_read (\<lambda>i. um (?c + i)) 0 (Suc (k - ?c))"
      using less.IH [of "n - ?c" "\<lambda>i. um (?c + i)" "from + word_of_nat ?c" "k - ?c" ?m "to + ?c" "l + ?c",
          OF _ readable_shift [OF less.prems(1)]] less.prems False
      by (auto simp: less_diff_conv)
    have "mem_read m' to (?c + Suc (k - ?c)) = mem_read um 0 (?c + Suc (k - ?c))"
      using strncpy_loop_frame [OF m'(1)] m'(2) False
      unfolding mem_read_add
      by (simp add: same_outside_read [where lo = "to + ?c"] mem_simps mem_read_shift)
    then show ?thesis
      using less.prems(2) sc m'(1) False
      by (simp add: strncpy_loop_readable [OF less.prems(1)] Let_def)
  qed
qed

lemma strncpy_loop_too_long:
  assumes "readable env um from n" and "\<And>i. i < n \<Longrightarrow> um i \<noteq> 0"
  shows "\<exists>m'. strncpy_loop env m to from n l = (-1, m')"
  using assms
proof (induction n arbitrary: m to "from" l um rule: less_induct)
  case (less n)
  let ?c = "min n 4"
  let ?m = "mem_write m to (mem_read um 0 ?c)"
  show ?case
  proof (cases "n = 0")
    case True
    then show ?thesis by (simp add: strncpy_loop.simps)
  next
    case False
    have "scan_nul um 0 ?c = None"
      by (rule scan_nul_nowhere) (use less.prems in auto)
    moreover have "\<exists>m'. strncpy_loop env ?m (to + ?c) (from + word_of_nat ?c) (n - ?c) (l + ?c) = (-1, m')"
      using less.IH [of "n - ?c" "\<lambda>i. um (?c + i)" "from + word_of_nat ?c" ?m "to + ?c" "l + ?c",
          OF _ readable_shift [OF less.prems(1)]] less.prems(2) False
      by auto
    ultimately show ?thesis
      using False by (simp add: strncpy_loop_readable [OF less.prems(1)] Let_def)
  qed
qed

lemma start_param_False [simp]:
  "arg_dst (start_param False i a) = arg_dst a"
  "fa_consumer (start_param False i a) = fa_consumer a"
  "fa_enforce_snaplen (start_param False i a) = fa_enforce_snaplen a"
  by (simp_all add: start_param_def arg_dst_def)

lemma read_write_prefix [mem_simps]:
  "k \<le> n \<Longrightarrow> mem_read (mem_write m a (mem_read um j n)) a k = mem_read um j k"
  by (rule nth_equalityI) (auto simp: mem_write_def)

lemma read_write_two:
  "j \<le> n \<Longrightarrow> mem_read (mem_write (mem_write m a (mem_read um 0 j)) (a + j) (mem_read um j (n - j))) a n
     = mem_read um 0 n"
  by (rule nth_equalityI) (auto simp: mem_write_def)

lemma ucast_16: "ucast DPI_LOOKAHEAD_SIZE = (word_of_nat 16 :: u64)"
  by (simp add: ppm_consts)

lemma num_size_kinds:
  assumes "num_size t = Some n"
  shows "t \<noteq> PT_DYN" "1 \<le> n" "n \<le> 8"
    "put_param env a t x val val_len fromuser = put_num a x n val"
  using assms by (auto simp: num_size_def put_param_def split: if_splits)

lemma max_arg_size_ge: "n \<le> 65000 \<Longrightarrow> n \<le> unat (max_arg_size a) \<longleftrightarrow> n \<le> unat (fa_arg_data_size a)"
  by (auto simp: max_arg_size_def word_less_nat_alt ppm_consts)

lemma put_charbuf_user_exact:
  assumes "readable env um val (unat x)" and "val \<noteq> 0"
    and "k < unat x" and "um k = 0" and "\<And>i. i < k \<Longrightarrow> um i \<noteq> 0"
  obtains a2 where "put_charbuf env a x val True = (PPM_SUCCESS, Suc k, a2)"
    and "mem_read (fa_ring a2) (arg_dst a) (Suc k) = mem_read um 0 (Suc k)"
proof -
  obtain m' where m': "strncpy_loop env (fa_ring a) (arg_dst a) val (unat x) 0 = (int (Suc k), m')"
      "mem_read m' (arg_dst a) (Suc k) = mem_read um 0 (Suc k)"
    using strncpy_loop_exact [OF assms(1,3,4,5), of "fa_ring a" "arg_dst a" 0] by auto
  have "mem_read (m'(arg_dst a + Suc k := 0)) (arg_dst a) (Suc k) = mem_read m' (arg_dst a) (Suc k)"
    by (rule mem_read_cong) simp
  with m' that show thesis
    using assms(2) by (auto simp: put_charbuf_def ppm_strncpy_from_user_def nat_add_distrib)
qed

lemma choice_mem:
  "x \<in> S \<Longrightarrow> y \<in> S \<Longrightarrow> (if P then x else y) \<in> S"
  "x \<in> S \<Longrightarrow> (\<And>v. f v \<in> S) \<Longrightarrow> (case w of None \<Rightarrow> x | Some v \<Rightarrow> f v) \<in> S"
  "(\<And>u v. g u v \<in> S) \<Longrightarrow> (case p of (u, v) \<Rightarrow> g u v) \<in> S"
  by (auto split: option.split prod.split)

lemma snaplen_ports_values:
  "res \<in> S \<Longrightarrow> dyn \<in> S \<Longrightarrow> RW_MAX_FULLCAPTURE_PORT_SNAPLEN \<in> S \<Longrightarrow> snaplen_ports c res dyn sp dp b k \<in> S"
  unfolding snaplen_ports_def Let_def by (intro choice_mem) assumption+

lemma compute_snaplen_values:
  "compute_snaplen env a buf n \<in>
     {c_snaplen (fa_consumer a), max 2000 (c_snaplen (fa_consumer a)), RW_SNAPLEN_EVENT,
      RW_MAX_FULLCAPTURE_PORT_SNAPLEN}"
proof -
  have mx: "(if x > 2000 then x else 2000) = max 2000 x" for x :: u32
    by (auto simp: max_def)
  show ?thesis
    unfolding compute_snaplen_def Let_def mx by (intro choice_mem snaplen_ports_values) simp_all
qed

lemma put_bytebuf_user_exact:
  assumes "readable env um val (unat val_len)" and "val \<noteq> 0" and "16 < unat x"
  shows "\<exists>k a2. put_bytebuf env a x val val_len True = (PPM_SUCCESS, k, a2) \<and>
    mem_read (fa_ring a2) (arg_dst a) k = mem_read um 0 k \<and> k \<le> unat val_len \<and>
    (val_len \<le> DPI_LOOKAHEAD_SIZE \<longrightarrow> k = unat val_len) \<and>
    (DPI_LOOKAHEAD_SIZE < val_len \<longrightarrow> k = unat (bytebuf_len env
       (a\<lparr>fa_ring := mem_write (fa_ring a) (arg_dst a) (mem_read um 0 16)\<rparr>) DPI_LOOKAHEAD_SIZE x val_len))"
proof (cases "val_len \<le> DPI_LOOKAHEAD_SIZE")
  case True
  then have look: "(if DPI_LOOKAHEAD_SIZE > val_len then val_len else DPI_LOOKAHEAD_SIZE) = val_len"
    by auto
  have "\<not> x \<le> val_len"
    using True assms(3) by (simp add: word_le_nat_alt ppm_consts)
  then show ?thesis
    using readable_copy [OF assms(1), of 0 "unat val_len" "fa_ring a" "arg_dst a"] assms(2) True
    by (simp add: put_bytebuf_def look mem_simps leD [OF True])
next
  case False
  define m1 where "m1 = mem_write (fa_ring a) (arg_dst a) (mem_read um 0 16)"
  define vl where "vl = bytebuf_len env (a\<lparr>fa_ring := m1\<rparr>) DPI_LOOKAHEAD_SIZE x val_len"
  let ?m2 = "mem_write m1 (arg_dst a + 16) (mem_read um 16 (unat vl - 16))"
  have gt: "16 < unat val_len" "unat DPI_LOOKAHEAD_SIZE = 16"
    using False by (auto simp: word_le_nat_alt ppm_consts)
  have le: "unat vl \<le> unat val_len"
    by (auto simp: vl_def bytebuf_len_def Let_def word_le_nat_alt word_less_nat_alt)
  have look: "(if DPI_LOOKAHEAD_SIZE > val_len then val_len else DPI_LOOKAHEAD_SIZE) = DPI_LOOKAHEAD_SIZE"
    using False by auto
  have cp1: "ppm_copy_from_user env (fa_ring a) (arg_dst a) val 16 = (0, m1)"
    using readable_copy [OF assms(1), of 0 16 "fa_ring a" "arg_dst a"] gt by (simp add: m1_def)
  have "\<not> x \<le> DPI_LOOKAHEAD_SIZE" "DPI_LOOKAHEAD_SIZE \<noteq> val_len"
    using assms(3) gt by (auto simp: word_le_nat_alt)
  then have run: "put_bytebuf env a x val val_len True =
    (if vl > DPI_LOOKAHEAD_SIZE
     then (case ppm_copy_from_user env m1 (arg_dst a + 16) (val + ucast DPI_LOOKAHEAD_SIZE)
              (unat (vl - DPI_LOOKAHEAD_SIZE)) of
       (n2, m2) \<Rightarrow> if n2 \<noteq> 0 then (PPM_FAILURE_INVALID_USER_MEMORY, 0, a\<lparr>fa_ring := m2\<rparr>)
         else (PPM_SUCCESS, unat vl, a\<lparr>fa_ring := m2\<rparr>))
     else (PPM_SUCCESS, unat vl, a\<lparr>fa_ring := m1\<rparr>))"
    unfolding put_bytebuf_def look Let_def gt(2) cp1 prod.case vl_def [symmetric]
    using assms(2) by (simp only: if_True if_False simp_thms)
  have "\<exists>a2. put_bytebuf env a x val val_len True = (PPM_SUCCESS, unat vl, a2) \<and>
      mem_read (fa_ring a2) (arg_dst a) (unat vl) = mem_read um 0 (unat vl)"
  proof (cases "DPI_LOOKAHEAD_SIZE < vl")
    case True
    then have n: "unat (vl - DPI_LOOKAHEAD_SIZE) = unat vl - 16" "16 < unat vl"
      using unat_sub_le [OF less_imp_le [OF True]] gt by (auto simp: word_less_nat_alt)
    have "ppm_copy_from_user env m1 (arg_dst a + 16) (val + ucast DPI_LOOKAHEAD_SIZE) (unat vl - 16) = (0, ?m2)"
      unfolding ucast_16 using readable_copy [OF assms(1), of 16 "unat vl - 16"] n le by simp
    moreover have "mem_read ?m2 (arg_dst a) (unat vl) = mem_read um 0 (unat vl)"
      unfolding m1_def by (rule read_write_two) (use n in simp)
    ultimately show ?thesis
      unfolding run n(1) using True by simp
  next
    case short: False
    then have "mem_read m1 (arg_dst a) (unat vl) = mem_read um 0 (unat vl)"
      using gt by (simp add: m1_def mem_simps word_less_nat_alt)
    then show ?thesis
      unfolding run using short by simp
  qed
  then show ?thesis
    using le False unfolding vl_def m1_def by blast
qed

section \<open>A concrete environment\<close>

text \<open>
  An instance for the examples below: the user memory at address 4096 holds \<open>abc\<close> followed by
  zeros, there are no sockets, and the event under construction has room for 198 bytes of data.
\<close>

definition demo_um :: mem where
  "demo_um i = (if i < 3 then word_of_nat (97 + i) else 0)"

definition demo_env :: kernel_env where
  "demo_env = \<lparr>access_ok = \<lambda>_ _. True, copy_raw = \<lambda>a n. mem_read demo_um (unat a - 4096) n,
     kstr = \<lambda>_. [], fd_is_null_dev = \<lambda>_. False, g_tracers_enabled = False,
     sockfd_lookup = \<lambda>_. None, stack_sock = \<lambda>_. 0, stack_peer = \<lambda>_. 0\<rparr>"

definition demo_ring :: ppm_ring_buffer_context where
  "demo_ring = \<lparr>rc_cpu_online = True, rc_open = True, rc_capture_enabled = True,
     rc_info = Some \<lparr>rb_head = 0, rb_tail = 0, n_evts = 0, n_drops_buffer = 0, n_drops_pf = 0,
       n_preemptions = 0, n_context_switches = 0\<rparr>,
     rc_buffer = Some (\<lambda>_. 0), rc_last_print_time = 0, rc_nevents = 0, rc_preempt_count = 0,
     rc_str_storage = Some 0\<rparr>"

definition demo_consumer :: ppm_consumer_t where
  "demo_consumer = \<lparr>c_consumer_id = 1, c_ring_buffers = \<lambda>_. demo_ring, c_snaplen = 80,
     c_sampling_ratio = 1, c_do_dynamic_snaplen = False, c_sampling_interval = 0, c_is_dropping = 0,
     c_dropping_mode = 0, c_need_to_insert_drop_e = 0, c_need_to_insert_drop_x = 0,
     c_fullcapture_port_range_start = 0, c_fullcapture_port_range_end = 0, c_statsd_port = 8125\<rparr>"

definition demo_args :: event_filler_arguments where
  "demo_args = \<lparr>fa_ring = \<lambda>_. 0, fa_buffer = 100, fa_buffer_size = 200, fa_curarg = 0, fa_nargs = 1,
     fa_arg_data_offset = 2, fa_arg_data_size = 198, fa_event_type = 0, fa_consumer = demo_consumer,
     fa_kmem = \<lambda>_. 0, fa_str_storage = 0, fa_regs = \<lparr>r_args = \<lambda>_. 0, r_ret = 0\<rparr>, fa_syscall_id = 0,
     fa_routing = None, fa_is_socketcall = False, fa_socketcall_args = \<lambda>_. 0, fa_socketcall_syscall = -1, fa_compat = False, fa_fd = 0,
     fa_enforce_snaplen = True, fa_sched_prev = 0, fa_sched_next = 0, fa_signo = 0, fa_spid = 0,
     fa_dpid = 0, fa_nevents = 0, fa_fault_address = 0, fa_fault_error = 0, fa_skb = 0, fa_sk = 0, fa_dev = 0\<rparr>"

definition demo_tbl :: "ppm_param_type \<Rightarrow> event_table" where
  "demo_tbl t = (\<lambda>_. \<lparr>ei_name = ''demo'', ei_category = 0, ei_flags = 0, ei_nparams = 1,
     ei_params = [ParamInfo ''p'' t PF_NA INFO_NULL 0]\<rparr>)"

lemma demo_env_readable: "n \<le> 1000 \<Longrightarrow> readable demo_env demo_um 4096 n"
  by (simp add: readable_def copy_inatomic_def demo_env_def unat_word_ariths unat_of_nat)

lemma demo_args_wf: "wf_args demo_args"
  by (simp add: wf_args_def demo_args_def arg_lens_def)

lemma demo_cur_param: "pi_type (cur_param (demo_tbl t) demo_args) = t"
  by (simp add: cur_param_def demo_tbl_def demo_args_def param_at_def)

section \<open>Properties of \<open>val_to_ring\<close>\<close>

text \<open>
  C15. Whatever the parameter, its type, the user's memory and the outcome, \<open>val_to_ring\<close> writes
  only inside the buffer of the event being built (its length array and data area) and at most
  one byte past it, and leaves every field of the arguments but the running position alone.
\<close>

theorem val_to_ring_stays_inside:
  assumes "wf_args a"
    and "val_to_ring env tbl a val val_len fromuser dyn_idx = (r, a')"
  shows "same_outside (fa_ring a) (fa_ring a') (fa_buffer a) (fa_buffer a + unat (fa_buffer_size a) + 1)
    \<and> same_static a a'"
  using val_to_ring_frame [OF assms] val_to_ring_static [OF assms] by blast

theorem val_to_ring_stays_inside_witness:
  "same_outside (fa_ring demo_args) (fa_ring (snd (val_to_ring demo_env (demo_tbl PT_CHARBUF) demo_args 4096 0 True 0)))
     100 301"
  using val_to_ring_stays_inside [OF demo_args_wf surjective_pairing,
      of demo_env "demo_tbl PT_CHARBUF" 4096 0 True 0]
  by (simp add: demo_args_def)

text \<open>
  C1. Refinement: read back as a list of parameters, the event grows by exactly one element when
  \<open>val_to_ring\<close> succeeds; the parameters already there are untouched, the new one is at most
  65000 bytes, and the arguments are well formed for the next call.
\<close>

theorem val_to_ring_appends:
  assumes "wf_args a"
    and "val_to_ring env tbl a val val_len fromuser dyn_idx = (PPM_SUCCESS, a')"
  shows "wf_args a' \<and> fa_curarg a' = fa_curarg a + 1 \<and>
    (\<exists>p. params_of a' = params_of a @ [p] \<and> length p \<le> 65000)"
  using val_to_ring_success [OF assms] by blast

theorem val_to_ring_appends_witness:
  "\<exists>a'. val_to_ring demo_env (demo_tbl PT_UINT8) demo_args 7 0 False 0 = (PPM_SUCCESS, a') \<and>
     wf_args a' \<and> (\<exists>p. params_of a' = params_of demo_args @ [p] \<and> length p \<le> 65000)"
proof -
  let ?b = "start_param False 0 demo_args"
  have "put_param demo_env ?b PT_UINT8 (max_arg_size demo_args) 7 0 False
      = (PPM_SUCCESS, 1, ?b\<lparr>fa_ring := store_le (fa_ring ?b) (arg_dst ?b) 1 7\<rparr>)"
    by (simp add: put_param_def num_size_def put_num_def max_arg_size_def demo_args_def ppm_consts)
  from val_to_ring_content [OF demo_args_wf demo_cur_param _ _ _ this]
  obtain a' where a': "val_to_ring demo_env (demo_tbl PT_UINT8) demo_args 7 0 False 0 = (PPM_SUCCESS, a')"
    by (auto simp: demo_args_def)
  with val_to_ring_appends [OF demo_args_wf a'] show ?thesis by blast
qed

text \<open>
  C16. A parameter of an integer type is stored when and only when its bytes fit in the space
  left; the parameter recorded is then the little-endian encoding of the value, and otherwise
  the result is \<open>PPM_FAILURE_BUFFER_FULL\<close>.
\<close>

theorem val_to_ring_number:
  assumes "wf_args a" and "fa_curarg a < fa_nargs a"
    and "num_size (pi_type (cur_param tbl a)) = Some n"
  shows "if n \<le> unat (fa_arg_data_size a)
    then \<exists>a'. val_to_ring env tbl a val val_len fromuser dyn_idx = (PPM_SUCCESS, a') \<and> wf_args a' \<and>
           params_of a' = params_of a @ [le_bytes n (unat val)]
    else fst (val_to_ring env tbl a val val_len fromuser dyn_idx) = PPM_FAILURE_BUFFER_FULL"
proof -
  note k = num_size_kinds [OF assms(3)]
  let ?b = "start_param False dyn_idx a"
  have fits: "n \<le> unat (max_arg_size a) \<longleftrightarrow> n \<le> unat (fa_arg_data_size a)"
    by (rule max_arg_size_ge) (use k(3) in simp)
  show ?thesis
  proof (cases "n \<le> unat (fa_arg_data_size a)")
    case True
    have put: "put_param env ?b (pi_type (cur_param tbl a)) (max_arg_size a) val val_len fromuser
        = (PPM_SUCCESS, n, ?b\<lparr>fa_ring := store_le (fa_ring ?b) (arg_dst a) n (unat val)\<rparr>)"
      unfolding k(4) put_num_def fits using True by simp
    have "fa_arg_data_size a \<noteq> 0" using True k(2) by auto
    from val_to_ring_content [OF assms(1) refl k(1) assms(2) this put] True show ?thesis
      by (simp add: store_le_def mem_simps)
  next
    case small: False
    show ?thesis
    proof (cases "fa_arg_data_size a = 0")
      case True
      have "\<not> fa_nargs a \<le> fa_curarg a"
        using assms(2) by (simp add: linorder_not_le)
      with small True show ?thesis by (simp add: val_to_ring_def)
    next
      case False
      then show ?thesis
        unfolding val_to_ring_plain [OF k(1) assms(2) False] k(4) put_num_def fits using small by simp
    qed
  qed
qed

theorem val_to_ring_number_witness:
  "\<exists>a'. val_to_ring demo_env (demo_tbl PT_INT32) demo_args 67305985 0 False 0 = (PPM_SUCCESS, a') \<and>
     params_of a' = [[1, 2, 3, 4]]"
proof -
  have "le_bytes 4 (unat (67305985 :: u64)) = [1, 2, 3, 4]"
    by (simp add: le_bytes_numeral)
  moreover have "fa_curarg demo_args < fa_nargs demo_args" "unat (fa_arg_data_size demo_args) = 198"
    "params_of demo_args = []"
    by (simp_all add: demo_args_def params_of_def arg_lens_def)
  ultimately show ?thesis
    using val_to_ring_number [OF demo_args_wf, of "demo_tbl PT_INT32" 4 demo_env 67305985 0 False 0]
    by (auto simp: demo_cur_param num_size_def)
qed

text \<open>
  C17. A string parameter taken from readable user memory is recorded exactly, terminator included,
  when it fits in the space left for one argument; a string with no terminator within that space is
  refused as invalid user memory.
\<close>

theorem val_to_ring_user_string:
  assumes "wf_args a" and "fa_curarg a < fa_nargs a" and "fa_arg_data_size a \<noteq> 0"
    and "pi_type (cur_param tbl a) \<in> {PT_CHARBUF, PT_FSPATH, PT_FSRELPATH}"
    and "val \<noteq> 0" and "readable env um val (unat (max_arg_size a))"
  shows "(\<forall>k < unat (max_arg_size a). um k = 0 \<and> (\<forall>i < k. um i \<noteq> 0) \<longrightarrow>
      (\<exists>a'. val_to_ring env tbl a val val_len True dyn_idx = (PPM_SUCCESS, a') \<and> wf_args a' \<and>
         params_of a' = params_of a @ [mem_read um 0 k @ [0]])) \<and>
    ((\<forall>i < unat (max_arg_size a). um i \<noteq> 0) \<longrightarrow>
       fst (val_to_ring env tbl a val val_len True dyn_idx) = PPM_FAILURE_INVALID_USER_MEMORY)"
proof (intro conjI allI impI; (elim conjE)?)
  let ?b = "start_param False dyn_idx a" and ?t = "pi_type (cur_param tbl a)"
  have t: "?t \<noteq> PT_DYN" "put_param env ?b ?t (max_arg_size a) val val_len True = put_charbuf env ?b (max_arg_size a) val True"
    using assms(4) by (auto simp: put_param_def)
  show "\<exists>a'. val_to_ring env tbl a val val_len True dyn_idx = (PPM_SUCCESS, a') \<and> wf_args a' \<and>
      params_of a' = params_of a @ [mem_read um 0 k @ [0]]"
    if k: "k < unat (max_arg_size a)" "um k = 0" "\<forall>i < k. um i \<noteq> 0" for k
  proof -
    obtain a2 where a2: "put_charbuf env ?b (max_arg_size a) val True = (PPM_SUCCESS, Suc k, a2)"
        "mem_read (fa_ring a2) (arg_dst a) (Suc k) = mem_read um 0 (Suc k)"
      using put_charbuf_user_exact [OF assms(6,5) k(1,2), of ?b] k(3) by auto
    then show ?thesis
      using val_to_ring_content [OF assms(1) refl t(1) assms(2,3), of env dyn_idx val val_len True "Suc k" a2] t(2) k(2)
        mem_read_add [of um 0 k 1] by (simp add: mem_read_Suc)
  qed
  show "fst (val_to_ring env tbl a val val_len True dyn_idx) = PPM_FAILURE_INVALID_USER_MEMORY"
    if long: "\<forall>i < unat (max_arg_size a). um i \<noteq> 0"
  proof -
    obtain m' where "strncpy_loop env (fa_ring ?b) (arg_dst a) val (unat (max_arg_size a)) 0 = (-1, m')"
      using strncpy_loop_too_long [OF assms(6), of "fa_ring ?b" "arg_dst a" 0] long by auto
    then show ?thesis
      using assms(5) by (simp add: val_to_ring_plain [OF t(1) assms(2,3)] t(2) put_charbuf_def ppm_strncpy_from_user_def)
  qed
qed

theorem val_to_ring_user_string_witness:
  "\<exists>a'. val_to_ring demo_env (demo_tbl PT_CHARBUF) demo_args 4096 0 True 0 = (PPM_SUCCESS, a') \<and>
     params_of a' = [[97, 98, 99, 0]]"
proof -
  have d: "fa_curarg demo_args < fa_nargs demo_args" "fa_arg_data_size demo_args \<noteq> 0"
    "unat (max_arg_size demo_args) = 198" "params_of demo_args = []"
    by (simp_all add: demo_args_def params_of_def arg_lens_def max_arg_size_def ppm_consts)
  have um: "demo_um 0 = 97" "demo_um 1 = 98" "demo_um 2 = 99" "demo_um 3 = 0"
    by (simp_all add: demo_um_def)
  have nz: "demo_um i \<noteq> 0" if "i < 3" for i
  proof -
    from that have "i = 0 \<or> i = 1 \<or> i = 2" by auto
    then show ?thesis using um by auto
  qed
  have rd: "mem_read demo_um 0 3 = [97, 98, 99]"
    using um by (simp add: mem_read_def upt_rec numeral_2_eq_2)
  show ?thesis
    using val_to_ring_user_string [OF demo_args_wf d(1,2), of "demo_tbl PT_CHARBUF" 4096 demo_env demo_um 0 0,
        THEN conjunct1, rule_format, of 3]
      d um(4) nz rd demo_env_readable [of 198]
    by (auto simp: demo_cur_param)
qed

lemma compute_snaplen_static:
  "\<not> c_do_dynamic_snaplen (fa_consumer a) \<Longrightarrow> \<not> g_tracers_enabled env \<Longrightarrow>
   compute_snaplen env a buf n = c_snaplen (fa_consumer a)"
  by (simp add: compute_snaplen_def Let_def)

lemma compute_snaplen_bound:
  "unat (compute_snaplen env a buf n) \<le> max 16000 (unat (c_snaplen (fa_consumer a)))"
proof -
  have "unat (max x y) = max (unat x) (unat y)" for x y :: u32
    by (auto simp: max_def word_le_nat_alt)
  then show ?thesis
    using compute_snaplen_values [of env a buf n] by (auto simp: ppm_consts)
qed

lemma bytebuf_len_bound:
  "fa_enforce_snaplen a \<Longrightarrow>
   unat (bytebuf_len env a look x val_len) \<le> max 16000 (unat (c_snaplen (fa_consumer a)))"
  using compute_snaplen_bound [of env a "\<lambda>i. fa_ring a (arg_dst a + i)" "unat look"]
  by (auto simp: bytebuf_len_def Let_def word_le_nat_alt word_less_nat_alt)

lemma bytebuf_len_static:
  assumes "fa_enforce_snaplen a" and "\<not> c_do_dynamic_snaplen (fa_consumer a)" and "\<not> g_tracers_enabled env"
  shows "unat (bytebuf_len env a look x val_len) =
    min (unat val_len) (min (unat (c_snaplen (fa_consumer a))) (unat x))"
  using assms
  by (auto simp: bytebuf_len_def Let_def compute_snaplen_static word_le_nat_alt word_less_nat_alt)



end
