(* ===== verification/Filler.thy ===== *)
theory Filler
  imports Val_To_Ring
begin

text \<open>
  The contract between \<open>record_event_consumer\<close> and the filler callbacks of \<open>g_ppm_events\<close>, as
  the locale \<open>filler\<close>, and the ways fillers are put together from calls of \<open>val_to_ring\<close>.
\<close>

type_synonym filler_fn = "event_filler_arguments \<Rightarrow> ppm_res \<times> event_filler_arguments"

definition same_place :: "event_filler_arguments \<Rightarrow> event_filler_arguments \<Rightarrow> bool" where
  "same_place a a' \<longleftrightarrow>
     fa_buffer a' = fa_buffer a \<and> fa_buffer_size a' = fa_buffer_size a \<and> fa_nargs a' = fa_nargs a \<and>
     fa_event_type a' = fa_event_type a"

text \<open>
  What the ring relies on: a filler started on a well-formed event writes inside the event's buffer
  and at most one byte past it, does not move the event, and when it reports success leaves a
  well-formed event whose parameters extend those it found.
\<close>

locale filler =
  fixes callback :: filler_fn
  assumes stays: "wf_args a \<Longrightarrow> callback a = (r, a') \<Longrightarrow> same_place a a' \<and>
      same_outside (fa_ring a) (fa_ring a') (fa_buffer a) (fa_buffer a + unat (fa_buffer_size a) + 1)"
    and succeeds: "wf_args a \<Longrightarrow> callback a = (PPM_SUCCESS, a') \<Longrightarrow>
      wf_args a' \<and> (\<exists>ps. params_of a' = params_of a @ ps)"
begin

lemma header_kept:
  assumes "wf_args a" and "callback a = (r, a')" and "p + n \<le> fa_buffer a"
  shows "load_le (fa_ring a') p n = load_le (fa_ring a) p n"
  using stays [OF assms(1,2)] assms(3) by (auto intro: same_outside_load)

lemma fits:
  assumes "wf_args a" and "callback a = (PPM_SUCCESS, a')"
  shows "unat (fa_arg_data_offset a') \<le> unat (fa_buffer_size a)"
  using succeeds [OF assms] stays [OF assms] by (auto simp: wf_args_def same_place_def)

end

section \<open>Composition\<close>

text \<open>
  Fillers are sequences of calls, each followed by \<open>if (res != PPM_SUCCESS) return res\<close>;
  \<open>add_sentinel\<close> only checks a build option that is off.
\<close>

definition add_sentinel :: filler_fn where
  "add_sentinel a = (PPM_SUCCESS, a)"

definition push :: "kernel_env \<Rightarrow> event_table \<Rightarrow> u64 \<Rightarrow> u32 \<Rightarrow> bool \<Rightarrow> u8 \<Rightarrow> filler_fn" where
  "push env tbl val val_len fromuser dyn_idx a = val_to_ring env tbl a val val_len fromuser dyn_idx"

fun fill_seq :: "filler_fn list \<Rightarrow> filler_fn" where
  "fill_seq [] a = (PPM_SUCCESS, a)"
| "fill_seq (f # fs) a = (case f a of (r, a') \<Rightarrow> if r = PPM_SUCCESS then fill_seq fs a' else (r, a'))"

lemma same_place_refl [simp]: "same_place a a"
  by (simp add: same_place_def)

lemma same_place_trans: "same_place a b \<Longrightarrow> same_place b c \<Longrightarrow> same_place a c"
  by (simp add: same_place_def)

lemma filler_const [intro]: "r \<noteq> PPM_SUCCESS \<Longrightarrow> filler (Pair r)"
  by unfold_locales auto

lemma filler_done [intro]: "filler (Pair PPM_SUCCESS)"
  by unfold_locales auto

interpretation sentinel: filler add_sentinel
  by unfold_locales (auto simp: add_sentinel_def)

lemma filler_push [intro]: "filler (push env tbl val val_len fromuser dyn_idx)"
proof
  fix a r a'
  assume wf: "wf_args a" and run: "push env tbl val val_len fromuser dyn_idx a = (r, a')"
  from run show "same_place a a' \<and>
      same_outside (fa_ring a) (fa_ring a') (fa_buffer a) (fa_buffer a + unat (fa_buffer_size a) + 1)"
    using val_to_ring_static [OF wf] val_to_ring_frame [OF wf]
    by (fastforce simp: push_def same_place_def dest: same_staticD)
next
  fix a a'
  assume wf: "wf_args a" and run: "push env tbl val val_len fromuser dyn_idx a = (PPM_SUCCESS, a')"
  from val_to_ring_success(1,4) [OF wf run [unfolded push_def]]
  show "wf_args a' \<and> (\<exists>ps. params_of a' = params_of a @ ps)" by blast
qed

lemma filler_then:
  assumes "filler f" and "filler g"
  shows "filler (\<lambda>a. case f a of (r, a') \<Rightarrow> if r = PPM_SUCCESS then g a' else (r, a'))"
proof
  fix a r a'
  assume wf: "wf_args a" and run: "(case f a of (r, a') \<Rightarrow> if r = PPM_SUCCESS then g a' else (r, a')) = (r, a')"
  obtain r1 b where f: "f a = (r1, b)" by fastforce
  note f1 = filler.stays [OF assms(1) wf f]
  show "same_place a a' \<and>
      same_outside (fa_ring a) (fa_ring a') (fa_buffer a) (fa_buffer a + unat (fa_buffer_size a) + 1)"
  proof (cases "r1 = PPM_SUCCESS")
    case True
    then have "wf_args b" and "g b = (r, a')"
      using filler.succeeds [OF assms(1) wf] f run by auto
    from filler.stays [OF assms(2) this] f1 show ?thesis
      by (auto simp: same_place_def intro: same_outside_trans)
  qed (use f run f1 in auto)
next
  fix a a'
  assume wf: "wf_args a" and run: "(case f a of (r, a') \<Rightarrow> if r = PPM_SUCCESS then g a' else (r, a')) = (PPM_SUCCESS, a')"
  obtain b where f: "f a = (PPM_SUCCESS, b)" and g: "g b = (PPM_SUCCESS, a')"
    using run by (auto split: prod.splits if_splits)
  from filler.succeeds [OF assms(1) wf f] filler.succeeds [OF assms(2) _ g]
  show "wf_args a' \<and> (\<exists>ps. params_of a' = params_of a @ ps)" by fastforce
qed

lemma filler_seq [intro]: "(\<And>f. f \<in> set fs \<Longrightarrow> filler f) \<Longrightarrow> filler (fill_seq fs)"
proof (induction fs)
  case Nil
  have "fill_seq [] = Pair PPM_SUCCESS" by (rule ext) simp
  then show ?case by auto
next
  case (Cons f fs)
  then have "filler (\<lambda>a. case f a of (r, a') \<Rightarrow> if r = PPM_SUCCESS then fill_seq fs a' else (r, a'))"
    by (intro filler_then) auto
  moreover have "fill_seq (f # fs) = (\<lambda>a. case f a of (r, a') \<Rightarrow> if r = PPM_SUCCESS then fill_seq fs a' else (r, a'))"
    by (rule ext) simp
  ultimately show ?case by simp
qed

text \<open>A filler may choose what to do from the arguments it is given.\<close>

lemma filler_depends:
  assumes "\<And>b. filler (F b)"
  shows "filler (\<lambda>a. F a a)"
proof
  fix a r a'
  show "wf_args a \<Longrightarrow> F a a = (r, a') \<Longrightarrow> same_place a a' \<and>
      same_outside (fa_ring a) (fa_ring a') (fa_buffer a) (fa_buffer a + unat (fa_buffer_size a) + 1)"
    using filler.stays [OF assms] by blast
next
  fix a a'
  show "wf_args a \<Longrightarrow> F a a = (PPM_SUCCESS, a') \<Longrightarrow> wf_args a' \<and> (\<exists>ps. params_of a' = params_of a @ ps)"
    using filler.succeeds [OF assms] by blast
qed

text \<open>
  Some fillers first set fields of the arguments that \<open>val_to_ring\<close> reads (\<open>fd\<close>,
  \<open>enforce_snaplen\<close>) or fill the string page; none of these is part of the event.
\<close>

definition set_fd :: "int \<Rightarrow> bool \<Rightarrow> filler_fn" where
  "set_fd fd enforce a = (PPM_SUCCESS, a\<lparr>fa_fd := fd, fa_enforce_snaplen := enforce\<rparr>)"

definition set_kmem :: "(u64 \<Rightarrow> byte) \<Rightarrow> filler_fn" where
  "set_kmem m a = (PPM_SUCCESS, a\<lparr>fa_kmem := m\<rparr>)"

interpretation fd_setter: filler "set_fd fd enforce" for fd enforce
  by unfold_locales (auto simp: set_fd_def same_place_def wf_args_def params_of_def)

interpretation kmem_setter: filler "set_kmem m" for m
  by unfold_locales (auto simp: set_kmem_def same_place_def wf_args_def params_of_def)

end
