(* ===== verification/Ring_Buffer.thy ===== *)
theory Ring_Buffer
  imports Event_Table Filler
begin

text \<open>
  The producer side of the ring (\<open>driver/main.c\<close>): \<open>record_event_consumer\<close> with the parts it is
  made of, the drop logic, and the fan-out to all consumers.  A null \<open>info\<close> or \<open>buffer\<close> pointer
  that the code would dereference is the value \<open>None\<close>.
\<close>

section \<open>Inputs\<close>

datatype ppm_capture_category =
    PPMC_NONE | PPMC_SYSCALL | PPMC_CONTEXT_SWITCH | PPMC_SIGNAL | PPMC_PAGE_FAULT
  | PPMC_SKB_CAPTURE | PPMC_TCP_RCV_ESTABLISHED | PPMC_TCP_DROP | PPMC_TCP_RETRANSMIT_SKB

record siginfo =
  si_code :: int
  kill_pid :: int
  sigchld_pid :: int
  rt_pid :: int

text \<open>
  The members of the union \<open>event_info\<close> are separate fields here; the code reads the members of
  the category only, \<open>regs\<close> apart, which \<open>drop_event\<close> hands on and uses for system calls.
\<close>

record event_data_t =
  ed_category :: ppm_capture_category
  ed_socketcall_syscall :: int
  ed_compat :: bool
  ed_regs :: "pt_regs option"
  ed_id :: int
  ed_routing :: "(nat \<Rightarrow> nat) option"
  ed_sched_prev :: u64
  ed_sched_next :: u64
  ed_sig :: int
  ed_info :: "siginfo option"
  ed_fault_address :: u64
  ed_fault_error :: u64
  ed_skb :: u64
  ed_dev :: u64
  ed_sk :: u64

definition null_regs :: pt_regs where
  "null_regs = \<lparr>r_args = \<lambda>_. 0, r_ret = 0\<rparr>"

definition zero_event_data :: event_data_t where
  "zero_event_data = \<lparr>ed_category = PPMC_NONE, ed_socketcall_syscall = 0, ed_compat = False,
     ed_regs = None, ed_id = 0, ed_routing = None, ed_sched_prev = 0, ed_sched_next = 0, ed_sig = 0,
     ed_info = None, ed_fault_address = 0, ed_fault_error = 0, ed_skb = 0, ed_dev = 0, ed_sk = 0\<rparr>"

text \<open>
  What the driver reads from its surroundings while it records one event: the current CPU and
  thread, whether a descriptor of the current process is open, the global event mask, the callbacks
  of the table \<open>g_ppm_events\<close>, the kernel services, and what the uninitialised locals \<open>args\<close> and \<open>socketcall_args32\<close> hold.
\<close>

record driver_env =
  de_cpu :: nat
  de_pid :: int
  de_fd_is_open :: "int \<Rightarrow> bool"
  g_events_mask :: "nat \<Rightarrow> bool"
  g_ppm_events :: "nat \<Rightarrow> filler_fn option"
  de_kernel :: kernel_env
  de_stack_args :: event_filler_arguments
  de_stack_args32 :: mem

section \<open>Socketcall\<close>

definition AL :: "nat list" where
  "AL = [0, 3, 3, 3, 2, 3, 3, 3, 4, 4, 4, 6, 6, 2, 5, 5, 3, 3, 4, 5, 4]"

definition nas :: "nat list" where "nas = map (\<lambda>x. x * 8) AL"

definition compat_nas :: "nat list" where "compat_nas = map (\<lambda>x. x * 4) AL"

text \<open>\<open>SYS_SOCKET\<close> (1) to \<open>SYS_SENDMMSG\<close> (20), in the order of \<open>linux/net.h\<close>.\<close>

definition socketcall_events :: "nat list" where
  "socketcall_events =
     [18 \<comment> \<open>socket\<close>, 20 \<comment> \<open>bind\<close>, 22 \<comment> \<open>connect\<close>, 24 \<comment> \<open>listen\<close>, 246 \<comment> \<open>accept\<close>,
      38 \<comment> \<open>getsockname\<close>, 40 \<comment> \<open>getpeername\<close>, 42 \<comment> \<open>socketpair\<close>, 28 \<comment> \<open>send\<close>,
      32 \<comment> \<open>recv\<close>, 30 \<comment> \<open>sendto\<close>, 34 \<comment> \<open>recvfrom\<close>, 36 \<comment> \<open>shutdown\<close>,
      44 \<comment> \<open>setsockopt\<close>, 46 \<comment> \<open>getsockopt\<close>, 48 \<comment> \<open>sendmsg\<close>, 52 \<comment> \<open>recvmsg\<close>,
      248 \<comment> \<open>accept4\<close>, 54 \<comment> \<open>recvmmsg\<close>, 50 \<comment> \<open>sendmmsg\<close>]"

text \<open>The array \<open>socketcall_args\<close> seen as memory.\<close>

definition args_mem :: "(nat \<Rightarrow> u64) \<Rightarrow> mem" where
  "args_mem f i = word_of_nat (unat (f (i div 8)) div 256 ^ (i mod 8))"

definition parse_socketcall ::
    "kernel_env \<Rightarrow> mem \<Rightarrow> event_filler_arguments \<Rightarrow> pt_regs \<Rightarrow> nat \<times> event_filler_arguments" where
  "parse_socketcall env stack32 a regs =
     (let socketcall_id = sint (ucast (r_args regs 0) :: u32); scargs = r_args regs 1 in
      if socketcall_id < 1 \<or> socketcall_id > 20 then (PPME_GENERIC_E, a)
      else
        let k = nat socketcall_id;
            (notread, a') =
              (if fa_compat a then
                 let (notread, m) = ppm_copy_from_user env stack32 0
                       (ucast (ucast scargs :: u32)) (compat_nas ! k) in
                 (notread, if notread \<noteq> 0 then a
                    else a\<lparr>fa_socketcall_args :=
                           (\<lambda>j. if j < 6 then word_of_nat (load_le m (4 * j) 4) else fa_socketcall_args a j)\<rparr>)
               else
                 let (notread, m) = ppm_copy_from_user env (args_mem (fa_socketcall_args a)) 0
                       scargs (nas ! k) in
                 (notread, a\<lparr>fa_socketcall_args :=
                           (\<lambda>j. if j < 6 then word_of_nat (load_le m (8 * j) 8) else fa_socketcall_args a j)\<rparr>))
        in if notread \<noteq> 0 then (PPME_GENERIC_E, a') else (socketcall_events ! (k - 1), a'))"

section \<open>Building one event\<close>

definition freespace :: "ppm_ring_buffer_info \<Rightarrow> u32" where
  "freespace info =
     (if rb_tail info > rb_head info then rb_tail info - rb_head info - 1
      else RING_BUF_SIZE + rb_tail info - rb_head info - 1)"

definition delta_from_end :: "ppm_ring_buffer_info \<Rightarrow> u32" where
  "delta_from_end info = RING_BUF_SIZE + (2 * PAGE_SIZE) - rb_head info - 1"

text \<open>
  The socketcall correction of the event type; the arguments start as the uninitialised local.
\<close>

definition resolve_event_type ::
    "driver_env \<Rightarrow> event_data_t \<Rightarrow> nat \<Rightarrow> nat \<times> event_filler_arguments" where
  "resolve_event_type d ed event_type =
     (let args = de_stack_args d;
          (t, args') =
            (case ed_regs ed of
               Some regs \<Rightarrow>
                 if ed_category ed = PPMC_SYSCALL \<and> ed_id ed = ed_socketcall_syscall ed then
                   let (tet, a) = parse_socketcall (de_kernel d) (de_stack_args32 d)
                         (args\<lparr>fa_is_socketcall := True, fa_compat := ed_compat ed\<rparr>) regs in
                   (if event_type = PPME_GENERIC_E then tet else tet + 1, a)
                 else (event_type, args\<lparr>fa_is_socketcall := False, fa_compat := False\<rparr>)
             | None \<Rightarrow> (event_type, args\<lparr>fa_is_socketcall := False, fa_compat := False\<rparr>))
      in (t, args'\<lparr>fa_socketcall_syscall := ed_socketcall_syscall ed\<rparr>))"

definition fill_header :: "mem \<Rightarrow> nat \<Rightarrow> u64 \<Rightarrow> int \<Rightarrow> nat \<Rightarrow> u32 \<Rightarrow> mem" where
  "fill_header m head ns pid event_type nargs =
     store_le (store_le (store_le (store_le m
       (head + HDR_TS) 8 (unat ns))
       (head + HDR_TID) 8 (unat (word_of_int pid :: u64)))
       (head + HDR_TYPE) 2 event_type)
       (head + HDR_NPARAMS) 4 (unat nargs)"

text \<open>The sender's pid of a signal event; where the code assigns nothing, the local is unchanged.\<close>

definition signal_spid :: "event_data_t \<Rightarrow> int \<Rightarrow> int" where
  "signal_spid ed stack_spid =
     (let signo = ed_sig ed in
      case ed_info ed of None \<Rightarrow> 0
      | Some info \<Rightarrow>
          if signo = 9 then kill_pid info
          else if signo \<in> set [15, 1, 2, 20, 3] then
            if si_code info = 0 \<or> si_code info = -1 \<or> si_code info \<le> 0 then kill_pid info else stack_spid
          else if signo = 17 then sigchld_pid info
          else if signo \<ge> 32 \<and> signo \<le> 64 then rt_pid info
          else 0)"

definition event_args ::
    "driver_env \<Rightarrow> ppm_consumer_t \<Rightarrow> ppm_ring_buffer_context \<Rightarrow> event_data_t \<Rightarrow> event_filler_arguments
       \<Rightarrow> event_filler_arguments" where
  "event_args d consumer ring ed a =
     (let sys = (ed_category ed = PPMC_SYSCALL); ctx = (ed_category ed = PPMC_CONTEXT_SWITCH);
          sig = (ed_category ed = PPMC_SIGNAL); skb = (ed_category ed = PPMC_SKB_CAPTURE);
          net = (ed_category ed \<in> set [PPMC_TCP_RCV_ESTABLISHED, PPMC_TCP_DROP, PPMC_TCP_RETRANSMIT_SKB]);
          pf = (ed_category ed = PPMC_PAGE_FAULT) in
      a\<lparr>fa_consumer := consumer,
        fa_regs := (if sys then (case ed_regs ed of Some r \<Rightarrow> r | None \<Rightarrow> null_regs) else null_regs),
        fa_syscall_id := (if sys then word_of_int (ed_id ed) else -1),
        fa_routing := (if sys then ed_routing ed else None),
        fa_compat := (if sys then ed_compat ed else False),
        fa_sched_prev := (if ctx then ed_sched_prev ed else 0),
        fa_sched_next := (if ctx then ed_sched_next ed else 0),
        fa_signo := (if sig then ed_sig ed else 0),
        fa_spid := (if sig then signal_spid ed (fa_spid a) else 0),
        fa_skb := (if skb then ed_skb ed else fa_skb a),
        fa_dev := (if skb then ed_dev ed else fa_dev a),
        fa_sk := (if net then ed_sk ed else fa_sk a),
        fa_dpid := de_pid d,
        fa_fault_address := (if pf then ed_fault_address ed else fa_fault_address a),
        fa_fault_error := (if pf then ed_fault_error ed else fa_fault_error a),
        fa_nevents := rc_nevents ring,
        fa_str_storage := (case rc_str_storage ring of Some p \<Rightarrow> p | None \<Rightarrow> 0),
        fa_enforce_snaplen := False\<rparr>)"

text \<open>The running position of the filler in the free space of the ring.\<close>

definition place_args ::
    "mem \<Rightarrow> nat \<Rightarrow> u32 \<Rightarrow> nat \<Rightarrow> u32 \<Rightarrow> event_filler_arguments \<Rightarrow> event_filler_arguments" where
  "place_args m head avail event_type nargs a =
     (let buffer_size = avail - word_of_nat EVT_HDR_SIZE; offset = nargs * 2 in
      a\<lparr>fa_ring := m, fa_buffer := head + EVT_HDR_SIZE, fa_buffer_size := buffer_size,
        fa_event_type := event_type, fa_curarg := 0, fa_nargs := nargs,
        fa_arg_data_offset := offset, fa_arg_data_size := buffer_size - offset\<rparr>)"

definition run_filler :: "driver_env \<Rightarrow> event_filler_arguments \<Rightarrow> ppm_res \<times> event_filler_arguments" where
  "run_filler d a =
     (case g_ppm_events d (fa_event_type a) of
        Some filler_callback \<Rightarrow> filler_callback a
      | None \<Rightarrow> (PPM_SUCCESS, a))"

text \<open>
  From the space computation to the end of the filler: the result of the callback, the size of the
  event when it was accepted, and the buffer.
\<close>

definition build_event ::
    "driver_env \<Rightarrow> ppm_consumer_t \<Rightarrow> ppm_ring_buffer_context \<Rightarrow> ppm_ring_buffer_info \<Rightarrow> nat \<Rightarrow> u64
       \<Rightarrow> event_data_t \<Rightarrow> (ppm_res \<times> nat option \<times> mem option) option" where
  "build_event d consumer ring info event_type0 ns ed =
     (let head = unat (rb_head info);
          (event_type, a0) = resolve_event_type d ed event_type0;
          nargs = ei_nparams (g_event_info event_type);
          avail = (if freespace info < delta_from_end info then freespace info else delta_from_end info) in
      if unat (freespace info) \<ge> EVT_HDR_SIZE + unat (nargs * 2) then
        case rc_buffer ring of None \<Rightarrow> None
        | Some buf \<Rightarrow>
          let m = fill_header buf head ns (de_pid d) event_type nargs;
              (cbres, a') = run_filler d (place_args m head avail event_type nargs (event_args d consumer ring ed a0)) in
          if cbres = PPM_SUCCESS \<and> fa_curarg a' = fa_nargs a' then
            let event_size = EVT_HDR_SIZE + unat (fa_arg_data_offset a') in
            Some (cbres, Some event_size, Some (store_le (fa_ring a') (head + HDR_LEN) 4 event_size))
          else Some (cbres, None, Some (fa_ring a'))
      else Some (PPM_SUCCESS, None, rc_buffer ring))"

section \<open>Committing one event\<close>

text \<open>The copy of the cushion back to the start of the buffer, and the new head.\<close>

definition wrap_head :: "mem \<Rightarrow> nat \<Rightarrow> mem \<times> nat" where
  "wrap_head m next =
     (if next \<ge> unat RING_BUF_SIZE then
        (if next > unat RING_BUF_SIZE
         then mem_write m 0 (mem_read m (unat RING_BUF_SIZE) (next - unat RING_BUF_SIZE)) else m,
         next - unat RING_BUF_SIZE)
      else (m, next))"

definition count_drop :: "ppm_res \<Rightarrow> ppm_ring_buffer_info \<Rightarrow> ppm_ring_buffer_info" where
  "count_drop cbres info =
     (if cbres = PPM_SUCCESS then info\<lparr>n_drops_buffer := n_drops_buffer info + 1\<rparr>
      else if cbres = PPM_FAILURE_INVALID_USER_MEMORY then info\<lparr>n_drops_pf := n_drops_pf info + 1\<rparr>
      else if cbres = PPM_FAILURE_BUFFER_FULL then info\<lparr>n_drops_buffer := n_drops_buffer info + 1\<rparr>
      else info)"

definition commit_event ::
    "ppm_ring_buffer_context \<Rightarrow> ppm_ring_buffer_info \<Rightarrow> ppm_res \<times> nat option \<times> mem option
       \<Rightarrow> nat \<times> ppm_ring_buffer_context" where
  "commit_event ring info out =
     (case out of (cbres, Some event_size, Some m) \<Rightarrow>
        let (m', next) = wrap_head m (unat (rb_head info) + event_size) in
        (1, ring\<lparr>rc_info := Some (info\<lparr>rb_head := word_of_nat next\<rparr>), rc_buffer := Some m',
                 rc_nevents := rc_nevents ring + 1\<rparr>)
      | (cbres, _, m) \<Rightarrow> (0, ring\<lparr>rc_info := Some (count_drop cbres info), rc_buffer := m\<rparr>))"

definition count_event :: "event_data_t \<Rightarrow> nat \<Rightarrow> ppm_ring_buffer_info \<Rightarrow> ppm_ring_buffer_info" where
  "count_event ed event_type info =
     (let info1 = info\<lparr>n_evts := n_evts info + 1\<rparr> in
      if ed_category ed = PPMC_CONTEXT_SWITCH \<and> ed_sched_prev ed \<noteq> 0 \<and>
         event_type \<noteq> PPME_SYSDIGEVENT_E \<and> event_type \<noteq> PPME_CPU_HOTPLUG_E
      then info1\<lparr>n_context_switches := n_context_switches info1 + 1\<rparr> else info1)"

definition print_time :: "u64 \<Rightarrow> u32 \<Rightarrow> ppm_ring_buffer_context \<Rightarrow> ppm_ring_buffer_context" where
  "print_time ns drop_flags ring =
     (if ns - (rc_last_print_time ring + 1) > 1000000000 \<and> drop_flags AND UF_ATOMIC = 0
      then ring\<lparr>rc_last_print_time := ns\<rparr> else ring)"

text \<open>\<open>record_event_consumer\<close> from \<open>get_cpu\<close> on, for the ring of that CPU.\<close>

definition record_event_ring ::
    "driver_env \<Rightarrow> ppm_consumer_t \<Rightarrow> ppm_ring_buffer_context \<Rightarrow> nat \<Rightarrow> u32 \<Rightarrow> u64 \<Rightarrow> event_data_t
       \<Rightarrow> (nat \<times> ppm_ring_buffer_context) option" where
  "record_event_ring d consumer ring event_type drop_flags ns ed =
     (if \<not> rc_capture_enabled ring then Some (0, ring)
      else case rc_info ring of None \<Rightarrow> None
      | Some info0 \<Rightarrow>
        let info = count_event ed event_type info0 in
        if rc_preempt_count ring + 1 \<noteq> 1 then
          Some (0, ring\<lparr>rc_info := Some (if event_type \<noteq> PPME_PAGE_FAULT_E
                                          then info\<lparr>n_preemptions := n_preemptions info + 1\<rparr> else info)\<rparr>)
        else
          case build_event d consumer ring info event_type ns ed of None \<Rightarrow> None
          | Some out \<Rightarrow>
            let (res, ring') = commit_event ring info out in Some (res, print_time ns drop_flags ring'))"

section \<open>Drop logic\<close>

text \<open>
  \<open>record_event_core\<close> is what \<open>record_event_consumer\<close> does once the drop logic let the event
  pass, and all it does for \<open>PPME_DROP_E\<close> and \<open>PPME_DROP_X\<close>, which skip that logic.
\<close>

definition record_event_core ::
    "driver_env \<Rightarrow> ppm_consumer_t \<Rightarrow> nat \<Rightarrow> u32 \<Rightarrow> u64 \<Rightarrow> event_data_t \<Rightarrow> (nat \<times> ppm_consumer_t) option" where
  "record_event_core d consumer event_type drop_flags ns ed =
     (if \<not> g_events_mask d event_type then Some (0, consumer)
      else map_option (\<lambda>(res, ring').
             (res, consumer\<lparr>c_ring_buffers := (c_ring_buffers consumer)(de_cpu d := ring')\<rparr>))
           (record_event_ring d consumer (c_ring_buffers consumer (de_cpu d)) event_type drop_flags ns ed))"

definition record_drop_e :: "driver_env \<Rightarrow> ppm_consumer_t \<Rightarrow> u64 \<Rightarrow> ppm_consumer_t option" where
  "record_drop_e d consumer ns =
     map_option (\<lambda>(res, c). c\<lparr>c_need_to_insert_drop_e := (if res = 0 then 1 else 0)\<rparr>)
       (record_event_core d consumer PPME_DROP_E UF_NEVER_DROP ns zero_event_data)"

definition record_drop_x :: "driver_env \<Rightarrow> ppm_consumer_t \<Rightarrow> u64 \<Rightarrow> ppm_consumer_t option" where
  "record_drop_x d consumer ns =
     map_option (\<lambda>(res, c). c\<lparr>c_need_to_insert_drop_x := (if res = 0 then 1 else 0)\<rparr>)
       (record_event_core d consumer PPME_DROP_X UF_NEVER_DROP ns zero_event_data)"

definition drop_nostate_event :: "driver_env \<Rightarrow> nat \<Rightarrow> pt_regs \<Rightarrow> bool" where
  "drop_nostate_event d event_type regs =
     (if event_type \<in> set [PPME_SYSCALL_CLOSE_X, PPME_SOCKET_BIND_X] then r_ret regs < 0
      else if event_type = PPME_SYSCALL_CLOSE_E then
        \<not> de_fd_is_open d (sint (ucast (r_args regs 0) :: u32))
      else if event_type \<in> set [PPME_SYSCALL_FCNTL_E, PPME_SYSCALL_FCNTL_X] then
        r_args regs 1 \<noteq> 0 \<and> r_args regs 1 \<noteq> 1030
      else False)"

definition drop_event ::
    "driver_env \<Rightarrow> ppm_consumer_t \<Rightarrow> nat \<Rightarrow> u32 \<Rightarrow> u64 \<Rightarrow> pt_regs \<Rightarrow> (bool \<times> ppm_consumer_t) option" where
  "drop_event d consumer event_type drop_flags ns regs =
     (if c_dropping_mode consumer \<noteq> 0 \<and> drop_nostate_event d event_type regs then Some (True, consumer)
      else if drop_flags AND UF_NEVER_DROP \<noteq> 0 then Some (False, consumer)
      else if c_dropping_mode consumer = 0 then Some (False, consumer)
      else if drop_flags AND UF_ALWAYS_DROP \<noteq> 0 then Some (True, consumer)
      else if ucast (c_sampling_interval consumer) < SECOND_IN_NS \<and>
              ns mod SECOND_IN_NS \<ge> ucast (c_sampling_interval consumer) then
        if c_is_dropping consumer = 0
        then map_option (\<lambda>c. (True, c)) (record_drop_e d (consumer\<lparr>c_is_dropping := 1\<rparr>) ns)
        else Some (True, consumer)
      else if c_is_dropping consumer = 1
        then map_option (\<lambda>c. (False, c)) (record_drop_x d (consumer\<lparr>c_is_dropping := 0\<rparr>) ns)
      else Some (False, consumer))"

definition record_event_consumer ::
    "driver_env \<Rightarrow> ppm_consumer_t \<Rightarrow> nat \<Rightarrow> u32 \<Rightarrow> u64 \<Rightarrow> event_data_t \<Rightarrow> (nat \<times> ppm_consumer_t) option" where
  "record_event_consumer d consumer event_type drop_flags ns ed =
     (if \<not> g_events_mask d event_type then Some (0, consumer)
      else if event_type = PPME_DROP_E \<or> event_type = PPME_DROP_X
        then record_event_core d consumer event_type drop_flags ns ed
      else
        case (if c_need_to_insert_drop_e consumer = 1 then record_drop_e d consumer ns
              else if c_need_to_insert_drop_x consumer = 1 then record_drop_x d consumer ns
              else Some consumer) of None \<Rightarrow> None
        | Some c1 \<Rightarrow>
          (case drop_event d c1 event_type drop_flags ns
                  (case ed_regs ed of Some r \<Rightarrow> r | None \<Rightarrow> null_regs) of None \<Rightarrow> None
           | Some (dropped, c2) \<Rightarrow>
               if dropped then Some (0, c2) else record_event_core d c2 event_type drop_flags ns ed))"

fun record_event_all_consumers ::
    "driver_env \<Rightarrow> ppm_consumer_t list \<Rightarrow> nat \<Rightarrow> u32 \<Rightarrow> u64 \<Rightarrow> event_data_t \<Rightarrow> ppm_consumer_t list option" where
  "record_event_all_consumers d [] event_type drop_flags ns ed = Some []"
| "record_event_all_consumers d (c # cs) event_type drop_flags ns ed =
     (case record_event_consumer d c event_type drop_flags ns ed of None \<Rightarrow> None
      | Some (_, c') \<Rightarrow>
          map_option (\<lambda>cs'. c' # cs') (record_event_all_consumers d cs event_type drop_flags ns ed))"

section \<open>The ring as a queue of bytes\<close>

text \<open>
  The consumer maps the buffer twice in a row, so it reads position \<open>p + i\<close> at
  \<open>(p + i) mod RING_BUF_SIZE\<close>.  \<open>unread\<close> is what lies between tail and head.
\<close>

abbreviation ring_size :: nat where
  "ring_size \<equiv> 8388608"

definition ring_read :: "mem \<Rightarrow> nat \<Rightarrow> nat \<Rightarrow> byte list" where
  "ring_read m p n = map (\<lambda>i. m ((p + i) mod ring_size)) [0..<n]"

definition used :: "ppm_ring_buffer_info \<Rightarrow> nat" where
  "used info =
     (if rb_tail info \<le> rb_head info then unat (rb_head info) - unat (rb_tail info)
      else unat (rb_head info) + ring_size - unat (rb_tail info))"

definition info_ok :: "ppm_ring_buffer_info \<Rightarrow> bool" where
  "info_ok info \<longleftrightarrow> unat (rb_head info) < ring_size \<and> unat (rb_tail info) < ring_size"

definition unread :: "ppm_ring_buffer_context \<Rightarrow> byte list" where
  "unread ring =
     (case (rc_info ring, rc_buffer ring) of
        (Some info, Some m) \<Rightarrow> ring_read m (unat (rb_tail info)) (used info)
      | _ \<Rightarrow> [])"

definition ring_ok :: "ppm_ring_buffer_context \<Rightarrow> bool" where
  "ring_ok ring \<longleftrightarrow>
     (case (rc_info ring, rc_buffer ring) of (Some info, Some m) \<Rightarrow> info_ok info | _ \<Rightarrow> False)"

text \<open>The bytes of a complete event.\<close>

definition encode_event :: "u64 \<Rightarrow> int \<Rightarrow> nat \<Rightarrow> byte list list \<Rightarrow> byte list" where
  "encode_event ns pid event_type ps =
     le_bytes 8 (unat ns) @ le_bytes 8 (unat (word_of_int pid :: u64)) @
     le_bytes 4 (EVT_HDR_SIZE + 2 * length ps + sum_list (map length ps)) @
     le_bytes 2 event_type @ le_bytes 4 (length ps) @
     concat (map (\<lambda>p. le_bytes 2 (length p)) ps) @ concat ps"

lemma unat_RING [simp]: "unat RING_BUF_SIZE = ring_size"
  by (simp add: ppm_consts)

lemma unat_sub_one:
  assumes "unat b < unat (a :: u32)"
  shows "unat (a - b - 1) = unat a - unat b - 1"
proof -
  have "unat (a - b) = unat a - unat b"
    using assms by (simp add: unat_sub_le word_le_nat_alt)
  with assms show ?thesis
    by (simp add: unat_sub_le word_le_nat_alt)
qed

lemma ring_mod: "a < 2 * ring_size \<Longrightarrow> a mod ring_size = (if a < ring_size then a else a - ring_size)"
  by (simp add: mod_if)

lemma freespace_nat:
  assumes "info_ok info"
  shows "unat (freespace info) = ring_size - 1 - used info"
proof (cases "rb_tail info > rb_head info")
  case True
  then show ?thesis
    using assms unat_sub_one [of "rb_head info" "rb_tail info"]
    by (simp add: freespace_def used_def info_ok_def word_less_nat_alt word_le_nat_alt)
next
  case False
  have "unat (RING_BUF_SIZE + rb_tail info) = ring_size + unat (rb_tail info)"
    using assms by (subst unat_add_lt) (auto simp: info_ok_def)
  then show ?thesis
    using False assms unat_sub_one [of "rb_head info" "RING_BUF_SIZE + rb_tail info"]
    by (simp add: freespace_def used_def info_ok_def word_less_nat_alt word_le_nat_alt)
qed

lemma delta_nat:
  assumes "info_ok info"
  shows "unat (delta_from_end info) = ring_size + 8191 - unat (rb_head info)"
proof -
  have "RING_BUF_SIZE + 2 * PAGE_SIZE = (8396800 :: u32)" by (simp add: ppm_consts)
  then show ?thesis
    using assms unat_sub_one [of "rb_head info" 8396800] by (simp add: delta_from_end_def info_ok_def)
qed

lemma used_less: "info_ok info \<Longrightarrow> used info < ring_size"
  by (auto simp: info_ok_def used_def word_le_nat_alt)

lemma ring_read_add:
  "ring_read m p (n + k) = ring_read m p n @ ring_read m (p + n) k"
  by (rule nth_equalityI) (auto simp: ring_read_def nth_append add.assoc)

lemma ring_read_cong:
  "(\<And>i. i < n \<Longrightarrow> m ((p + i) mod ring_size) = m' ((p + i) mod ring_size)) \<Longrightarrow> ring_read m p n = ring_read m' p n"
  by (simp add: ring_read_def)

lemma ring_read_mod: "ring_read m (p mod ring_size) n = ring_read m p n"
  by (simp add: ring_read_def mod_simps)

lemma length_ring_read [simp]: "length (ring_read m p n) = n"
  by (simp add: ring_read_def)

text \<open>The unread bytes lie outside the free space.\<close>

lemma unread_position:
  assumes "info_ok info" and "i < used info"
  defines "x \<equiv> (unat (rb_tail info) + i) mod ring_size" and "h \<equiv> unat (rb_head info)"
  shows "x < h \<or> h + (ring_size - used info) \<le> x" and "ring_size \<le> h + (ring_size - used info) \<Longrightarrow>
    h + (ring_size - used info) - ring_size \<le> x \<and> x < h"
proof -
  have "unat (rb_tail info) + i < 2 * ring_size"
    using assms(1,2) used_less [OF assms(1)] by (simp add: info_ok_def)
  then have "x = (if unat (rb_tail info) + i < ring_size then unat (rb_tail info) + i
      else unat (rb_tail info) + i - ring_size)"
    unfolding x_def by (rule ring_mod)
  with assms(1,2) show "x < h \<or> h + (ring_size - used info) \<le> x"
    and "ring_size \<le> h + (ring_size - used info) \<Longrightarrow> h + (ring_size - used info) - ring_size \<le> x \<and> x < h"
    unfolding info_ok_def used_def word_le_nat_alt h_def by (auto split: if_splits)
qed

lemma wrap_head_at:
  assumes "h < ring_size" and "n \<le> ring_size" and "i < n"
  shows "fst (wrap_head m (h + n)) ((h + i) mod ring_size) = m (h + i)"
proof -
  have "(h + i) mod ring_size = (if h + i < ring_size then h + i else h + i - ring_size)"
    using assms by (intro ring_mod) simp
  then show ?thesis
    using assms by (auto simp: wrap_head_def mem_write_def)
qed

lemma wrap_head_frame:
  assumes "h < ring_size" and "h + n \<le> ring_size \<or> h + n - ring_size \<le> x"
  shows "fst (wrap_head m (h + n)) x = m x"
  using assms by (auto simp: wrap_head_def mem_write_def)

lemma wrap_head_next:
  "h < ring_size \<Longrightarrow> n \<le> ring_size \<Longrightarrow> snd (wrap_head m (h + n)) = (h + n) mod ring_size"
  using ring_mod [of "h + n"] by (auto simp: wrap_head_def)

text \<open>Bytes written into the free space and committed are appended to the queue.\<close>

lemma ring_append:
  assumes ok: "info_ok info" and h: "h = unat (rb_head info)"
    and frame: "same_outside m m' h (h + (ring_size - used info))"
    and n: "n < ring_size - used info" and wrap: "wrap_head m' (h + n) = (m'', nxt)"
  shows "ring_read m'' (unat (rb_tail info)) (used info + n) =
      ring_read m (unat (rb_tail info)) (used info) @ mem_read m' h n"
    and "nxt < ring_size" and "used (info\<lparr>rb_head := word_of_nat nxt\<rparr>) = used info + n"
proof -
  let ?t = "unat (rb_tail info)" and ?u = "used info"
  have hr: "h < ring_size" "?t < ring_size" using ok h by (auto simp: info_ok_def)
  have m'': "m'' = fst (wrap_head m' (h + n))" and nxt: "nxt = (h + n) mod ring_size"
    using wrap wrap_head_next [OF hr(1), of n m'] n by auto
  have "ring_read m'' ?t ?u = ring_read m ?t ?u"
  proof (rule ring_read_cong)
    fix i assume i: "i < ?u"
    let ?x = "(?t + i) mod ring_size"
    note pos = unread_position [OF ok i, folded h]
    have "h + n \<le> ring_size \<or> h + n - ring_size \<le> ?x"
    proof (cases "h + n \<le> ring_size")
      case False
      then have "ring_size \<le> h + (ring_size - ?u)" using n by simp
      from pos(2) [OF this] n show ?thesis by auto
    qed simp
    then have "m'' ?x = m' ?x"
      unfolding m'' by (rule wrap_head_frame [OF hr(1)])
    also have "\<dots> = m ?x"
      using frame pos(1) by (auto simp: same_outside_def)
    finally show "m'' ?x = m ?x" .
  qed
  moreover have "ring_read m'' (?t + ?u) n = mem_read m' h n"
  proof -
    have "(?t + ?u) mod ring_size = h"
      using ok h hr by (auto simp: used_def info_ok_def word_le_nat_alt)
    then have "ring_read m'' (?t + ?u) n = ring_read m'' h n"
      using ring_read_mod [of m'' "?t + ?u" n] by simp
    also have "\<dots> = mem_read m' h n"
      by (rule nth_equalityI) (use hr n in \<open>simp_all add: ring_read_def m'' wrap_head_at\<close>)
    finally show ?thesis .
  qed
  ultimately show "ring_read m'' ?t (?u + n) = ring_read m ?t ?u @ mem_read m' h n"
    by (simp add: ring_read_add)
  show "nxt < ring_size" using nxt by simp
  then have "unat (word_of_nat nxt :: u32) = nxt" by (simp add: unat_of_nat)
  moreover have "nxt = (if h + n < ring_size then h + n else h + n - ring_size)"
    unfolding nxt using hr n by (intro ring_mod) simp
  ultimately show "used (info\<lparr>rb_head := word_of_nat nxt\<rparr>) = ?u + n"
    using hr n h unfolding used_def word_le_nat_alt by (auto split: if_splits)
qed

section \<open>What a filler leaves in the buffer\<close>

lemma lens_bytes: "mem_read m b (2 * n) = concat (map (le_bytes 2) (arg_lens m b n))"
proof (induction n)
  case (Suc n)
  have "mem_read m b (2 * Suc n) = mem_read m b (2 * n) @ mem_read m (b + 2 * n) 2"
    using mem_read_add [of m b "2 * n" 2] by simp
  then show ?case
    using Suc by (simp add: arg_lens_Suc load_le_def le_bytes_le_nat)
qed (simp add: arg_lens_def)

lemma map_length_split_params: "map length (split_params m p ls) = ls"
  by (induction m p ls rule: split_params.induct) auto

lemma complete_event:
  assumes "wf_args a" and "fa_curarg a = fa_nargs a"
  shows "mem_read (fa_ring a) (fa_buffer a) (unat (fa_arg_data_offset a)) =
      concat (map (\<lambda>p. le_bytes 2 (length p)) (params_of a)) @ concat (params_of a)"
    and "length (params_of a) = unat (fa_nargs a)"
    and "unat (fa_arg_data_offset a) = 2 * length (params_of a) + sum_list (map length (params_of a))"
    and "list_all (\<lambda>p. length p < 65536) (params_of a)"
proof -
  let ?lens = "arg_lens (fa_ring a) (fa_buffer a) (unat (fa_nargs a))"
  have ps: "params_of a = split_params (fa_ring a) (fa_buffer a + 2 * unat (fa_nargs a)) ?lens"
    by (simp add: params_of_def assms(2))
  have lens: "map length (params_of a) = ?lens"
    by (simp add: ps map_length_split_params)
  have "list_all (\<lambda>n. n < 65536) ?lens"
    using le_nat_bound [of "mem_read (fa_ring a) _ 2"] by (simp add: arg_lens_def list_all_iff load_le_def)
  then show "list_all (\<lambda>p. length p < 65536) (params_of a)"
    unfolding lens [symmetric] by (simp add: list_all_iff)
  have off: "unat (fa_arg_data_offset a) = 2 * unat (fa_nargs a) + sum_list ?lens"
    using assms by (simp add: wf_args_def)
  show len: "length (params_of a) = unat (fa_nargs a)"
    by (simp add: ps arg_lens_def)
  show "unat (fa_arg_data_offset a) = 2 * length (params_of a) + sum_list (map length (params_of a))"
    unfolding len lens by (rule off)
  have "map (\<lambda>p. le_bytes 2 (length p)) (params_of a) = map (le_bytes 2) ?lens"
    unfolding lens [symmetric] by simp
  then show "mem_read (fa_ring a) (fa_buffer a) (unat (fa_arg_data_offset a)) =
      concat (map (\<lambda>p. le_bytes 2 (length p)) (params_of a)) @ concat (params_of a)"
    unfolding off mem_read_add lens_bytes by (simp add: ps concat_split_params)
qed

lemma place_args_wf:
  assumes "EVT_HDR_SIZE + unat (nargs * 2) \<le> unat avail" and "unat nargs \<le> 32"
  shows "wf_args (place_args m head avail event_type nargs a)"
    and "unat (fa_buffer_size (place_args m head avail event_type nargs a)) = unat avail - EVT_HDR_SIZE"
proof -
  have n2: "unat (nargs * 2) = 2 * unat nargs"
    using assms(2) by (simp add: unat_word_ariths)
  have bs: "unat (avail - word_of_nat EVT_HDR_SIZE) = unat avail - EVT_HDR_SIZE"
    using assms(1) by (subst unat_sub_le) (auto simp: word_le_nat_alt ppm_consts)
  then show "unat (fa_buffer_size (place_args m head avail event_type nargs a)) = unat avail - EVT_HDR_SIZE"
    by (simp add: place_args_def Let_def)
  have "unat (avail - word_of_nat EVT_HDR_SIZE - nargs * 2) = unat avail - EVT_HDR_SIZE - 2 * unat nargs"
    using assms(1) bs n2 by (subst unat_sub_le) (auto simp: word_le_nat_alt)
  then show "wf_args (place_args m head avail event_type nargs a)"
    using assms(1) bs n2 by (simp add: place_args_def Let_def wf_args_def arg_lens_def)
qed

section \<open>Building an event\<close>

definition fillers_ok :: "driver_env \<Rightarrow> bool" where
  "fillers_ok d \<longleftrightarrow> (\<forall>t cb. g_ppm_events d t = Some cb \<longrightarrow> filler cb)"

lemma fill_header_frame: "same_outside m (fill_header m head ns pid t n) head (head + EVT_HDR_SIZE)"
  unfolding fill_header_def ppm_consts
  by (intro same_outside_trans [OF _ same_outside_store] same_outside_store) auto

lemma store_le_read: "mem_read (store_le m a n v) a n = le_bytes n v"
  by (simp add: store_le_def mem_simps)

lemma header_bytes:
  assumes "m' = store_le m1 (head + HDR_LEN) 4 sz"
    and "mem_read m1 head EVT_HDR_SIZE = mem_read (fill_header m head ns pid t n) head EVT_HDR_SIZE"
  shows "mem_read m' head EVT_HDR_SIZE =
    le_bytes 8 (unat ns) @ le_bytes 8 (unat (word_of_int pid :: u64)) @ le_bytes 4 sz @ le_bytes 2 t @
    le_bytes 4 (unat n)"
proof -
  let ?f = "fill_header m head ns pid t n"
  have split: "mem_read x head 26 = mem_read x head 8 @ mem_read x (head + 8) 8 @ mem_read x (head + 16) 4 @
      mem_read x (head + 20) 2 @ mem_read x (head + 22) 4" for x
    using mem_read_add [of x head 8 18] mem_read_add [of x "head + 8" 8 10]
      mem_read_add [of x "head + 16" 4 6] mem_read_add [of x "head + 20" 2 4] by (simp add: add.commute)
  have f: "mem_read ?f head 8 = le_bytes 8 (unat ns)"
    "mem_read ?f (head + 8) 8 = le_bytes 8 (unat (word_of_int pid :: u64))"
    "mem_read ?f (head + 20) 2 = le_bytes 2 t" "mem_read ?f (head + 22) 4 = le_bytes 4 (unat n)"
    unfolding fill_header_def ppm_consts by (simp_all add: store_le_read mem_simps)
  have m1: "mem_read m1 head 8 = mem_read ?f head 8" "mem_read m1 (head + 8) 8 = mem_read ?f (head + 8) 8"
    "mem_read m1 (head + 20) 2 = mem_read ?f (head + 20) 2" "mem_read m1 (head + 22) 4 = mem_read ?f (head + 22) 4"
    using assms(2) unfolding ppm_consts split by auto
  have "mem_read m' head 8 = mem_read m1 head 8" "mem_read m' (head + 8) 8 = mem_read m1 (head + 8) 8"
    "mem_read m' (head + 16) 4 = le_bytes 4 sz"
    "mem_read m' (head + 20) 2 = mem_read m1 (head + 20) 2" "mem_read m' (head + 22) 4 = mem_read m1 (head + 22) 4"
    unfolding assms(1) ppm_consts by (simp_all add: store_le_read mem_simps)
  then show ?thesis
    unfolding ppm_consts split m1 f by simp
qed

lemma run_filler_ok:
  assumes "fillers_ok d"
  shows "filler (run_filler d)"
proof -
  have "filler (case g_ppm_events d t of Some f \<Rightarrow> f | None \<Rightarrow> Pair PPM_SUCCESS)" for t
    using assms filler_done by (auto simp: fillers_ok_def split: option.split)
  from filler_depends [where F = "\<lambda>b. case g_ppm_events d (fa_event_type b) of Some f \<Rightarrow> f | None \<Rightarrow> Pair PPM_SUCCESS", OF this]
  show ?thesis
    by (simp add: run_filler_def [abs_def] option.case_distrib [where h = "\<lambda>f. f _"] cong: option.case_cong)
qed

text \<open>
  What \<open>build_event\<close> returns on a ring whose cursors are in range: it never fails, writes inside the
  free space only, and an accepted event is complete and encodes some list of parameters, as many
  as the table declares.
\<close>

definition event_wf :: "nat \<Rightarrow> byte list list \<Rightarrow> bool" where
  "event_wf event_type ps \<longleftrightarrow>
     length ps = unat (ei_nparams (g_event_info event_type)) \<and> list_all (\<lambda>p. length p < 65536) ps"

definition event_built ::
    "driver_env \<Rightarrow> u64 \<Rightarrow> nat \<Rightarrow> nat \<Rightarrow> mem \<Rightarrow> nat \<Rightarrow> byte list list \<Rightarrow> bool" where
  "event_built d ns event_type head m n ps \<longleftrightarrow>
     event_wf event_type ps \<and>
     mem_read m head n = encode_event ns (de_pid d) event_type ps \<and>
     n = length (encode_event ns (de_pid d) event_type ps)"

lemma filled_event:
  assumes fl: "filler f" and enough: "EVT_HDR_SIZE + unat (nargs * 2) \<le> unat avail" and "unat nargs \<le> 32"
    and run: "f (place_args (fill_header buf head ns pid t nargs) head avail t nargs a) = (r, a')"
  shows "same_outside buf (fa_ring a') head (head + unat avail + 1)"
    and "r = PPM_SUCCESS \<Longrightarrow> fa_curarg a' = fa_nargs a' \<Longrightarrow> sz = EVT_HDR_SIZE + unat (fa_arg_data_offset a') \<Longrightarrow>
      sz \<le> unat avail \<and> length (params_of a') = unat nargs \<and>
      list_all (\<lambda>p. length p < 65536) (params_of a') \<and>
      sz = length (encode_event ns pid t (params_of a')) \<and>
      mem_read (store_le (fa_ring a') (head + HDR_LEN) 4 sz) head sz = encode_event ns pid t (params_of a')"
proof -
  let ?h = "fill_header buf head ns pid t nargs"
  let ?a = "place_args ?h head avail t nargs a"
  note wf = place_args_wf [OF enough assms(3), of ?h head t a]
  have pl: "fa_ring ?a = ?h" "fa_buffer ?a = head + EVT_HDR_SIZE" "fa_nargs ?a = nargs"
    by (simp_all add: place_args_def Let_def)
  note st = filler.stays [OF fl wf(1) run]
  have fr: "same_outside ?h (fa_ring a') (head + EVT_HDR_SIZE) (head + unat avail + 1)"
    using st wf(2) enough by (auto simp: pl intro: same_outside_mono)
  show "same_outside buf (fa_ring a') head (head + unat avail + 1)"
  proof (rule same_outside_trans)
    show "same_outside buf ?h head (head + unat avail + 1)"
      by (rule same_outside_mono [OF fill_header_frame]) (use enough in auto)
    show "same_outside ?h (fa_ring a') head (head + unat avail + 1)"
      by (rule same_outside_mono [OF fr]) auto
  qed
  assume r: "r = PPM_SUCCESS" and full: "fa_curarg a' = fa_nargs a'"
    and sz: "sz = EVT_HDR_SIZE + unat (fa_arg_data_offset a')"
  have wf': "wf_args a'"
    using filler.succeeds [OF fl wf(1)] run r by auto
  note ce = complete_event [OF wf' full]
  have place: "fa_buffer a' = head + EVT_HDR_SIZE" "fa_nargs a' = nargs"
    using st by (auto simp: same_place_def pl)
  have fits: "sz \<le> unat avail"
    using filler.fits [OF fl wf(1)] run r wf(2) sz enough by auto
  let ?m = "store_le (fa_ring a') (head + HDR_LEN) 4 sz"
  have "mem_read (fa_ring a') head EVT_HDR_SIZE = mem_read ?h head EVT_HDR_SIZE"
    by (rule same_outside_read [OF fr]) simp
  note hb = header_bytes [OF refl this, of sz]
  have "mem_read ?m (head + EVT_HDR_SIZE) (unat (fa_arg_data_offset a')) =
      mem_read (fa_ring a') (head + EVT_HDR_SIZE) (unat (fa_arg_data_offset a'))"
    by (simp add: mem_simps ppm_consts)
  also have "\<dots> = concat (map (\<lambda>p. le_bytes 2 (length p)) (params_of a')) @ concat (params_of a')"
    using ce(1) place by simp
  finally have body: "mem_read ?m (head + EVT_HDR_SIZE) (unat (fa_arg_data_offset a')) = \<dots>" .
  have "mem_read ?m head sz = mem_read ?m head EVT_HDR_SIZE @
      mem_read ?m (head + EVT_HDR_SIZE) (unat (fa_arg_data_offset a'))"
    using mem_read_add [of ?m head EVT_HDR_SIZE "unat (fa_arg_data_offset a')"] sz by simp
  also have "\<dots> = encode_event ns pid t (params_of a')"
    unfolding hb body encode_event_def using ce(2,3) place sz by (simp add: add.assoc)
  finally have "mem_read ?m head sz = encode_event ns pid t (params_of a')" .
  moreover have "sz = length (encode_event ns pid t (params_of a'))"
    using calculation by (metis length_mem_read)
  ultimately show "sz \<le> unat avail \<and> length (params_of a') = unat nargs \<and>
      list_all (\<lambda>p. length p < 65536) (params_of a') \<and>
      sz = length (encode_event ns pid t (params_of a')) \<and>
      mem_read ?m head sz = encode_event ns pid t (params_of a')"
    using fits ce(2,4) place by simp
qed

lemma build_event_ok:
  assumes fl: "fillers_ok d" and ok: "info_ok info" and buf: "rc_buffer ring = Some buf"
  shows "\<exists>cbres esz m. build_event d consumer ring info event_type ns ed = Some (cbres, esz, Some m) \<and>
    same_outside buf m (unat (rb_head info)) (unat (rb_head info) + (ring_size - used info)) \<and>
    (\<forall>n. esz = Some n \<longrightarrow> n < ring_size - used info \<and>
       (\<exists>ps. event_built d ns (fst (resolve_event_type d ed event_type)) (unat (rb_head info)) m n ps))"
proof -
  obtain t a0 where rt: "resolve_event_type d ed event_type = (t, a0)" by fastforce
  define nargs where "nargs = ei_nparams (g_event_info t)"
  define avail where "avail = (if freespace info < delta_from_end info then freespace info else delta_from_end info)"
  define h where "h = unat (rb_head info)"
  let ?m = "fill_header buf h ns (de_pid d) t nargs"
  let ?a = "place_args ?m h avail t nargs (event_args d consumer ring ed a0)"
  obtain r a' where run: "run_filler d ?a = (r, a')" by fastforce
  have n20: "unat nargs \<le> 20" unfolding nargs_def by (rule nparams_bound)
  have av: "unat avail < ring_size - used info" "unat avail = unat (freespace info) \<or> 8192 \<le> unat avail"
    using freespace_nat [OF ok] delta_nat [OF ok] used_less [OF ok] ok
    by (auto simp: avail_def word_less_nat_alt info_ok_def)
  note be = build_event_def Let_def rt prod.case buf option.case
  show ?thesis
  proof (cases "unat (freespace info) \<ge> EVT_HDR_SIZE + unat (nargs * 2)")
    case False
    then have "build_event d consumer ring info event_type ns ed = Some (PPM_SUCCESS, None, Some buf)"
      unfolding be nargs_def by simp
    then show ?thesis by auto
  next
    case True
    have "unat (nargs * 2) \<le> 40" using n20 by (simp add: unat_word_ariths)
    with True av(2) have enough: "EVT_HDR_SIZE + unat (nargs * 2) \<le> unat avail"
      by (auto simp: ppm_consts)
    note fe = filled_event [OF run_filler_ok [OF fl] enough _ run]
    have frame: "same_outside buf (fa_ring a') h (h + (ring_size - used info))"
      using fe(1) n20 av(1) by (auto intro: same_outside_mono)
    have out: "build_event d consumer ring info event_type ns ed =
      (if r = PPM_SUCCESS \<and> fa_curarg a' = fa_nargs a'
       then Some (r, Some (EVT_HDR_SIZE + unat (fa_arg_data_offset a')),
              Some (store_le (fa_ring a') (h + HDR_LEN) 4 (EVT_HDR_SIZE + unat (fa_arg_data_offset a'))))
       else Some (r, None, Some (fa_ring a')))"
      using True run unfolding be nargs_def avail_def h_def by simp
    show ?thesis
    proof (cases "r = PPM_SUCCESS \<and> fa_curarg a' = fa_nargs a'")
      case False
      with frame show ?thesis unfolding out h_def by auto
    next
      case acc: True
      define sz where "sz = EVT_HDR_SIZE + unat (fa_arg_data_offset a')"
      have "unat nargs \<le> 32" using n20 by simp
      note ev = fe(2) [OF this conjunct1 [OF acc] conjunct2 [OF acc] sz_def]
      have "same_outside (fa_ring a') (store_le (fa_ring a') (h + HDR_LEN) 4 sz) h (h + (ring_size - used info))"
        using enough av(1) by (intro same_outside_store) (auto simp: ppm_consts)
      with frame have "same_outside buf (store_le (fa_ring a') (h + HDR_LEN) 4 sz) h (h + (ring_size - used info))"
        by (rule same_outside_trans)
      moreover have "event_built d ns t h (store_le (fa_ring a') (h + HDR_LEN) 4 sz) sz (params_of a')"
        unfolding event_built_def event_wf_def nargs_def [symmetric] using ev by blast
      moreover have "sz < ring_size - used info"
        using ev av(1) by simp
      ultimately show ?thesis
        using acc unfolding out h_def sz_def rt by auto
    qed
  qed
qed

lemma used_cong: "rb_head i = rb_head j \<Longrightarrow> rb_tail i = rb_tail j \<Longrightarrow> used i = used j"
  by (simp add: used_def)

lemma count_event_cursors [simp]:
  "rb_head (count_event ed t info) = rb_head info" "rb_tail (count_event ed t info) = rb_tail info"
  by (simp_all add: count_event_def Let_def)

lemma count_drop_cursors [simp]:
  "rb_head (count_drop r info) = rb_head info" "rb_tail (count_drop r info) = rb_tail info"
  by (simp_all add: count_drop_def)

lemma print_time_parts [simp]:
  "rc_info (print_time ns fl ring) = rc_info ring" "rc_buffer (print_time ns fl ring) = rc_buffer ring"
  "rc_capture_enabled (print_time ns fl ring) = rc_capture_enabled ring"
  "rc_preempt_count (print_time ns fl ring) = rc_preempt_count ring"
  by (simp_all add: print_time_def)

text \<open>
  The effect of recording on the queue: \<open>ring_grows ring ring' bs\<close> says that \<open>ring'\<close> is a good ring
  with \<open>bs\<close> appended to the unread bytes and the consumer's cursor where it was.
\<close>

definition ring_tail :: "ppm_ring_buffer_context \<Rightarrow> u32 option" where
  "ring_tail ring = map_option rb_tail (rc_info ring)"

definition ring_grows :: "ppm_ring_buffer_context \<Rightarrow> ppm_ring_buffer_context \<Rightarrow> byte list \<Rightarrow> bool" where
  "ring_grows ring ring' bs \<longleftrightarrow>
     ring_ok ring' \<and> ring_tail ring' = ring_tail ring \<and> unread ring' = unread ring @ bs"

lemma ring_grows_refl: "ring_ok ring \<Longrightarrow> ring_grows ring ring []"
  by (simp add: ring_grows_def)

lemma ring_grows_trans: "ring_grows r1 r2 xs \<Longrightarrow> ring_grows r2 r3 ys \<Longrightarrow> ring_grows r1 r3 (xs @ ys)"
  by (simp add: ring_grows_def)

lemma ring_same_cursors:
  assumes "ring_ok ring" and "rc_info ring = Some info" and "rc_buffer ring' = rc_buffer ring"
    and "rc_info ring' = Some info'" and "rb_head info' = rb_head info" and "rb_tail info' = rb_tail info"
  shows "ring_grows ring ring' []"
  using assms used_cong [OF assms(5,6)]
  by (auto simp: ring_grows_def ring_ok_def unread_def ring_tail_def info_ok_def split: option.splits)

lemma commit_event_grows:
  assumes ok: "ring_ok ring" and info0: "rc_info ring = Some info0" and buf: "rc_buffer ring = Some buf"
    and cur: "rb_head info = rb_head info0" "rb_tail info = rb_tail info0"
    and frame: "same_outside buf m (unat (rb_head info)) (unat (rb_head info) + (ring_size - used info))"
    and sz: "\<And>n. esz = Some n \<Longrightarrow> n < ring_size - used info"
  shows "case esz of
      None \<Rightarrow> fst (commit_event ring info (cbres, esz, Some m)) = 0 \<and>
        ring_grows ring (snd (commit_event ring info (cbres, esz, Some m))) []
    | Some n \<Rightarrow> fst (commit_event ring info (cbres, esz, Some m)) = 1 \<and>
        ring_grows ring (snd (commit_event ring info (cbres, esz, Some m))) (mem_read m (unat (rb_head info)) n)"
proof -
  have iok: "info_ok info"
    using ok info0 buf cur by (simp add: ring_ok_def info_ok_def)
  have un: "unread ring = ring_read buf (unat (rb_tail info)) (used info)"
    using info0 buf cur used_cong [OF cur] by (simp add: unread_def)
  show ?thesis
  proof (cases esz)
    case None
    have "ring_read m (unat (rb_tail info)) (used info) = ring_read buf (unat (rb_tail info)) (used info)"
      using frame unread_position(1) [OF iok] by (intro ring_read_cong) (auto simp: same_outside_def)
    then show ?thesis
      using None iok un info0 cur used_cong [of "count_drop cbres info" info]
      by (simp add: commit_event_def ring_grows_def ring_ok_def info_ok_def unread_def ring_tail_def)
  next
    case (Some n)
    obtain m'' nxt where w: "wrap_head m (unat (rb_head info) + n) = (m'', nxt)" by fastforce
    note ap = ring_append [OF iok refl frame sz [OF Some] w]
    have "unat (word_of_nat nxt :: u32) = nxt"
      using ap(2) by (simp add: unat_of_nat)
    then show ?thesis
      using Some ap iok un info0 cur
      by (simp add: commit_event_def w [unfolded cur] ring_grows_def ring_ok_def info_ok_def unread_def ring_tail_def)
  qed
qed

lemma record_event_ring_grows:
  assumes fl: "fillers_ok d" and ok: "ring_ok ring"
  shows "\<exists>res ring' bs. record_event_ring d consumer ring event_type drop_flags ns ed = Some (res, ring') \<and>
    ring_grows ring ring' bs \<and> rc_preempt_count ring' = rc_preempt_count ring \<and>
    rc_capture_enabled ring' = rc_capture_enabled ring \<and>
    (res = 0 \<and> bs = [] \<or> res = 1 \<and> (\<exists>ps. event_wf (fst (resolve_event_type d ed event_type)) ps \<and>
       bs = encode_event ns (de_pid d) (fst (resolve_event_type d ed event_type)) ps))"
proof -
  obtain info0 buf where i0: "rc_info ring = Some info0" and buf: "rc_buffer ring = Some buf"
    using ok by (auto simp: ring_ok_def split: option.splits)
  define info where "info = count_event ed event_type info0"
  have cur: "rb_head info = rb_head info0" "rb_tail info = rb_tail info0" and iok: "info_ok info"
    using ok i0 buf by (simp_all add: info_def ring_ok_def info_ok_def)
  let ?run = "record_event_ring d consumer ring event_type drop_flags ns ed"
  consider (off) "\<not> rc_capture_enabled ring" | (busy) "rc_capture_enabled ring" "rc_preempt_count ring \<noteq> 0"
    | (go) "rc_capture_enabled ring" "rc_preempt_count ring = 0" by blast
  then show ?thesis
  proof cases
    case off
    then show ?thesis using ring_grows_refl [OF ok] by (auto simp: record_event_ring_def)
  next
    case busy
    define info' where "info' = (if event_type \<noteq> PPME_PAGE_FAULT_E
        then info\<lparr>n_preemptions := n_preemptions info + 1\<rparr> else info)"
    define ring' where "ring' = ring\<lparr>rc_info := Some info'\<rparr>"
    have "?run = Some (0, ring')"
      using busy i0 by (simp add: record_event_ring_def Let_def ring'_def info'_def info_def)
    moreover have "ring_grows ring ring' []"
      using ring_same_cursors [OF ok i0, of ring' info'] cur by (simp add: ring'_def info'_def)
    ultimately show ?thesis by (auto simp: ring'_def)
  next
    case go
    obtain cbres esz m where b: "build_event d consumer ring info event_type ns ed = Some (cbres, esz, Some m)"
      and fr: "same_outside buf m (unat (rb_head info)) (unat (rb_head info) + (ring_size - used info))"
      and ev: "\<And>n. esz = Some n \<Longrightarrow> n < ring_size - used info \<and>
        (\<exists>ps. event_built d ns (fst (resolve_event_type d ed event_type)) (unat (rb_head info)) m n ps)"
      using build_event_ok [OF fl iok buf, of consumer event_type ns ed] by blast
    obtain res ring1 where c: "commit_event ring info (cbres, esz, Some m) = (res, ring1)" by fastforce
    have run: "?run = Some (res, print_time ns drop_flags ring1)"
      using go i0 b c by (simp add: record_event_ring_def Let_def info_def)
    have keep: "rc_preempt_count ring1 = rc_preempt_count ring" "rc_capture_enabled ring1 = rc_capture_enabled ring"
      using c by (auto simp: commit_event_def Let_def split: option.splits prod.splits)
    have pt: "ring_grows ring (print_time ns drop_flags ring1) bs" if "ring_grows ring ring1 bs" for bs
      using that by (simp add: ring_grows_def ring_ok_def unread_def ring_tail_def)
    from commit_event_grows [OF ok i0 buf cur fr, of esz cbres] ev c
    show ?thesis
      unfolding run by (cases esz) (auto simp: keep event_built_def dest!: pt)
  qed
qed

section \<open>Consumers\<close>

text \<open>
  \<open>records d ns c c' es\<close>: the ring of the current CPU gained the events \<open>es\<close> (type and
  parameters), the rings of the other CPUs and the consumer's settings are as before.
\<close>

definition event_list_bytes :: "driver_env \<Rightarrow> u64 \<Rightarrow> (nat \<times> byte list list) list \<Rightarrow> byte list" where
  "event_list_bytes d ns es = concat (map (\<lambda>(t, ps). encode_event ns (de_pid d) t ps) es)"

definition same_settings :: "ppm_consumer_t \<Rightarrow> ppm_consumer_t \<Rightarrow> bool" where
  "same_settings c c' \<longleftrightarrow>
     c_consumer_id c' = c_consumer_id c \<and> c_snaplen c' = c_snaplen c \<and>
     c_sampling_ratio c' = c_sampling_ratio c \<and> c_sampling_interval c' = c_sampling_interval c \<and>
     c_dropping_mode c' = c_dropping_mode c \<and> c_do_dynamic_snaplen c' = c_do_dynamic_snaplen c"

definition records ::
    "driver_env \<Rightarrow> u64 \<Rightarrow> ppm_consumer_t \<Rightarrow> ppm_consumer_t \<Rightarrow> (nat \<times> byte list list) list \<Rightarrow> bool" where
  "records d ns c c' es \<longleftrightarrow>
     same_settings c c' \<and>
     (\<forall>cpu. cpu \<noteq> de_cpu d \<longrightarrow> c_ring_buffers c' cpu = c_ring_buffers c cpu) \<and>
     ring_grows (c_ring_buffers c (de_cpu d)) (c_ring_buffers c' (de_cpu d)) (event_list_bytes d ns es) \<and>
     (\<forall>(t, ps) \<in> set es. event_wf t ps)"

abbreviation cur_ring :: "driver_env \<Rightarrow> ppm_consumer_t \<Rightarrow> ppm_ring_buffer_context" where
  "cur_ring d c \<equiv> c_ring_buffers c (de_cpu d)"

lemma records_refl: "ring_ok (cur_ring d c) \<Longrightarrow> records d ns c c []"
  by (simp add: records_def same_settings_def event_list_bytes_def ring_grows_refl)

lemma records_trans:
  "records d ns c1 c2 xs \<Longrightarrow> records d ns c2 c3 ys \<Longrightarrow> records d ns c1 c3 (xs @ ys)"
  by (auto simp: records_def same_settings_def event_list_bytes_def intro: ring_grows_trans)

lemma records_ok: "records d ns c c' es \<Longrightarrow> ring_ok (cur_ring d c')"
  by (simp add: records_def ring_grows_def)

lemma records_flags:
  "records d ns c c' es \<Longrightarrow> records d ns c (c'\<lparr>c_need_to_insert_drop_e := x\<rparr>) es"
  "records d ns c c' es \<Longrightarrow> records d ns c (c'\<lparr>c_need_to_insert_drop_x := x\<rparr>) es"
  "records d ns (c\<lparr>c_is_dropping := x\<rparr>) c' es \<Longrightarrow> records d ns c c' es"
  by (auto simp: records_def same_settings_def)

lemma record_event_core_ok:
  assumes "fillers_ok d" and "ring_ok (cur_ring d c)"
  shows "\<exists>res c' es. record_event_core d c event_type drop_flags ns ed = Some (res, c') \<and> records d ns c c' es \<and>
    c_is_dropping c' = c_is_dropping c \<and>
    (res = 0 \<and> es = [] \<or> res = 1 \<and> (\<exists>ps. es = [(fst (resolve_event_type d ed event_type), ps)]))"
proof (cases "g_events_mask d event_type")
  case False
  then show ?thesis using records_refl [OF assms(2)] by (auto simp: record_event_core_def)
next
  case True
  obtain res ring' bs where r: "record_event_ring d c (cur_ring d c) event_type drop_flags ns ed = Some (res, ring')"
      "ring_grows (cur_ring d c) ring' bs"
      "res = 0 \<and> bs = [] \<or> res = 1 \<and> (\<exists>ps. event_wf (fst (resolve_event_type d ed event_type)) ps \<and>
         bs = encode_event ns (de_pid d) (fst (resolve_event_type d ed event_type)) ps)"
    using record_event_ring_grows [OF assms, of c event_type drop_flags ns ed] by blast
  let ?c = "c\<lparr>c_ring_buffers := (c_ring_buffers c)(de_cpu d := ring')\<rparr>"
  have run: "record_event_core d c event_type drop_flags ns ed = Some (res, ?c)"
    using True r(1) by (simp add: record_event_core_def)
  have rec: "records d ns c ?c es" if "bs = event_list_bytes d ns es"
    "\<forall>(t, ps) \<in> set es. event_wf t ps" for es
    using that r(2) by (simp add: records_def same_settings_def)
  from r(3) show ?thesis
  proof (elim disjE conjE exE)
    assume "res = 0" "bs = []"
    with run rec [of "[]"] show ?thesis by (auto simp: event_list_bytes_def)
  next
    fix ps assume "res = 1" "event_wf (fst (resolve_event_type d ed event_type)) ps"
      "bs = encode_event ns (de_pid d) (fst (resolve_event_type d ed event_type)) ps"
    with run rec [of "[(fst (resolve_event_type d ed event_type), ps)]"] show ?thesis
      by (auto simp: event_list_bytes_def)
  qed
qed

lemma resolve_zero: "fst (resolve_event_type d zero_event_data t) = t"
  by (simp add: resolve_event_type_def zero_event_data_def)

text \<open>Only drop markers come before the event itself.\<close>

definition drop_marks :: "(nat \<times> byte list list) list \<Rightarrow> bool" where
  "drop_marks es \<longleftrightarrow> (\<forall>(t, ps) \<in> set es. t = PPME_DROP_E \<or> t = PPME_DROP_X)"

lemma drop_marks_simps [simp]: "drop_marks []" "drop_marks (xs @ ys) \<longleftrightarrow> drop_marks xs \<and> drop_marks ys"
  by (auto simp: drop_marks_def)

lemma record_drop_mark:
  assumes "fillers_ok d" and "ring_ok (cur_ring d c)" and "t = PPME_DROP_E \<or> t = PPME_DROP_X"
  obtains res c' es where "record_event_core d c t UF_NEVER_DROP ns zero_event_data = Some (res, c')"
    and "records d ns c c' es" and "drop_marks es" and "length es \<le> 1"
    and "c_is_dropping c' = c_is_dropping c"
proof -
  obtain res c' es where "record_event_core d c t UF_NEVER_DROP ns zero_event_data = Some (res, c')"
      "records d ns c c' es" "c_is_dropping c' = c_is_dropping c" "es = [] \<or> (\<exists>ps. es = [(t, ps)])"
    using record_event_core_ok [OF assms(1,2), of t UF_NEVER_DROP ns zero_event_data]
    unfolding resolve_zero by blast
  with assms(3) show thesis by (intro that [of res c' es]) (auto simp: drop_marks_def)
qed

lemma record_drop_e_ok:
  assumes "fillers_ok d" and "ring_ok (cur_ring d c)"
  obtains c' es where "record_drop_e d c ns = Some c'" and "records d ns c c' es" and "drop_marks es"
    and "length es \<le> 1" and "c_is_dropping c' = c_is_dropping c"
proof -
  obtain res c' es where "record_event_core d c PPME_DROP_E UF_NEVER_DROP ns zero_event_data = Some (res, c')"
      "records d ns c c' es" "drop_marks es" "length es \<le> 1" "c_is_dropping c' = c_is_dropping c"
    using record_drop_mark [OF assms, of PPME_DROP_E ns] by blast
  then show thesis
    by (intro that [of "c'\<lparr>c_need_to_insert_drop_e := (if res = 0 then 1 else 0)\<rparr>" es])
      (simp_all add: record_drop_e_def records_flags(1))
qed

lemma record_drop_x_ok:
  assumes "fillers_ok d" and "ring_ok (cur_ring d c)"
  obtains c' es where "record_drop_x d c ns = Some c'" and "records d ns c c' es" and "drop_marks es"
    and "length es \<le> 1" and "c_is_dropping c' = c_is_dropping c"
proof -
  obtain res c' es where "record_event_core d c PPME_DROP_X UF_NEVER_DROP ns zero_event_data = Some (res, c')"
      "records d ns c c' es" "drop_marks es" "length es \<le> 1" "c_is_dropping c' = c_is_dropping c"
    using record_drop_mark [OF assms, of PPME_DROP_X ns] by blast
  then show thesis
    by (intro that [of "c'\<lparr>c_need_to_insert_drop_x := (if res = 0 then 1 else 0)\<rparr>" es])
      (simp_all add: record_drop_x_def records_flags(2))
qed

text \<open>When an event is dropped, in terms of the consumer's settings and the time.\<close>

definition sampled_out :: "ppm_consumer_t \<Rightarrow> u64 \<Rightarrow> bool" where
  "sampled_out c ns \<longleftrightarrow>
     ucast (c_sampling_interval c) < SECOND_IN_NS \<and> ns mod SECOND_IN_NS \<ge> ucast (c_sampling_interval c)"

lemma drop_event_ok:
  assumes "fillers_ok d" and ok: "ring_ok (cur_ring d c)"
  shows "\<exists>b c' es. drop_event d c event_type drop_flags ns regs = Some (b, c') \<and> records d ns c c' es \<and>
    drop_marks es \<and> length es \<le> 1 \<and>
    (b \<longleftrightarrow> c_dropping_mode c \<noteq> 0 \<and>
       (drop_nostate_event d event_type regs \<or>
        drop_flags AND UF_NEVER_DROP = 0 \<and> (drop_flags AND UF_ALWAYS_DROP \<noteq> 0 \<or> sampled_out c ns)))"
proof -
  have none: ?thesis if "drop_event d c event_type drop_flags ns regs = Some (b, c)"
    and "b \<longleftrightarrow> c_dropping_mode c \<noteq> 0 \<and> (drop_nostate_event d event_type regs \<or>
        drop_flags AND UF_NEVER_DROP = 0 \<and> (drop_flags AND UF_ALWAYS_DROP \<noteq> 0 \<or> sampled_out c ns))" for b
    using that records_refl [OF ok] by (intro exI [of _ b] exI [of _ c] exI [of _ "[]"]) simp
  consider (easy) "c_dropping_mode c = 0 \<or> drop_nostate_event d event_type regs \<or>
      drop_flags AND UF_NEVER_DROP \<noteq> 0 \<or> drop_flags AND UF_ALWAYS_DROP \<noteq> 0"
    | (out) "c_dropping_mode c \<noteq> 0" "\<not> drop_nostate_event d event_type regs" "drop_flags AND UF_NEVER_DROP = 0"
        "drop_flags AND UF_ALWAYS_DROP = 0" "sampled_out c ns"
    | (inn) "c_dropping_mode c \<noteq> 0" "\<not> drop_nostate_event d event_type regs" "drop_flags AND UF_NEVER_DROP = 0"
        "drop_flags AND UF_ALWAYS_DROP = 0" "\<not> sampled_out c ns" by blast
  then show ?thesis
  proof cases
    case easy
    then show ?thesis
      by (intro none [of "c_dropping_mode c \<noteq> 0 \<and> (drop_nostate_event d event_type regs \<or>
        drop_flags AND UF_NEVER_DROP = 0 \<and> drop_flags AND UF_ALWAYS_DROP \<noteq> 0)"]) (auto simp: drop_event_def)
  next
    case out
    show ?thesis
    proof (cases "c_is_dropping c = 0")
      case True
      have okc: "ring_ok (cur_ring d (c\<lparr>c_is_dropping := 1\<rparr>))" using ok by simp
      obtain c' es where "record_drop_e d (c\<lparr>c_is_dropping := 1\<rparr>) ns = Some c'"
          "records d ns (c\<lparr>c_is_dropping := 1\<rparr>) c' es" "drop_marks es" "length es \<le> 1"
        using record_drop_e_ok [OF assms(1), of "c\<lparr>c_is_dropping := 1\<rparr>" ns] okc by blast
      then show ?thesis
        using out True by (intro exI [of _ True] exI [of _ c'] exI [of _ es])
          (auto simp: drop_event_def sampled_out_def dest: records_flags(3))
    next
      case False
      with out show ?thesis by (intro none [of True]) (auto simp: drop_event_def sampled_out_def)
    qed
  next
    case inn
    show ?thesis
    proof (cases "c_is_dropping c = 1")
      case True
      have okc: "ring_ok (cur_ring d (c\<lparr>c_is_dropping := 0\<rparr>))" using ok by simp
      obtain c' es where "record_drop_x d (c\<lparr>c_is_dropping := 0\<rparr>) ns = Some c'"
          "records d ns (c\<lparr>c_is_dropping := 0\<rparr>) c' es" "drop_marks es" "length es \<le> 1"
        using record_drop_x_ok [OF assms(1), of "c\<lparr>c_is_dropping := 0\<rparr>" ns] okc by blast
      then show ?thesis
        using inn True by (intro exI [of _ False] exI [of _ c'] exI [of _ es])
          (auto simp: drop_event_def sampled_out_def dest: records_flags(3))
    next
      case False
      with inn show ?thesis by (intro none [of False]) (auto simp: drop_event_def sampled_out_def)
    qed
  qed
qed

lemma record_event_consumer_ok:
  assumes "fillers_ok d" and ok: "ring_ok (cur_ring d c)"
  shows "\<exists>res c' ms es. record_event_consumer d c event_type drop_flags ns ed = Some (res, c') \<and>
    records d ns c c' (ms @ es) \<and> drop_marks ms \<and> length ms \<le> 2 \<and>
    (res = 0 \<and> es = [] \<or> res = 1 \<and> (\<exists>ps. es = [(fst (resolve_event_type d ed event_type), ps)]))"
proof -
  let ?goal = "\<lambda>run :: (nat \<times> ppm_consumer_t) option. \<exists>res c' ms es. run = Some (res, c') \<and> records d ns c c' (ms @ es) \<and> drop_marks ms \<and>
    length ms \<le> 2 \<and> (res = 0 \<and> es = [] \<or> res = 1 \<and> (\<exists>ps. es = [(fst (resolve_event_type d ed event_type), ps)]))"
  have core: "?goal (record_event_core d c2 event_type drop_flags ns ed)"
    if "records d ns c c2 ms" "drop_marks ms" "length ms \<le> 2" for c2 ms
    using record_event_core_ok [OF assms(1) records_ok [OF that(1)], of event_type drop_flags ns ed] that
    by (blast intro: records_trans)
  define pre where "pre = (if c_need_to_insert_drop_e c = 1 then record_drop_e d c ns
    else if c_need_to_insert_drop_x c = 1 then record_drop_x d c ns else Some c)"
  obtain c1 m1 where c1: "pre = Some c1" "records d ns c c1 m1" "drop_marks m1" "length m1 \<le> 1"
  proof (cases "c_need_to_insert_drop_e c = 1")
    case True
    then show thesis
      using that record_drop_e_ok [OF assms, of ns] unfolding pre_def by (metis (full_types))
  next
    case False
    show thesis
    proof (cases "c_need_to_insert_drop_x c = 1")
      case True
      with False show thesis
        using that record_drop_x_ok [OF assms, of ns] unfolding pre_def by (metis (full_types))
    next
      case nx: False
      show thesis
        by (rule that [of c "[]"]) (use False nx records_refl [OF ok] in \<open>auto simp: pre_def\<close>)
    qed
  qed
  obtain b c2 m2 where c2: "drop_event d c1 event_type drop_flags ns (case ed_regs ed of Some r \<Rightarrow> r | None \<Rightarrow> null_regs)
      = Some (b, c2)" "records d ns c1 c2 m2" "drop_marks m2" "length m2 \<le> 1"
    using drop_event_ok [OF assms(1) records_ok [OF c1(2)]] by blast
  have both: "records d ns c c2 (m1 @ m2)" "drop_marks (m1 @ m2)" "length (m1 @ m2) \<le> 2"
    using records_trans [OF c1(2) c2(2)] c1 c2 by auto
  have run: "record_event_consumer d c event_type drop_flags ns ed =
    (if \<not> g_events_mask d event_type then Some (0, c)
     else if event_type = PPME_DROP_E \<or> event_type = PPME_DROP_X then record_event_core d c event_type drop_flags ns ed
     else if b then Some (0, c2) else record_event_core d c2 event_type drop_flags ns ed)"
    using c1(1) c2(1) unfolding record_event_consumer_def pre_def [symmetric] by simp
  have idle: "?goal (Some (0, c'))" if "records d ns c c' ms" "drop_marks ms" "length ms \<le> 2" for c' ms
    using that by (metis append_Nil2)
  define G where "G = ?goal"
  have "G (Some (0, c))" "G (Some (0, c2))" "G (record_event_core d c event_type drop_flags ns ed)"
      "G (record_event_core d c2 event_type drop_flags ns ed)"
    unfolding G_def using idle [OF records_refl [OF ok]] idle [OF both] core [OF records_refl [OF ok]] core [OF both]
    by simp_all
  then have "G (record_event_consumer d c event_type drop_flags ns ed)"
    unfolding run by simp
  then show ?thesis unfolding G_def .
qed

lemma record_event_all_consumers_ok:
  assumes "fillers_ok d" and "\<forall>c \<in> set cs. ring_ok (cur_ring d c)"
  shows "\<exists>cs'. record_event_all_consumers d cs event_type drop_flags ns ed = Some cs' \<and>
    list_all2 (\<lambda>c c'. \<exists>es. records d ns c c' es) cs cs'"
  using assms(2)
proof (induction cs)
  case (Cons c cs)
  then obtain res c' es where "record_event_consumer d c event_type drop_flags ns ed = Some (res, c')"
      "records d ns c c' es"
    using record_event_consumer_ok [OF assms(1), of c event_type drop_flags ns ed] by auto
  with Cons show ?case by auto
qed simp

lemma record_event_ring_full:
  assumes "rc_capture_enabled ring" and "rc_preempt_count ring = 0" and i: "rc_info ring = Some info"
    and "resolve_event_type d ed event_type = (t, a0)"
    and full: "unat (freespace info) < EVT_HDR_SIZE + 2 * unat (ei_nparams (g_event_info t))"
  shows "\<exists>ring'. record_event_ring d consumer ring event_type drop_flags ns ed = Some (0, ring') \<and>
    rc_buffer ring' = rc_buffer ring \<and>
    rc_info ring' = Some ((count_event ed event_type info)\<lparr>n_drops_buffer := n_drops_buffer info + 1\<rparr>)"
proof -
  define nargs where "nargs = ei_nparams (g_event_info t)"
  define info' where "info' = count_event ed event_type info"
  have "unat (nargs * 2) = 2 * unat nargs"
    using nparams_bound [of t] by (simp add: nargs_def unat_word_ariths)
  moreover have "freespace info' = freespace info"
    by (simp add: info'_def freespace_def)
  ultimately have "\<not> EVT_HDR_SIZE + unat (nargs * 2) \<le> unat (freespace info')"
    using full by (simp add: nargs_def)
  then have "build_event d consumer ring info' event_type ns ed = Some (PPM_SUCCESS, None, rc_buffer ring)"
    using assms(4) by (simp add: build_event_def Let_def nargs_def)
  moreover have "n_drops_buffer info' = n_drops_buffer info"
    by (simp add: info'_def count_event_def Let_def)
  ultimately show ?thesis
    using assms(1-3) by (simp add: record_event_ring_def Let_def info'_def commit_event_def count_drop_def)
qed

section \<open>A concrete driver\<close>

definition demo_driver :: driver_env where
  "demo_driver = \<lparr>de_cpu = 0, de_pid = 77, de_fd_is_open = \<lambda>fd. fd = 3, g_events_mask = \<lambda>_. True,
     g_ppm_events = (\<lambda>t. Some (fill_seq [push demo_env g_event_info 3 0 False 0])),
     de_kernel = demo_env, de_stack_args = demo_args, de_stack_args32 = \<lambda>_. 0\<rparr>"

lemma demo_driver_fillers: "fillers_ok demo_driver"
  by (auto simp: fillers_ok_def demo_driver_def intro!: filler_seq filler_push)

lemma demo_ring_ok: "ring_ok (c_ring_buffers demo_consumer cpu)"
  by (simp add: demo_consumer_def demo_ring_def ring_ok_def info_ok_def)

section \<open>Properties\<close>

text \<open>
  C2. Recording an event refines appending to a queue.  With fillers that keep their contract and a
  ring whose cursors are in range, \<open>record_event_consumer\<close> never dereferences a null pointer, and
  the unread bytes of the current CPU's ring afterwards are those before followed by whole encoded
  events: at most two drop markers, then the event itself exactly when the result is 1.  Each has
  as many parameters as the table declares; the consumer's read position, its settings and the
  rings of other CPUs do not change, and the ring is good again.
\<close>

theorem record_event_appends:
  assumes "fillers_ok d" and "ring_ok (cur_ring d c)"
  shows "\<exists>res c' ms es. record_event_consumer d c event_type drop_flags ns ed = Some (res, c') \<and>
    records d ns c c' (ms @ es) \<and> drop_marks ms \<and> length ms \<le> 2 \<and>
    (res = 0 \<and> es = [] \<or> res = 1 \<and> (\<exists>ps. es = [(fst (resolve_event_type d ed event_type), ps)]))"
  by (rule record_event_consumer_ok [OF assms])

theorem record_event_appends_witness:
  "\<exists>res c' ms es. record_event_consumer demo_driver demo_consumer PPME_SYSCALL_CLOSE_E UF_USED 5 zero_event_data = Some (res, c') \<and>
    records demo_driver 5 demo_consumer c' (ms @ es) \<and> drop_marks ms \<and> length ms \<le> 2 \<and>
    (res = 0 \<and> es = [] \<or> res = 1 \<and> (\<exists>ps. es = [(PPME_SYSCALL_CLOSE_E, ps)]))"
  using record_event_appends [OF demo_driver_fillers demo_ring_ok, of PPME_SYSCALL_CLOSE_E UF_USED 5 zero_event_data]
  unfolding resolve_zero .







end
