(* ===== verification/Scap_Ring.thy ===== *)
theory Scap_Ring
  imports Ring_Buffer
begin

text \<open>
  The consumer side of the ring: \<open>userspace/libscap/scap.c\<close> reading the kernel module's rings
  (\<open>scap_next_live\<close> and what it calls), the suppression of threads
  (\<open>userspace/libscap/scap_procs.c\<close>), and the splitting of an event into parameters
  (\<open>load_params\<close> of \<open>userspace/libsinsp/event.h\<close>).  The branches for the eBPF probe are not
  taken here.
\<close>

section \<open>Devices\<close>

datatype scap_res =
    SCAP_SUCCESS | SCAP_FAILURE | SCAP_TIMEOUT | SCAP_UNKNOWN_KPROBE | SCAP_ILLEGAL_INPUT | SCAP_NOTFOUND | SCAP_INPUT_TOO_SMALL
  | SCAP_EOF | SCAP_UNEXPECTED_BLOCK | SCAP_VERSION_MISMATCH | SCAP_NOT_SUPPORTED

text \<open>
  \<open>m_bufinfo\<close> and \<open>m_buffer\<close> are the memory shared with the driver; \<open>m_sn_next_event\<close> is kept as
  the offset from \<open>m_buffer\<close>.
\<close>

record scap_device =
  m_bufinfo :: ppm_ring_buffer_info
  m_buffer :: mem
  m_lastreadsize :: u32
  m_sn_next_event :: nat
  m_sn_len :: u32

text \<open>The driver maps the ring twice in a row, so an event that wraps is contiguous.\<close>

definition dev_view :: "scap_device \<Rightarrow> mem" where
  "dev_view dev p = m_buffer dev (p mod ring_size)"

definition evt_ts :: "mem \<Rightarrow> nat \<Rightarrow> u64" where "evt_ts v p = word_of_nat (load_le v (p + HDR_TS) 8)"
definition evt_tid :: "mem \<Rightarrow> nat \<Rightarrow> u64" where "evt_tid v p = word_of_nat (load_le v (p + HDR_TID) 8)"
definition evt_len :: "mem \<Rightarrow> nat \<Rightarrow> u32" where "evt_len v p = word_of_nat (load_le v (p + HDR_LEN) 4)"
definition evt_type :: "mem \<Rightarrow> nat \<Rightarrow> nat" where "evt_type v p = load_le v (p + HDR_TYPE) 2"
definition evt_nparams :: "mem \<Rightarrow> nat \<Rightarrow> nat" where "evt_nparams v p = load_le v (p + HDR_NPARAMS) 4"

definition get_buf_pointers :: "ppm_ring_buffer_info \<Rightarrow> u32 \<times> u32 \<times> u64" where
  "get_buf_pointers bufinfo =
     (rb_head bufinfo, rb_tail bufinfo,
      ucast (if rb_tail bufinfo > rb_head bufinfo
             then RING_BUF_SIZE - rb_tail bufinfo + rb_head bufinfo
             else rb_head bufinfo - rb_tail bufinfo))"

definition scap_advance_tail :: "scap_device \<Rightarrow> scap_device" where
  "scap_advance_tail dev =
     (let ttail = rb_tail (m_bufinfo dev) + m_lastreadsize dev in
      dev\<lparr>m_bufinfo := (m_bufinfo dev)\<lparr>rb_tail := (if ttail < RING_BUF_SIZE then ttail else ttail - RING_BUF_SIZE)\<rparr>,
          m_lastreadsize := 0\<rparr>)"

text \<open>With the out parameters where \<open>refill_read_buffers\<close> points them.\<close>

definition scap_readbuf :: "scap_device \<Rightarrow> scap_device" where
  "scap_readbuf dev =
     (let (thead, ttail, read_size) = get_buf_pointers (m_bufinfo dev) in
      dev\<lparr>m_lastreadsize := ucast read_size, m_sn_len := ucast read_size, m_sn_next_event := unat ttail\<rparr>)"

definition buf_size_used :: "scap_device \<Rightarrow> u64" where
  "buf_size_used dev = snd (snd (get_buf_pointers (m_bufinfo dev)))"

definition BUFFER_EMPTY_THRESHOLD_B :: u64 where [ppm_consts]: "BUFFER_EMPTY_THRESHOLD_B = 20000"
definition BUFFER_EMPTY_WAIT_TIME_US_START :: u64 where [ppm_consts]: "BUFFER_EMPTY_WAIT_TIME_US_START = 500"
definition BUFFER_EMPTY_WAIT_TIME_US_MAX :: u64 where [ppm_consts]: "BUFFER_EMPTY_WAIT_TIME_US_MAX = 30000"

definition are_buffers_empty :: "scap_device list \<Rightarrow> bool" where
  "are_buffers_empty devs \<longleftrightarrow> \<not> list_ex (\<lambda>dev. buf_size_used dev > BUFFER_EMPTY_THRESHOLD_B) devs"

datatype scap_mode_t = SCAP_MODE_NONE | SCAP_MODE_CAPTURE | SCAP_MODE_LIVE | SCAP_MODE_NODRIVER

text \<open>
  The part of the handle these functions use.  The hash table \<open>m_suppressed_tids\<close> is the list of
  its keys, the array \<open>m_suppressed_comms\<close> a list of strings without their terminators.
\<close>

record scap_t =
  m_mode :: scap_mode_t
  m_devs :: "scap_device list"
  m_buffer_empty_wait_time_us :: u64
  m_evtcnt :: u64
  m_suppressed_comms :: "byte list list"
  m_suppressed_tids :: "u64 list"
  m_num_suppressed_evts :: u64

definition refill_read_buffers :: "scap_t \<Rightarrow> scap_res \<times> scap_t" where
  "refill_read_buffers handle =
     (SCAP_TIMEOUT,
      handle\<lparr>m_buffer_empty_wait_time_us :=
               (if are_buffers_empty (m_devs handle)
                then (if m_buffer_empty_wait_time_us handle * 2 < BUFFER_EMPTY_WAIT_TIME_US_MAX
                      then m_buffer_empty_wait_time_us handle * 2 else BUFFER_EMPTY_WAIT_TIME_US_MAX)
                else BUFFER_EMPTY_WAIT_TIME_US_START),
             m_devs := map scap_readbuf (m_devs handle)\<rparr>)"

section \<open>The next event\<close>

text \<open>
  The loop of \<open>scap_next_live\<close> over the devices from \<open>j\<close> on: the devices with emptied ones
  released, and the device picked (65535 for none), or \<open>None\<close> on a corrupted buffer.
\<close>

fun next_live_loop :: "nat \<Rightarrow> u64 \<Rightarrow> u16 \<Rightarrow> scap_device list \<Rightarrow> scap_device list \<times> u16 option" where
  "next_live_loop j max_ts pcpuid [] = ([], Some pcpuid)"
| "next_live_loop j max_ts pcpuid (dev # devs) =
     (if m_sn_len dev = 0 then
        let dev' = (if m_lastreadsize dev > 0 then scap_advance_tail dev else dev);
            (ds, r) = next_live_loop (Suc j) max_ts pcpuid devs in (dev' # ds, r)
      else
        let v = dev_view dev; p = m_sn_next_event dev in
        if evt_ts v p < max_ts then
          if evt_len v p > m_sn_len dev then (dev # devs, None)
          else let (ds, r) = next_live_loop (Suc j) (evt_ts v p) (word_of_nat j) devs in (dev # ds, r)
        else let (ds, r) = next_live_loop (Suc j) max_ts pcpuid devs in (dev # ds, r))"

definition consume :: "scap_device \<Rightarrow> scap_device" where
  "consume dev =
     (let len = evt_len (dev_view dev) (m_sn_next_event dev) in
      dev\<lparr>m_sn_len := m_sn_len dev - len, m_sn_next_event := m_sn_next_event dev + unat len\<rparr>)"

text \<open>The event returned is the device it comes from and its offset there.\<close>

definition scap_next_live :: "scap_t \<Rightarrow> scap_res \<times> (u16 \<times> nat) option \<times> scap_t" where
  "scap_next_live handle =
     (let (devs, r) = next_live_loop 0 (-1) 65535 (m_devs handle); handle' = handle\<lparr>m_devs := devs\<rparr> in
      case r of None \<Rightarrow> (SCAP_FAILURE, None, handle')
      | Some pcpuid \<Rightarrow>
          if pcpuid \<noteq> 65535 then
            let dev = devs ! unat pcpuid in
            (SCAP_SUCCESS, Some (pcpuid, m_sn_next_event dev),
             handle'\<lparr>m_devs := devs[unat pcpuid := consume dev]\<rparr>)
          else let (res, handle'') = refill_read_buffers handle' in (res, None, handle''))"

section \<open>Suppressed threads\<close>

definition SCAP_MAX_SUPPRESSED_COMMS :: nat where [ppm_consts]: "SCAP_MAX_SUPPRESSED_COMMS = 32"

definition scap_suppress_events_comm :: "scap_t \<Rightarrow> byte list \<Rightarrow> scap_res \<times> scap_t" where
  "scap_suppress_events_comm handle comm =
     (if comm \<in> set (m_suppressed_comms handle) then (SCAP_SUCCESS, handle)
      else if length (m_suppressed_comms handle) \<ge> SCAP_MAX_SUPPRESSED_COMMS then (SCAP_FAILURE, handle)
      else (SCAP_SUCCESS, handle\<lparr>m_suppressed_comms := m_suppressed_comms handle @ [comm]\<rparr>))"

definition scap_check_suppressed_tid :: "scap_t \<Rightarrow> u64 \<Rightarrow> bool" where
  "scap_check_suppressed_tid handle tid \<longleftrightarrow> tid \<in> set (m_suppressed_tids handle)"

text \<open>\<open>strcmp(s, comm) == 0\<close> for a string \<open>s\<close> without zeros and the bytes at \<open>p\<close>.\<close>

definition str_eq :: "byte list \<Rightarrow> mem \<Rightarrow> nat \<Rightarrow> bool" where
  "str_eq s v p \<longleftrightarrow> mem_read v p (length s + 1) = s @ [0]"

definition scap_update_suppressed :: "scap_t \<Rightarrow> mem \<Rightarrow> nat \<Rightarrow> u64 \<Rightarrow> u64 \<Rightarrow> bool \<times> scap_t" where
  "scap_update_suppressed handle v comm tid ptid =
     (let suppressed = (ptid \<in> set (m_suppressed_tids handle) \<or>
                        list_ex (\<lambda>s. str_eq s v comm) (m_suppressed_comms handle));
          known = (tid \<in> set (m_suppressed_tids handle)) in
      if suppressed \<and> \<not> known then (True, handle\<lparr>m_suppressed_tids := tid # m_suppressed_tids handle\<rparr>)
      else if \<not> suppressed \<and> known
        then (False, handle\<lparr>m_suppressed_tids := removeAll tid (m_suppressed_tids handle)\<rparr>)
      else (suppressed, handle))"

definition PPME_PROCEXIT_1_E :: nat where [ppm_consts]: "PPME_PROCEXIT_1_E = 186"
definition PPME_SYSCALL_CLONE_20_X :: nat where [ppm_consts]: "PPME_SYSCALL_CLONE_20_X = 223"
definition PPME_SYSCALL_FORK_20_X :: nat where [ppm_consts]: "PPME_SYSCALL_FORK_20_X = 225"
definition PPME_SYSCALL_VFORK_20_X :: nat where [ppm_consts]: "PPME_SYSCALL_VFORK_20_X = 227"
definition PPME_SYSCALL_EXECVE_19_X :: nat where [ppm_consts]: "PPME_SYSCALL_EXECVE_19_X = 293"

definition scap_check_suppressed :: "scap_t \<Rightarrow> mem \<Rightarrow> nat \<Rightarrow> scap_res \<times> bool \<times> scap_t" where
  "scap_check_suppressed handle v p =
     (if evt_type v p \<in> set [PPME_SYSCALL_CLONE_20_X, PPME_SYSCALL_FORK_20_X, PPME_SYSCALL_VFORK_20_X,
                              PPME_SYSCALL_EXECVE_19_X] then
        let lens = p + EVT_HDR_SIZE; valptr = lens + 2 * evt_nparams v p in
        if evt_nparams v p < 14 then (SCAP_FAILURE, False, handle)
        else
          let comm = valptr + sum_list (map (\<lambda>j. load_le v (lens + 2 * j) 2) [0..<13]);
              (suppressed, handle') = scap_update_suppressed handle v comm (evt_tid v p) 0 in
          (SCAP_SUCCESS, suppressed, handle')
      else
        let known = (evt_tid v p \<in> set (m_suppressed_tids handle)) in
        if evt_type v p = PPME_PROCEXIT_1_E then
          (SCAP_SUCCESS, known,
           if known then handle\<lparr>m_suppressed_tids := removeAll (evt_tid v p) (m_suppressed_tids handle)\<rparr> else handle)
        else (SCAP_SUCCESS, known, handle))"

text \<open>
  An event handed to the client: the device, the memory it lies in and its address.  The reader of
  capture files is a parameter, and so is the clock of the mode without a driver, whose static
  event lies at address 0 of a memory of its own.
\<close>

type_synonym next_out = "scap_res \<times> (u16 \<times> mem \<times> nat) option \<times> scap_t"

definition live_event :: "scap_res \<times> (u16 \<times> nat) option \<times> scap_t \<Rightarrow> next_out" where
  "live_event out =
     (case out of (res, evt, h) \<Rightarrow> (res, map_option (\<lambda>(cpuid, p). (cpuid, dev_view (m_devs h ! unat cpuid), p)) evt, h))"

definition PPME_SYSDIGEVENT_X :: nat where [ppm_consts]: "PPME_SYSDIGEVENT_X = 197"

definition scap_next_nodriver :: "u64 \<Rightarrow> u64 \<Rightarrow> u16 \<Rightarrow> scap_t \<Rightarrow> next_out" where
  "scap_next_nodriver tv_sec tv_usec cpuid handle =
     (let m = store_le (\<lambda>_. 0) HDR_TS 8 (unat (tv_sec * 1000000000 + tv_usec * 1000));
          m = store_le m HDR_TID 8 (unat (-1 :: u64));
          m = store_le m HDR_TYPE 2 PPME_SYSDIGEVENT_X in
      (SCAP_SUCCESS, Some (cpuid, m, 0), handle))"

definition scap_next :: "(scap_t \<Rightarrow> next_out) \<Rightarrow> (scap_t \<Rightarrow> next_out) \<Rightarrow> scap_t \<Rightarrow> next_out" where
  "scap_next next_offline next_nodriver handle =
     (let (res, pevent, h) =
            (case m_mode handle of
               SCAP_MODE_CAPTURE \<Rightarrow> next_offline handle
             | SCAP_MODE_LIVE \<Rightarrow> live_event (scap_next_live handle)
             | SCAP_MODE_NODRIVER \<Rightarrow> next_nodriver handle
             | SCAP_MODE_NONE \<Rightarrow> (SCAP_FAILURE, None, handle)) in
      if res = SCAP_SUCCESS then
        case pevent of
          None \<Rightarrow> (res, pevent, h)
        | Some (cpuid, v, p) \<Rightarrow>
            (case scap_check_suppressed h v p of (res, suppressed, h') \<Rightarrow>
               if res \<noteq> SCAP_SUCCESS then (res, pevent, h')
               else if suppressed
               then (SCAP_TIMEOUT, pevent, h'\<lparr>m_num_suppressed_evts := m_num_suppressed_evts h' + 1\<rparr>)
               else (res, pevent, h'\<lparr>m_evtcnt := m_evtcnt h' + 1\<rparr>))
      else (res, pevent, h))"

definition scap_max_buf_used :: "scap_t \<Rightarrow> u64" where
  "scap_max_buf_used handle =
     foldl (\<lambda>mx dev. if buf_size_used dev > mx then buf_size_used dev else mx) 0 (m_devs handle)"

record scap_stats =
  st_n_evts :: u64
  st_n_drops :: u64
  st_n_drops_buffer :: u64
  st_n_drops_pf :: u64
  st_n_drops_bug :: u64
  st_n_preemptions :: u64
  st_n_suppressed :: u64
  st_n_tids_suppressed :: u64

definition scap_get_stats :: "scap_t \<Rightarrow> scap_stats" where
  "scap_get_stats handle =
     foldl (\<lambda>st dev. let i = m_bufinfo dev in
         st\<lparr>st_n_evts := st_n_evts st + n_evts i,
            st_n_drops_buffer := st_n_drops_buffer st + n_drops_buffer i,
            st_n_drops_pf := st_n_drops_pf st + n_drops_pf i,
            st_n_drops := st_n_drops st + (n_drops_buffer i + n_drops_pf i),
            st_n_preemptions := st_n_preemptions st + n_preemptions i\<rparr>)
       \<lparr>st_n_evts = 0, st_n_drops = 0, st_n_drops_buffer = 0, st_n_drops_pf = 0, st_n_drops_bug = 0,
        st_n_preemptions = 0, st_n_suppressed = m_num_suppressed_evts handle,
        st_n_tids_suppressed = word_of_nat (length (m_suppressed_tids handle))\<rparr>
       (m_devs handle)"

section \<open>Parameters of an event\<close>

fun load_params_loop :: "mem \<Rightarrow> nat \<Rightarrow> nat \<Rightarrow> nat \<Rightarrow> nat \<Rightarrow> byte list list" where
  "load_params_loop v lens valptr j 0 = []"
| "load_params_loop v lens valptr j (Suc n) =
     (let len = load_le v (lens + 2 * j) 2 in
      mem_read v valptr len # load_params_loop v lens (valptr + len) (Suc j) n)"

definition load_params :: "mem \<Rightarrow> nat \<Rightarrow> byte list list" where
  "load_params v p =
     (let info_nparams = unat (ei_nparams (g_event_info (evt_type v p)));
          nparams = (if info_nparams < evt_nparams v p then info_nparams else evt_nparams v p);
          lens = p + EVT_HDR_SIZE;
          valptr = lens + evt_nparams v p * 2 in
      load_params_loop v lens valptr 0 nparams)"

section \<open>Decoding\<close>

lemma mem_read_slice: "j + k \<le> n \<Longrightarrow> mem_read m (p + j) k = take k (drop j (mem_read m p n))"
  by (rule nth_equalityI) (auto simp: add.assoc)

lemma load_params_loop_split:
  "load_params_loop v lens valptr j n = split_params v valptr (map (\<lambda>i. load_le v (lens + 2 * i) 2) [j..<j + n])"
  by (induction v lens valptr j n rule: load_params_loop.induct) (auto simp: Let_def upt_rec)

lemma split_params_concat:
  "mem_read v q (sum_list (map length ps)) = concat ps \<Longrightarrow> split_params v q (map length ps) = ps"
proof (induction ps arbitrary: q)
  case (Cons a ps)
  then show ?case by (simp add: mem_read_add)
qed simp

lemma lens_of_bytes:
  assumes "mem_read v b (2 * length ls) = concat (map (le_bytes 2) ls)" and "list_all (\<lambda>n. n < 65536) ls"
  shows "arg_lens v b (length ls) = ls"
proof -
  let ?a = "arg_lens v b (length ls)"
  have len: "length ?a = length ls" by (simp add: arg_lens_def)
  have "map (le_bytes 2) ?a = map (le_bytes 2) ls"
    by (rule concat_injective)
      (use assms(1) len in \<open>auto simp: lens_bytes zip_map_map\<close>)
  then have "map le_nat (map (le_bytes 2) ?a) = map le_nat (map (le_bytes 2) ls)"
    by simp
  then have "map (\<lambda>n. n mod 65536) ?a = map (\<lambda>n. n mod 65536) ls"
    by (simp add: le_nat_le_bytes comp_def)
  moreover have "list_all (\<lambda>n. n < 65536) ?a"
    using le_nat_bound [of "mem_read v _ 2"] by (simp add: arg_lens_def list_all_iff load_le_def)
  ultimately show ?thesis
    using assms(2) len
    by (intro nth_equalityI) (auto simp: list_all_length list_eq_iff_nth_eq)
qed

lemma unat_mod_u64 [simp]: "unat (x :: u64) mod 18446744073709551616 = unat x"
proof -
  have "unat x < 2 ^ 64" using unsigned_less [of x] by simp
  then show ?thesis by simp
qed

lemma decode_header:
  assumes enc: "mem_read v p n = encode_event ns pid t ps" and n: "n = length (encode_event ns pid t ps)"
    and "n < 2 ^ 32" and "t < 65536"
  shows "evt_ts v p = ns" and "evt_tid v p = word_of_int pid" and "unat (evt_len v p) = n"
    and "evt_type v p = t" and "evt_nparams v p = length ps"
proof -
  have n26: "26 + 2 * length ps + sum_list (map length ps) = n"
    unfolding n by (simp add: encode_event_def length_concat ppm_consts comp_def sum_list_triv)
  have sl: "load_le v (p + j) k = le_nat (take k (drop j (encode_event ns pid t ps)))" if "j + k \<le> 26" for j k
    unfolding load_le_def using mem_read_slice [of j k n v p] that n26 enc by simp
  show "evt_ts v p = ns"
    using sl [of 0 8] by (simp add: evt_ts_def ppm_consts encode_event_def le_nat_le_bytes)
  show "evt_tid v p = word_of_int pid"
    using sl [of 8 8] by (simp add: evt_tid_def ppm_consts encode_event_def le_nat_le_bytes)
  show "unat (evt_len v p) = n"
    using sl [of 16 4] n26 assms(3)
    by (simp add: evt_len_def ppm_consts encode_event_def le_nat_le_bytes unat_of_nat)
  show "evt_type v p = t"
    using sl [of 20 2] assms(4) by (simp add: evt_type_def ppm_consts encode_event_def le_nat_le_bytes)
  show "evt_nparams v p = length ps"
    using sl [of 22 4] n26 assms(3) by (simp add: evt_nparams_def ppm_consts encode_event_def le_nat_le_bytes)
qed

lemma decode_layout:
  assumes enc: "mem_read v p n = encode_event ns pid t ps" and n: "n = length (encode_event ns pid t ps)"
    and wf: "event_wf t ps"
  shows "arg_lens v (p + 26) (length ps) = map length ps"
    and "mem_read v (p + 26 + 2 * length ps) (sum_list (map length ps)) = concat ps"
proof -
  let ?k = "length ps" and ?s = "sum_list (map length ps)"
  have n26: "n = 26 + (2 * ?k + ?s)"
    unfolding n by (simp add: encode_event_def length_concat ppm_consts comp_def sum_list_triv)
  have "mem_read v (p + 26) (2 * ?k + ?s) = drop 26 (encode_event ns pid t ps)"
    using mem_read_slice [of 26 "2 * ?k + ?s" n v p] n26 enc by simp
  also have "\<dots> = concat (map (\<lambda>p. le_bytes 2 (length p)) ps) @ concat ps"
    by (simp add: encode_event_def length_concat comp_def sum_list_triv)
  finally have "mem_read v (p + 26) (2 * ?k) @ mem_read v (p + 26 + 2 * ?k) ?s =
      concat (map (le_bytes 2) (map length ps)) @ concat ps"
    by (simp add: mem_read_add comp_def)
  then have lens: "mem_read v (p + 26) (2 * ?k) = concat (map (le_bytes 2) (map length ps))"
    and vals: "mem_read v (p + 26 + 2 * ?k) ?s = concat ps"
    by (auto simp: append_eq_append_conv length_concat comp_def sum_list_triv)
  have "arg_lens v (p + 26) (length (map length ps)) = map length ps"
    by (rule lens_of_bytes) (use lens wf in \<open>auto simp: event_wf_def list_all_iff\<close>)
  then show "arg_lens v (p + 26) (length ps) = map length ps" by simp
  show "mem_read v (p + 26 + 2 * ?k) ?s = concat ps" by (rule vals)
qed

lemma decode_params:
  assumes enc: "mem_read v p n = encode_event ns pid t ps" and n: "n = length (encode_event ns pid t ps)"
    and "n < 2 ^ 32" and "t < 65536" and wf: "event_wf t ps"
  shows "load_params v p = ps"
  using decode_header [OF assms(1-4)] decode_layout [OF enc n wf] wf
  by (simp add: load_params_def event_wf_def load_params_loop_split ppm_consts arg_lens_def
      split_params_concat mult.commute)

section \<open>Devices as queues of events\<close>

text \<open>An event as the consumer sees it: timestamp, thread, type and parameters.\<close>

type_synonym event = "u64 \<times> int \<times> nat \<times> byte list list"

fun enc :: "event \<Rightarrow> byte list" where
  "enc (ns, pid, t, ps) = encode_event ns pid t ps"

fun event_ts :: "event \<Rightarrow> u64" where
  "event_ts (ns, pid, t, ps) = ns"

text \<open>The clock never shows the largest 64-bit number, which the merge uses as infinity.\<close>

fun good_event :: "event \<Rightarrow> bool" where
  "good_event (ns, pid, t, ps) \<longleftrightarrow> ns \<noteq> -1 \<and> t < 65536 \<and> event_wf t ps"

definition enc_all :: "event list \<Rightarrow> byte list" where
  "enc_all es = concat (map enc es)"

definition dev_unread :: "scap_device \<Rightarrow> byte list" where
  "dev_unread dev = ring_read (m_buffer dev) (unat (rb_tail (m_bufinfo dev))) (used (m_bufinfo dev))"

text \<open>
  \<open>dev_inv dev es\<close>: the events not yet delivered from this device are \<open>es\<close>.  Of the last batch
  read, \<open>m_lastreadsize\<close> bytes from the tail on, the last \<open>m_sn_len\<close> bytes are a whole number of
  events that are still to be handed out.
\<close>

definition dev_inv :: "scap_device \<Rightarrow> event list \<Rightarrow> bool" where
  "dev_inv dev es \<longleftrightarrow>
     info_ok (m_bufinfo dev) \<and> unat (m_sn_len dev) \<le> unat (m_lastreadsize dev) \<and>
     unat (m_lastreadsize dev) \<le> used (m_bufinfo dev) \<and>
     (m_sn_len dev \<noteq> 0 \<longrightarrow>
        m_sn_next_event dev = unat (rb_tail (m_bufinfo dev)) + (unat (m_lastreadsize dev) - unat (m_sn_len dev))) \<and>
     (\<exists>k. unat (m_sn_len dev) = length (enc_all (take k es))) \<and>
     drop (unat (m_lastreadsize dev) - unat (m_sn_len dev)) (dev_unread dev) = enc_all es \<and>
     list_all good_event es"

lemma enc_all_simps [simp]:
  "enc_all [] = []" "enc_all (e # es) = enc e @ enc_all es" "enc_all (xs @ ys) = enc_all xs @ enc_all ys"
  by (simp_all add: enc_all_def)

lemma enc_length: "26 \<le> length (enc e)"
  by (cases e) (simp add: encode_event_def)

lemma read_view: "mem_read (dev_view dev) p n = ring_read (m_buffer dev) p n"
  by (simp add: mem_read_def ring_read_def dev_view_def list_eq_iff_nth_eq)

lemma ring_read_slice: "c + n \<le> u \<Longrightarrow> ring_read m (p + c) n = take n (drop c (ring_read m p u))"
  by (rule nth_equalityI) (auto simp: ring_read_def add.assoc)

text \<open>The event at the front of a batch.\<close>

lemma dev_front:
  assumes inv: "dev_inv dev es" and "m_sn_len dev \<noteq> 0"
  obtains e es' where "es = e # es'"
    and "mem_read (dev_view dev) (m_sn_next_event dev) (length (enc e)) = enc e"
    and "length (enc e) \<le> unat (m_sn_len dev)"
    and "\<exists>k. unat (m_sn_len dev) - length (enc e) = length (enc_all (take k es'))"
proof -
  obtain k where k: "unat (m_sn_len dev) = length (enc_all (take k es))" using inv by (auto simp: dev_inv_def)
  then obtain e es' k' where es: "es = e # es'" and k': "k = Suc k'"
    using assms(2) by (cases es; cases k) (auto simp: unat_eq_0)
  let ?c = "unat (m_lastreadsize dev) - unat (m_sn_len dev)"
  have le: "length (enc e) \<le> unat (m_sn_len dev)" using k es k' by simp
  have "mem_read (dev_view dev) (m_sn_next_event dev) (length (enc e)) =
      ring_read (m_buffer dev) (unat (rb_tail (m_bufinfo dev)) + ?c) (length (enc e))"
    using inv assms(2) by (simp add: dev_inv_def read_view)
  also have "\<dots> = take (length (enc e)) (drop ?c (dev_unread dev))"
    unfolding dev_unread_def by (rule ring_read_slice) (use inv le in \<open>auto simp: dev_inv_def\<close>)
  also have "\<dots> = enc e"
    using inv es by (simp add: dev_inv_def)
  finally show thesis
    using that es le k k' by auto
qed

lemma front_fields:
  assumes inv: "dev_inv dev es" and "m_sn_len dev \<noteq> 0"
  shows "es \<noteq> [] \<and> evt_ts (dev_view dev) (m_sn_next_event dev) = event_ts (hd es) \<and>
    unat (evt_len (dev_view dev) (m_sn_next_event dev)) = length (enc (hd es)) \<and>
    length (enc (hd es)) \<le> unat (m_sn_len dev) \<and> event_ts (hd es) \<noteq> -1"
proof -
  obtain e es' where es: "es = e # es'"
    and rd: "mem_read (dev_view dev) (m_sn_next_event dev) (length (enc e)) = enc e"
    and le: "length (enc e) \<le> unat (m_sn_len dev)"
    using dev_front [OF assms] by metis
  obtain ns pid t ps where e: "e = (ns, pid, t, ps)" by (cases e)
  have good: "good_event e" using inv es by (simp add: dev_inv_def)
  have "length (enc e) < 2 ^ 32"
    using le u32_less [of "m_sn_len dev"] by simp
  with rd good show ?thesis
    using decode_header [of "dev_view dev" "m_sn_next_event dev" "length (enc e)" ns pid t ps] es e le by simp
qed

section \<open>Each step keeps the queue\<close>

lemma consume_inv:
  assumes inv: "dev_inv dev (e # es)" and nz: "m_sn_len dev \<noteq> 0"
  shows "dev_inv (consume dev) es"
proof -
  let ?len = "evt_len (dev_view dev) (m_sn_next_event dev)"
  note f = front_fields [OF inv nz]
  obtain k where k: "unat (m_sn_len dev) - length (enc e) = length (enc_all (take k es))"
    using dev_front [OF inv nz] by (metis list.inject)
  have len: "unat ?len = length (enc e)" "length (enc e) \<le> unat (m_sn_len dev)" using f by auto
  then have sn: "unat (m_sn_len dev - ?len) = unat (m_sn_len dev) - length (enc e)"
    by (simp add: unat_sub_le word_le_nat_alt)
  let ?l = "unat (m_lastreadsize dev)" and ?s = "unat (m_sn_len dev)"
  have "?l - (?s - length (enc e)) = length (enc e) + (?l - ?s)"
    using inv len by (auto simp: dev_inv_def)
  then have "drop (?l - (?s - length (enc e))) (dev_unread dev) = drop (length (enc e)) (drop (?l - ?s) (dev_unread dev))"
    by (simp only: drop_drop)
  also have "\<dots> = enc_all es"
    using inv by (simp add: dev_inv_def)
  finally have "drop (?l - (?s - length (enc e))) (dev_unread dev) = enc_all es" .
  then show ?thesis
    using inv len sn k nz unfolding dev_inv_def consume_def Let_def
    by (auto simp: dev_unread_def)
qed

lemma advance_used:
  assumes "info_ok info" and l: "unat l \<le> used info"
  defines "tt \<equiv> rb_tail info + l"
  defines "info' \<equiv> info\<lparr>rb_tail := (if tt < RING_BUF_SIZE then tt else tt - RING_BUF_SIZE)\<rparr>"
  shows "info_ok info'" and "unat (rb_tail info') = (unat (rb_tail info) + unat l) mod ring_size"
    and "used info' = used info - unat l"
proof -
  have bounds: "unat (rb_tail info) < ring_size" "unat (rb_head info) < ring_size" "unat l < ring_size"
    using assms(1) l used_less [OF assms(1)] by (auto simp: info_ok_def)
  have tt: "unat tt = unat (rb_tail info) + unat l"
    unfolding tt_def using bounds by (intro unat_add_lt) simp
  have "unat (rb_tail info') = (if unat tt < ring_size then unat tt else unat tt - ring_size)"
    by (auto simp: info'_def word_less_nat_alt unat_sub_le word_le_nat_alt)
  then show t': "unat (rb_tail info') = (unat (rb_tail info) + unat l) mod ring_size"
    using bounds tt by (simp add: ring_mod)
  then show "info_ok info'"
    using bounds by (simp add: info_ok_def info'_def)
  have "unat (rb_tail info') = (if unat (rb_tail info) + unat l < ring_size then unat (rb_tail info) + unat l
      else unat (rb_tail info) + unat l - ring_size)"
    unfolding t' by (rule ring_mod) (use bounds in simp)
  moreover have "rb_head info' = rb_head info" by (simp add: info'_def)
  ultimately show "used info' = used info - unat l"
    using l bounds unfolding used_def word_le_nat_alt by (auto split: if_splits)
qed

lemma advance_inv:
  assumes inv: "dev_inv dev es" and z: "m_sn_len dev = 0"
  shows "dev_inv (scap_advance_tail dev) es" and "m_lastreadsize (scap_advance_tail dev) = 0"
    and "m_sn_len (scap_advance_tail dev) = 0"
proof -
  let ?info = "m_bufinfo dev" and ?l = "m_lastreadsize dev"
  have ok: "info_ok ?info" and l: "unat ?l \<le> used ?info" and un: "drop (unat ?l) (dev_unread dev) = enc_all es"
    using inv z by (auto simp: dev_inv_def)
  note a = advance_used [OF ok l]
  have "ring_read (m_buffer dev) ((unat (rb_tail ?info) + unat ?l) mod ring_size) (used ?info - unat ?l) =
      drop (unat ?l) (dev_unread dev)"
    unfolding ring_read_mod dev_unread_def
    using ring_read_slice [of "unat ?l" "used ?info - unat ?l" "used ?info"] l by simp
  then show "dev_inv (scap_advance_tail dev) es"
    using a un inv z by (auto simp: dev_inv_def scap_advance_tail_def Let_def dev_unread_def intro: exI [of _ 0])
  show "m_lastreadsize (scap_advance_tail dev) = 0" "m_sn_len (scap_advance_tail dev) = 0"
    using z by (simp_all add: scap_advance_tail_def Let_def)
qed

lemma read_size_used:
  assumes "info_ok info"
  shows "unat (ucast (snd (snd (get_buf_pointers info))) :: u32) = used info"
proof -
  let ?w = "if rb_tail info > rb_head info then RING_BUF_SIZE - rb_tail info + rb_head info else rb_head info - rb_tail info"
  have "ucast (ucast w :: u64) = w" for w :: u32
    by (rule bit_word_eqI) (simp add: bit_simps)
  moreover have "unat ?w = used info"
    using assms
    by (auto simp: info_ok_def used_def word_less_nat_alt word_le_nat_alt unat_sub_le unat_add_lt)
  ultimately show ?thesis by (simp add: get_buf_pointers_def)
qed

lemma readbuf_inv:
  assumes inv: "dev_inv dev es" and z: "m_sn_len dev = 0" "m_lastreadsize dev = 0"
  shows "dev_inv (scap_readbuf dev) es"
proof -
  have ok: "info_ok (m_bufinfo dev)" and un: "dev_unread dev = enc_all es"
    using inv z by (auto simp: dev_inv_def)
  have "used (m_bufinfo dev) = length (enc_all es)"
    using arg_cong [OF un, of length] by (simp add: dev_unread_def)
  moreover have "unat (ucast (snd (snd (get_buf_pointers (m_bufinfo dev)))) :: u32) = used (m_bufinfo dev)"
    by (rule read_size_used [OF ok])
  moreover have "fst (snd (get_buf_pointers (m_bufinfo dev))) = rb_tail (m_bufinfo dev)"
    by (simp add: get_buf_pointers_def)
  ultimately show ?thesis
    using inv ok un
    by (auto simp: dev_inv_def scap_readbuf_def dev_unread_def case_prod_beta intro!: exI [of _ "length es"])
qed

text \<open>The driver appending to the shared ring appends to the queue.\<close>

lemma produce_inv:
  assumes inv: "dev_inv dev es" and ok: "info_ok info'" and tail: "rb_tail info' = rb_tail (m_bufinfo dev)"
    and grow: "ring_read m' (unat (rb_tail info')) (used info') = dev_unread dev @ enc_all new"
    and good: "list_all good_event new"
  shows "dev_inv (dev\<lparr>m_bufinfo := info', m_buffer := m'\<rparr>) (es @ new)"
proof -
  have "used info' = used (m_bufinfo dev) + length (enc_all new)"
    using arg_cong [OF grow, of length] by (simp add: dev_unread_def)
  moreover obtain k where "unat (m_sn_len dev) = length (enc_all (take k es))"
    using inv by (auto simp: dev_inv_def)
  then have "unat (m_sn_len dev) = length (enc_all (take (min k (length es)) (es @ new)))"
    by (simp add: min_def)
  then have "\<exists>k. unat (m_sn_len dev) = length (enc_all (take k (es @ new)))" ..
  moreover have "length (dev_unread dev) = used (m_bufinfo dev)" by (simp add: dev_unread_def)
  ultimately show ?thesis
    using inv ok tail grow good unfolding dev_inv_def
    by (simp add: dev_unread_def del: take_append)
qed

section \<open>The merge\<close>

definition release :: "scap_device \<Rightarrow> scap_device" where
  "release dev = (if m_sn_len dev = 0 \<and> m_lastreadsize dev > 0 then scap_advance_tail dev else dev)"

abbreviation has_batch :: "scap_device \<Rightarrow> bool" where
  "has_batch dev \<equiv> m_sn_len dev \<noteq> 0"

lemma release_inv:
  assumes "dev_inv dev es"
  shows "dev_inv (release dev) es" and "m_sn_len (release dev) = m_sn_len dev"
    and "m_sn_len dev = 0 \<Longrightarrow> m_lastreadsize (release dev) = 0"
    and "m_sn_len dev \<noteq> 0 \<Longrightarrow> release dev = dev"
  using assms advance_inv [OF assms] by (auto simp: release_def word_less_nat_alt unat_eq_0)

text \<open>
  On devices that satisfy their invariant the loop releases the emptied ones, never reports a
  corrupted buffer, and picks a batch whose front is not newer than any other front.
\<close>

lemma next_live_loop_spec:
  assumes "list_all2 dev_inv devs qs"
  shows "\<exists>pc. next_live_loop j max_ts pc0 devs = (map release devs, Some pc) \<and>
    ((pc = pc0 \<and> (\<forall>i < length devs. has_batch (devs ! i) \<longrightarrow> max_ts \<le> event_ts (hd (qs ! i)))) \<or>
     (\<exists>i < length devs. pc = word_of_nat (j + i) \<and> has_batch (devs ! i) \<and> event_ts (hd (qs ! i)) < max_ts \<and>
        (\<forall>i' < length devs. has_batch (devs ! i') \<longrightarrow> event_ts (hd (qs ! i)) \<le> event_ts (hd (qs ! i')))))"
  using assms
proof (induction devs qs arbitrary: j max_ts pc0 rule: list_all2_induct)
  case Nil
  show ?case by simp
next
  case (Cons dev devs q qs)
  let ?ts = "event_ts (hd q)"
  have fin: ?case if "next_live_loop j max_ts pc0 (dev # devs) = (map release (dev # devs), Some pc)"
    and "(pc = pc0 \<and> (has_batch dev \<longrightarrow> max_ts \<le> ?ts) \<and> (\<forall>i < length devs. has_batch (devs ! i) \<longrightarrow> max_ts \<le> event_ts (hd (qs ! i)))) \<or>
      (pc = word_of_nat j \<and> has_batch dev \<and> ?ts < max_ts \<and> (\<forall>i < length devs. has_batch (devs ! i) \<longrightarrow> ?ts \<le> event_ts (hd (qs ! i)))) \<or>
      (\<exists>i < length devs. pc = word_of_nat (Suc j + i) \<and> has_batch (devs ! i) \<and> event_ts (hd (qs ! i)) < max_ts \<and>
        (has_batch dev \<longrightarrow> event_ts (hd (qs ! i)) \<le> ?ts) \<and>
        (\<forall>i' < length devs. has_batch (devs ! i') \<longrightarrow> event_ts (hd (qs ! i)) \<le> event_ts (hd (qs ! i'))))" for pc
  proof (intro exI [of _ pc] conjI)
    show "next_live_loop j max_ts pc0 (dev # devs) = (map release (dev # devs), Some pc)" by (rule that(1))
    from that(2) show "(pc = pc0 \<and> (\<forall>i < length (dev # devs). has_batch ((dev # devs) ! i) \<longrightarrow> max_ts \<le> event_ts (hd ((q # qs) ! i)))) \<or>
     (\<exists>i < length (dev # devs). pc = word_of_nat (j + i) \<and> has_batch ((dev # devs) ! i) \<and> event_ts (hd ((q # qs) ! i)) < max_ts \<and>
        (\<forall>i' < length (dev # devs). has_batch ((dev # devs) ! i') \<longrightarrow> event_ts (hd ((q # qs) ! i)) \<le> event_ts (hd ((q # qs) ! i'))))"
      by (elim disjE exE conjE) (auto simp: nth_Cons less_Suc_eq_0_disj split: nat.splits)
  qed
  show ?case
  proof (cases "m_sn_len dev = 0")
    case True
    then show ?thesis
      using Cons.IH [of "Suc j" max_ts pc0]
      by (elim exE conjE) (rule fin, auto simp: release_def)
  next
    case False
    note f = front_fields [OF Cons.hyps(1) False]
    have rel: "release dev = dev" using False by (simp add: release_def)
    have len: "\<not> evt_len (dev_view dev) (m_sn_next_event dev) > m_sn_len dev"
      using f by (simp add: word_less_nat_alt)
    show ?thesis
    proof (cases "?ts < max_ts")
      case True
      then show ?thesis
        using Cons.IH [of "Suc j" ?ts "word_of_nat j"] False f len rel
        by (elim exE conjE) (rule fin, auto intro: less_imp_le order_less_trans)
    next
      case ge: False
      then show ?thesis
        using Cons.IH [of "Suc j" max_ts pc0] False f len rel
        by (elim exE conjE) (rule fin, auto intro: order_trans [OF less_imp_le])
    qed
  qed
qed

lemma list_all2_map_same:
  "list_all2 P xs ys \<Longrightarrow> (\<And>x y. P x y \<Longrightarrow> P (f x) y) \<Longrightarrow> list_all2 P (map f xs) ys"
  by (auto simp: list_all2_conv_all_nth)

text \<open>What a call of \<open>scap_next_live\<close> may do, in terms of the queues.\<close>

definition delivers :: "scap_t \<Rightarrow> event list list \<Rightarrow> scap_res \<times> (u16 \<times> nat) option \<times> scap_t \<Rightarrow> nat \<Rightarrow> bool" where
  "delivers h qs out i \<longleftrightarrow>
     i < length qs \<and> qs ! i \<noteq> [] \<and>
     (\<exists>p h'. out = (SCAP_SUCCESS, Some (word_of_nat i, p), h') \<and>
        list_all2 dev_inv (m_devs h') (qs[i := tl (qs ! i)]) \<and>
        mem_read (dev_view (m_devs h' ! i)) p (length (enc (hd (qs ! i)))) = enc (hd (qs ! i))) \<and>
     (\<forall>i' < length qs. has_batch (m_devs h ! i') \<longrightarrow> event_ts (hd (qs ! i)) \<le> event_ts (hd (qs ! i')))"

definition waits :: "scap_t \<Rightarrow> event list list \<Rightarrow> scap_res \<times> (u16 \<times> nat) option \<times> scap_t \<Rightarrow> bool" where
  "waits h qs out \<longleftrightarrow>
     (\<forall>i < length qs. \<not> has_batch (m_devs h ! i)) \<and>
     (\<exists>h'. out = (SCAP_TIMEOUT, None, h') \<and> list_all2 dev_inv (m_devs h') qs \<and>
        (\<forall>i < length qs. has_batch (m_devs h' ! i) \<longleftrightarrow> qs ! i \<noteq> []))"

lemma dev_view_consume [simp]: "dev_view (consume dev) = dev_view dev"
  by (rule ext) (simp add: dev_view_def consume_def Let_def)

lemma next_live_delivers:
  assumes inv: "list_all2 dev_inv (m_devs h) qs" and n: "length (m_devs h) < 65535"
    and i: "i < length (m_devs h)" and b: "has_batch (m_devs h ! i)"
    and min: "\<forall>i' < length (m_devs h). has_batch (m_devs h ! i') \<longrightarrow> event_ts (hd (qs ! i)) \<le> event_ts (hd (qs ! i'))"
    and loop: "next_live_loop 0 (-1) 65535 (m_devs h) = (map release (m_devs h), Some (word_of_nat i))"
  shows "delivers h qs (scap_next_live h) i"
proof -
  let ?dev = "m_devs h ! i"
  have len: "length qs = length (m_devs h)" using inv by (simp add: list_all2_lengthD)
  have di: "dev_inv ?dev (qs ! i)" using inv i by (simp add: list_all2_conv_all_nth)
  obtain e es' where q: "qs ! i = e # es'"
    and rd: "mem_read (dev_view ?dev) (m_sn_next_event ?dev) (length (enc e)) = enc e"
    using dev_front [OF di b] by metis
  have u: "unat (word_of_nat i :: u16) = i" "(word_of_nat i :: u16) \<noteq> 65535"
  proof -
    show u: "unat (word_of_nat i :: u16) = i" using i n by (simp add: unat_of_nat)
    show "(word_of_nat i :: u16) \<noteq> 65535"
    proof
      assume "(word_of_nat i :: u16) = 65535"
      then have "unat (word_of_nat i :: u16) = 65535" by simp
      with u i n show False by simp
    qed
  qed
  have rel: "map release (m_devs h) ! i = ?dev"
    using i release_inv(4) [OF di b] by simp
  let ?devs = "(map release (m_devs h))[i := consume ?dev]"
  have "scap_next_live h = (SCAP_SUCCESS, Some (word_of_nat i, m_sn_next_event ?dev), h\<lparr>m_devs := ?devs\<rparr>)"
    using loop u rel by (simp add: scap_next_live_def Let_def)
  moreover have "list_all2 dev_inv ?devs (qs[i := es'])"
    using list_all2_map_same [OF inv release_inv(1)] consume_inv [OF di [unfolded q] b]
    by (rule list_all2_update_cong)
  moreover have "?devs ! i = consume ?dev" using i by simp
  ultimately show ?thesis
    using q rd i len min by (auto simp: delivers_def)
qed

lemma next_live_waits:
  assumes inv: "list_all2 dev_inv (m_devs h) qs" and none: "\<forall>i < length (m_devs h). \<not> has_batch (m_devs h ! i)"
    and loop: "next_live_loop 0 (-1) 65535 (m_devs h) = (map release (m_devs h), Some 65535)"
  shows "waits h qs (scap_next_live h)"
proof -
  let ?devs = "map scap_readbuf (map release (m_devs h))"
  have len: "length qs = length (m_devs h)" using inv by (simp add: list_all2_lengthD)
  have each: "dev_inv (?devs ! i) (qs ! i) \<and> (has_batch (?devs ! i) \<longleftrightarrow> qs ! i \<noteq> [])"
    if i: "i < length (m_devs h)" for i
  proof -
    have di: "dev_inv (m_devs h ! i) (qs ! i)" using inv i by (simp add: list_all2_conv_all_nth)
    note r = release_inv [OF di]
    have z: "m_sn_len (release (m_devs h ! i)) = 0" "m_lastreadsize (release (m_devs h ! i)) = 0"
      using none i r by auto
    note rb = readbuf_inv [OF r(1) z]
    have un: "dev_unread (release (m_devs h ! i)) = enc_all (qs ! i)" and ok: "info_ok (m_bufinfo (release (m_devs h ! i)))"
      using r(1) z by (auto simp: dev_inv_def)
    have "unat (m_sn_len (scap_readbuf (release (m_devs h ! i)))) = length (enc_all (qs ! i))"
      using read_size_used [OF ok] arg_cong [OF un, of length]
      by (simp add: scap_readbuf_def case_prod_beta dev_unread_def)
    moreover have "enc_all (qs ! i) = [] \<longleftrightarrow> qs ! i = []"
      using enc_length by (cases "qs ! i") (auto simp: Suc_le_eq, metis le_zero_eq list.size(3) numeral_eq_iff zero_neq_numeral)
    ultimately show ?thesis using rb i by (auto simp: unat_eq_0)
  qed
  then have "list_all2 dev_inv ?devs qs"
    using len by (simp add: list_all2_conv_all_nth)
  then show ?thesis
    using each none loop len by (simp add: waits_def scap_next_live_def refill_read_buffers_def Let_def)
qed

lemma scap_next_live_cases:
  assumes inv: "list_all2 dev_inv (m_devs h) qs" and n: "length (m_devs h) < 65535"
  shows "(\<exists>i. delivers h qs (scap_next_live h) i) \<or> waits h qs (scap_next_live h)"
proof -
  have top: "\<not> event_ts (hd (qs ! i)) \<ge> -1" if "i < length (m_devs h)" "has_batch (m_devs h ! i)" for i
  proof -
    have "dev_inv (m_devs h ! i) (qs ! i)" using inv that by (simp add: list_all2_conv_all_nth)
    from front_fields [OF this that(2)] show ?thesis by (auto simp: word_order.extremum_unique)
  qed
  obtain pc where loop: "next_live_loop 0 (-1) 65535 (m_devs h) = (map release (m_devs h), Some pc)"
    and alt: "pc = 65535 \<and> (\<forall>i < length (m_devs h). has_batch (m_devs h ! i) \<longrightarrow> -1 \<le> event_ts (hd (qs ! i))) \<or>
     (\<exists>i < length (m_devs h). pc = word_of_nat (0 + i) \<and> has_batch (m_devs h ! i) \<and> event_ts (hd (qs ! i)) < -1 \<and>
        (\<forall>i' < length (m_devs h). has_batch (m_devs h ! i') \<longrightarrow> event_ts (hd (qs ! i)) \<le> event_ts (hd (qs ! i'))))"
    using next_live_loop_spec [OF inv, of 0 "-1" 65535] by blast
  from alt show ?thesis
  proof (elim disjE exE conjE)
    assume "pc = 65535" "\<forall>i < length (m_devs h). has_batch (m_devs h ! i) \<longrightarrow> -1 \<le> event_ts (hd (qs ! i))"
    then show ?thesis
      using next_live_waits [OF inv] loop top by auto
  next
    fix i assume "i < length (m_devs h)" "pc = word_of_nat (0 + i)" "has_batch (m_devs h ! i)"
      "\<forall>i' < length (m_devs h). has_batch (m_devs h ! i') \<longrightarrow> event_ts (hd (qs ! i)) \<le> event_ts (hd (qs ! i'))"
    then show ?thesis
      using next_live_delivers [OF inv n] loop by auto
  qed
qed

end
