(* ===== verification/Scap_Next.thy ===== *)
theory Scap_Next
  imports Scap_Ring
begin

text \<open>
  What a client of \<open>libscap\<close> gets out of repeated calls of \<open>scap_next\<close>
  (\<open>userspace/libscap/scap.c\<close>): every event of every device once, decoded, in the order of its
  device; and which of them the suppression of threads by name holds back
  (\<open>userspace/libscap/scap_procs.c\<close>).
\<close>

section \<open>Decoded events\<close>

type_synonym devent = "u64 \<times> u64 \<times> nat \<times> byte list list"

definition decode :: "mem \<Rightarrow> nat \<Rightarrow> devent" where
  "decode v p = (evt_ts v p, evt_tid v p, evt_type v p, load_params v p)"

fun decoded :: "event \<Rightarrow> devent" where
  "decoded (ns, pid, t, ps) = (ns, word_of_int pid, t, ps)"

lemma event_small:
  assumes "good_event (ns, pid, t, ps)"
  shows "length (encode_event ns pid t ps) < 2 ^ 32"
proof -
  have "length ps \<le> 20" using assms nparams_bound [of t] by (simp add: event_wf_def)
  moreover have "list_all (\<lambda>p. length p < 65536) ps" using assms by (simp add: event_wf_def)
  then have "sum_list (map length ps) \<le> length ps * 65536" by (induction ps) auto
  ultimately show ?thesis
    by (simp add: encode_event_def length_concat ppm_consts comp_def sum_list_triv)
qed

lemma decode_enc:
  assumes "good_event e" and "mem_read v p (length (enc e)) = enc e"
  shows "decode v p = decoded e"
proof -
  obtain ns pid t ps where e: "e = (ns, pid, t, ps)" by (cases e)
  have rd: "mem_read v p (length (encode_event ns pid t ps)) = encode_event ns pid t ps"
    and "t < 65536" "event_wf t ps"
    using assms e by auto
  note a = rd refl event_small [OF assms(1) [unfolded e]] this(2)
  from decode_header [OF a] decode_params [OF a \<open>event_wf t ps\<close>] show ?thesis
    by (simp add: decode_def e)
qed

section \<open>Everything is delivered\<close>

text \<open>The events \<open>k\<close> calls return, each with its device.\<close>

fun drain :: "nat \<Rightarrow> scap_t \<Rightarrow> (nat \<times> devent) list" where
  "drain 0 h = []"
| "drain (Suc k) h =
     (case scap_next_live h of
        (SCAP_SUCCESS, Some (c, p), h') \<Rightarrow> (unat c, decode (dev_view (m_devs h' ! unat c)) p) # drain k h'
      | (_, _, h') \<Rightarrow> drain k h')"

definition from_device :: "nat \<Rightarrow> (nat \<times> devent) list \<Rightarrow> devent list" where
  "from_device i xs = map snd (filter (\<lambda>x. fst x = i) xs)"

text \<open>
  The number of calls left: two for each event, less one when a batch has been read already.
\<close>

definition calls_left :: "scap_t \<Rightarrow> event list list \<Rightarrow> nat" where
  "calls_left h qs =
     2 * sum_list (map length qs) - (if \<exists>i < length qs. has_batch (m_devs h ! i) then 1 else 0)"

lemma sum_list_upd:
  "i < length qs \<Longrightarrow> qs ! i \<noteq> [] \<Longrightarrow>
    sum_list (map length qs) = Suc (sum_list (map length (qs[i := tl (qs ! i)])))"
  by (induction qs arbitrary: i) (auto simp: nth_Cons split: nat.splits)

lemma sum_list_pos: "i < length qs \<Longrightarrow> qs ! i \<noteq> [] \<Longrightarrow> 0 < sum_list (map length qs)"
  using sum_list_upd by fastforce

lemma delivers_step:
  assumes d: "delivers h qs (scap_next_live h) i" and n: "length (m_devs h) < 65535"
    and inv: "list_all2 dev_inv (m_devs h) qs"
  obtains h' where "\<And>k. drain (Suc k) h = (i, decoded (hd (qs ! i))) # drain k h'"
    and "list_all2 dev_inv (m_devs h') (qs[i := tl (qs ! i)])"
    and "length (m_devs h') = length (m_devs h)" and "fst (scap_next_live h) = SCAP_SUCCESS"
proof -
  obtain p h' where out: "scap_next_live h = (SCAP_SUCCESS, Some (word_of_nat i, p), h')"
    and inv': "list_all2 dev_inv (m_devs h') (qs[i := tl (qs ! i)])"
    and rd: "mem_read (dev_view (m_devs h' ! i)) p (length (enc (hd (qs ! i)))) = enc (hd (qs ! i))"
    and i: "i < length qs" "qs ! i \<noteq> []"
    using d by (auto simp: delivers_def)
  have len: "length qs = length (m_devs h)" using inv by (simp add: list_all2_lengthD)
  have "unat (word_of_nat i :: u16) = i" using i(1) len n by (simp add: unat_of_nat)
  moreover have "good_event (hd (qs ! i))"
    using list_all2_nthD2 [OF inv i(1)] i(2) by (cases "qs ! i") (auto simp: dev_inv_def)
  then have "decode (dev_view (m_devs h' ! i)) p = decoded (hd (qs ! i))"
    using rd by (rule decode_enc)
  ultimately show thesis
    using that [of h'] out inv' len list_all2_lengthD [OF inv'] by simp
qed

lemma waits_step:
  assumes w: "waits h qs (scap_next_live h)" and inv: "list_all2 dev_inv (m_devs h) qs"
  obtains h' where "\<And>k. drain (Suc k) h = drain k h'"
    and "list_all2 dev_inv (m_devs h') qs" and "length (m_devs h') = length (m_devs h)"
    and "\<And>i. i < length qs \<Longrightarrow> has_batch (m_devs h' ! i) \<longleftrightarrow> qs ! i \<noteq> []"
    and "scap_next_live h = (SCAP_TIMEOUT, None, h')"
proof -
  obtain h' where out: "scap_next_live h = (SCAP_TIMEOUT, None, h')"
    and inv': "list_all2 dev_inv (m_devs h') qs"
    and b: "\<forall>i < length qs. has_batch (m_devs h' ! i) \<longleftrightarrow> qs ! i \<noteq> []"
    using w by (auto simp: waits_def)
  show thesis
    using that [of h'] out inv' b list_all2_lengthD [OF inv'] list_all2_lengthD [OF inv] by simp
qed

lemma calls_deliver:
  assumes "i < length qs" and "qs ! i \<noteq> []"
  shows "calls_left h' (qs[i := tl (qs ! i)]) < calls_left h qs"
  using sum_list_upd [OF assms] by (auto simp: calls_left_def)

lemma calls_wait:
  assumes w: "waits h qs (scap_next_live h)"
    and b: "\<And>i. i < length qs \<Longrightarrow> has_batch (m_devs h' ! i) \<longleftrightarrow> qs ! i \<noteq> []"
  shows "calls_left h' qs \<le> calls_left h qs - 1"
proof (cases "\<exists>i < length qs. qs ! i \<noteq> []")
  case True
  then show ?thesis using w b by (auto simp: calls_left_def waits_def)
next
  case False
  then have "sum_list (map length qs) = 0" by (auto simp: in_set_conv_nth)
  then have "calls_left h' qs = 0" by (simp only: calls_left_def mult_0_right diff_0_eq_0)
  then show ?thesis by simp
qed

lemma calls_none:
  assumes inv: "list_all2 dev_inv (m_devs h) qs" and z: "calls_left h qs = 0" and i: "i < length qs"
  shows "qs ! i = []"
proof (rule ccontr)
  assume "qs ! i \<noteq> []"
  then have "0 < sum_list (map length qs)" using i by (rule sum_list_pos [rotated])
  with z show False by (auto simp: calls_left_def split: if_splits)
qed

lemma drain_complete:
  assumes "list_all2 dev_inv (m_devs h) qs" and "length (m_devs h) < 65535" and "calls_left h qs \<le> k"
    and "i < length qs"
  shows "from_device i (drain k h) = map decoded (qs ! i)"
  using assms
proof (induction k arbitrary: h qs)
  case 0
  then show ?case using calls_none [of h qs i] by (simp add: from_device_def)
next
  case (Suc k)
  note inv = Suc.prems(1) and n = Suc.prems(2)
  from scap_next_live_cases [OF inv n] show ?case
  proof (elim disjE exE)
    fix j assume d: "delivers h qs (scap_next_live h) j"
    then have j: "j < length qs" "qs ! j \<noteq> []" by (auto simp: delivers_def)
    obtain h' where h': "\<And>k. drain (Suc k) h = (j, decoded (hd (qs ! j))) # drain k h'"
      "list_all2 dev_inv (m_devs h') (qs[j := tl (qs ! j)])" "length (m_devs h') = length (m_devs h)"
      using delivers_step [OF d n inv] by metis
    have "from_device i (drain k h') = map decoded (qs[j := tl (qs ! j)] ! i)"
      using h' n Suc.prems(3,4) calls_deliver [OF j, of h' h] by (intro Suc.IH) auto
    moreover obtain e es where "qs ! j = e # es" using j by (cases "qs ! j") auto
    ultimately show ?thesis
      unfolding h'(1) using j(1) by (cases "i = j") (auto simp: from_device_def)
  next
    assume w: "waits h qs (scap_next_live h)"
    obtain h' where h': "\<And>k. drain (Suc k) h = drain k h'" "list_all2 dev_inv (m_devs h') qs"
      "length (m_devs h') = length (m_devs h)"
      "\<And>i. i < length qs \<Longrightarrow> has_batch (m_devs h' ! i) \<longleftrightarrow> qs ! i \<noteq> []"
      using waits_step [OF w inv] by metis
    have "from_device i (drain k h') = map decoded (qs ! i)"
      using h' n Suc.prems(3,4) calls_wait [OF w h'(4)] by (intro Suc.IH) auto
    then show ?thesis using h'(1) by simp
  qed
qed

section \<open>Suppression\<close>

definition spawns :: "nat \<Rightarrow> bool" where
  "spawns t \<longleftrightarrow> t \<in> set [PPME_SYSCALL_CLONE_20_X, PPME_SYSCALL_FORK_20_X, PPME_SYSCALL_VFORK_20_X,
                              PPME_SYSCALL_EXECVE_19_X]"

lemma spawns_nparams:
  assumes "spawns t"
  shows "19 \<le> ei_nparams (g_event_info t)"
proof -
  have "list_all (\<lambda>t. 19 \<le> ei_nparams (g_event_info t))
     [PPME_SYSCALL_CLONE_20_X, PPME_SYSCALL_FORK_20_X, PPME_SYSCALL_VFORK_20_X, PPME_SYSCALL_EXECVE_19_X]"
    by code_simp
  then show ?thesis using assms by (auto simp: spawns_def)
qed

lemma str_eq_iff:
  assumes rd: "mem_read v p (length c + 1) = c @ [0]" and c: "0 \<notin> set c" and s: "0 \<notin> set s"
  shows "str_eq s v p \<longleftrightarrow> s = c"
proof
  assume "str_eq s v p"
  then have e: "mem_read v p (length s + 1) = s @ [0]" by (simp add: str_eq_def)
  have s': "v (p + i) = (s @ [0]) ! i" if "i < length s + 1" for i
    using arg_cong [OF e, of "\<lambda>xs. xs ! i"] that by simp
  have c': "v (p + i) = (c @ [0]) ! i" if "i < length c + 1" for i
    using arg_cong [OF rd, of "\<lambda>xs. xs ! i"] that by simp
  have "\<not> length s < length c"
    using s' [of "length s"] c' [of "length s"] c by (auto simp: nth_append in_set_conv_nth)
  moreover have "\<not> length c < length s"
    using s' [of "length c"] c' [of "length c"] s by (auto simp: nth_append in_set_conv_nth)
  ultimately have "length s = length c" by simp
  with e rd show "s = c" by simp
qed (use rd in \<open>simp add: str_eq_def\<close>)

lemma comm_param:
  assumes enc: "mem_read v p (length (enc (ns, pid, t, ps))) = enc (ns, pid, t, ps)"
    and good: "good_event (ns, pid, t, ps)" and j: "j < length ps"
  defines "q \<equiv> p + EVT_HDR_SIZE + 2 * evt_nparams v p +
    sum_list (map (\<lambda>j. load_le v (p + EVT_HDR_SIZE + 2 * j) 2) [0..<j])"
  shows "mem_read v q (length (ps ! j)) = ps ! j"
proof -
  have a: "mem_read v p (length (encode_event ns pid t ps)) = encode_event ns pid t ps"
    and wf: "event_wf t ps" "t < 65536" using enc good by auto
  note lay = decode_layout [OF a refl wf(1)]
  have n: "evt_nparams v p = length ps"
    by (rule decode_header(5) [OF a refl event_small [OF good] wf(2)])
  have "map (\<lambda>i. load_le v (p + 26 + 2 * i) 2) [0..<j] = take j (arg_lens v (p + 26) (length ps))"
    using j by (simp add: arg_lens_def take_map)
  then have q: "q = p + 26 + 2 * length ps + sum_list (map length (take j ps))"
    unfolding q_def n lay(1) by (simp add: ppm_consts take_map)
  have split: "concat ps = concat (take j ps) @ ps ! j @ concat (drop (Suc j) ps)"
    using id_take_nth_drop [OF j] by (metis concat.simps(2) concat_append)
  have sums: "sum_list (map length ps) = sum_list (map length (take j ps)) + length (ps ! j)
      + sum_list (map length (drop (Suc j) ps))"
    using arg_cong [OF split, of length] by (simp add: length_concat)
  have "mem_read v q (length (ps ! j)) =
      take (length (ps ! j)) (drop (sum_list (map length (take j ps))) (concat ps))"
    unfolding q lay(2) [symmetric] by (rule mem_read_slice) (simp add: sums)
  also have "\<dots> = ps ! j"
    unfolding split by (simp add: length_concat)
  finally show ?thesis .
qed

text \<open>Which events are held back, and the threads suppressed afterwards.\<close>

definition comm_of :: "event \<Rightarrow> byte list" where
  "comm_of e = (case e of (ns, pid, t, ps) \<Rightarrow> butlast (ps ! 13))"

definition comm_ok :: "event \<Rightarrow> bool" where
  "comm_ok e \<longleftrightarrow> (case e of (ns, pid, t, ps) \<Rightarrow>
     spawns t \<longrightarrow> ps ! 13 = comm_of e @ [0] \<and> 0 \<notin> set (comm_of e))"

definition held_back :: "byte list list \<Rightarrow> u64 list \<Rightarrow> event \<Rightarrow> bool" where
  "held_back comms tids e = (case e of (ns, pid, t, ps) \<Rightarrow>
     if spawns t then 0 \<in> set tids \<or> comm_of e \<in> set comms else word_of_int pid \<in> set tids)"

definition tids_after :: "byte list list \<Rightarrow> u64 list \<Rightarrow> event \<Rightarrow> u64 list" where
  "tids_after comms tids e = (case e of (ns, pid, t, ps) \<Rightarrow>
     if spawns t then (if held_back comms tids e then List.insert (word_of_int pid) tids
                       else removeAll (word_of_int pid) tids)
     else if t = PPME_PROCEXIT_1_E then removeAll (word_of_int pid) tids else tids)"

lemma check_suppressed_event:
  assumes enc: "mem_read v p (length (enc e)) = enc e" and good: "good_event e"
    and comm: "comm_ok e" and comms: "list_all (\<lambda>s. 0 \<notin> set s) (m_suppressed_comms h)"
  shows "scap_check_suppressed h v p =
    (SCAP_SUCCESS, held_back (m_suppressed_comms h) (m_suppressed_tids h) e,
     h\<lparr>m_suppressed_tids := tids_after (m_suppressed_comms h) (m_suppressed_tids h) e\<rparr>)"
proof -
  obtain ns pid t ps where e: "e = (ns, pid, t, ps)" by (cases e)
  have a: "mem_read v p (length (encode_event ns pid t ps)) = encode_event ns pid t ps"
    and wf: "event_wf t ps" "t < 65536" using enc good e by auto
  note f = decode_header [OF a refl event_small [OF good [unfolded e]] wf(2)]
  show ?thesis
  proof (cases "spawns t")
    case True
    have n: "19 \<le> length ps"
      using wf(1) spawns_nparams [OF True] by (simp add: event_wf_def word_le_nat_alt)
    let ?c = "comm_of e"
    let ?q = "p + EVT_HDR_SIZE + 2 * evt_nparams v p +
      sum_list (map (\<lambda>j. load_le v (p + EVT_HDR_SIZE + 2 * j) 2) [0..<13])"
    have c: "ps ! 13 = ?c @ [0]" "0 \<notin> set ?c" using comm True e by (auto simp: comm_ok_def)
    have "mem_read v ?q (length ?c + 1) = ?c @ [0]"
      using comm_param [OF enc [unfolded e] good [unfolded e], of 13] n c(1) by simp
    then have "list_ex (\<lambda>s. str_eq s v ?q) (m_suppressed_comms h) \<longleftrightarrow> ?c \<in> set (m_suppressed_comms h)"
      using str_eq_iff [OF _ c(2)] comms by (auto simp: list_ex_iff list_all_iff)
    with True n f show ?thesis
      unfolding scap_check_suppressed_def scap_update_suppressed_def Let_def
      by (auto simp: held_back_def tids_after_def e spawns_def)
  next
    case False
    then show ?thesis
      using f unfolding scap_check_suppressed_def Let_def
      by (auto simp: held_back_def tids_after_def e spawns_def)
  qed
qed

lemma next_live_keeps:
  "scap_next_live h = (res, evt, h') \<Longrightarrow>
    m_suppressed_comms h' = m_suppressed_comms h \<and> m_suppressed_tids h' = m_suppressed_tids h \<and>
    m_num_suppressed_evts h' = m_num_suppressed_evts h \<and> m_evtcnt h' = m_evtcnt h"
  by (auto simp: scap_next_live_def refill_read_buffers_def Let_def split: prod.splits option.splits if_splits)

text \<open>What \<open>scap_next\<close> returns for the event \<open>e\<close> taken from the device \<open>i\<close>.\<close>

definition returns :: "scap_t \<Rightarrow> event list list \<Rightarrow> next_out \<Rightarrow> nat \<Rightarrow> event \<Rightarrow> bool" where
  "returns h qs out i e \<longleftrightarrow>
     (let held = held_back (m_suppressed_comms h) (m_suppressed_tids h) e in
      \<exists>v p h'. out = (if held then SCAP_TIMEOUT else SCAP_SUCCESS, Some (word_of_nat i, v, p), h') \<and>
        list_all2 dev_inv (m_devs h') (qs[i := tl (qs ! i)]) \<and>
        decode v p = decoded e \<and>
        m_suppressed_tids h' = tids_after (m_suppressed_comms h) (m_suppressed_tids h) e \<and>
        m_num_suppressed_evts h' = m_num_suppressed_evts h + (if held then 1 else 0) \<and>
        m_evtcnt h' = m_evtcnt h + (if held then 0 else 1))"

lemma scap_next_returns:
  assumes live: "m_mode h = SCAP_MODE_LIVE" and inv: "list_all2 dev_inv (m_devs h) qs"
    and n: "length (m_devs h) < 65535" and comms: "list_all (\<lambda>s. 0 \<notin> set s) (m_suppressed_comms h)"
    and d: "delivers h qs (scap_next_live h) i" and comm: "comm_ok (hd (qs ! i))"
  shows "returns h qs (scap_next off nod h) i (hd (qs ! i))"
proof -
  let ?e = "hd (qs ! i)"
  obtain p h1 where out: "scap_next_live h = (SCAP_SUCCESS, Some (word_of_nat i, p), h1)"
    and inv': "list_all2 dev_inv (m_devs h1) (qs[i := tl (qs ! i)])"
    and rd: "mem_read (dev_view (m_devs h1 ! i)) p (length (enc ?e)) = enc ?e"
    and i: "i < length qs" "qs ! i \<noteq> []"
    using d by (auto simp: delivers_def)
  have "unat (word_of_nat i :: u16) = i"
    using i(1) list_all2_lengthD [OF inv] n by (simp add: unat_of_nat)
  moreover have good: "good_event ?e"
    using list_all2_nthD2 [OF inv i(1)] i(2) by (cases "qs ! i") (auto simp: dev_inv_def)
  note keep = next_live_keeps [OF out]
  have "scap_check_suppressed h1 (dev_view (m_devs h1 ! i)) p =
      (SCAP_SUCCESS, held_back (m_suppressed_comms h) (m_suppressed_tids h) ?e,
       h1\<lparr>m_suppressed_tids := tids_after (m_suppressed_comms h) (m_suppressed_tids h) ?e\<rparr>)"
    using check_suppressed_event [OF rd good comm, of h1] comms keep by simp
  moreover have "decode (dev_view (m_devs h1 ! i)) p = decoded ?e" by (rule decode_enc [OF good rd])
  ultimately show ?thesis
    using live out inv' keep by (simp add: scap_next_def live_event_def returns_def Let_def)
qed

section \<open>Concrete devices\<close>

definition demo_dev :: "event list \<Rightarrow> scap_device" where
  "demo_dev es = \<lparr>m_bufinfo = \<lparr>rb_head = word_of_nat (length (enc_all es)), rb_tail = 0, n_evts = 0, n_drops_buffer = 0,
       n_drops_pf = 0, n_preemptions = 0, n_context_switches = 0\<rparr>,
     m_buffer = mem_write (\<lambda>_. 0) 0 (enc_all es), m_lastreadsize = 0, m_sn_next_event = 0, m_sn_len = 0\<rparr>"

definition demo_handle :: "event list list \<Rightarrow> scap_t" where
  "demo_handle qs = \<lparr>m_mode = SCAP_MODE_LIVE, m_devs = map demo_dev qs, m_buffer_empty_wait_time_us = 500,
     m_evtcnt = 0, m_suppressed_comms = [], m_suppressed_tids = [], m_num_suppressed_evts = 0\<rparr>"

definition close_event :: "u64 \<Rightarrow> int \<Rightarrow> event" where
  "close_event ns fd = (ns, 77, PPME_SYSCALL_CLOSE_E, [le_bytes 8 (nat fd)])"

lemma demo_dev_inv:
  assumes good: "list_all good_event es" and len: "length (enc_all es) < ring_size"
  shows "dev_inv (demo_dev es) es"
proof -
  have u: "unat (word_of_nat (length (enc_all es)) :: u32) = length (enc_all es)"
    using len by (simp add: unat_of_nat)
  have "ring_read (mem_write (\<lambda>_. 0) 0 (enc_all es)) 0 (length (enc_all es)) = enc_all es"
    using len by (intro nth_equalityI) (auto simp: ring_read_def mem_write_def)
  then show ?thesis
    using good u len
    by (auto simp: dev_inv_def demo_dev_def dev_unread_def used_def info_ok_def intro!: exI [of _ 0])
qed

lemma close_event_good: "ns \<noteq> -1 \<Longrightarrow> good_event (close_event ns fd)"
proof -
  have "ei_nparams (g_event_info PPME_SYSCALL_CLOSE_E) = 1" by code_simp
  then show "ns \<noteq> -1 \<Longrightarrow> good_event (close_event ns fd)"
    by (simp add: close_event_def event_wf_def ppm_consts)
qed

lemma close_event_length: "length (enc (close_event ns fd)) = 36"
  by (simp add: close_event_def encode_event_def ppm_consts)

abbreviation (input) demo_qs :: "event list list" where
  "demo_qs \<equiv> [[close_event 20 3], [close_event 10 4, close_event 30 5]]"

lemma demo_handle_inv: "list_all2 dev_inv (m_devs (demo_handle demo_qs)) demo_qs"
  by (auto simp: demo_handle_def close_event_length intro!: demo_dev_inv close_event_good)

definition exec_event :: event where
  "exec_event = (5, 77, PPME_SYSCALL_EXECVE_19_X, replicate 5 [] @ [le_bytes 8 66] @ replicate 7 [] @ [[115, 104, 0]] @ replicate 5 [])"

lemma exec_event_good: "good_event exec_event"
proof -
  have "ei_nparams (g_event_info PPME_SYSCALL_EXECVE_19_X) = 19" by code_simp
  then show ?thesis by (auto simp: exec_event_def event_wf_def ppm_consts list_all_iff)
qed

lemma exec_event_comm: "comm_ok exec_event"
  by (simp add: comm_ok_def exec_event_def comm_of_def nth_append)

lemma read_back: "mem_read (mem_write m p (enc e)) p (length (enc e)) = enc e"
  by (rule mem_write_same) simp

section \<open>Properties\<close>

text \<open>
  C4.  \<open>scap_next_live\<close> refines a merge of the devices' queues.  On any handle whose devices hold the
  queues \<open>qs\<close>, a call either removes the first event of one queue and returns a pointer to exactly
  the bytes of that event, whose timestamp is the least of all the events at the front of a batch;
  or, when no device has a batch left, it times out, loses nothing, and has read a batch from every
  device that holds an event.  The buffer is never reported corrupt.
\<close>

theorem scap_next_live_merges:
  assumes "list_all2 dev_inv (m_devs h) qs" and "length (m_devs h) < 65535"
  shows "(\<exists>i. delivers h qs (scap_next_live h) i) \<or> waits h qs (scap_next_live h)"
  by (rule scap_next_live_cases [OF assms])

theorem scap_next_live_merges_witness:
  "(\<exists>i. delivers (demo_handle demo_qs) demo_qs (scap_next_live (demo_handle demo_qs)) i) \<or>
   waits (demo_handle demo_qs) demo_qs (scap_next_live (demo_handle demo_qs))"
  by (rule scap_next_live_merges [OF demo_handle_inv]) (simp add: demo_handle_def)

text \<open>
  C3.  Nothing is lost, repeated, reordered or altered on the way out of the rings: two calls of
  \<open>scap_next_live\<close> for each pending event return every event of every device, in the order of its
  device, and its header and parameters decode to what was recorded.
\<close>

theorem scap_next_live_drains:
  assumes "list_all2 dev_inv (m_devs h) qs" and "length (m_devs h) < 65535"
    and "2 * sum_list (map length qs) \<le> k" and "i < length qs"
  shows "from_device i (drain k h) = map decoded (qs ! i)"
  using assms by (intro drain_complete) (auto simp: calls_left_def)

theorem scap_next_live_drains_witness:
  "from_device 1 (drain 6 (demo_handle demo_qs)) = map decoded [close_event 10 4, close_event 30 5]"
  using scap_next_live_drains [OF demo_handle_inv, of 6 1] by (simp add: demo_handle_def)





text \<open>
  C21.  A thread whose parent is suppressed is not: the exit of clone, fork, vfork or execve under a
  command that is not listed is returned to the client, and takes its thread out of the suppressed
  ones, whichever parent the event names.
\<close>

theorem scap_suppression_not_inherited:
  assumes "mem_read v p (length (enc (ns, pid, t, ps))) = enc (ns, pid, t, ps)" and "good_event (ns, pid, t, ps)"
    and "comm_ok (ns, pid, t, ps)" and "list_all (\<lambda>s. 0 \<notin> set s) (m_suppressed_comms h)"
    and "spawns t" and "butlast (ps ! 13) \<notin> set (m_suppressed_comms h)" and "0 \<notin> set (m_suppressed_tids h)"
  shows "\<exists>h'. scap_check_suppressed h v p = (SCAP_SUCCESS, False, h') \<and>
    set (m_suppressed_tids h') = set (m_suppressed_tids h) - {word_of_int pid}"
  using check_suppressed_event [OF assms(1-4)] assms(5-7)
  by (auto simp: held_back_def tids_after_def comm_of_def)

theorem scap_suppression_not_inherited_witness:
  "\<exists>h'. scap_check_suppressed ((demo_handle [])\<lparr>m_suppressed_tids := [66, 77]\<rparr>) (mem_write (\<lambda>_. 0) 0 (enc exec_event)) 0 =
    (SCAP_SUCCESS, False, h') \<and> set (m_suppressed_tids h') = {66}"
proof -
  obtain ps where e: "exec_event = (5, 77, PPME_SYSCALL_EXECVE_19_X, ps)" by (simp add: exec_event_def)
  have "\<exists>h'. scap_check_suppressed ((demo_handle [])\<lparr>m_suppressed_tids := [66, 77]\<rparr>) (mem_write (\<lambda>_. 0) 0 (enc exec_event)) 0 =
    (SCAP_SUCCESS, False, h') \<and>
    set (m_suppressed_tids h') = set (m_suppressed_tids ((demo_handle [])\<lparr>m_suppressed_tids := [66, 77]\<rparr>)) - {word_of_int 77}"
    unfolding e
    by (rule scap_suppression_not_inherited [OF read_back exec_event_good [unfolded e] exec_event_comm [unfolded e]])
      (simp_all add: demo_handle_def spawns_def)
  then show ?thesis by (simp add: insert_Diff_if)
qed

end
