(* ===== verification/Capture.thy ===== *)
theory Capture
  imports Scap_Next
begin

text \<open>
  The driver and \<open>libscap\<close> together.  The rings are memory shared by a consumer of the driver
  (\<open>record_event_consumer\<close> of \<open>driver/main.c\<close>) and the devices of a handle (\<open>scap_next_live\<close> of
  \<open>userspace/libscap/scap.c\<close>); the two sides take turns in any order, on any number of CPUs.  The
  interface between them is the locale \<open>shared_queues\<close>: a family of queues, one for each CPU, that one
  side appends encoded items to and the other takes decoded items from.
\<close>

section \<open>The interface\<close>

locale shared_queues =
  fixes holds :: "'q \<Rightarrow> (nat \<Rightarrow> 'e list) \<Rightarrow> bool"
    and put :: "'q \<Rightarrow> nat \<Rightarrow> 'b list \<Rightarrow> 'q \<Rightarrow> bool"
    and got :: "'q \<Rightarrow> (nat \<times> 'r) option \<Rightarrow> 'q \<Rightarrow> bool"
    and encode :: "'e list \<Rightarrow> 'b list"
    and view :: "'e \<Rightarrow> 'r"
    and good :: "'e \<Rightarrow> bool"
  assumes encode_nil: "encode [] = []"
    and encode_append: "encode (xs @ ys) = encode xs @ encode ys"
    and put_law: "holds q qs \<Longrightarrow> put q i bs q' \<Longrightarrow> 
      \<exists>new. bs = encode new \<and> list_all good new \<and> holds q' (qs(i := qs i @ new))"
    and got_law: "holds q qs \<Longrightarrow> got q (Some (i, r)) q' \<Longrightarrow>
      \<exists>e rest. qs i = e # rest \<and> r = view e \<and> holds q' (qs(i := rest))"
    and wait_law: "holds q qs \<Longrightarrow> got q None q' \<Longrightarrow> holds q' qs"
begin

text \<open>
  What was put into queue \<open>i\<close> is the encoding of a list of items; what was got from it is the
  decoding of the first items of that list, and the queue holds the others.
\<close>

definition history :: "'q \<Rightarrow> (nat \<Rightarrow> 'b list) \<Rightarrow> (nat \<Rightarrow> 'r list) \<Rightarrow> bool" where
  "history q puts gots \<longleftrightarrow>
     (\<exists>past rest. (\<forall>i. puts i = encode (past i @ rest i) \<and> gots i = map view (past i) \<and> list_all good (past i @ rest i)) \<and>
        holds q rest)"

lemma historyI:
  "\<forall>i. puts i = encode (past i @ rest i) \<and> gots i = map view (past i) \<and> list_all good (past i @ rest i) \<Longrightarrow>
    holds q rest \<Longrightarrow> history q puts gots"
  by (auto simp: history_def)

lemma historyE:
  assumes "history q puts gots"
  obtains past rest where "\<forall>i. puts i = encode (past i @ rest i) \<and> gots i = map view (past i) \<and> list_all good (past i @ rest i)" and "holds q rest"
  using assms by (auto simp: history_def)

lemma history_start: "holds q (\<lambda>_. []) \<Longrightarrow> history q (\<lambda>_. []) (\<lambda>_. [])"
  by (rule historyI [of _ "\<lambda>_. []"]) (simp_all add: encode_nil)

lemma history_put:
  assumes "history q puts gots" and "put q i bs q'"
  shows "history q' (puts(i := puts i @ bs)) gots"
proof -
  obtain past rest where h: "\<forall>i. puts i = encode (past i @ rest i) \<and> gots i = map view (past i) \<and> list_all good (past i @ rest i)" "holds q rest"
    using assms(1) by (rule historyE)
  obtain new where  "bs = encode new" "list_all good new" "holds q' (rest(i := rest i @ new))"
    using put_law [OF h(2) assms(2)] by auto
  with h(1) show ?thesis
    by (intro historyI [of _ past "rest(i := rest i @ new)"]) (simp_all add: encode_append)
qed

lemma history_got:
  assumes "history q puts gots" and "got q (Some (i, r)) q'"
  shows "history q' puts (gots(i := gots i @ [r]))"
proof -
  obtain past rest where h: "\<forall>i. puts i = encode (past i @ rest i) \<and> gots i = map view (past i) \<and> list_all good (past i @ rest i)" "holds q rest"
    using assms(1) by (rule historyE)
  obtain e es where "rest i = e # es" "r = view e" "holds q' (rest(i := es))"
    using got_law [OF h(2) assms(2)] by auto
  with h(1) spec [OF h(1), of i] show ?thesis
    by (intro historyI [of _ "past(i := past i @ [e])" "rest(i := es)"]) simp_all
qed

lemma history_wait: "history q puts gots \<Longrightarrow> got q None q' \<Longrightarrow> history q' puts gots"
  by (erule historyE) (rule historyI, assumption, rule wait_law)

end

section \<open>The shared state\<close>

record capture =
  cap_consumer :: ppm_consumer_t
  cap_handle :: scap_t

text \<open>
  The memory of ring \<open>i\<close> is mapped in both address spaces (\<open>ppm_mmap\<close> and \<open>scap_open_live_int\<close>):
  what one side stores, the other side reads.
\<close>

definition shared :: "capture \<Rightarrow> bool" where
  "shared s \<longleftrightarrow> (\<forall>i < length (m_devs (cap_handle s)).
     rc_info (c_ring_buffers (cap_consumer s) i) = Some (m_bufinfo (m_devs (cap_handle s) ! i)) \<and>
     rc_buffer (c_ring_buffers (cap_consumer s) i) = Some (m_buffer (m_devs (cap_handle s) ! i)))"

fun map_ring :: "ppm_ring_buffer_context \<Rightarrow> scap_device \<Rightarrow> scap_device" where
  "map_ring ring dev =
     (case (rc_info ring, rc_buffer ring) of
        (Some info, Some m) \<Rightarrow> dev\<lparr>m_bufinfo := info, m_buffer := m\<rparr>
      | _ \<Rightarrow> dev)"

definition to_user :: "ppm_consumer_t \<Rightarrow> scap_t \<Rightarrow> scap_t" where
  "to_user c h = h\<lparr>m_devs := map2 (\<lambda>i dev. map_ring (c_ring_buffers c i) dev) [0..<length (m_devs h)] (m_devs h)\<rparr>"

definition to_kernel :: "scap_t \<Rightarrow> ppm_consumer_t \<Rightarrow> ppm_consumer_t" where
  "to_kernel h c = c\<lparr>c_ring_buffers := (\<lambda>i.
     if i < length (m_devs h)
     then (c_ring_buffers c i)\<lparr>rc_info := Some (m_bufinfo (m_devs h ! i)), rc_buffer := Some (m_buffer (m_devs h ! i))\<rparr>
     else c_ring_buffers c i)\<rparr>"

text \<open>
  A step of the driver: one event is recorded on one CPU (or dropped); \<open>bs\<close> are the bytes that the
  ring gained.  A step of the consumer: one call of \<open>scap_next_live\<close>, with the event it hands out.
\<close>

definition record_step :: "capture \<Rightarrow> nat \<Rightarrow> byte list \<Rightarrow> capture \<Rightarrow> bool" where
  "record_step s i bs s' \<longleftrightarrow>
     (\<exists>d event_type drop_flags ns ed res c'.
        fillers_ok d \<and> de_cpu d = i \<and> i < length (m_devs (cap_handle s)) \<and>
        event_type < PPM_EVENT_MAX \<and> ns \<noteq> -1 \<and>
        record_event_consumer d (cap_consumer s) event_type drop_flags ns ed = Some (res, c') \<and>
        bs = drop (length (unread (c_ring_buffers (cap_consumer s) i))) (unread (c_ring_buffers c' i)) \<and>
        s' = \<lparr>cap_consumer = c', cap_handle = to_user c' (cap_handle s)\<rparr>)"

lemma record_stepI:
  assumes "fillers_ok d" and "de_cpu d = i" and "i < length (m_devs (cap_handle s))"
    and "event_type < PPM_EVENT_MAX" and "ns \<noteq> -1"
    and "record_event_consumer d (cap_consumer s) event_type drop_flags ns ed = Some (res, c')"
    and "bs = drop (length (unread (c_ring_buffers (cap_consumer s) i))) (unread (c_ring_buffers c' i))"
    and "s' = \<lparr>cap_consumer = c', cap_handle = to_user c' (cap_handle s)\<rparr>"
  shows "record_step s i bs s'"
  unfolding record_step_def using assms by blast

definition next_step :: "capture \<Rightarrow> (nat \<times> devent) option \<Rightarrow> capture \<Rightarrow> bool" where
  "next_step s out s' \<longleftrightarrow>
     (\<exists>res evt h'. scap_next_live (cap_handle s) = (res, evt, h') \<and>
        out = map_option (\<lambda>(cpu, p). (unat cpu, decode (dev_view (m_devs h' ! unat cpu)) p)) evt \<and>
        s' = \<lparr>cap_consumer = to_kernel h' (cap_consumer s), cap_handle = h'\<rparr>)"

definition idle :: "capture \<Rightarrow> bool" where
  "idle s \<longleftrightarrow> shared s \<and> length (m_devs (cap_handle s)) < 65535 \<and>
     (\<forall>dev \<in> set (m_devs (cap_handle s)).
        info_ok (m_bufinfo dev) \<and> used (m_bufinfo dev) = 0 \<and> m_lastreadsize dev = 0 \<and> m_sn_len dev = 0)"

text \<open>Any interleaving of the two, with what each ring gained and what was handed out for each CPU.\<close>

inductive captures :: "capture \<Rightarrow> capture \<Rightarrow> (nat \<Rightarrow> byte list) \<Rightarrow> (nat \<Rightarrow> devent list) \<Rightarrow> bool"
  for s0 :: capture where
  Start: "captures s0 s0 (\<lambda>_. []) (\<lambda>_. [])"
| Record: "captures s0 s log out \<Longrightarrow> record_step s i bs s' \<Longrightarrow> captures s0 s' (log(i := log i @ bs)) out"
| Next: "captures s0 s log out \<Longrightarrow> next_step s (Some (i, e)) s' \<Longrightarrow> captures s0 s' log (out(i := out i @ [e]))"
| Wait: "captures s0 s log out \<Longrightarrow> next_step s None s' \<Longrightarrow> captures s0 s' log out"

section \<open>The rings implement the interface\<close>

definition rings_hold :: "capture \<Rightarrow> (nat \<Rightarrow> event list) \<Rightarrow> bool" where
  "rings_hold s qs \<longleftrightarrow> shared s \<and> length (m_devs (cap_handle s)) < 65535 \<and>
     (\<forall>i < length (m_devs (cap_handle s)). dev_inv (m_devs (cap_handle s) ! i) (qs i))"

lemma resolved_type_small:
  assumes "event_type < PPM_EVENT_MAX"
  shows "fst (resolve_event_type d ed event_type) < 65536"
proof -
  have all: "list_all (\<lambda>t. t < 65535) socketcall_events" "length socketcall_events = 20"
    by (simp_all add: socketcall_events_def)
  then have nth: "socketcall_events ! (nat k - 1) < 65535" if "\<not> (k < 1 \<or> 20 < k)" for k
    using that by (auto simp: list_all_length elim!: allE [of _ "nat k - Suc 0"])
  have small: "fst (parse_socketcall K a32 a r) < 65535" for K a32 a r
    unfolding parse_socketcall_def Let_def using nth
    by (simp add: split_beta ppm_consts)
  have "fst (parse_socketcall K a32 a r) < 65536" for K a32 a r
    using less_trans [OF small] by simp
  with small assms show ?thesis
    unfolding resolve_event_type_def Let_def
    by (simp add: ppm_consts split_beta split: option.split)
qed

lemma list_bytes_enc: "event_list_bytes d ns es = enc_all (map (\<lambda>(t, ps). (ns, de_pid d, t, ps)) es)"
  by (induction es) (auto simp: event_list_bytes_def enc_all_def)

lemma record_law:
  assumes "rings_hold s qs" and "record_step s i bs s'"
  shows "\<exists>new. bs = enc_all new \<and> list_all good_event new \<and> rings_hold s' (qs(i := qs i @ new))"
proof -
  let ?c = "cap_consumer s" and ?devs = "m_devs (cap_handle s)"
  obtain d t flags ns ed res c' where fok: "fillers_ok d" and i: "de_cpu d = i" "i < length ?devs"
    and t: "t < PPM_EVENT_MAX" and ns: "ns \<noteq> -1"
    and rec: "record_event_consumer d ?c t flags ns ed = Some (res, c')"
    and bs: "bs = drop (length (unread (c_ring_buffers ?c i))) (unread (c_ring_buffers c' i))"
    and s': "s' = \<lparr>cap_consumer = c', cap_handle = to_user c' (cap_handle s)\<rparr>"
    using assms(2) unfolding record_step_def by blast
  have sh: "rc_info (c_ring_buffers ?c j) = Some (m_bufinfo (?devs ! j))"
      "rc_buffer (c_ring_buffers ?c j) = Some (m_buffer (?devs ! j))" "dev_inv (?devs ! j) (qs j)"
    if "j < length ?devs" for j
    using assms(1) that by (auto simp: rings_hold_def shared_def)
  have "ring_ok (cur_ring d ?c)" using sh [OF i(2)] i(1) by (simp add: ring_ok_def dev_inv_def)
  from record_event_consumer_ok [OF fok this, of t flags ns ed] obtain ms es
    where recs: "records d ns ?c c' (ms @ es)" and ms: "drop_marks ms"
      and es: "es = [] \<or> (\<exists>ps. es = [(fst (resolve_event_type d ed t), ps)])"
    using rec by auto
  define new where "new = map (\<lambda>(t, ps). (ns, de_pid d, t, ps)) (ms @ es)"
  have g: "ring_grows (c_ring_buffers ?c i) (c_ring_buffers c' i) (enc_all new)"
    and same: "\<And>j. j \<noteq> i \<Longrightarrow> c_ring_buffers c' j = c_ring_buffers ?c j"
    using recs i(1) by (auto simp: records_def new_def list_bytes_enc)
  have "fst x < 65536" if "x \<in> set (ms @ es)" for x
    using that ms es resolved_type_small [OF t, of d ed] by (auto simp: drop_marks_def ppm_consts)
  moreover have "event_wf (fst x) (snd x)" if "x \<in> set (ms @ es)" for x
    using that recs by (auto simp: records_def)
  ultimately have good: "list_all good_event new"
    using ns by (fastforce simp: new_def list_all_iff)
  obtain info' m' where r': "rc_info (c_ring_buffers c' i) = Some info'" "rc_buffer (c_ring_buffers c' i) = Some m'"
      "info_ok info'"
    using g by (auto simp: ring_grows_def ring_ok_def split: option.splits)
  have "dev_inv ((?devs ! i)\<lparr>m_bufinfo := info', m_buffer := m'\<rparr>) (qs i @ new)"
    using g r' sh [OF i(2)] good
    by (intro produce_inv) (auto simp: ring_grows_def ring_tail_def unread_def dev_unread_def)
  then have "rc_info (c_ring_buffers c' j) = Some (m_bufinfo (m_devs (cap_handle s') ! j)) \<and>
      rc_buffer (c_ring_buffers c' j) = Some (m_buffer (m_devs (cap_handle s') ! j)) \<and>
      dev_inv (m_devs (cap_handle s') ! j) ((qs(i := qs i @ new)) j)" if "j < length ?devs" for j
    using that same [of j] r' sh [OF that] by (cases "j = i") (simp_all add: s' to_user_def)
  then have "rings_hold s' (qs(i := qs i @ new))"
    using assms(1) by (simp add: rings_hold_def shared_def s' to_user_def)
  moreover have "bs = enc_all new" using g by (simp add: bs ring_grows_def)
  ultimately show ?thesis using good by blast
qed

lemma next_shared [simp]: "shared \<lparr>cap_consumer = to_kernel h c, cap_handle = h\<rparr>"
  by (simp add: shared_def to_kernel_def)

lemma next_cases:
  assumes "rings_hold s qs" and "next_step s out s'"
  shows "(\<exists>i e rest. i < length (m_devs (cap_handle s)) \<and> out = Some (i, decoded e) \<and> qs i = e # rest \<and> rings_hold s' (qs(i := rest))) \<or>
    out = None \<and> rings_hold s' qs"
proof -
  let ?h = "cap_handle s"
  define ql where "ql = map qs [0..<length (m_devs ?h)]"
  have inv: "list_all2 dev_inv (m_devs ?h) ql" and n: "length (m_devs ?h) < 65535"
    using assms(1) by (auto simp: rings_hold_def ql_def list_all2_conv_all_nth)
  have nth: "i < length (m_devs ?h) \<Longrightarrow> ql ! i = qs i" and len: "length ql = length (m_devs ?h)" for i
    by (simp_all add: ql_def)
  from scap_next_live_cases [OF inv n] show ?thesis
  proof (elim disjE exE)
    fix i assume d: "delivers ?h ql (scap_next_live ?h) i"
    obtain p h' where out: "scap_next_live ?h = (SCAP_SUCCESS, Some (word_of_nat i, p), h')"
      and inv': "list_all2 dev_inv (m_devs h') (ql[i := tl (ql ! i)])"
      and rd: "mem_read (dev_view (m_devs h' ! i)) p (length (enc (hd (ql ! i)))) = enc (hd (ql ! i))"
      and i: "i < length ql" "ql ! i \<noteq> []"
      using d by (auto simp: delivers_def)
    obtain e rest where q: "qs i = e # rest" using i nth len by (cases "qs i") auto
    have u: "unat (word_of_nat i :: u16) = i" using i(1) len n by (simp add: unat_of_nat)
    have "good_event e" using list_all2_nthD2 [OF inv i(1)] i(1) q nth len by (simp add: dev_inv_def)
    then have dec: "decode (dev_view (m_devs h' ! i)) p = decoded e"
      using rd i(1) q nth len by (auto intro: decode_enc)
    have s': "out = Some (i, decoded e)" "s' = \<lparr>cap_consumer = to_kernel h' (cap_consumer s), cap_handle = h'\<rparr>"
      using assms(2) out dec u by (simp_all add: next_step_def)
    have len': "length (m_devs h') = length (m_devs ?h)" using list_all2_lengthD [OF inv'] len by simp
    have "dev_inv (m_devs h' ! j) ((qs(i := rest)) j)" if "j < length (m_devs ?h)" for j
      using list_all2_nthD [OF inv', of j] that i(1) q nth len len' by (cases "j = i") simp_all
    then have "rings_hold s' (qs(i := rest))" using n len' by (simp add: rings_hold_def s')
    with s'(1) q i(1) len show ?thesis by fastforce
  next
    assume w: "waits ?h ql (scap_next_live ?h)"
    then obtain h' where "scap_next_live ?h = (SCAP_TIMEOUT, None, h')" and inv': "list_all2 dev_inv (m_devs h') ql"
      by (auto simp: waits_def)
    then have s': "out = None" "s' = \<lparr>cap_consumer = to_kernel h' (cap_consumer s), cap_handle = h'\<rparr>"
      using assms(2) by (simp_all add: next_step_def)
    have len': "length (m_devs h') = length (m_devs ?h)" using list_all2_lengthD [OF inv'] len by simp
    have "rings_hold s' qs"
      using list_all2_nthD [OF inv'] n nth len' by (simp add: rings_hold_def s')
    then show ?thesis using s'(1) by simp
  qed
qed

interpretation rings: shared_queues rings_hold record_step next_step enc_all decoded good_event
proof (unfold_locales, goal_cases)
  case (4 s qs i r s')
  then show ?case using next_cases [of s qs "Some (i, r)" s'] by blast
next
  case (5 s qs s')
  then show ?case using next_cases [of s qs None s'] by blast
next
  case (3 s qs i bs s')
  then show ?case by (rule record_law)
qed simp_all

lemma idle_hold: "idle s \<Longrightarrow> rings_hold s (\<lambda>_. [])"
  by (auto simp: idle_def rings_hold_def dev_inv_def dev_unread_def ring_read_def)

lemma captures_history:
  assumes "captures s0 s log out" and "idle s0"
  shows "rings.history s log out"
  using assms(1)
proof induction
  case Start
  show ?case by (rule rings.history_start [OF idle_hold [OF assms(2)]])
qed (rule rings.history_put rings.history_got rings.history_wait; assumption)+

section \<open>A concrete run\<close>

definition demo_capture :: capture where
  "demo_capture = \<lparr>cap_consumer = to_kernel (demo_handle [[], []]) demo_consumer, cap_handle = demo_handle [[], []]\<rparr>"

lemma demo_capture_idle: "idle demo_capture"
  by (auto simp: idle_def demo_capture_def demo_handle_def demo_dev_def info_ok_def used_def)

text \<open>One event is recorded on CPU 0, then the consumer is called once.\<close>

lemma demo_capture_run: "\<exists>s bs evt. captures demo_capture s ((\<lambda>_. [])(0 := bs)) evt"
proof -
  let ?c = "cap_consumer demo_capture"
  have "ring_ok (cur_ring demo_driver ?c)"
    by (simp add: demo_capture_def demo_handle_def demo_dev_def to_kernel_def ring_ok_def info_ok_def demo_driver_def)
  from record_event_consumer_ok [OF demo_driver_fillers this, of PPME_SYSCALL_CLOSE_E UF_USED 5 zero_event_data]
  obtain res c' where rec: "record_event_consumer demo_driver ?c PPME_SYSCALL_CLOSE_E UF_USED 5 zero_event_data = Some (res, c')"
    by blast
  define bs where "bs = drop (length (unread (c_ring_buffers ?c 0))) (unread (c_ring_buffers c' 0))"
  define s1 where "s1 = \<lparr>cap_consumer = c', cap_handle = to_user c' (cap_handle demo_capture)\<rparr>"
  have st: "record_step demo_capture 0 bs s1"
    by (rule record_stepI [OF demo_driver_fillers _ _ _ _ rec])
       (simp_all add: bs_def s1_def ppm_consts demo_driver_def demo_capture_def demo_handle_def)
  obtain r evt h' where "scap_next_live (cap_handle s1) = (r, evt, h')" by (metis prod_cases3)
  then obtain out s2 where st2: "next_step s1 out s2" unfolding next_step_def by blast
  have c1: "captures demo_capture s1 ((\<lambda>_. [])(0 := bs)) (\<lambda>_. [])"
    using captures.Record [OF captures.Start st] by simp
  have "\<exists>evt. captures demo_capture s2 ((\<lambda>_. [])(0 := bs)) evt"
  proof (cases out)
    case None
    then show ?thesis using captures.Wait [OF c1] st2 by auto
  next
    case (Some x)
    then show ?thesis using captures.Next [OF c1, of "fst x" "snd x"] st2 by (metis prod.collapse)
  qed
  then show ?thesis by blast
qed

section \<open>Every event is handed out once, in order\<close>

text \<open>
  C7. Whatever the interleaving of events recorded by the driver on the CPUs with calls of
  \<open>scap_next_live\<close>, starting from empty rings: the bytes that the ring of a CPU gained are a sequence of
  well-formed events, and the events handed out for that CPU so far are the first ones of this
  sequence, each once, in order and with the timestamp, thread, type and parameters that were recorded.
\<close>

theorem capture_fifo:
  assumes "idle s0" and "captures s0 s log out"
  shows "\<exists>es. log i = enc_all es \<and> list_all good_event es \<and> (\<exists>k \<le> length es. out i = map decoded (take k es))"
proof -
  obtain past rest where "\<forall>i. log i = enc_all (past i @ rest i) \<and> out i = map decoded (past i) \<and>
      list_all good_event (past i @ rest i)"
    using rings.historyE [OF captures_history [OF assms(2,1)]] by metis
  then show ?thesis by (intro exI [of _ "past i @ rest i"]) (auto intro!: exI [of _ "length (past i)"])
qed

theorem capture_fifo_witness:
  "\<exists>s bs out es k. captures demo_capture s ((\<lambda>_. [])(0 := bs)) out \<and> bs = enc_all es \<and> list_all good_event es \<and>
     k \<le> length es \<and> out 0 = map decoded (take k es)"
proof -
  obtain s bs out where run: "captures demo_capture s ((\<lambda>_. [])(0 := bs)) out" using demo_capture_run by blast
  with capture_fifo [OF demo_capture_idle this, of 0] show ?thesis by fastforce
qed

text \<open>
  C8. At any point of such an interleaving, calling \<open>scap_next_live\<close> often enough hands out the rest: the
  events handed out before and by those calls are together exactly the events recorded on each CPU.
\<close>

theorem capture_exactly_once:
  assumes "idle s0" and "captures s0 s log out"
  shows "\<exists>calls. \<forall>n \<ge> calls. \<forall>i < length (m_devs (cap_handle s)). \<exists>es. log i = enc_all es \<and>
    list_all good_event es \<and> out i @ from_device i (drain n (cap_handle s)) = map decoded es"
proof -
  obtain past rest where h: "\<forall>i. log i = enc_all (past i @ rest i) \<and> out i = map decoded (past i) \<and>
      list_all good_event (past i @ rest i)" and hold: "rings_hold s rest"
    using rings.historyE [OF captures_history [OF assms(2,1)]] by metis
  let ?ql = "map rest [0..<length (m_devs (cap_handle s))]"
  have inv: "list_all2 dev_inv (m_devs (cap_handle s)) ?ql" "length (m_devs (cap_handle s)) < 65535"
    using hold by (auto simp: rings_hold_def list_all2_conv_all_nth)
  have "out i @ from_device i (drain n (cap_handle s)) = map decoded (past i @ rest i)"
    if "n \<ge> calls_left (cap_handle s) ?ql" "i < length (m_devs (cap_handle s))" for n i
    using drain_complete [OF inv that(1), of i] that(2) h by simp
  with h show ?thesis by blast
qed

theorem capture_exactly_once_witness:
  "\<exists>s bs out calls. captures demo_capture s ((\<lambda>_. [])(0 := bs)) out \<and>
     (\<forall>n \<ge> calls. \<forall>i < length (m_devs (cap_handle s)). \<exists>es. ((\<lambda>_. [])(0 := bs)) i = enc_all es \<and>
        list_all good_event es \<and> out i @ from_device i (drain n (cap_handle s)) = map decoded es)"
proof -
  obtain s bs out where run: "captures demo_capture s ((\<lambda>_. [])(0 := bs)) out" using demo_capture_run by blast
  with capture_exactly_once [OF demo_capture_idle this] show ?thesis by blast
qed

end
