(* ===== verification/Linux_Abi.thy ===== *)
theory Linux_Abi
  imports Ppm_Types
begin

text \<open>
  The constants of the system call interface of Linux on x86-64 that
  \<open>driver/ppm_flag_helpers.h\<close> translates, with the values the user-space headers of Linux 4.17
  give them.  They are part of the interface the kernel keeps stable, not of this program; a
  constant is a word of whichever width the C expression it occurs in has.
\<close>

subsection \<open>open (\<open>asm-generic/fcntl.h\<close>)\<close>

abbreviation (input) O_RDONLY :: "'a::len word" where "O_RDONLY \<equiv> 0"
abbreviation (input) O_WRONLY :: "'a::len word" where "O_WRONLY \<equiv> 1"
abbreviation (input) O_RDWR :: "'a::len word" where "O_RDWR \<equiv> 2"
abbreviation (input) O_CREAT :: "'a::len word" where "O_CREAT \<equiv> 64"
abbreviation (input) O_EXCL :: "'a::len word" where "O_EXCL \<equiv> 128"
abbreviation (input) O_TRUNC :: "'a::len word" where "O_TRUNC \<equiv> 512"
abbreviation (input) O_APPEND :: "'a::len word" where "O_APPEND \<equiv> 0x400"
abbreviation (input) O_NONBLOCK :: "'a::len word" where "O_NONBLOCK \<equiv> 0x800"
abbreviation (input) O_DSYNC :: "'a::len word" where "O_DSYNC \<equiv> 0x1000"
abbreviation (input) O_DIRECT :: "'a::len word" where "O_DIRECT \<equiv> 0x4000"
abbreviation (input) O_LARGEFILE :: "'a::len word" where "O_LARGEFILE \<equiv> 0x8000"
abbreviation (input) O_DIRECTORY :: "'a::len word" where "O_DIRECTORY \<equiv> 0x10000"
abbreviation (input) O_CLOEXEC :: "'a::len word" where "O_CLOEXEC \<equiv> 0x80000"
abbreviation (input) O_SYNC :: "'a::len word" where "O_SYNC \<equiv> 0x101000"
abbreviation (input) O_TMPFILE :: "'a::len word" where "O_TMPFILE \<equiv> 0x410000"

subsection \<open>file modes (\<open>linux/stat.h\<close>)\<close>

abbreviation (input) S_ISUID :: "'a::len word" where "S_ISUID \<equiv> 0x800"
abbreviation (input) S_ISGID :: "'a::len word" where "S_ISGID \<equiv> 0x400"
abbreviation (input) S_ISVTX :: "'a::len word" where "S_ISVTX \<equiv> 512"
abbreviation (input) S_IRUSR :: "'a::len word" where "S_IRUSR \<equiv> 256"
abbreviation (input) S_IWUSR :: "'a::len word" where "S_IWUSR \<equiv> 128"
abbreviation (input) S_IXUSR :: "'a::len word" where "S_IXUSR \<equiv> 64"
abbreviation (input) S_IRGRP :: "'a::len word" where "S_IRGRP \<equiv> 32"
abbreviation (input) S_IWGRP :: "'a::len word" where "S_IWGRP \<equiv> 16"
abbreviation (input) S_IXGRP :: "'a::len word" where "S_IXGRP \<equiv> 8"
abbreviation (input) S_IROTH :: "'a::len word" where "S_IROTH \<equiv> 4"
abbreviation (input) S_IWOTH :: "'a::len word" where "S_IWOTH \<equiv> 2"
abbreviation (input) S_IXOTH :: "'a::len word" where "S_IXOTH \<equiv> 1"

subsection \<open>clone (\<open>linux/sched.h\<close>)\<close>

abbreviation (input) CLONE_VM :: "'a::len word" where "CLONE_VM \<equiv> 256"
abbreviation (input) CLONE_FS :: "'a::len word" where "CLONE_FS \<equiv> 512"
abbreviation (input) CLONE_FILES :: "'a::len word" where "CLONE_FILES \<equiv> 0x400"
abbreviation (input) CLONE_SIGHAND :: "'a::len word" where "CLONE_SIGHAND \<equiv> 0x800"
abbreviation (input) CLONE_PTRACE :: "'a::len word" where "CLONE_PTRACE \<equiv> 0x2000"
abbreviation (input) CLONE_VFORK :: "'a::len word" where "CLONE_VFORK \<equiv> 0x4000"
abbreviation (input) CLONE_PARENT :: "'a::len word" where "CLONE_PARENT \<equiv> 0x8000"
abbreviation (input) CLONE_THREAD :: "'a::len word" where "CLONE_THREAD \<equiv> 0x10000"
abbreviation (input) CLONE_NEWNS :: "'a::len word" where "CLONE_NEWNS \<equiv> 0x20000"
abbreviation (input) CLONE_SYSVSEM :: "'a::len word" where "CLONE_SYSVSEM \<equiv> 0x40000"
abbreviation (input) CLONE_SETTLS :: "'a::len word" where "CLONE_SETTLS \<equiv> 0x80000"
abbreviation (input) CLONE_PARENT_SETTID :: "'a::len word" where "CLONE_PARENT_SETTID \<equiv> 0x100000"
abbreviation (input) CLONE_CHILD_CLEARTID :: "'a::len word" where "CLONE_CHILD_CLEARTID \<equiv> 0x200000"
abbreviation (input) CLONE_UNTRACED :: "'a::len word" where "CLONE_UNTRACED \<equiv> 0x800000"
abbreviation (input) CLONE_CHILD_SETTID :: "'a::len word" where "CLONE_CHILD_SETTID \<equiv> 0x1000000"
abbreviation (input) CLONE_NEWCGROUP :: "'a::len word" where "CLONE_NEWCGROUP \<equiv> 0x2000000"
abbreviation (input) CLONE_NEWUTS :: "'a::len word" where "CLONE_NEWUTS \<equiv> 0x4000000"
abbreviation (input) CLONE_NEWIPC :: "'a::len word" where "CLONE_NEWIPC \<equiv> 0x8000000"
abbreviation (input) CLONE_NEWUSER :: "'a::len word" where "CLONE_NEWUSER \<equiv> 0x10000000"
abbreviation (input) CLONE_NEWPID :: "'a::len word" where "CLONE_NEWPID \<equiv> 0x20000000"
abbreviation (input) CLONE_NEWNET :: "'a::len word" where "CLONE_NEWNET \<equiv> 0x40000000"
abbreviation (input) CLONE_IO :: "'a::len word" where "CLONE_IO \<equiv> 0x80000000"

subsection \<open>mmap and mprotect (\<open>asm-generic/mman.h\<close>)\<close>

abbreviation (input) PROT_READ :: "'a::len word" where "PROT_READ \<equiv> 1"
abbreviation (input) PROT_WRITE :: "'a::len word" where "PROT_WRITE \<equiv> 2"
abbreviation (input) PROT_EXEC :: "'a::len word" where "PROT_EXEC \<equiv> 4"
abbreviation (input) PROT_SEM :: "'a::len word" where "PROT_SEM \<equiv> 8"
abbreviation (input) PROT_GROWSDOWN :: "'a::len word" where "PROT_GROWSDOWN \<equiv> 0x1000000"
abbreviation (input) PROT_GROWSUP :: "'a::len word" where "PROT_GROWSUP \<equiv> 0x2000000"
abbreviation (input) MAP_SHARED :: "'a::len word" where "MAP_SHARED \<equiv> 1"
abbreviation (input) MAP_PRIVATE :: "'a::len word" where "MAP_PRIVATE \<equiv> 2"
abbreviation (input) MAP_FIXED :: "'a::len word" where "MAP_FIXED \<equiv> 16"
abbreviation (input) MAP_ANONYMOUS :: "'a::len word" where "MAP_ANONYMOUS \<equiv> 32"
abbreviation (input) MAP_32BIT :: "'a::len word" where "MAP_32BIT \<equiv> 64"
abbreviation (input) MAP_GROWSDOWN :: "'a::len word" where "MAP_GROWSDOWN \<equiv> 256"
abbreviation (input) MAP_DENYWRITE :: "'a::len word" where "MAP_DENYWRITE \<equiv> 0x800"
abbreviation (input) MAP_EXECUTABLE :: "'a::len word" where "MAP_EXECUTABLE \<equiv> 0x1000"
abbreviation (input) MAP_LOCKED :: "'a::len word" where "MAP_LOCKED \<equiv> 0x2000"
abbreviation (input) MAP_NORESERVE :: "'a::len word" where "MAP_NORESERVE \<equiv> 0x4000"
abbreviation (input) MAP_POPULATE :: "'a::len word" where "MAP_POPULATE \<equiv> 0x8000"
abbreviation (input) MAP_NONBLOCK :: "'a::len word" where "MAP_NONBLOCK \<equiv> 0x10000"
abbreviation (input) MAP_FILE :: "'a::len word" where "MAP_FILE \<equiv> 0"

subsection \<open>fcntl\<close>

abbreviation (input) F_DUPFD :: "'a::len word" where "F_DUPFD \<equiv> 0"
abbreviation (input) F_GETFD :: "'a::len word" where "F_GETFD \<equiv> 1"
abbreviation (input) F_SETFD :: "'a::len word" where "F_SETFD \<equiv> 2"
abbreviation (input) F_GETFL :: "'a::len word" where "F_GETFL \<equiv> 3"
abbreviation (input) F_SETFL :: "'a::len word" where "F_SETFL \<equiv> 4"
abbreviation (input) F_GETLK :: "'a::len word" where "F_GETLK \<equiv> 5"
abbreviation (input) F_SETLK :: "'a::len word" where "F_SETLK \<equiv> 6"
abbreviation (input) F_SETLKW :: "'a::len word" where "F_SETLKW \<equiv> 7"
abbreviation (input) F_SETOWN :: "'a::len word" where "F_SETOWN \<equiv> 8"
abbreviation (input) F_GETOWN :: "'a::len word" where "F_GETOWN \<equiv> 9"
abbreviation (input) F_SETSIG :: "'a::len word" where "F_SETSIG \<equiv> 10"
abbreviation (input) F_GETSIG :: "'a::len word" where "F_GETSIG \<equiv> 11"
abbreviation (input) F_SETOWN_EX :: "'a::len word" where "F_SETOWN_EX \<equiv> 15"
abbreviation (input) F_GETOWN_EX :: "'a::len word" where "F_GETOWN_EX \<equiv> 16"
abbreviation (input) F_OFD_GETLK :: "'a::len word" where "F_OFD_GETLK \<equiv> 36"
abbreviation (input) F_OFD_SETLK :: "'a::len word" where "F_OFD_SETLK \<equiv> 37"
abbreviation (input) F_OFD_SETLKW :: "'a::len word" where "F_OFD_SETLKW \<equiv> 38"
abbreviation (input) F_SETLEASE :: "'a::len word" where "F_SETLEASE \<equiv> 0x400"
abbreviation (input) F_GETLEASE :: "'a::len word" where "F_GETLEASE \<equiv> 0x401"
abbreviation (input) F_NOTIFY :: "'a::len word" where "F_NOTIFY \<equiv> 0x402"
abbreviation (input) F_CANCELLK :: "'a::len word" where "F_CANCELLK \<equiv> 0x405"
abbreviation (input) F_DUPFD_CLOEXEC :: "'a::len word" where "F_DUPFD_CLOEXEC \<equiv> 0x406"
abbreviation (input) F_SETPIPE_SZ :: "'a::len word" where "F_SETPIPE_SZ \<equiv> 0x407"
abbreviation (input) F_GETPIPE_SZ :: "'a::len word" where "F_GETPIPE_SZ \<equiv> 0x408"

subsection \<open>socket options (\<open>asm-generic/socket.h\<close>)\<close>

abbreviation (input) SOL_SOCKET :: "'a::len word" where "SOL_SOCKET \<equiv> 1"
abbreviation (input) SOL_TCP :: "'a::len word" where "SOL_TCP \<equiv> 6"
abbreviation (input) SO_DEBUG :: "'a::len word" where "SO_DEBUG \<equiv> 1"
abbreviation (input) SO_REUSEADDR :: "'a::len word" where "SO_REUSEADDR \<equiv> 2"
abbreviation (input) SO_TYPE :: "'a::len word" where "SO_TYPE \<equiv> 3"
abbreviation (input) SO_ERROR :: "'a::len word" where "SO_ERROR \<equiv> 4"
abbreviation (input) SO_DONTROUTE :: "'a::len word" where "SO_DONTROUTE \<equiv> 5"
abbreviation (input) SO_BROADCAST :: "'a::len word" where "SO_BROADCAST \<equiv> 6"
abbreviation (input) SO_SNDBUF :: "'a::len word" where "SO_SNDBUF \<equiv> 7"
abbreviation (input) SO_RCVBUF :: "'a::len word" where "SO_RCVBUF \<equiv> 8"
abbreviation (input) SO_KEEPALIVE :: "'a::len word" where "SO_KEEPALIVE \<equiv> 9"
abbreviation (input) SO_OOBINLINE :: "'a::len word" where "SO_OOBINLINE \<equiv> 10"
abbreviation (input) SO_NO_CHECK :: "'a::len word" where "SO_NO_CHECK \<equiv> 11"
abbreviation (input) SO_PRIORITY :: "'a::len word" where "SO_PRIORITY \<equiv> 12"
abbreviation (input) SO_LINGER :: "'a::len word" where "SO_LINGER \<equiv> 13"
abbreviation (input) SO_BSDCOMPAT :: "'a::len word" where "SO_BSDCOMPAT \<equiv> 14"
abbreviation (input) SO_REUSEPORT :: "'a::len word" where "SO_REUSEPORT \<equiv> 15"
abbreviation (input) SO_PASSCRED :: "'a::len word" where "SO_PASSCRED \<equiv> 16"
abbreviation (input) SO_PEERCRED :: "'a::len word" where "SO_PEERCRED \<equiv> 17"
abbreviation (input) SO_RCVLOWAT :: "'a::len word" where "SO_RCVLOWAT \<equiv> 18"
abbreviation (input) SO_SNDLOWAT :: "'a::len word" where "SO_SNDLOWAT \<equiv> 19"
abbreviation (input) SO_RCVTIMEO :: "'a::len word" where "SO_RCVTIMEO \<equiv> 20"
abbreviation (input) SO_SNDTIMEO :: "'a::len word" where "SO_SNDTIMEO \<equiv> 21"
abbreviation (input) SO_SECURITY_AUTHENTICATION :: "'a::len word" where "SO_SECURITY_AUTHENTICATION \<equiv> 22"
abbreviation (input) SO_SECURITY_ENCRYPTION_TRANSPORT :: "'a::len word" where "SO_SECURITY_ENCRYPTION_TRANSPORT \<equiv> 23"
abbreviation (input) SO_SECURITY_ENCRYPTION_NETWORK :: "'a::len word" where "SO_SECURITY_ENCRYPTION_NETWORK \<equiv> 24"
abbreviation (input) SO_BINDTODEVICE :: "'a::len word" where "SO_BINDTODEVICE \<equiv> 25"
abbreviation (input) SO_ATTACH_FILTER :: "'a::len word" where "SO_ATTACH_FILTER \<equiv> 26"
abbreviation (input) SO_DETACH_FILTER :: "'a::len word" where "SO_DETACH_FILTER \<equiv> 27"
abbreviation (input) SO_PEERNAME :: "'a::len word" where "SO_PEERNAME \<equiv> 28"
abbreviation (input) SO_TIMESTAMP :: "'a::len word" where "SO_TIMESTAMP \<equiv> 29"
abbreviation (input) SO_ACCEPTCONN :: "'a::len word" where "SO_ACCEPTCONN \<equiv> 30"
abbreviation (input) SO_PEERSEC :: "'a::len word" where "SO_PEERSEC \<equiv> 31"
abbreviation (input) SO_SNDBUFFORCE :: "'a::len word" where "SO_SNDBUFFORCE \<equiv> 32"
abbreviation (input) SO_RCVBUFFORCE :: "'a::len word" where "SO_RCVBUFFORCE \<equiv> 33"
abbreviation (input) SO_PASSSEC :: "'a::len word" where "SO_PASSSEC \<equiv> 34"
abbreviation (input) SO_TIMESTAMPNS :: "'a::len word" where "SO_TIMESTAMPNS \<equiv> 35"
abbreviation (input) SO_MARK :: "'a::len word" where "SO_MARK \<equiv> 36"
abbreviation (input) SO_TIMESTAMPING :: "'a::len word" where "SO_TIMESTAMPING \<equiv> 37"
abbreviation (input) SO_PROTOCOL :: "'a::len word" where "SO_PROTOCOL \<equiv> 38"
abbreviation (input) SO_DOMAIN :: "'a::len word" where "SO_DOMAIN \<equiv> 39"
abbreviation (input) SO_RXQ_OVFL :: "'a::len word" where "SO_RXQ_OVFL \<equiv> 40"
abbreviation (input) SO_WIFI_STATUS :: "'a::len word" where "SO_WIFI_STATUS \<equiv> 41"
abbreviation (input) SO_PEEK_OFF :: "'a::len word" where "SO_PEEK_OFF \<equiv> 42"
abbreviation (input) SO_NOFCS :: "'a::len word" where "SO_NOFCS \<equiv> 43"
abbreviation (input) SO_LOCK_FILTER :: "'a::len word" where "SO_LOCK_FILTER \<equiv> 44"
abbreviation (input) SO_SELECT_ERR_QUEUE :: "'a::len word" where "SO_SELECT_ERR_QUEUE \<equiv> 45"
abbreviation (input) SO_BUSY_POLL :: "'a::len word" where "SO_BUSY_POLL \<equiv> 46"
abbreviation (input) SO_MAX_PACING_RATE :: "'a::len word" where "SO_MAX_PACING_RATE \<equiv> 47"
abbreviation (input) SO_BPF_EXTENSIONS :: "'a::len word" where "SO_BPF_EXTENSIONS \<equiv> 48"
abbreviation (input) SO_INCOMING_CPU :: "'a::len word" where "SO_INCOMING_CPU \<equiv> 49"
abbreviation (input) SO_ATTACH_BPF :: "'a::len word" where "SO_ATTACH_BPF \<equiv> 50"
abbreviation (input) SO_MEMINFO :: "'a::len word" where "SO_MEMINFO \<equiv> 55"
abbreviation (input) SO_COOKIE :: "'a::len word" where "SO_COOKIE \<equiv> 57"
abbreviation (input) SO_PEERGROUPS :: "'a::len word" where "SO_PEERGROUPS \<equiv> 59"

subsection \<open>poll and epoll\<close>

abbreviation (input) POLLIN :: "'a::len word" where "POLLIN \<equiv> 1"
abbreviation (input) POLLPRI :: "'a::len word" where "POLLPRI \<equiv> 2"
abbreviation (input) POLLOUT :: "'a::len word" where "POLLOUT \<equiv> 4"
abbreviation (input) POLLERR :: "'a::len word" where "POLLERR \<equiv> 8"
abbreviation (input) POLLHUP :: "'a::len word" where "POLLHUP \<equiv> 16"
abbreviation (input) POLLNVAL :: "'a::len word" where "POLLNVAL \<equiv> 32"
abbreviation (input) POLLRDNORM :: "'a::len word" where "POLLRDNORM \<equiv> 64"
abbreviation (input) POLLRDBAND :: "'a::len word" where "POLLRDBAND \<equiv> 128"
abbreviation (input) POLLWRNORM :: "'a::len word" where "POLLWRNORM \<equiv> 256"
abbreviation (input) POLLWRBAND :: "'a::len word" where "POLLWRBAND \<equiv> 512"
abbreviation (input) POLLRDHUP :: "'a::len word" where "POLLRDHUP \<equiv> 0x2000"
abbreviation (input) EPOLLIN :: "'a::len word" where "EPOLLIN \<equiv> 1"
abbreviation (input) EPOLLPRI :: "'a::len word" where "EPOLLPRI \<equiv> 2"
abbreviation (input) EPOLLOUT :: "'a::len word" where "EPOLLOUT \<equiv> 4"
abbreviation (input) EPOLLERR :: "'a::len word" where "EPOLLERR \<equiv> 8"
abbreviation (input) EPOLLHUP :: "'a::len word" where "EPOLLHUP \<equiv> 16"
abbreviation (input) EPOLLRDHUP :: "'a::len word" where "EPOLLRDHUP \<equiv> 0x2000"
abbreviation (input) EPOLLEXCLUSIVE :: "'a::len word" where "EPOLLEXCLUSIVE \<equiv> 0x10000000"
abbreviation (input) EPOLLWAKEUP :: "'a::len word" where "EPOLLWAKEUP \<equiv> 0x20000000"
abbreviation (input) EPOLLONESHOT :: "'a::len word" where "EPOLLONESHOT \<equiv> 0x40000000"
abbreviation (input) EPOLLET :: "'a::len word" where "EPOLLET \<equiv> 0x80000000"

subsection \<open>futex\<close>

abbreviation (input) FUTEX_WAIT :: "'a::len word" where "FUTEX_WAIT \<equiv> 0"
abbreviation (input) FUTEX_WAKE :: "'a::len word" where "FUTEX_WAKE \<equiv> 1"
abbreviation (input) FUTEX_FD :: "'a::len word" where "FUTEX_FD \<equiv> 2"
abbreviation (input) FUTEX_REQUEUE :: "'a::len word" where "FUTEX_REQUEUE \<equiv> 3"
abbreviation (input) FUTEX_CMP_REQUEUE :: "'a::len word" where "FUTEX_CMP_REQUEUE \<equiv> 4"
abbreviation (input) FUTEX_WAKE_OP :: "'a::len word" where "FUTEX_WAKE_OP \<equiv> 5"
abbreviation (input) FUTEX_LOCK_PI :: "'a::len word" where "FUTEX_LOCK_PI \<equiv> 6"
abbreviation (input) FUTEX_UNLOCK_PI :: "'a::len word" where "FUTEX_UNLOCK_PI \<equiv> 7"
abbreviation (input) FUTEX_TRYLOCK_PI :: "'a::len word" where "FUTEX_TRYLOCK_PI \<equiv> 8"
abbreviation (input) FUTEX_WAIT_BITSET :: "'a::len word" where "FUTEX_WAIT_BITSET \<equiv> 9"
abbreviation (input) FUTEX_WAKE_BITSET :: "'a::len word" where "FUTEX_WAKE_BITSET \<equiv> 10"
abbreviation (input) FUTEX_WAIT_REQUEUE_PI :: "'a::len word" where "FUTEX_WAIT_REQUEUE_PI \<equiv> 11"
abbreviation (input) FUTEX_CMP_REQUEUE_PI :: "'a::len word" where "FUTEX_CMP_REQUEUE_PI \<equiv> 12"
abbreviation (input) FUTEX_PRIVATE_FLAG :: "'a::len word" where "FUTEX_PRIVATE_FLAG \<equiv> 128"
abbreviation (input) FUTEX_CLOCK_REALTIME :: "'a::len word" where "FUTEX_CLOCK_REALTIME \<equiv> 256"

subsection \<open>access, lseek, flock, *at\<close>

abbreviation (input) MAY_EXEC :: "'a::len word" where "MAY_EXEC \<equiv> 1"
abbreviation (input) MAY_WRITE :: "'a::len word" where "MAY_WRITE \<equiv> 2"
abbreviation (input) MAY_READ :: "'a::len word" where "MAY_READ \<equiv> 4"
abbreviation (input) SEEK_SET :: "'a::len word" where "SEEK_SET \<equiv> 0"
abbreviation (input) SEEK_CUR :: "'a::len word" where "SEEK_CUR \<equiv> 1"
abbreviation (input) SEEK_END :: "'a::len word" where "SEEK_END \<equiv> 2"
abbreviation (input) LOCK_SH :: "'a::len word" where "LOCK_SH \<equiv> 1"
abbreviation (input) LOCK_EX :: "'a::len word" where "LOCK_EX \<equiv> 2"
abbreviation (input) LOCK_NB :: "'a::len word" where "LOCK_NB \<equiv> 4"
abbreviation (input) LOCK_UN :: "'a::len word" where "LOCK_UN \<equiv> 8"
abbreviation (input) AT_REMOVEDIR :: "'a::len word" where "AT_REMOVEDIR \<equiv> 512"
abbreviation (input) AT_SYMLINK_FOLLOW :: "'a::len word" where "AT_SYMLINK_FOLLOW \<equiv> 0x400"
abbreviation (input) AT_EMPTY_PATH :: "'a::len word" where "AT_EMPTY_PATH \<equiv> 0x1000"

subsection \<open>rlimit (\<open>asm-generic/resource.h\<close>)\<close>

abbreviation (input) RLIMIT_CPU :: "'a::len word" where "RLIMIT_CPU \<equiv> 0"
abbreviation (input) RLIMIT_FSIZE :: "'a::len word" where "RLIMIT_FSIZE \<equiv> 1"
abbreviation (input) RLIMIT_DATA :: "'a::len word" where "RLIMIT_DATA \<equiv> 2"
abbreviation (input) RLIMIT_STACK :: "'a::len word" where "RLIMIT_STACK \<equiv> 3"
abbreviation (input) RLIMIT_CORE :: "'a::len word" where "RLIMIT_CORE \<equiv> 4"
abbreviation (input) RLIMIT_RSS :: "'a::len word" where "RLIMIT_RSS \<equiv> 5"
abbreviation (input) RLIMIT_NPROC :: "'a::len word" where "RLIMIT_NPROC \<equiv> 6"
abbreviation (input) RLIMIT_NOFILE :: "'a::len word" where "RLIMIT_NOFILE \<equiv> 7"
abbreviation (input) RLIMIT_MEMLOCK :: "'a::len word" where "RLIMIT_MEMLOCK \<equiv> 8"
abbreviation (input) RLIMIT_AS :: "'a::len word" where "RLIMIT_AS \<equiv> 9"
abbreviation (input) RLIMIT_LOCKS :: "'a::len word" where "RLIMIT_LOCKS \<equiv> 10"
abbreviation (input) RLIMIT_SIGPENDING :: "'a::len word" where "RLIMIT_SIGPENDING \<equiv> 11"
abbreviation (input) RLIMIT_MSGQUEUE :: "'a::len word" where "RLIMIT_MSGQUEUE \<equiv> 12"
abbreviation (input) RLIMIT_NICE :: "'a::len word" where "RLIMIT_NICE \<equiv> 13"
abbreviation (input) RLIMIT_RTPRIO :: "'a::len word" where "RLIMIT_RTPRIO \<equiv> 14"
abbreviation (input) RLIMIT_RTTIME :: "'a::len word" where "RLIMIT_RTTIME \<equiv> 15"

subsection \<open>System V semaphores\<close>

abbreviation (input) IPC_CREAT :: "'a::len word" where "IPC_CREAT \<equiv> 512"
abbreviation (input) IPC_EXCL :: "'a::len word" where "IPC_EXCL \<equiv> 0x400"
abbreviation (input) IPC_NOWAIT :: "'a::len word" where "IPC_NOWAIT \<equiv> 0x800"
abbreviation (input) SEM_UNDO :: "'a::len word" where "SEM_UNDO \<equiv> 0x1000"
abbreviation (input) IPC_RMID :: "'a::len word" where "IPC_RMID \<equiv> 0"
abbreviation (input) IPC_SET :: "'a::len word" where "IPC_SET \<equiv> 1"
abbreviation (input) IPC_STAT :: "'a::len word" where "IPC_STAT \<equiv> 2"
abbreviation (input) IPC_INFO :: "'a::len word" where "IPC_INFO \<equiv> 3"
abbreviation (input) GETPID :: "'a::len word" where "GETPID \<equiv> 11"
abbreviation (input) GETVAL :: "'a::len word" where "GETVAL \<equiv> 12"
abbreviation (input) GETALL :: "'a::len word" where "GETALL \<equiv> 13"
abbreviation (input) GETNCNT :: "'a::len word" where "GETNCNT \<equiv> 14"
abbreviation (input) GETZCNT :: "'a::len word" where "GETZCNT \<equiv> 15"
abbreviation (input) SETVAL :: "'a::len word" where "SETVAL \<equiv> 16"
abbreviation (input) SETALL :: "'a::len word" where "SETALL \<equiv> 17"
abbreviation (input) SEM_STAT :: "'a::len word" where "SEM_STAT \<equiv> 18"
abbreviation (input) SEM_INFO :: "'a::len word" where "SEM_INFO \<equiv> 19"

subsection \<open>quotactl\<close>

abbreviation (input) SUBCMDMASK :: "'a::len word" where "SUBCMDMASK \<equiv> 255"
abbreviation (input) USRQUOTA :: "'a::len word" where "USRQUOTA \<equiv> 0"
abbreviation (input) GRPQUOTA :: "'a::len word" where "GRPQUOTA \<equiv> 1"
abbreviation (input) Q_SYNC :: "'a::len word" where "Q_SYNC \<equiv> 0x800001"
abbreviation (input) Q_QUOTAON :: "'a::len word" where "Q_QUOTAON \<equiv> 0x800002"
abbreviation (input) Q_QUOTAOFF :: "'a::len word" where "Q_QUOTAOFF \<equiv> 0x800003"
abbreviation (input) Q_GETFMT :: "'a::len word" where "Q_GETFMT \<equiv> 0x800004"
abbreviation (input) Q_GETINFO :: "'a::len word" where "Q_GETINFO \<equiv> 0x800005"
abbreviation (input) Q_SETINFO :: "'a::len word" where "Q_SETINFO \<equiv> 0x800006"
abbreviation (input) Q_GETQUOTA :: "'a::len word" where "Q_GETQUOTA \<equiv> 0x800007"
abbreviation (input) Q_SETQUOTA :: "'a::len word" where "Q_SETQUOTA \<equiv> 0x800008"
abbreviation (input) Q_XQUOTAON :: "'a::len word" where "Q_XQUOTAON \<equiv> 0x5801"
abbreviation (input) Q_XQUOTAOFF :: "'a::len word" where "Q_XQUOTAOFF \<equiv> 0x5802"
abbreviation (input) Q_XGETQUOTA :: "'a::len word" where "Q_XGETQUOTA \<equiv> 0x5803"
abbreviation (input) Q_XSETQLIM :: "'a::len word" where "Q_XSETQLIM \<equiv> 0x5804"
abbreviation (input) Q_XGETQSTAT :: "'a::len word" where "Q_XGETQSTAT \<equiv> 0x5805"
abbreviation (input) Q_XQUOTARM :: "'a::len word" where "Q_XQUOTARM \<equiv> 0x5806"
abbreviation (input) Q_XQUOTASYNC :: "'a::len word" where "Q_XQUOTASYNC \<equiv> 0x5807"
abbreviation (input) QFMT_VFS_OLD :: "'a::len word" where "QFMT_VFS_OLD \<equiv> 1"
abbreviation (input) QFMT_VFS_V0 :: "'a::len word" where "QFMT_VFS_V0 \<equiv> 2"
abbreviation (input) QFMT_VFS_V1 :: "'a::len word" where "QFMT_VFS_V1 \<equiv> 4"

subsection \<open>ptrace (\<open>linux/ptrace.h\<close>, \<open>asm/ptrace-abi.h\<close>)\<close>

abbreviation (input) PTRACE_TRACEME :: "'a::len word" where "PTRACE_TRACEME \<equiv> 0"
abbreviation (input) PTRACE_PEEKTEXT :: "'a::len word" where "PTRACE_PEEKTEXT \<equiv> 1"
abbreviation (input) PTRACE_PEEKDATA :: "'a::len word" where "PTRACE_PEEKDATA \<equiv> 2"
abbreviation (input) PTRACE_PEEKUSR :: "'a::len word" where "PTRACE_PEEKUSR \<equiv> 3"
abbreviation (input) PTRACE_POKETEXT :: "'a::len word" where "PTRACE_POKETEXT \<equiv> 4"
abbreviation (input) PTRACE_POKEDATA :: "'a::len word" where "PTRACE_POKEDATA \<equiv> 5"
abbreviation (input) PTRACE_POKEUSR :: "'a::len word" where "PTRACE_POKEUSR \<equiv> 6"
abbreviation (input) PTRACE_CONT :: "'a::len word" where "PTRACE_CONT \<equiv> 7"
abbreviation (input) PTRACE_KILL :: "'a::len word" where "PTRACE_KILL \<equiv> 8"
abbreviation (input) PTRACE_SINGLESTEP :: "'a::len word" where "PTRACE_SINGLESTEP \<equiv> 9"
abbreviation (input) PTRACE_GETREGS :: "'a::len word" where "PTRACE_GETREGS \<equiv> 12"
abbreviation (input) PTRACE_SETREGS :: "'a::len word" where "PTRACE_SETREGS \<equiv> 13"
abbreviation (input) PTRACE_GETFPREGS :: "'a::len word" where "PTRACE_GETFPREGS \<equiv> 14"
abbreviation (input) PTRACE_SETFPREGS :: "'a::len word" where "PTRACE_SETFPREGS \<equiv> 15"
abbreviation (input) PTRACE_ATTACH :: "'a::len word" where "PTRACE_ATTACH \<equiv> 16"
abbreviation (input) PTRACE_DETACH :: "'a::len word" where "PTRACE_DETACH \<equiv> 17"
abbreviation (input) PTRACE_GETFPXREGS :: "'a::len word" where "PTRACE_GETFPXREGS \<equiv> 18"
abbreviation (input) PTRACE_SETFPXREGS :: "'a::len word" where "PTRACE_SETFPXREGS \<equiv> 19"
abbreviation (input) PTRACE_OLDSETOPTIONS :: "'a::len word" where "PTRACE_OLDSETOPTIONS \<equiv> 21"
abbreviation (input) PTRACE_SYSCALL :: "'a::len word" where "PTRACE_SYSCALL \<equiv> 24"
abbreviation (input) PTRACE_GET_THREAD_AREA :: "'a::len word" where "PTRACE_GET_THREAD_AREA \<equiv> 25"
abbreviation (input) PTRACE_SET_THREAD_AREA :: "'a::len word" where "PTRACE_SET_THREAD_AREA \<equiv> 26"
abbreviation (input) PTRACE_ARCH_PRCTL :: "'a::len word" where "PTRACE_ARCH_PRCTL \<equiv> 30"
abbreviation (input) PTRACE_SYSEMU :: "'a::len word" where "PTRACE_SYSEMU \<equiv> 31"
abbreviation (input) PTRACE_SYSEMU_SINGLESTEP :: "'a::len word" where "PTRACE_SYSEMU_SINGLESTEP \<equiv> 32"
abbreviation (input) PTRACE_SINGLEBLOCK :: "'a::len word" where "PTRACE_SINGLEBLOCK \<equiv> 33"
abbreviation (input) PTRACE_SETOPTIONS :: "'a::len word" where "PTRACE_SETOPTIONS \<equiv> 0x4200"
abbreviation (input) PTRACE_GETEVENTMSG :: "'a::len word" where "PTRACE_GETEVENTMSG \<equiv> 0x4201"
abbreviation (input) PTRACE_GETSIGINFO :: "'a::len word" where "PTRACE_GETSIGINFO \<equiv> 0x4202"
abbreviation (input) PTRACE_SETSIGINFO :: "'a::len word" where "PTRACE_SETSIGINFO \<equiv> 0x4203"
abbreviation (input) PTRACE_GETREGSET :: "'a::len word" where "PTRACE_GETREGSET \<equiv> 0x4204"
abbreviation (input) PTRACE_SETREGSET :: "'a::len word" where "PTRACE_SETREGSET \<equiv> 0x4205"
abbreviation (input) PTRACE_SEIZE :: "'a::len word" where "PTRACE_SEIZE \<equiv> 0x4206"
abbreviation (input) PTRACE_INTERRUPT :: "'a::len word" where "PTRACE_INTERRUPT \<equiv> 0x4207"
abbreviation (input) PTRACE_LISTEN :: "'a::len word" where "PTRACE_LISTEN \<equiv> 0x4208"
abbreviation (input) PTRACE_PEEKSIGINFO :: "'a::len word" where "PTRACE_PEEKSIGINFO \<equiv> 0x4209"
abbreviation (input) PTRACE_GETSIGMASK :: "'a::len word" where "PTRACE_GETSIGMASK \<equiv> 0x420a"
abbreviation (input) PTRACE_SETSIGMASK :: "'a::len word" where "PTRACE_SETSIGMASK \<equiv> 0x420b"

subsection \<open>socket families\<close>

abbreviation (input) AF_UNSPEC :: nat where "AF_UNSPEC \<equiv> 0"
abbreviation (input) AF_AX25 :: nat where "AF_AX25 \<equiv> 3"
abbreviation (input) AF_IPX :: nat where "AF_IPX \<equiv> 4"
abbreviation (input) AF_APPLETALK :: nat where "AF_APPLETALK \<equiv> 5"
abbreviation (input) AF_NETROM :: nat where "AF_NETROM \<equiv> 6"
abbreviation (input) AF_BRIDGE :: nat where "AF_BRIDGE \<equiv> 7"
abbreviation (input) AF_ATMPVC :: nat where "AF_ATMPVC \<equiv> 8"
abbreviation (input) AF_X25 :: nat where "AF_X25 \<equiv> 9"
abbreviation (input) AF_ROSE :: nat where "AF_ROSE \<equiv> 11"
abbreviation (input) AF_DECnet :: nat where "AF_DECnet \<equiv> 12"
abbreviation (input) AF_NETBEUI :: nat where "AF_NETBEUI \<equiv> 13"
abbreviation (input) AF_SECURITY :: nat where "AF_SECURITY \<equiv> 14"
abbreviation (input) AF_KEY :: nat where "AF_KEY \<equiv> 15"
abbreviation (input) AF_NETLINK :: nat where "AF_NETLINK \<equiv> 16"
abbreviation (input) AF_PACKET :: nat where "AF_PACKET \<equiv> 17"
abbreviation (input) AF_ASH :: nat where "AF_ASH \<equiv> 18"
abbreviation (input) AF_ECONET :: nat where "AF_ECONET \<equiv> 19"
abbreviation (input) AF_ATMSVC :: nat where "AF_ATMSVC \<equiv> 20"
abbreviation (input) AF_RDS :: nat where "AF_RDS \<equiv> 21"
abbreviation (input) AF_SNA :: nat where "AF_SNA \<equiv> 22"
abbreviation (input) AF_IRDA :: nat where "AF_IRDA \<equiv> 23"
abbreviation (input) AF_PPPOX :: nat where "AF_PPPOX \<equiv> 24"
abbreviation (input) AF_WANPIPE :: nat where "AF_WANPIPE \<equiv> 25"
abbreviation (input) AF_LLC :: nat where "AF_LLC \<equiv> 26"
abbreviation (input) AF_CAN :: nat where "AF_CAN \<equiv> 29"
abbreviation (input) AF_TIPC :: nat where "AF_TIPC \<equiv> 30"
abbreviation (input) AF_BLUETOOTH :: nat where "AF_BLUETOOTH \<equiv> 31"
abbreviation (input) AF_IUCV :: nat where "AF_IUCV \<equiv> 32"
abbreviation (input) AF_RXRPC :: nat where "AF_RXRPC \<equiv> 33"
abbreviation (input) AF_ISDN :: nat where "AF_ISDN \<equiv> 34"
abbreviation (input) AF_PHONET :: nat where "AF_PHONET \<equiv> 35"
abbreviation (input) AF_IEEE802154 :: nat where "AF_IEEE802154 \<equiv> 36"
abbreviation (input) AF_CAIF :: nat where "AF_CAIF \<equiv> 37"
abbreviation (input) AF_ALG :: nat where "AF_ALG \<equiv> 38"
abbreviation (input) AF_NFC :: nat where "AF_NFC \<equiv> 39"
abbreviation (input) AF_ROUTE :: nat where "AF_ROUTE \<equiv> 16"

end
