(* ===== verification/Ppm_Flags.thy ===== *)
theory Ppm_Flags
  imports Ppm_Types
begin

text \<open>
  The flags of the event format: the portable values of \<open>driver/ppm_events_public.h\<close> that events
  carry, and the tables of their names in \<open>driver/flags_table.c\<close>.  The zero entry that ends each
  table of the source is left out.
\<close>

section \<open>Values\<close>

abbreviation (input) PPM_AF_UNSPEC :: "'a::len word" where "PPM_AF_UNSPEC \<equiv> 0"
abbreviation (input) PPM_AF_UNIX :: "'a::len word" where "PPM_AF_UNIX \<equiv> 1"
abbreviation (input) PPM_AF_LOCAL :: "'a::len word" where "PPM_AF_LOCAL \<equiv> 1"
abbreviation (input) PPM_AF_INET :: "'a::len word" where "PPM_AF_INET \<equiv> 2"
abbreviation (input) PPM_AF_AX25 :: "'a::len word" where "PPM_AF_AX25 \<equiv> 3"
abbreviation (input) PPM_AF_IPX :: "'a::len word" where "PPM_AF_IPX \<equiv> 4"
abbreviation (input) PPM_AF_APPLETALK :: "'a::len word" where "PPM_AF_APPLETALK \<equiv> 5"
abbreviation (input) PPM_AF_NETROM :: "'a::len word" where "PPM_AF_NETROM \<equiv> 6"
abbreviation (input) PPM_AF_BRIDGE :: "'a::len word" where "PPM_AF_BRIDGE \<equiv> 7"
abbreviation (input) PPM_AF_ATMPVC :: "'a::len word" where "PPM_AF_ATMPVC \<equiv> 8"
abbreviation (input) PPM_AF_X25 :: "'a::len word" where "PPM_AF_X25 \<equiv> 9"
abbreviation (input) PPM_AF_INET6 :: "'a::len word" where "PPM_AF_INET6 \<equiv> 10"
abbreviation (input) PPM_AF_ROSE :: "'a::len word" where "PPM_AF_ROSE \<equiv> 11"
abbreviation (input) PPM_AF_DECnet :: "'a::len word" where "PPM_AF_DECnet \<equiv> 12"
abbreviation (input) PPM_AF_NETBEUI :: "'a::len word" where "PPM_AF_NETBEUI \<equiv> 13"
abbreviation (input) PPM_AF_SECURITY :: "'a::len word" where "PPM_AF_SECURITY \<equiv> 14"
abbreviation (input) PPM_AF_KEY :: "'a::len word" where "PPM_AF_KEY \<equiv> 15"
abbreviation (input) PPM_AF_NETLINK :: "'a::len word" where "PPM_AF_NETLINK \<equiv> 16"
abbreviation (input) PPM_AF_ROUTE :: "'a::len word" where "PPM_AF_ROUTE \<equiv> PPM_AF_NETLINK"
abbreviation (input) PPM_AF_PACKET :: "'a::len word" where "PPM_AF_PACKET \<equiv> 17"
abbreviation (input) PPM_AF_ASH :: "'a::len word" where "PPM_AF_ASH \<equiv> 18"
abbreviation (input) PPM_AF_ECONET :: "'a::len word" where "PPM_AF_ECONET \<equiv> 19"
abbreviation (input) PPM_AF_ATMSVC :: "'a::len word" where "PPM_AF_ATMSVC \<equiv> 20"
abbreviation (input) PPM_AF_RDS :: "'a::len word" where "PPM_AF_RDS \<equiv> 21"
abbreviation (input) PPM_AF_SNA :: "'a::len word" where "PPM_AF_SNA \<equiv> 22"
abbreviation (input) PPM_AF_IRDA :: "'a::len word" where "PPM_AF_IRDA \<equiv> 23"
abbreviation (input) PPM_AF_PPPOX :: "'a::len word" where "PPM_AF_PPPOX \<equiv> 24"
abbreviation (input) PPM_AF_WANPIPE :: "'a::len word" where "PPM_AF_WANPIPE \<equiv> 25"
abbreviation (input) PPM_AF_LLC :: "'a::len word" where "PPM_AF_LLC \<equiv> 26"
abbreviation (input) PPM_AF_CAN :: "'a::len word" where "PPM_AF_CAN \<equiv> 29"
abbreviation (input) PPM_AF_TIPC :: "'a::len word" where "PPM_AF_TIPC \<equiv> 30"
abbreviation (input) PPM_AF_BLUETOOTH :: "'a::len word" where "PPM_AF_BLUETOOTH \<equiv> 31"
abbreviation (input) PPM_AF_IUCV :: "'a::len word" where "PPM_AF_IUCV \<equiv> 32"
abbreviation (input) PPM_AF_RXRPC :: "'a::len word" where "PPM_AF_RXRPC \<equiv> 33"
abbreviation (input) PPM_AF_ISDN :: "'a::len word" where "PPM_AF_ISDN \<equiv> 34"
abbreviation (input) PPM_AF_PHONET :: "'a::len word" where "PPM_AF_PHONET \<equiv> 35"
abbreviation (input) PPM_AF_IEEE802154 :: "'a::len word" where "PPM_AF_IEEE802154 \<equiv> 36"
abbreviation (input) PPM_AF_CAIF :: "'a::len word" where "PPM_AF_CAIF \<equiv> 37"
abbreviation (input) PPM_AF_ALG :: "'a::len word" where "PPM_AF_ALG \<equiv> 38"
abbreviation (input) PPM_AF_NFC :: "'a::len word" where "PPM_AF_NFC \<equiv> 39"
abbreviation (input) PPM_O_NONE :: "'a::len word" where "PPM_O_NONE \<equiv> 0"
abbreviation (input) PPM_O_RDONLY :: "'a::len word" where "PPM_O_RDONLY \<equiv> 1"
abbreviation (input) PPM_O_WRONLY :: "'a::len word" where "PPM_O_WRONLY \<equiv> 2"
abbreviation (input) PPM_O_RDWR :: "'a::len word" where "PPM_O_RDWR \<equiv> PPM_O_RDONLY OR PPM_O_WRONLY"
abbreviation (input) PPM_O_CREAT :: "'a::len word" where "PPM_O_CREAT \<equiv> 4"
abbreviation (input) PPM_O_APPEND :: "'a::len word" where "PPM_O_APPEND \<equiv> 8"
abbreviation (input) PPM_O_DSYNC :: "'a::len word" where "PPM_O_DSYNC \<equiv> 16"
abbreviation (input) PPM_O_EXCL :: "'a::len word" where "PPM_O_EXCL \<equiv> 32"
abbreviation (input) PPM_O_NONBLOCK :: "'a::len word" where "PPM_O_NONBLOCK \<equiv> 64"
abbreviation (input) PPM_O_SYNC :: "'a::len word" where "PPM_O_SYNC \<equiv> 128"
abbreviation (input) PPM_O_TRUNC :: "'a::len word" where "PPM_O_TRUNC \<equiv> 256"
abbreviation (input) PPM_O_DIRECT :: "'a::len word" where "PPM_O_DIRECT \<equiv> 512"
abbreviation (input) PPM_O_DIRECTORY :: "'a::len word" where "PPM_O_DIRECTORY \<equiv> 0x400"
abbreviation (input) PPM_O_LARGEFILE :: "'a::len word" where "PPM_O_LARGEFILE \<equiv> 0x800"
abbreviation (input) PPM_O_CLOEXEC :: "'a::len word" where "PPM_O_CLOEXEC \<equiv> 0x1000"
abbreviation (input) PPM_O_TMPFILE :: "'a::len word" where "PPM_O_TMPFILE \<equiv> 0x2000"
abbreviation (input) PPM_S_NONE :: "'a::len word" where "PPM_S_NONE \<equiv> 0"
abbreviation (input) PPM_S_IXOTH :: "'a::len word" where "PPM_S_IXOTH \<equiv> 1"
abbreviation (input) PPM_S_IWOTH :: "'a::len word" where "PPM_S_IWOTH \<equiv> 2"
abbreviation (input) PPM_S_IROTH :: "'a::len word" where "PPM_S_IROTH \<equiv> 4"
abbreviation (input) PPM_S_IXGRP :: "'a::len word" where "PPM_S_IXGRP \<equiv> 8"
abbreviation (input) PPM_S_IWGRP :: "'a::len word" where "PPM_S_IWGRP \<equiv> 16"
abbreviation (input) PPM_S_IRGRP :: "'a::len word" where "PPM_S_IRGRP \<equiv> 32"
abbreviation (input) PPM_S_IXUSR :: "'a::len word" where "PPM_S_IXUSR \<equiv> 64"
abbreviation (input) PPM_S_IWUSR :: "'a::len word" where "PPM_S_IWUSR \<equiv> 128"
abbreviation (input) PPM_S_IRUSR :: "'a::len word" where "PPM_S_IRUSR \<equiv> 256"
abbreviation (input) PPM_S_ISVTX :: "'a::len word" where "PPM_S_ISVTX \<equiv> 512"
abbreviation (input) PPM_S_ISGID :: "'a::len word" where "PPM_S_ISGID \<equiv> 0x400"
abbreviation (input) PPM_S_ISUID :: "'a::len word" where "PPM_S_ISUID \<equiv> 0x800"
abbreviation (input) PPM_LOCK_NONE :: "'a::len word" where "PPM_LOCK_NONE \<equiv> 0"
abbreviation (input) PPM_LOCK_SH :: "'a::len word" where "PPM_LOCK_SH \<equiv> 1"
abbreviation (input) PPM_LOCK_EX :: "'a::len word" where "PPM_LOCK_EX \<equiv> 2"
abbreviation (input) PPM_LOCK_NB :: "'a::len word" where "PPM_LOCK_NB \<equiv> 4"
abbreviation (input) PPM_LOCK_UN :: "'a::len word" where "PPM_LOCK_UN \<equiv> 8"
abbreviation (input) PPM_CL_NONE :: "'a::len word" where "PPM_CL_NONE \<equiv> 0"
abbreviation (input) PPM_CL_CLONE_FILES :: "'a::len word" where "PPM_CL_CLONE_FILES \<equiv> 1"
abbreviation (input) PPM_CL_CLONE_FS :: "'a::len word" where "PPM_CL_CLONE_FS \<equiv> 2"
abbreviation (input) PPM_CL_CLONE_IO :: "'a::len word" where "PPM_CL_CLONE_IO \<equiv> 4"
abbreviation (input) PPM_CL_CLONE_NEWIPC :: "'a::len word" where "PPM_CL_CLONE_NEWIPC \<equiv> 8"
abbreviation (input) PPM_CL_CLONE_NEWNET :: "'a::len word" where "PPM_CL_CLONE_NEWNET \<equiv> 16"
abbreviation (input) PPM_CL_CLONE_NEWNS :: "'a::len word" where "PPM_CL_CLONE_NEWNS \<equiv> 32"
abbreviation (input) PPM_CL_CLONE_NEWPID :: "'a::len word" where "PPM_CL_CLONE_NEWPID \<equiv> 64"
abbreviation (input) PPM_CL_CLONE_NEWUTS :: "'a::len word" where "PPM_CL_CLONE_NEWUTS \<equiv> 128"
abbreviation (input) PPM_CL_CLONE_PARENT :: "'a::len word" where "PPM_CL_CLONE_PARENT \<equiv> 256"
abbreviation (input) PPM_CL_CLONE_PARENT_SETTID :: "'a::len word" where "PPM_CL_CLONE_PARENT_SETTID \<equiv> 512"
abbreviation (input) PPM_CL_CLONE_PTRACE :: "'a::len word" where "PPM_CL_CLONE_PTRACE \<equiv> 0x400"
abbreviation (input) PPM_CL_CLONE_SIGHAND :: "'a::len word" where "PPM_CL_CLONE_SIGHAND \<equiv> 0x800"
abbreviation (input) PPM_CL_CLONE_SYSVSEM :: "'a::len word" where "PPM_CL_CLONE_SYSVSEM \<equiv> 0x1000"
abbreviation (input) PPM_CL_CLONE_THREAD :: "'a::len word" where "PPM_CL_CLONE_THREAD \<equiv> 0x2000"
abbreviation (input) PPM_CL_CLONE_UNTRACED :: "'a::len word" where "PPM_CL_CLONE_UNTRACED \<equiv> 0x4000"
abbreviation (input) PPM_CL_CLONE_VM :: "'a::len word" where "PPM_CL_CLONE_VM \<equiv> 0x8000"
abbreviation (input) PPM_CL_CLONE_INVERTED :: "'a::len word" where "PPM_CL_CLONE_INVERTED \<equiv> 0x10000"
abbreviation (input) PPM_CL_NAME_CHANGED :: "'a::len word" where "PPM_CL_NAME_CHANGED \<equiv> 0x20000"
abbreviation (input) PPM_CL_CLOSED :: "'a::len word" where "PPM_CL_CLOSED \<equiv> 0x40000"
abbreviation (input) PPM_CL_ACTIVE :: "'a::len word" where "PPM_CL_ACTIVE \<equiv> 0x80000"
abbreviation (input) PPM_CL_CLONE_NEWUSER :: "'a::len word" where "PPM_CL_CLONE_NEWUSER \<equiv> 0x100000"
abbreviation (input) PPM_CL_PIPE_SRC :: "'a::len word" where "PPM_CL_PIPE_SRC \<equiv> 0x200000"
abbreviation (input) PPM_CL_PIPE_DST :: "'a::len word" where "PPM_CL_PIPE_DST \<equiv> 0x400000"
abbreviation (input) PPM_CL_CLONE_CHILD_CLEARTID :: "'a::len word" where "PPM_CL_CLONE_CHILD_CLEARTID \<equiv> 0x800000"
abbreviation (input) PPM_CL_CLONE_CHILD_SETTID :: "'a::len word" where "PPM_CL_CLONE_CHILD_SETTID \<equiv> 0x1000000"
abbreviation (input) PPM_CL_CLONE_SETTLS :: "'a::len word" where "PPM_CL_CLONE_SETTLS \<equiv> 0x2000000"
abbreviation (input) PPM_CL_CLONE_STOPPED :: "'a::len word" where "PPM_CL_CLONE_STOPPED \<equiv> 0x4000000"
abbreviation (input) PPM_CL_CLONE_VFORK :: "'a::len word" where "PPM_CL_CLONE_VFORK \<equiv> 0x8000000"
abbreviation (input) PPM_CL_CLONE_NEWCGROUP :: "'a::len word" where "PPM_CL_CLONE_NEWCGROUP \<equiv> 0x10000000"
abbreviation (input) PPM_CL_CHILD_IN_PIDNS :: "'a::len word" where "PPM_CL_CHILD_IN_PIDNS \<equiv> 0x20000000"
abbreviation (input) PPM_CL_IS_MAIN_THREAD :: "'a::len word" where "PPM_CL_IS_MAIN_THREAD \<equiv> 0x40000000"
abbreviation (input) PPM_FU_FUTEX_WAIT :: "'a::len word" where "PPM_FU_FUTEX_WAIT \<equiv> 0"
abbreviation (input) PPM_FU_FUTEX_WAKE :: "'a::len word" where "PPM_FU_FUTEX_WAKE \<equiv> 1"
abbreviation (input) PPM_FU_FUTEX_FD :: "'a::len word" where "PPM_FU_FUTEX_FD \<equiv> 2"
abbreviation (input) PPM_FU_FUTEX_REQUEUE :: "'a::len word" where "PPM_FU_FUTEX_REQUEUE \<equiv> 3"
abbreviation (input) PPM_FU_FUTEX_CMP_REQUEUE :: "'a::len word" where "PPM_FU_FUTEX_CMP_REQUEUE \<equiv> 4"
abbreviation (input) PPM_FU_FUTEX_WAKE_OP :: "'a::len word" where "PPM_FU_FUTEX_WAKE_OP \<equiv> 5"
abbreviation (input) PPM_FU_FUTEX_LOCK_PI :: "'a::len word" where "PPM_FU_FUTEX_LOCK_PI \<equiv> 6"
abbreviation (input) PPM_FU_FUTEX_UNLOCK_PI :: "'a::len word" where "PPM_FU_FUTEX_UNLOCK_PI \<equiv> 7"
abbreviation (input) PPM_FU_FUTEX_TRYLOCK_PI :: "'a::len word" where "PPM_FU_FUTEX_TRYLOCK_PI \<equiv> 8"
abbreviation (input) PPM_FU_FUTEX_WAIT_BITSET :: "'a::len word" where "PPM_FU_FUTEX_WAIT_BITSET \<equiv> 9"
abbreviation (input) PPM_FU_FUTEX_WAKE_BITSET :: "'a::len word" where "PPM_FU_FUTEX_WAKE_BITSET \<equiv> 10"
abbreviation (input) PPM_FU_FUTEX_WAIT_REQUEUE_PI :: "'a::len word" where "PPM_FU_FUTEX_WAIT_REQUEUE_PI \<equiv> 11"
abbreviation (input) PPM_FU_FUTEX_CMP_REQUEUE_PI :: "'a::len word" where "PPM_FU_FUTEX_CMP_REQUEUE_PI \<equiv> 12"
abbreviation (input) PPM_FU_FUTEX_PRIVATE_FLAG :: "'a::len word" where "PPM_FU_FUTEX_PRIVATE_FLAG \<equiv> 128"
abbreviation (input) PPM_FU_FUTEX_CLOCK_REALTIME :: "'a::len word" where "PPM_FU_FUTEX_CLOCK_REALTIME \<equiv> 256"
abbreviation (input) PPM_SEEK_SET :: "'a::len word" where "PPM_SEEK_SET \<equiv> 0"
abbreviation (input) PPM_SEEK_CUR :: "'a::len word" where "PPM_SEEK_CUR \<equiv> 1"
abbreviation (input) PPM_SEEK_END :: "'a::len word" where "PPM_SEEK_END \<equiv> 2"
abbreviation (input) PPM_POLLIN :: "'a::len word" where "PPM_POLLIN \<equiv> 1"
abbreviation (input) PPM_POLLPRI :: "'a::len word" where "PPM_POLLPRI \<equiv> 2"
abbreviation (input) PPM_POLLOUT :: "'a::len word" where "PPM_POLLOUT \<equiv> 4"
abbreviation (input) PPM_POLLRDHUP :: "'a::len word" where "PPM_POLLRDHUP \<equiv> 8"
abbreviation (input) PPM_POLLERR :: "'a::len word" where "PPM_POLLERR \<equiv> 16"
abbreviation (input) PPM_POLLHUP :: "'a::len word" where "PPM_POLLHUP \<equiv> 32"
abbreviation (input) PPM_POLLNVAL :: "'a::len word" where "PPM_POLLNVAL \<equiv> 64"
abbreviation (input) PPM_POLLRDNORM :: "'a::len word" where "PPM_POLLRDNORM \<equiv> 128"
abbreviation (input) PPM_POLLRDBAND :: "'a::len word" where "PPM_POLLRDBAND \<equiv> 256"
abbreviation (input) PPM_POLLWRNORM :: "'a::len word" where "PPM_POLLWRNORM \<equiv> 512"
abbreviation (input) PPM_POLLWRBAND :: "'a::len word" where "PPM_POLLWRBAND \<equiv> 0x400"
abbreviation (input) PPM_EPOLLIN :: "'a::len word" where "PPM_EPOLLIN \<equiv> 1"
abbreviation (input) PPM_EPOLLOUT :: "'a::len word" where "PPM_EPOLLOUT \<equiv> 2"
abbreviation (input) PPM_EPOLLRDHUP :: "'a::len word" where "PPM_EPOLLRDHUP \<equiv> 4"
abbreviation (input) PPM_EPOLLPRI :: "'a::len word" where "PPM_EPOLLPRI \<equiv> 8"
abbreviation (input) PPM_EPOLLERR :: "'a::len word" where "PPM_EPOLLERR \<equiv> 16"
abbreviation (input) PPM_EPOLLHUP :: "'a::len word" where "PPM_EPOLLHUP \<equiv> 32"
abbreviation (input) PPM_EPOLLET :: "'a::len word" where "PPM_EPOLLET \<equiv> 64"
abbreviation (input) PPM_EPOLLONESHOT :: "'a::len word" where "PPM_EPOLLONESHOT \<equiv> 128"
abbreviation (input) PPM_EPOLLWAKEUP :: "'a::len word" where "PPM_EPOLLWAKEUP \<equiv> 256"
abbreviation (input) PPM_EPOLLEXCLUSIVE :: "'a::len word" where "PPM_EPOLLEXCLUSIVE \<equiv> 512"
abbreviation (input) PPM_MS_RDONLY :: "'a::len word" where "PPM_MS_RDONLY \<equiv> 1"
abbreviation (input) PPM_MS_NOSUID :: "'a::len word" where "PPM_MS_NOSUID \<equiv> 2"
abbreviation (input) PPM_MS_NODEV :: "'a::len word" where "PPM_MS_NODEV \<equiv> 4"
abbreviation (input) PPM_MS_NOEXEC :: "'a::len word" where "PPM_MS_NOEXEC \<equiv> 8"
abbreviation (input) PPM_MS_SYNCHRONOUS :: "'a::len word" where "PPM_MS_SYNCHRONOUS \<equiv> 16"
abbreviation (input) PPM_MS_REMOUNT :: "'a::len word" where "PPM_MS_REMOUNT \<equiv> 32"
abbreviation (input) PPM_MS_MANDLOCK :: "'a::len word" where "PPM_MS_MANDLOCK \<equiv> 64"
abbreviation (input) PPM_MS_DIRSYNC :: "'a::len word" where "PPM_MS_DIRSYNC \<equiv> 128"
abbreviation (input) PPM_MS_NOATIME :: "'a::len word" where "PPM_MS_NOATIME \<equiv> 0x400"
abbreviation (input) PPM_MS_NODIRATIME :: "'a::len word" where "PPM_MS_NODIRATIME \<equiv> 0x800"
abbreviation (input) PPM_MS_BIND :: "'a::len word" where "PPM_MS_BIND \<equiv> 0x1000"
abbreviation (input) PPM_MS_MOVE :: "'a::len word" where "PPM_MS_MOVE \<equiv> 0x2000"
abbreviation (input) PPM_MS_REC :: "'a::len word" where "PPM_MS_REC \<equiv> 0x4000"
abbreviation (input) PPM_MS_SILENT :: "'a::len word" where "PPM_MS_SILENT \<equiv> 0x8000"
abbreviation (input) PPM_MS_POSIXACL :: "'a::len word" where "PPM_MS_POSIXACL \<equiv> 0x10000"
abbreviation (input) PPM_MS_UNBINDABLE :: "'a::len word" where "PPM_MS_UNBINDABLE \<equiv> 0x20000"
abbreviation (input) PPM_MS_PRIVATE :: "'a::len word" where "PPM_MS_PRIVATE \<equiv> 0x40000"
abbreviation (input) PPM_MS_SLAVE :: "'a::len word" where "PPM_MS_SLAVE \<equiv> 0x80000"
abbreviation (input) PPM_MS_SHARED :: "'a::len word" where "PPM_MS_SHARED \<equiv> 0x100000"
abbreviation (input) PPM_MS_RELATIME :: "'a::len word" where "PPM_MS_RELATIME \<equiv> 0x200000"
abbreviation (input) PPM_MS_KERNMOUNT :: "'a::len word" where "PPM_MS_KERNMOUNT \<equiv> 0x400000"
abbreviation (input) PPM_MS_I_VERSION :: "'a::len word" where "PPM_MS_I_VERSION \<equiv> 0x800000"
abbreviation (input) PPM_MS_STRICTATIME :: "'a::len word" where "PPM_MS_STRICTATIME \<equiv> 0x1000000"
abbreviation (input) PPM_MS_LAZYTIME :: "'a::len word" where "PPM_MS_LAZYTIME \<equiv> 0x2000000"
abbreviation (input) PPM_MS_NOSEC :: "'a::len word" where "PPM_MS_NOSEC \<equiv> 0x10000000"
abbreviation (input) PPM_MS_BORN :: "'a::len word" where "PPM_MS_BORN \<equiv> 0x20000000"
abbreviation (input) PPM_MS_ACTIVE :: "'a::len word" where "PPM_MS_ACTIVE \<equiv> 0x40000000"
abbreviation (input) PPM_MS_NOUSER :: "'a::len word" where "PPM_MS_NOUSER \<equiv> 0x80000000"
abbreviation (input) PPM_MNT_FORCE :: "'a::len word" where "PPM_MNT_FORCE \<equiv> 1"
abbreviation (input) PPM_MNT_DETACH :: "'a::len word" where "PPM_MNT_DETACH \<equiv> 2"
abbreviation (input) PPM_MNT_EXPIRE :: "'a::len word" where "PPM_MNT_EXPIRE \<equiv> 4"
abbreviation (input) PPM_UMOUNT_NOFOLLOW :: "'a::len word" where "PPM_UMOUNT_NOFOLLOW \<equiv> 8"
abbreviation (input) PPM_SHUT_RD :: "'a::len word" where "PPM_SHUT_RD \<equiv> 0"
abbreviation (input) PPM_SHUT_WR :: "'a::len word" where "PPM_SHUT_WR \<equiv> 1"
abbreviation (input) PPM_SHUT_RDWR :: "'a::len word" where "PPM_SHUT_RDWR \<equiv> 2"
abbreviation (input) PPM_AT_REMOVEDIR :: "'a::len word" where "PPM_AT_REMOVEDIR \<equiv> 0x200"
abbreviation (input) PPM_AT_SYMLINK_FOLLOW :: "'a::len word" where "PPM_AT_SYMLINK_FOLLOW \<equiv> 0x400"
abbreviation (input) PPM_AT_EMPTY_PATH :: "'a::len word" where "PPM_AT_EMPTY_PATH \<equiv> 0x1000"
abbreviation (input) PPM_RLIMIT_CPU :: "'a::len word" where "PPM_RLIMIT_CPU \<equiv> 0"
abbreviation (input) PPM_RLIMIT_FSIZE :: "'a::len word" where "PPM_RLIMIT_FSIZE \<equiv> 1"
abbreviation (input) PPM_RLIMIT_DATA :: "'a::len word" where "PPM_RLIMIT_DATA \<equiv> 2"
abbreviation (input) PPM_RLIMIT_STACK :: "'a::len word" where "PPM_RLIMIT_STACK \<equiv> 3"
abbreviation (input) PPM_RLIMIT_CORE :: "'a::len word" where "PPM_RLIMIT_CORE \<equiv> 4"
abbreviation (input) PPM_RLIMIT_RSS :: "'a::len word" where "PPM_RLIMIT_RSS \<equiv> 5"
abbreviation (input) PPM_RLIMIT_NPROC :: "'a::len word" where "PPM_RLIMIT_NPROC \<equiv> 6"
abbreviation (input) PPM_RLIMIT_NOFILE :: "'a::len word" where "PPM_RLIMIT_NOFILE \<equiv> 7"
abbreviation (input) PPM_RLIMIT_MEMLOCK :: "'a::len word" where "PPM_RLIMIT_MEMLOCK \<equiv> 8"
abbreviation (input) PPM_RLIMIT_AS :: "'a::len word" where "PPM_RLIMIT_AS \<equiv> 9"
abbreviation (input) PPM_RLIMIT_LOCKS :: "'a::len word" where "PPM_RLIMIT_LOCKS \<equiv> 10"
abbreviation (input) PPM_RLIMIT_SIGPENDING :: "'a::len word" where "PPM_RLIMIT_SIGPENDING \<equiv> 11"
abbreviation (input) PPM_RLIMIT_MSGQUEUE :: "'a::len word" where "PPM_RLIMIT_MSGQUEUE \<equiv> 12"
abbreviation (input) PPM_RLIMIT_NICE :: "'a::len word" where "PPM_RLIMIT_NICE \<equiv> 13"
abbreviation (input) PPM_RLIMIT_RTPRIO :: "'a::len word" where "PPM_RLIMIT_RTPRIO \<equiv> 14"
abbreviation (input) PPM_RLIMIT_RTTIME :: "'a::len word" where "PPM_RLIMIT_RTTIME \<equiv> 15"
abbreviation (input) PPM_RLIMIT_UNKNOWN :: "'a::len word" where "PPM_RLIMIT_UNKNOWN \<equiv> 255"
abbreviation (input) PPM_FCNTL_UNKNOWN :: "'a::len word" where "PPM_FCNTL_UNKNOWN \<equiv> 0"
abbreviation (input) PPM_FCNTL_F_DUPFD :: "'a::len word" where "PPM_FCNTL_F_DUPFD \<equiv> 1"
abbreviation (input) PPM_FCNTL_F_GETFD :: "'a::len word" where "PPM_FCNTL_F_GETFD \<equiv> 2"
abbreviation (input) PPM_FCNTL_F_SETFD :: "'a::len word" where "PPM_FCNTL_F_SETFD \<equiv> 3"
abbreviation (input) PPM_FCNTL_F_GETFL :: "'a::len word" where "PPM_FCNTL_F_GETFL \<equiv> 4"
abbreviation (input) PPM_FCNTL_F_SETFL :: "'a::len word" where "PPM_FCNTL_F_SETFL \<equiv> 5"
abbreviation (input) PPM_FCNTL_F_GETLK :: "'a::len word" where "PPM_FCNTL_F_GETLK \<equiv> 6"
abbreviation (input) PPM_FCNTL_F_SETLK :: "'a::len word" where "PPM_FCNTL_F_SETLK \<equiv> 8"
abbreviation (input) PPM_FCNTL_F_SETLKW :: "'a::len word" where "PPM_FCNTL_F_SETLKW \<equiv> 9"
abbreviation (input) PPM_FCNTL_F_SETOWN :: "'a::len word" where "PPM_FCNTL_F_SETOWN \<equiv> 10"
abbreviation (input) PPM_FCNTL_F_GETOWN :: "'a::len word" where "PPM_FCNTL_F_GETOWN \<equiv> 12"
abbreviation (input) PPM_FCNTL_F_SETSIG :: "'a::len word" where "PPM_FCNTL_F_SETSIG \<equiv> 13"
abbreviation (input) PPM_FCNTL_F_GETSIG :: "'a::len word" where "PPM_FCNTL_F_GETSIG \<equiv> 15"
abbreviation (input) PPM_FCNTL_F_SETOWN_EX :: "'a::len word" where "PPM_FCNTL_F_SETOWN_EX \<equiv> 21"
abbreviation (input) PPM_FCNTL_F_GETOWN_EX :: "'a::len word" where "PPM_FCNTL_F_GETOWN_EX \<equiv> 22"
abbreviation (input) PPM_FCNTL_F_SETLEASE :: "'a::len word" where "PPM_FCNTL_F_SETLEASE \<equiv> 23"
abbreviation (input) PPM_FCNTL_F_GETLEASE :: "'a::len word" where "PPM_FCNTL_F_GETLEASE \<equiv> 24"
abbreviation (input) PPM_FCNTL_F_CANCELLK :: "'a::len word" where "PPM_FCNTL_F_CANCELLK \<equiv> 25"
abbreviation (input) PPM_FCNTL_F_DUPFD_CLOEXEC :: "'a::len word" where "PPM_FCNTL_F_DUPFD_CLOEXEC \<equiv> 26"
abbreviation (input) PPM_FCNTL_F_NOTIFY :: "'a::len word" where "PPM_FCNTL_F_NOTIFY \<equiv> 27"
abbreviation (input) PPM_FCNTL_F_SETPIPE_SZ :: "'a::len word" where "PPM_FCNTL_F_SETPIPE_SZ \<equiv> 28"
abbreviation (input) PPM_FCNTL_F_GETPIPE_SZ :: "'a::len word" where "PPM_FCNTL_F_GETPIPE_SZ \<equiv> 29"
abbreviation (input) PPM_FCNTL_F_OFD_GETLK :: "'a::len word" where "PPM_FCNTL_F_OFD_GETLK \<equiv> 30"
abbreviation (input) PPM_FCNTL_F_OFD_SETLK :: "'a::len word" where "PPM_FCNTL_F_OFD_SETLK \<equiv> 31"
abbreviation (input) PPM_FCNTL_F_OFD_SETLKW :: "'a::len word" where "PPM_FCNTL_F_OFD_SETLKW \<equiv> 32"
abbreviation (input) PPM_SOCKOPT_LEVEL_UNKNOWN :: "'a::len word" where "PPM_SOCKOPT_LEVEL_UNKNOWN \<equiv> 0"
abbreviation (input) PPM_SOCKOPT_LEVEL_SOL_SOCKET :: "'a::len word" where "PPM_SOCKOPT_LEVEL_SOL_SOCKET \<equiv> 1"
abbreviation (input) PPM_SOCKOPT_LEVEL_SOL_TCP :: "'a::len word" where "PPM_SOCKOPT_LEVEL_SOL_TCP \<equiv> 2"
abbreviation (input) PPM_SOCKOPT_UNKNOWN :: "'a::len word" where "PPM_SOCKOPT_UNKNOWN \<equiv> 0"
abbreviation (input) PPM_SOCKOPT_SO_DEBUG :: "'a::len word" where "PPM_SOCKOPT_SO_DEBUG \<equiv> 1"
abbreviation (input) PPM_SOCKOPT_SO_REUSEADDR :: "'a::len word" where "PPM_SOCKOPT_SO_REUSEADDR \<equiv> 2"
abbreviation (input) PPM_SOCKOPT_SO_TYPE :: "'a::len word" where "PPM_SOCKOPT_SO_TYPE \<equiv> 3"
abbreviation (input) PPM_SOCKOPT_SO_ERROR :: "'a::len word" where "PPM_SOCKOPT_SO_ERROR \<equiv> 4"
abbreviation (input) PPM_SOCKOPT_SO_DONTROUTE :: "'a::len word" where "PPM_SOCKOPT_SO_DONTROUTE \<equiv> 5"
abbreviation (input) PPM_SOCKOPT_SO_BROADCAST :: "'a::len word" where "PPM_SOCKOPT_SO_BROADCAST \<equiv> 6"
abbreviation (input) PPM_SOCKOPT_SO_SNDBUF :: "'a::len word" where "PPM_SOCKOPT_SO_SNDBUF \<equiv> 7"
abbreviation (input) PPM_SOCKOPT_SO_RCVBUF :: "'a::len word" where "PPM_SOCKOPT_SO_RCVBUF \<equiv> 8"
abbreviation (input) PPM_SOCKOPT_SO_SNDBUFFORCE :: "'a::len word" where "PPM_SOCKOPT_SO_SNDBUFFORCE \<equiv> 32"
abbreviation (input) PPM_SOCKOPT_SO_RCVBUFFORCE :: "'a::len word" where "PPM_SOCKOPT_SO_RCVBUFFORCE \<equiv> 33"
abbreviation (input) PPM_SOCKOPT_SO_KEEPALIVE :: "'a::len word" where "PPM_SOCKOPT_SO_KEEPALIVE \<equiv> 9"
abbreviation (input) PPM_SOCKOPT_SO_OOBINLINE :: "'a::len word" where "PPM_SOCKOPT_SO_OOBINLINE \<equiv> 10"
abbreviation (input) PPM_SOCKOPT_SO_NO_CHECK :: "'a::len word" where "PPM_SOCKOPT_SO_NO_CHECK \<equiv> 11"
abbreviation (input) PPM_SOCKOPT_SO_PRIORITY :: "'a::len word" where "PPM_SOCKOPT_SO_PRIORITY \<equiv> 12"
abbreviation (input) PPM_SOCKOPT_SO_LINGER :: "'a::len word" where "PPM_SOCKOPT_SO_LINGER \<equiv> 13"
abbreviation (input) PPM_SOCKOPT_SO_BSDCOMPAT :: "'a::len word" where "PPM_SOCKOPT_SO_BSDCOMPAT \<equiv> 14"
abbreviation (input) PPM_SOCKOPT_SO_REUSEPORT :: "'a::len word" where "PPM_SOCKOPT_SO_REUSEPORT \<equiv> 15"
abbreviation (input) PPM_SOCKOPT_SO_PASSCRED :: "'a::len word" where "PPM_SOCKOPT_SO_PASSCRED \<equiv> 16"
abbreviation (input) PPM_SOCKOPT_SO_PEERCRED :: "'a::len word" where "PPM_SOCKOPT_SO_PEERCRED \<equiv> 17"
abbreviation (input) PPM_SOCKOPT_SO_RCVLOWAT :: "'a::len word" where "PPM_SOCKOPT_SO_RCVLOWAT \<equiv> 18"
abbreviation (input) PPM_SOCKOPT_SO_SNDLOWAT :: "'a::len word" where "PPM_SOCKOPT_SO_SNDLOWAT \<equiv> 19"
abbreviation (input) PPM_SOCKOPT_SO_RCVTIMEO :: "'a::len word" where "PPM_SOCKOPT_SO_RCVTIMEO \<equiv> 20"
abbreviation (input) PPM_SOCKOPT_SO_SNDTIMEO :: "'a::len word" where "PPM_SOCKOPT_SO_SNDTIMEO \<equiv> 21"
abbreviation (input) PPM_SOCKOPT_SO_SECURITY_AUTHENTICATION :: "'a::len word" where "PPM_SOCKOPT_SO_SECURITY_AUTHENTICATION \<equiv> 22"
abbreviation (input) PPM_SOCKOPT_SO_SECURITY_ENCRYPTION_TRANSPORT :: "'a::len word" where "PPM_SOCKOPT_SO_SECURITY_ENCRYPTION_TRANSPORT \<equiv> 23"
abbreviation (input) PPM_SOCKOPT_SO_SECURITY_ENCRYPTION_NETWORK :: "'a::len word" where "PPM_SOCKOPT_SO_SECURITY_ENCRYPTION_NETWORK \<equiv> 24"
abbreviation (input) PPM_SOCKOPT_SO_BINDTODEVICE :: "'a::len word" where "PPM_SOCKOPT_SO_BINDTODEVICE \<equiv> 25"
abbreviation (input) PPM_SOCKOPT_SO_ATTACH_FILTER :: "'a::len word" where "PPM_SOCKOPT_SO_ATTACH_FILTER \<equiv> 26"
abbreviation (input) PPM_SOCKOPT_SO_DETACH_FILTER :: "'a::len word" where "PPM_SOCKOPT_SO_DETACH_FILTER \<equiv> 27"
abbreviation (input) PPM_SOCKOPT_SO_PEERNAME :: "'a::len word" where "PPM_SOCKOPT_SO_PEERNAME \<equiv> 28"
abbreviation (input) PPM_SOCKOPT_SO_TIMESTAMP :: "'a::len word" where "PPM_SOCKOPT_SO_TIMESTAMP \<equiv> 29"
abbreviation (input) PPM_SOCKOPT_SO_ACCEPTCONN :: "'a::len word" where "PPM_SOCKOPT_SO_ACCEPTCONN \<equiv> 30"
abbreviation (input) PPM_SOCKOPT_SO_PEERSEC :: "'a::len word" where "PPM_SOCKOPT_SO_PEERSEC \<equiv> 31"
abbreviation (input) PPM_SOCKOPT_SO_PASSSEC :: "'a::len word" where "PPM_SOCKOPT_SO_PASSSEC \<equiv> 34"
abbreviation (input) PPM_SOCKOPT_SO_TIMESTAMPNS :: "'a::len word" where "PPM_SOCKOPT_SO_TIMESTAMPNS \<equiv> 35"
abbreviation (input) PPM_SOCKOPT_SO_MARK :: "'a::len word" where "PPM_SOCKOPT_SO_MARK \<equiv> 36"
abbreviation (input) PPM_SOCKOPT_SO_TIMESTAMPING :: "'a::len word" where "PPM_SOCKOPT_SO_TIMESTAMPING \<equiv> 37"
abbreviation (input) PPM_SOCKOPT_SO_PROTOCOL :: "'a::len word" where "PPM_SOCKOPT_SO_PROTOCOL \<equiv> 38"
abbreviation (input) PPM_SOCKOPT_SO_DOMAIN :: "'a::len word" where "PPM_SOCKOPT_SO_DOMAIN \<equiv> 39"
abbreviation (input) PPM_SOCKOPT_SO_RXQ_OVFL :: "'a::len word" where "PPM_SOCKOPT_SO_RXQ_OVFL \<equiv> 40"
abbreviation (input) PPM_SOCKOPT_SO_WIFI_STATUS :: "'a::len word" where "PPM_SOCKOPT_SO_WIFI_STATUS \<equiv> 41"
abbreviation (input) PPM_SOCKOPT_SO_PEEK_OFF :: "'a::len word" where "PPM_SOCKOPT_SO_PEEK_OFF \<equiv> 42"
abbreviation (input) PPM_SOCKOPT_SO_NOFCS :: "'a::len word" where "PPM_SOCKOPT_SO_NOFCS \<equiv> 43"
abbreviation (input) PPM_SOCKOPT_SO_LOCK_FILTER :: "'a::len word" where "PPM_SOCKOPT_SO_LOCK_FILTER \<equiv> 44"
abbreviation (input) PPM_SOCKOPT_SO_SELECT_ERR_QUEUE :: "'a::len word" where "PPM_SOCKOPT_SO_SELECT_ERR_QUEUE \<equiv> 45"
abbreviation (input) PPM_SOCKOPT_SO_BUSY_POLL :: "'a::len word" where "PPM_SOCKOPT_SO_BUSY_POLL \<equiv> 46"
abbreviation (input) PPM_SOCKOPT_SO_MAX_PACING_RATE :: "'a::len word" where "PPM_SOCKOPT_SO_MAX_PACING_RATE \<equiv> 47"
abbreviation (input) PPM_SOCKOPT_SO_BPF_EXTENSIONS :: "'a::len word" where "PPM_SOCKOPT_SO_BPF_EXTENSIONS \<equiv> 48"
abbreviation (input) PPM_SOCKOPT_SO_INCOMING_CPU :: "'a::len word" where "PPM_SOCKOPT_SO_INCOMING_CPU \<equiv> 49"
abbreviation (input) PPM_SOCKOPT_SO_ATTACH_BPF :: "'a::len word" where "PPM_SOCKOPT_SO_ATTACH_BPF \<equiv> 50"
abbreviation (input) PPM_SOCKOPT_SO_PEERGROUPS :: "'a::len word" where "PPM_SOCKOPT_SO_PEERGROUPS \<equiv> 51"
abbreviation (input) PPM_SOCKOPT_SO_MEMINFO :: "'a::len word" where "PPM_SOCKOPT_SO_MEMINFO \<equiv> 52"
abbreviation (input) PPM_SOCKOPT_SO_COOKIE :: "'a::len word" where "PPM_SOCKOPT_SO_COOKIE \<equiv> 53"
abbreviation (input) PPM_SOCKOPT_IDX_UNKNOWN :: "'a::len word" where "PPM_SOCKOPT_IDX_UNKNOWN \<equiv> 0"
abbreviation (input) PPM_SOCKOPT_IDX_ERRNO :: "'a::len word" where "PPM_SOCKOPT_IDX_ERRNO \<equiv> 1"
abbreviation (input) PPM_SOCKOPT_IDX_UINT32 :: "'a::len word" where "PPM_SOCKOPT_IDX_UINT32 \<equiv> 2"
abbreviation (input) PPM_SOCKOPT_IDX_UINT64 :: "'a::len word" where "PPM_SOCKOPT_IDX_UINT64 \<equiv> 3"
abbreviation (input) PPM_SOCKOPT_IDX_TIMEVAL :: "'a::len word" where "PPM_SOCKOPT_IDX_TIMEVAL \<equiv> 4"
abbreviation (input) PPM_SOCKOPT_IDX_MAX :: "'a::len word" where "PPM_SOCKOPT_IDX_MAX \<equiv> 5"
abbreviation (input) PPM_PTRACE_UNKNOWN :: "'a::len word" where "PPM_PTRACE_UNKNOWN \<equiv> 0"
abbreviation (input) PPM_PTRACE_TRACEME :: "'a::len word" where "PPM_PTRACE_TRACEME \<equiv> 1"
abbreviation (input) PPM_PTRACE_PEEKTEXT :: "'a::len word" where "PPM_PTRACE_PEEKTEXT \<equiv> 2"
abbreviation (input) PPM_PTRACE_PEEKDATA :: "'a::len word" where "PPM_PTRACE_PEEKDATA \<equiv> 3"
abbreviation (input) PPM_PTRACE_PEEKUSR :: "'a::len word" where "PPM_PTRACE_PEEKUSR \<equiv> 4"
abbreviation (input) PPM_PTRACE_POKETEXT :: "'a::len word" where "PPM_PTRACE_POKETEXT \<equiv> 5"
abbreviation (input) PPM_PTRACE_POKEDATA :: "'a::len word" where "PPM_PTRACE_POKEDATA \<equiv> 6"
abbreviation (input) PPM_PTRACE_POKEUSR :: "'a::len word" where "PPM_PTRACE_POKEUSR \<equiv> 7"
abbreviation (input) PPM_PTRACE_CONT :: "'a::len word" where "PPM_PTRACE_CONT \<equiv> 8"
abbreviation (input) PPM_PTRACE_KILL :: "'a::len word" where "PPM_PTRACE_KILL \<equiv> 9"
abbreviation (input) PPM_PTRACE_SINGLESTEP :: "'a::len word" where "PPM_PTRACE_SINGLESTEP \<equiv> 10"
abbreviation (input) PPM_PTRACE_ATTACH :: "'a::len word" where "PPM_PTRACE_ATTACH \<equiv> 11"
abbreviation (input) PPM_PTRACE_DETACH :: "'a::len word" where "PPM_PTRACE_DETACH \<equiv> 12"
abbreviation (input) PPM_PTRACE_SYSCALL :: "'a::len word" where "PPM_PTRACE_SYSCALL \<equiv> 13"
abbreviation (input) PPM_PTRACE_SETOPTIONS :: "'a::len word" where "PPM_PTRACE_SETOPTIONS \<equiv> 14"
abbreviation (input) PPM_PTRACE_GETEVENTMSG :: "'a::len word" where "PPM_PTRACE_GETEVENTMSG \<equiv> 15"
abbreviation (input) PPM_PTRACE_GETSIGINFO :: "'a::len word" where "PPM_PTRACE_GETSIGINFO \<equiv> 16"
abbreviation (input) PPM_PTRACE_SETSIGINFO :: "'a::len word" where "PPM_PTRACE_SETSIGINFO \<equiv> 17"
abbreviation (input) PPM_PTRACE_GETREGSET :: "'a::len word" where "PPM_PTRACE_GETREGSET \<equiv> 18"
abbreviation (input) PPM_PTRACE_SETREGSET :: "'a::len word" where "PPM_PTRACE_SETREGSET \<equiv> 19"
abbreviation (input) PPM_PTRACE_SEIZE :: "'a::len word" where "PPM_PTRACE_SEIZE \<equiv> 20"
abbreviation (input) PPM_PTRACE_INTERRUPT :: "'a::len word" where "PPM_PTRACE_INTERRUPT \<equiv> 21"
abbreviation (input) PPM_PTRACE_LISTEN :: "'a::len word" where "PPM_PTRACE_LISTEN \<equiv> 22"
abbreviation (input) PPM_PTRACE_PEEKSIGINFO :: "'a::len word" where "PPM_PTRACE_PEEKSIGINFO \<equiv> 23"
abbreviation (input) PPM_PTRACE_GETSIGMASK :: "'a::len word" where "PPM_PTRACE_GETSIGMASK \<equiv> 24"
abbreviation (input) PPM_PTRACE_SETSIGMASK :: "'a::len word" where "PPM_PTRACE_SETSIGMASK \<equiv> 25"
abbreviation (input) PPM_PTRACE_GETREGS :: "'a::len word" where "PPM_PTRACE_GETREGS \<equiv> 26"
abbreviation (input) PPM_PTRACE_SETREGS :: "'a::len word" where "PPM_PTRACE_SETREGS \<equiv> 27"
abbreviation (input) PPM_PTRACE_GETFPREGS :: "'a::len word" where "PPM_PTRACE_GETFPREGS \<equiv> 28"
abbreviation (input) PPM_PTRACE_SETFPREGS :: "'a::len word" where "PPM_PTRACE_SETFPREGS \<equiv> 29"
abbreviation (input) PPM_PTRACE_GETFPXREGS :: "'a::len word" where "PPM_PTRACE_GETFPXREGS \<equiv> 30"
abbreviation (input) PPM_PTRACE_SETFPXREGS :: "'a::len word" where "PPM_PTRACE_SETFPXREGS \<equiv> 31"
abbreviation (input) PPM_PTRACE_OLDSETOPTIONS :: "'a::len word" where "PPM_PTRACE_OLDSETOPTIONS \<equiv> 32"
abbreviation (input) PPM_PTRACE_GET_THREAD_AREA :: "'a::len word" where "PPM_PTRACE_GET_THREAD_AREA \<equiv> 33"
abbreviation (input) PPM_PTRACE_SET_THREAD_AREA :: "'a::len word" where "PPM_PTRACE_SET_THREAD_AREA \<equiv> 34"
abbreviation (input) PPM_PTRACE_ARCH_PRCTL :: "'a::len word" where "PPM_PTRACE_ARCH_PRCTL \<equiv> 35"
abbreviation (input) PPM_PTRACE_SYSEMU :: "'a::len word" where "PPM_PTRACE_SYSEMU \<equiv> 36"
abbreviation (input) PPM_PTRACE_SYSEMU_SINGLESTEP :: "'a::len word" where "PPM_PTRACE_SYSEMU_SINGLESTEP \<equiv> 37"
abbreviation (input) PPM_PTRACE_SINGLEBLOCK :: "'a::len word" where "PPM_PTRACE_SINGLEBLOCK \<equiv> 38"
abbreviation (input) PPM_PTRACE_IDX_UINT64 :: "'a::len word" where "PPM_PTRACE_IDX_UINT64 \<equiv> 0"
abbreviation (input) PPM_PTRACE_IDX_SIGTYPE :: "'a::len word" where "PPM_PTRACE_IDX_SIGTYPE \<equiv> 1"
abbreviation (input) PPM_PTRACE_IDX_MAX :: "'a::len word" where "PPM_PTRACE_IDX_MAX \<equiv> 2"
abbreviation (input) PPM_BPF_IDX_FD :: "'a::len word" where "PPM_BPF_IDX_FD \<equiv> 0"
abbreviation (input) PPM_BPF_IDX_RES :: "'a::len word" where "PPM_BPF_IDX_RES \<equiv> 1"
abbreviation (input) PPM_BPF_IDX_MAX :: "'a::len word" where "PPM_BPF_IDX_MAX \<equiv> 2"
abbreviation (input) PPM_PROT_NONE :: "'a::len word" where "PPM_PROT_NONE \<equiv> 0"
abbreviation (input) PPM_PROT_READ :: "'a::len word" where "PPM_PROT_READ \<equiv> 1"
abbreviation (input) PPM_PROT_WRITE :: "'a::len word" where "PPM_PROT_WRITE \<equiv> 2"
abbreviation (input) PPM_PROT_EXEC :: "'a::len word" where "PPM_PROT_EXEC \<equiv> 4"
abbreviation (input) PPM_PROT_SEM :: "'a::len word" where "PPM_PROT_SEM \<equiv> 8"
abbreviation (input) PPM_PROT_GROWSDOWN :: "'a::len word" where "PPM_PROT_GROWSDOWN \<equiv> 16"
abbreviation (input) PPM_PROT_GROWSUP :: "'a::len word" where "PPM_PROT_GROWSUP \<equiv> 32"
abbreviation (input) PPM_PROT_SAO :: "'a::len word" where "PPM_PROT_SAO \<equiv> 64"
abbreviation (input) PPM_MAP_SHARED :: "'a::len word" where "PPM_MAP_SHARED \<equiv> 1"
abbreviation (input) PPM_MAP_PRIVATE :: "'a::len word" where "PPM_MAP_PRIVATE \<equiv> 2"
abbreviation (input) PPM_MAP_FIXED :: "'a::len word" where "PPM_MAP_FIXED \<equiv> 4"
abbreviation (input) PPM_MAP_ANONYMOUS :: "'a::len word" where "PPM_MAP_ANONYMOUS \<equiv> 8"
abbreviation (input) PPM_MAP_32BIT :: "'a::len word" where "PPM_MAP_32BIT \<equiv> 16"
abbreviation (input) PPM_MAP_RENAME :: "'a::len word" where "PPM_MAP_RENAME \<equiv> 32"
abbreviation (input) PPM_MAP_NORESERVE :: "'a::len word" where "PPM_MAP_NORESERVE \<equiv> 64"
abbreviation (input) PPM_MAP_POPULATE :: "'a::len word" where "PPM_MAP_POPULATE \<equiv> 128"
abbreviation (input) PPM_MAP_NONBLOCK :: "'a::len word" where "PPM_MAP_NONBLOCK \<equiv> 256"
abbreviation (input) PPM_MAP_GROWSDOWN :: "'a::len word" where "PPM_MAP_GROWSDOWN \<equiv> 512"
abbreviation (input) PPM_MAP_DENYWRITE :: "'a::len word" where "PPM_MAP_DENYWRITE \<equiv> 0x400"
abbreviation (input) PPM_MAP_EXECUTABLE :: "'a::len word" where "PPM_MAP_EXECUTABLE \<equiv> 0x800"
abbreviation (input) PPM_MAP_INHERIT :: "'a::len word" where "PPM_MAP_INHERIT \<equiv> 0x1000"
abbreviation (input) PPM_MAP_FILE :: "'a::len word" where "PPM_MAP_FILE \<equiv> 0x2000"
abbreviation (input) PPM_MAP_LOCKED :: "'a::len word" where "PPM_MAP_LOCKED \<equiv> 0x4000"
abbreviation (input) PPM_SPLICE_F_MOVE :: "'a::len word" where "PPM_SPLICE_F_MOVE \<equiv> 1"
abbreviation (input) PPM_SPLICE_F_NONBLOCK :: "'a::len word" where "PPM_SPLICE_F_NONBLOCK \<equiv> 2"
abbreviation (input) PPM_SPLICE_F_MORE :: "'a::len word" where "PPM_SPLICE_F_MORE \<equiv> 4"
abbreviation (input) PPM_SPLICE_F_GIFT :: "'a::len word" where "PPM_SPLICE_F_GIFT \<equiv> 8"
abbreviation (input) PPM_Q_QUOTAON :: "'a::len word" where "PPM_Q_QUOTAON \<equiv> 1"
abbreviation (input) PPM_Q_QUOTAOFF :: "'a::len word" where "PPM_Q_QUOTAOFF \<equiv> 2"
abbreviation (input) PPM_Q_GETFMT :: "'a::len word" where "PPM_Q_GETFMT \<equiv> 4"
abbreviation (input) PPM_Q_GETINFO :: "'a::len word" where "PPM_Q_GETINFO \<equiv> 8"
abbreviation (input) PPM_Q_SETINFO :: "'a::len word" where "PPM_Q_SETINFO \<equiv> 16"
abbreviation (input) PPM_Q_GETQUOTA :: "'a::len word" where "PPM_Q_GETQUOTA \<equiv> 32"
abbreviation (input) PPM_Q_SETQUOTA :: "'a::len word" where "PPM_Q_SETQUOTA \<equiv> 64"
abbreviation (input) PPM_Q_SYNC :: "'a::len word" where "PPM_Q_SYNC \<equiv> 128"
abbreviation (input) PPM_Q_XQUOTAON :: "'a::len word" where "PPM_Q_XQUOTAON \<equiv> 256"
abbreviation (input) PPM_Q_XQUOTAOFF :: "'a::len word" where "PPM_Q_XQUOTAOFF \<equiv> 512"
abbreviation (input) PPM_Q_XGETQUOTA :: "'a::len word" where "PPM_Q_XGETQUOTA \<equiv> 0x400"
abbreviation (input) PPM_Q_XSETQLIM :: "'a::len word" where "PPM_Q_XSETQLIM \<equiv> 0x800"
abbreviation (input) PPM_Q_XGETQSTAT :: "'a::len word" where "PPM_Q_XGETQSTAT \<equiv> 0x1000"
abbreviation (input) PPM_Q_XQUOTARM :: "'a::len word" where "PPM_Q_XQUOTARM \<equiv> 0x2000"
abbreviation (input) PPM_Q_XQUOTASYNC :: "'a::len word" where "PPM_Q_XQUOTASYNC \<equiv> 0x4000"
abbreviation (input) PPM_Q_XGETQSTATV :: "'a::len word" where "PPM_Q_XGETQSTATV \<equiv> 0x8000"
abbreviation (input) PPM_USRQUOTA :: "'a::len word" where "PPM_USRQUOTA \<equiv> 1"
abbreviation (input) PPM_GRPQUOTA :: "'a::len word" where "PPM_GRPQUOTA \<equiv> 2"
abbreviation (input) PPM_DQF_NONE :: "'a::len word" where "PPM_DQF_NONE \<equiv> 1"
abbreviation (input) PPM_V1_DQF_RSQUASH :: "'a::len word" where "PPM_V1_DQF_RSQUASH \<equiv> 2"
abbreviation (input) PPM_QFMT_NOT_USED :: "'a::len word" where "PPM_QFMT_NOT_USED \<equiv> 1"
abbreviation (input) PPM_QFMT_VFS_OLD :: "'a::len word" where "PPM_QFMT_VFS_OLD \<equiv> 2"
abbreviation (input) PPM_QFMT_VFS_V0 :: "'a::len word" where "PPM_QFMT_VFS_V0 \<equiv> 4"
abbreviation (input) PPM_QFMT_VFS_V1 :: "'a::len word" where "PPM_QFMT_VFS_V1 \<equiv> 8"
abbreviation (input) PPM_IPC_NOWAIT :: "'a::len word" where "PPM_IPC_NOWAIT \<equiv> 1"
abbreviation (input) PPM_SEM_UNDO :: "'a::len word" where "PPM_SEM_UNDO \<equiv> 2"
abbreviation (input) PPM_IPC_CREAT :: "'a::len word" where "PPM_IPC_CREAT \<equiv> 0x2000"
abbreviation (input) PPM_IPC_EXCL :: "'a::len word" where "PPM_IPC_EXCL \<equiv> 0x4000"
abbreviation (input) PPM_IPC_STAT :: "'a::len word" where "PPM_IPC_STAT \<equiv> 1"
abbreviation (input) PPM_IPC_SET :: "'a::len word" where "PPM_IPC_SET \<equiv> 2"
abbreviation (input) PPM_IPC_RMID :: "'a::len word" where "PPM_IPC_RMID \<equiv> 4"
abbreviation (input) PPM_IPC_INFO :: "'a::len word" where "PPM_IPC_INFO \<equiv> 8"
abbreviation (input) PPM_SEM_INFO :: "'a::len word" where "PPM_SEM_INFO \<equiv> 16"
abbreviation (input) PPM_SEM_STAT :: "'a::len word" where "PPM_SEM_STAT \<equiv> 32"
abbreviation (input) PPM_GETALL :: "'a::len word" where "PPM_GETALL \<equiv> 64"
abbreviation (input) PPM_GETNCNT :: "'a::len word" where "PPM_GETNCNT \<equiv> 128"
abbreviation (input) PPM_GETPID :: "'a::len word" where "PPM_GETPID \<equiv> 256"
abbreviation (input) PPM_GETVAL :: "'a::len word" where "PPM_GETVAL \<equiv> 512"
abbreviation (input) PPM_GETZCNT :: "'a::len word" where "PPM_GETZCNT \<equiv> 0x400"
abbreviation (input) PPM_SETALL :: "'a::len word" where "PPM_SETALL \<equiv> 0x800"
abbreviation (input) PPM_SETVAL :: "'a::len word" where "PPM_SETVAL \<equiv> 0x1000"
abbreviation (input) PPM_F_OK :: "'a::len word" where "PPM_F_OK \<equiv> 0"
abbreviation (input) PPM_X_OK :: "'a::len word" where "PPM_X_OK \<equiv> 1"
abbreviation (input) PPM_W_OK :: "'a::len word" where "PPM_W_OK \<equiv> 2"
abbreviation (input) PPM_R_OK :: "'a::len word" where "PPM_R_OK \<equiv> 4"
abbreviation (input) PPM_PF_PROTECTION_VIOLATION :: "'a::len word" where "PPM_PF_PROTECTION_VIOLATION \<equiv> 1"
abbreviation (input) PPM_PF_PAGE_NOT_PRESENT :: "'a::len word" where "PPM_PF_PAGE_NOT_PRESENT \<equiv> 2"
abbreviation (input) PPM_PF_WRITE_ACCESS :: "'a::len word" where "PPM_PF_WRITE_ACCESS \<equiv> 4"
abbreviation (input) PPM_PF_READ_ACCESS :: "'a::len word" where "PPM_PF_READ_ACCESS \<equiv> 8"
abbreviation (input) PPM_PF_USER_FAULT :: "'a::len word" where "PPM_PF_USER_FAULT \<equiv> 16"
abbreviation (input) PPM_PF_SUPERVISOR_FAULT :: "'a::len word" where "PPM_PF_SUPERVISOR_FAULT \<equiv> 32"
abbreviation (input) PPM_PF_RESERVED_PAGE :: "'a::len word" where "PPM_PF_RESERVED_PAGE \<equiv> 64"
abbreviation (input) PPM_PF_INSTRUCTION_FETCH :: "'a::len word" where "PPM_PF_INSTRUCTION_FETCH \<equiv> 128"
abbreviation (input) PPM_RENAME_NOREPLACE :: "'a::len word" where "PPM_RENAME_NOREPLACE \<equiv> 1"
abbreviation (input) PPM_RENAME_EXCHANGE :: "'a::len word" where "PPM_RENAME_EXCHANGE \<equiv> 2"
abbreviation (input) PPM_RENAME_WHITEOUT :: "'a::len word" where "PPM_RENAME_WHITEOUT \<equiv> 4"

section \<open>Tables of names\<close>

record ppm_name_value =
  nv_name :: string
  nv_value :: u32

definition nv :: "string \<Rightarrow> u32 \<Rightarrow> ppm_name_value" where
  "nv n v = \<lparr>nv_name = n, nv_value = v\<rparr>"

definition socket_families :: "ppm_name_value list" where
  "socket_families =
     [nv ''AF_NFC'' PPM_AF_NFC, nv ''AF_ALG'' PPM_AF_ALG, nv ''AF_CAIF'' PPM_AF_CAIF,
      nv ''AF_IEEE802154'' PPM_AF_IEEE802154, nv ''AF_PHONET'' PPM_AF_PHONET,
      nv ''AF_ISDN'' PPM_AF_ISDN, nv ''AF_RXRPC'' PPM_AF_RXRPC, nv ''AF_IUCV'' PPM_AF_IUCV,
      nv ''AF_BLUETOOTH'' PPM_AF_BLUETOOTH, nv ''AF_TIPC'' PPM_AF_TIPC, nv ''AF_CAN'' PPM_AF_CAN,
      nv ''AF_LLC'' PPM_AF_LLC, nv ''AF_WANPIPE'' PPM_AF_WANPIPE, nv ''AF_PPPOX'' PPM_AF_PPPOX,
      nv ''AF_IRDA'' PPM_AF_IRDA, nv ''AF_SNA'' PPM_AF_SNA, nv ''AF_RDS'' PPM_AF_RDS,
      nv ''AF_ATMSVC'' PPM_AF_ATMSVC, nv ''AF_ECONET'' PPM_AF_ECONET, nv ''AF_ASH'' PPM_AF_ASH,
      nv ''AF_PACKET'' PPM_AF_PACKET, nv ''AF_ROUTE'' PPM_AF_ROUTE,
      nv ''AF_NETLINK'' PPM_AF_NETLINK, nv ''AF_KEY'' PPM_AF_KEY,
      nv ''AF_SECURITY'' PPM_AF_SECURITY, nv ''AF_NETBEUI'' PPM_AF_NETBEUI,
      nv ''AF_DECnet'' PPM_AF_DECnet, nv ''AF_ROSE'' PPM_AF_ROSE, nv ''AF_INET6'' PPM_AF_INET6,
      nv ''AF_X25'' PPM_AF_X25, nv ''AF_ATMPVC'' PPM_AF_ATMPVC, nv ''AF_BRIDGE'' PPM_AF_BRIDGE,
      nv ''AF_NETROM'' PPM_AF_NETROM, nv ''AF_APPLETALK'' PPM_AF_APPLETALK,
      nv ''AF_IPX'' PPM_AF_IPX, nv ''AF_AX25'' PPM_AF_AX25, nv ''AF_INET'' PPM_AF_INET,
      nv ''AF_LOCAL'' PPM_AF_LOCAL, nv ''AF_UNIX'' PPM_AF_UNIX, nv ''AF_UNSPEC'' PPM_AF_UNSPEC]"

definition file_flags :: "ppm_name_value list" where
  "file_flags =
     [nv ''O_LARGEFILE'' PPM_O_LARGEFILE, nv ''O_DIRECTORY'' PPM_O_DIRECTORY,
      nv ''O_DIRECT'' PPM_O_DIRECT, nv ''O_TRUNC'' PPM_O_TRUNC, nv ''O_SYNC'' PPM_O_SYNC,
      nv ''O_NONBLOCK'' PPM_O_NONBLOCK, nv ''O_EXCL'' PPM_O_EXCL, nv ''O_DSYNC'' PPM_O_DSYNC,
      nv ''O_APPEND'' PPM_O_APPEND, nv ''O_CREAT'' PPM_O_CREAT, nv ''O_RDWR'' PPM_O_RDWR,
      nv ''O_WRONLY'' PPM_O_WRONLY, nv ''O_RDONLY'' PPM_O_RDONLY, nv ''O_CLOEXEC'' PPM_O_CLOEXEC,
      nv ''O_NONE'' PPM_O_NONE, nv ''O_TMPFILE'' PPM_O_TMPFILE]"

definition flock_flags :: "ppm_name_value list" where
  "flock_flags =
     [nv ''LOCK_SH'' PPM_LOCK_SH, nv ''LOCK_EX'' PPM_LOCK_EX, nv ''LOCK_NB'' PPM_LOCK_NB,
      nv ''LOCK_UN'' PPM_LOCK_UN, nv ''LOCK_NONE'' PPM_LOCK_NONE]"

definition clone_flags :: "ppm_name_value list" where
  "clone_flags =
     [nv ''CLONE_FILES'' PPM_CL_CLONE_FILES, nv ''CLONE_FS'' PPM_CL_CLONE_FS,
      nv ''CLONE_IO'' PPM_CL_CLONE_IO, nv ''CLONE_NEWIPC'' PPM_CL_CLONE_NEWIPC,
      nv ''CLONE_NEWNET'' PPM_CL_CLONE_NEWNET, nv ''CLONE_NEWNS'' PPM_CL_CLONE_NEWNS,
      nv ''CLONE_NEWPID'' PPM_CL_CLONE_NEWPID, nv ''CLONE_NEWUTS'' PPM_CL_CLONE_NEWUTS,
      nv ''CLONE_PARENT'' PPM_CL_CLONE_PARENT,
      nv ''CLONE_PARENT_SETTID'' PPM_CL_CLONE_PARENT_SETTID,
      nv ''CLONE_PTRACE'' PPM_CL_CLONE_PTRACE, nv ''CLONE_SIGHAND'' PPM_CL_CLONE_SIGHAND,
      nv ''CLONE_SYSVSEM'' PPM_CL_CLONE_SYSVSEM, nv ''CLONE_THREAD'' PPM_CL_CLONE_THREAD,
      nv ''CLONE_UNTRACED'' PPM_CL_CLONE_UNTRACED, nv ''CLONE_VM'' PPM_CL_CLONE_VM,
      nv ''CLONE_INVERTED'' PPM_CL_CLONE_INVERTED, nv ''NAME_CHANGED'' PPM_CL_NAME_CHANGED,
      nv ''CLOSED'' PPM_CL_CLOSED, nv ''CLONE_NEWUSER'' PPM_CL_CLONE_NEWUSER,
      nv ''CLONE_CHILD_CLEARTID'' PPM_CL_CLONE_CHILD_CLEARTID,
      nv ''CLONE_CHILD_SETTID'' PPM_CL_CLONE_CHILD_SETTID,
      nv ''CLONE_SETTLS'' PPM_CL_CLONE_SETTLS, nv ''CLONE_STOPPED'' PPM_CL_CLONE_STOPPED,
      nv ''CLONE_VFORK'' PPM_CL_CLONE_VFORK, nv ''CLONE_NEWCGROUP'' PPM_CL_CLONE_NEWCGROUP]"

definition futex_operations :: "ppm_name_value list" where
  "futex_operations =
     [nv ''FUTEX_CLOCK_REALTIME'' PPM_FU_FUTEX_CLOCK_REALTIME,
      nv ''FUTEX_PRIVATE_FLAG'' PPM_FU_FUTEX_PRIVATE_FLAG,
      nv ''FUTEX_CMP_REQUEUE_PI'' PPM_FU_FUTEX_CMP_REQUEUE_PI,
      nv ''FUTEX_WAIT_REQUEUE_PI'' PPM_FU_FUTEX_WAIT_REQUEUE_PI,
      nv ''FUTEX_WAKE_BITSET'' PPM_FU_FUTEX_WAKE_BITSET,
      nv ''FUTEX_WAIT_BITSET'' PPM_FU_FUTEX_WAIT_BITSET,
      nv ''FUTEX_TRYLOCK_PI'' PPM_FU_FUTEX_TRYLOCK_PI,
      nv ''FUTEX_UNLOCK_PI'' PPM_FU_FUTEX_UNLOCK_PI, nv ''FUTEX_LOCK_PI'' PPM_FU_FUTEX_LOCK_PI,
      nv ''FUTEX_WAKE_OP'' PPM_FU_FUTEX_WAKE_OP,
      nv ''FUTEX_CMP_REQUEUE'' PPM_FU_FUTEX_CMP_REQUEUE,
      nv ''FUTEX_REQUEUE'' PPM_FU_FUTEX_REQUEUE, nv ''FUTEX_FD'' PPM_FU_FUTEX_FD,
      nv ''FUTEX_WAKE'' PPM_FU_FUTEX_WAKE, nv ''FUTEX_WAIT'' PPM_FU_FUTEX_WAIT]"

definition poll_flags :: "ppm_name_value list" where
  "poll_flags =
     [nv ''POLLIN'' PPM_POLLIN, nv ''POLLPRI'' PPM_POLLPRI, nv ''POLLOUT'' PPM_POLLOUT,
      nv ''POLLRDHUP'' PPM_POLLRDHUP, nv ''POLLERR'' PPM_POLLERR, nv ''POLLHUP'' PPM_POLLHUP,
      nv ''POLLNVAL'' PPM_POLLNVAL, nv ''POLLRDNORM'' PPM_POLLRDNORM,
      nv ''POLLRDBAND'' PPM_POLLRDBAND, nv ''POLLWRNORM'' PPM_POLLWRNORM,
      nv ''POLLWRBAND'' PPM_POLLWRBAND]"

definition mount_flags :: "ppm_name_value list" where
  "mount_flags =
     [nv ''RDONLY'' PPM_MS_RDONLY, nv ''NOSUID'' PPM_MS_NOSUID, nv ''NODEV'' PPM_MS_NODEV,
      nv ''NOEXEC'' PPM_MS_NOEXEC, nv ''SYNCHRONOUS'' PPM_MS_SYNCHRONOUS,
      nv ''REMOUNT'' PPM_MS_REMOUNT, nv ''MANDLOCK'' PPM_MS_MANDLOCK,
      nv ''DIRSYNC'' PPM_MS_DIRSYNC, nv ''NOATIME'' PPM_MS_NOATIME,
      nv ''NODIRATIME'' PPM_MS_NODIRATIME, nv ''BIND'' PPM_MS_BIND, nv ''MOVE'' PPM_MS_MOVE,
      nv ''REC'' PPM_MS_REC, nv ''SILENT'' PPM_MS_SILENT, nv ''POSIXACL'' PPM_MS_POSIXACL,
      nv ''UNBINDABLE'' PPM_MS_UNBINDABLE, nv ''PRIVATE'' PPM_MS_PRIVATE,
      nv ''SLAVE'' PPM_MS_SLAVE, nv ''SHARED'' PPM_MS_SHARED, nv ''RELATIME'' PPM_MS_RELATIME,
      nv ''KERNMOUNT'' PPM_MS_KERNMOUNT, nv ''I_VERSION'' PPM_MS_I_VERSION,
      nv ''STRICTATIME'' PPM_MS_STRICTATIME, nv ''LAZYTIME'' PPM_MS_LAZYTIME,
      nv ''NOSEC'' PPM_MS_NOSEC, nv ''BORN'' PPM_MS_BORN, nv ''ACTIVE'' PPM_MS_ACTIVE,
      nv ''NOUSER'' PPM_MS_NOUSER]"

definition umount_flags :: "ppm_name_value list" where
  "umount_flags =
     [nv ''FORCE'' PPM_MNT_FORCE, nv ''DETACH'' PPM_MNT_DETACH, nv ''EXPIRE'' PPM_MNT_EXPIRE,
      nv ''NOFOLLOW'' PPM_UMOUNT_NOFOLLOW]"

definition lseek_whence :: "ppm_name_value list" where
  "lseek_whence =
     [nv ''SEEK_END'' PPM_SEEK_END, nv ''SEEK_CUR'' PPM_SEEK_CUR, nv ''SEEK_SET'' PPM_SEEK_SET]"

definition shutdown_how :: "ppm_name_value list" where
  "shutdown_how =
     [nv ''SHUT_RDWR'' PPM_SHUT_RDWR, nv ''SHUT_WR'' PPM_SHUT_WR, nv ''SHUT_RD'' PPM_SHUT_RD]"

definition rlimit_resources :: "ppm_name_value list" where
  "rlimit_resources =
     [nv ''RLIMIT_UNKNOWN'' PPM_RLIMIT_UNKNOWN, nv ''RLIMIT_RTTIME'' PPM_RLIMIT_RTTIME,
      nv ''RLIMIT_RTPRIO'' PPM_RLIMIT_RTPRIO, nv ''RLIMIT_NICE'' PPM_RLIMIT_NICE,
      nv ''RLIMIT_MSGQUEUE'' PPM_RLIMIT_MSGQUEUE, nv ''RLIMIT_SIGPENDING'' PPM_RLIMIT_SIGPENDING,
      nv ''RLIMIT_LOCKS'' PPM_RLIMIT_LOCKS, nv ''RLIMIT_AS'' PPM_RLIMIT_AS,
      nv ''RLIMIT_MEMLOCK'' PPM_RLIMIT_MEMLOCK, nv ''RLIMIT_NOFILE'' PPM_RLIMIT_NOFILE,
      nv ''RLIMIT_NPROC'' PPM_RLIMIT_NPROC, nv ''RLIMIT_RSS'' PPM_RLIMIT_RSS,
      nv ''RLIMIT_CORE'' PPM_RLIMIT_CORE, nv ''RLIMIT_STACK'' PPM_RLIMIT_STACK,
      nv ''RLIMIT_DATA'' PPM_RLIMIT_DATA, nv ''RLIMIT_FSIZE'' PPM_RLIMIT_FSIZE,
      nv ''RLIMIT_CPU'' PPM_RLIMIT_CPU]"

definition fcntl_commands :: "ppm_name_value list" where
  "fcntl_commands =
     [nv ''F_GETPIPE_SZ'' PPM_FCNTL_F_GETPIPE_SZ, nv ''F_SETPIPE_SZ'' PPM_FCNTL_F_SETPIPE_SZ,
      nv ''F_NOTIFY'' PPM_FCNTL_F_NOTIFY, nv ''F_DUPFD_CLOEXEC'' PPM_FCNTL_F_DUPFD_CLOEXEC,
      nv ''F_CANCELLK'' PPM_FCNTL_F_CANCELLK, nv ''F_GETLEASE'' PPM_FCNTL_F_GETLEASE,
      nv ''F_SETLEASE'' PPM_FCNTL_F_SETLEASE, nv ''F_GETOWN_EX'' PPM_FCNTL_F_GETOWN_EX,
      nv ''F_SETOWN_EX'' PPM_FCNTL_F_SETOWN_EX, nv ''F_GETSIG'' PPM_FCNTL_F_GETSIG,
      nv ''F_SETSIG'' PPM_FCNTL_F_SETSIG, nv ''F_GETOWN'' PPM_FCNTL_F_GETOWN,
      nv ''F_SETOWN'' PPM_FCNTL_F_SETOWN, nv ''F_SETLKW'' PPM_FCNTL_F_SETLKW,
      nv ''F_SETLK'' PPM_FCNTL_F_SETLK, nv ''F_GETLK'' PPM_FCNTL_F_GETLK,
      nv ''F_SETFL'' PPM_FCNTL_F_SETFL, nv ''F_GETFL'' PPM_FCNTL_F_GETFL,
      nv ''F_SETFD'' PPM_FCNTL_F_SETFD, nv ''F_GETFD'' PPM_FCNTL_F_GETFD,
      nv ''F_DUPFD'' PPM_FCNTL_F_DUPFD, nv ''F_OFD_GETLK'' PPM_FCNTL_F_OFD_GETLK,
      nv ''F_OFD_SETLK'' PPM_FCNTL_F_OFD_SETLK, nv ''F_OFD_SETLKW'' PPM_FCNTL_F_OFD_SETLKW,
      nv ''UNKNOWN'' PPM_FCNTL_UNKNOWN]"

definition sockopt_levels :: "ppm_name_value list" where
  "sockopt_levels =
     [nv ''SOL_SOCKET'' PPM_SOCKOPT_LEVEL_SOL_SOCKET, nv ''SOL_TCP'' PPM_SOCKOPT_LEVEL_SOL_TCP,
      nv ''UNKNOWN'' PPM_SOCKOPT_LEVEL_UNKNOWN]"

definition sockopt_options :: "ppm_name_value list" where
  "sockopt_options =
     [nv ''SO_COOKIE'' PPM_SOCKOPT_SO_COOKIE, nv ''SO_MEMINFO'' PPM_SOCKOPT_SO_MEMINFO,
      nv ''SO_PEERGROUPS'' PPM_SOCKOPT_SO_PEERGROUPS,
      nv ''SO_ATTACH_BPF'' PPM_SOCKOPT_SO_ATTACH_BPF,
      nv ''SO_INCOMING_CPU'' PPM_SOCKOPT_SO_INCOMING_CPU,
      nv ''SO_BPF_EXTENSIONS'' PPM_SOCKOPT_SO_BPF_EXTENSIONS,
      nv ''SO_MAX_PACING_RATE'' PPM_SOCKOPT_SO_MAX_PACING_RATE,
      nv ''SO_BUSY_POLL'' PPM_SOCKOPT_SO_BUSY_POLL,
      nv ''SO_SELECT_ERR_QUEUE'' PPM_SOCKOPT_SO_SELECT_ERR_QUEUE,
      nv ''SO_LOCK_FILTER'' PPM_SOCKOPT_SO_LOCK_FILTER, nv ''SO_NOFCS'' PPM_SOCKOPT_SO_NOFCS,
      nv ''SO_PEEK_OFF'' PPM_SOCKOPT_SO_PEEK_OFF,
      nv ''SO_WIFI_STATUS'' PPM_SOCKOPT_SO_WIFI_STATUS,
      nv ''SO_RXQ_OVFL'' PPM_SOCKOPT_SO_RXQ_OVFL, nv ''SO_DOMAIN'' PPM_SOCKOPT_SO_DOMAIN,
      nv ''SO_PROTOCOL'' PPM_SOCKOPT_SO_PROTOCOL,
      nv ''SO_TIMESTAMPING'' PPM_SOCKOPT_SO_TIMESTAMPING, nv ''SO_MARK'' PPM_SOCKOPT_SO_MARK,
      nv ''SO_TIMESTAMPNS'' PPM_SOCKOPT_SO_TIMESTAMPNS, nv ''SO_PASSSEC'' PPM_SOCKOPT_SO_PASSSEC,
      nv ''SO_PEERSEC'' PPM_SOCKOPT_SO_PEERSEC, nv ''SO_ACCEPTCONN'' PPM_SOCKOPT_SO_ACCEPTCONN,
      nv ''SO_TIMESTAMP'' PPM_SOCKOPT_SO_TIMESTAMP, nv ''SO_PEERNAME'' PPM_SOCKOPT_SO_PEERNAME,
      nv ''SO_DETACH_FILTER'' PPM_SOCKOPT_SO_DETACH_FILTER,
      nv ''SO_ATTACH_FILTER'' PPM_SOCKOPT_SO_ATTACH_FILTER,
      nv ''SO_BINDTODEVICE'' PPM_SOCKOPT_SO_BINDTODEVICE,
      nv ''SO_SECURITY_ENCRYPTION_NETWORK'' PPM_SOCKOPT_SO_SECURITY_ENCRYPTION_NETWORK,
      nv ''SO_SECURITY_ENCRYPTION_TRANSPORT'' PPM_SOCKOPT_SO_SECURITY_ENCRYPTION_TRANSPORT,
      nv ''SO_SECURITY_AUTHENTICATION'' PPM_SOCKOPT_SO_SECURITY_AUTHENTICATION,
      nv ''SO_SNDTIMEO'' PPM_SOCKOPT_SO_SNDTIMEO, nv ''SO_RCVTIMEO'' PPM_SOCKOPT_SO_RCVTIMEO,
      nv ''SO_SNDLOWAT'' PPM_SOCKOPT_SO_SNDLOWAT, nv ''SO_RCVLOWAT'' PPM_SOCKOPT_SO_RCVLOWAT,
      nv ''SO_PEERCRED'' PPM_SOCKOPT_SO_PEERCRED, nv ''SO_PASSCRED'' PPM_SOCKOPT_SO_PASSCRED,
      nv ''SO_REUSEPORT'' PPM_SOCKOPT_SO_REUSEPORT, nv ''SO_BSDCOMPAT'' PPM_SOCKOPT_SO_BSDCOMPAT,
      nv ''SO_LINGER'' PPM_SOCKOPT_SO_LINGER, nv ''SO_PRIORITY'' PPM_SOCKOPT_SO_PRIORITY,
      nv ''SO_NO_CHECK'' PPM_SOCKOPT_SO_NO_CHECK, nv ''SO_OOBINLINE'' PPM_SOCKOPT_SO_OOBINLINE,
      nv ''SO_KEEPALIVE'' PPM_SOCKOPT_SO_KEEPALIVE,
      nv ''SO_RCVBUFFORCE'' PPM_SOCKOPT_SO_RCVBUFFORCE,
      nv ''SO_SNDBUFFORCE'' PPM_SOCKOPT_SO_SNDBUFFORCE, nv ''SO_RCVBUF'' PPM_SOCKOPT_SO_RCVBUF,
      nv ''SO_SNDBUF'' PPM_SOCKOPT_SO_SNDBUF, nv ''SO_BROADCAST'' PPM_SOCKOPT_SO_BROADCAST,
      nv ''SO_DONTROUTE'' PPM_SOCKOPT_SO_DONTROUTE, nv ''SO_ERROR'' PPM_SOCKOPT_SO_ERROR,
      nv ''SO_TYPE'' PPM_SOCKOPT_SO_TYPE, nv ''SO_REUSEADDR'' PPM_SOCKOPT_SO_REUSEADDR,
      nv ''SO_DEBUG'' PPM_SOCKOPT_SO_DEBUG, nv ''UNKNOWN'' PPM_SOCKOPT_UNKNOWN]"

definition ptrace_requests :: "ppm_name_value list" where
  "ptrace_requests =
     [nv ''PTRACE_SINGLEBLOCK'' PPM_PTRACE_SINGLEBLOCK,
      nv ''PTRACE_SYSEMU_SINGLESTEP'' PPM_PTRACE_SYSEMU_SINGLESTEP,
      nv ''PTRACE_SYSEMU'' PPM_PTRACE_SYSEMU, nv ''PTRACE_ARCH_PRCTL'' PPM_PTRACE_ARCH_PRCTL,
      nv ''PTRACE_SET_THREAD_AREA'' PPM_PTRACE_SET_THREAD_AREA,
      nv ''PTRACE_GET_THREAD_AREA'' PPM_PTRACE_GET_THREAD_AREA,
      nv ''PTRACE_OLDSETOPTIONS'' PPM_PTRACE_OLDSETOPTIONS,
      nv ''PTRACE_SETFPXREGS'' PPM_PTRACE_SETFPXREGS,
      nv ''PTRACE_GETFPXREGS'' PPM_PTRACE_GETFPXREGS,
      nv ''PTRACE_SETFPREGS'' PPM_PTRACE_SETFPREGS, nv ''PTRACE_GETFPREGS'' PPM_PTRACE_GETFPREGS,
      nv ''PTRACE_SETREGS'' PPM_PTRACE_SETREGS, nv ''PTRACE_GETREGS'' PPM_PTRACE_GETREGS,
      nv ''PTRACE_SETSIGMASK'' PPM_PTRACE_SETSIGMASK,
      nv ''PTRACE_GETSIGMASK'' PPM_PTRACE_GETSIGMASK,
      nv ''PTRACE_PEEKSIGINFO'' PPM_PTRACE_PEEKSIGINFO, nv ''PTRACE_LISTEN'' PPM_PTRACE_LISTEN,
      nv ''PTRACE_INTERRUPT'' PPM_PTRACE_INTERRUPT, nv ''PTRACE_SEIZE'' PPM_PTRACE_SEIZE,
      nv ''PTRACE_SETREGSET'' PPM_PTRACE_SETREGSET, nv ''PTRACE_GETREGSET'' PPM_PTRACE_GETREGSET,
      nv ''PTRACE_SETSIGINFO'' PPM_PTRACE_SETSIGINFO,
      nv ''PTRACE_GETSIGINFO'' PPM_PTRACE_GETSIGINFO,
      nv ''PTRACE_GETEVENTMSG'' PPM_PTRACE_GETEVENTMSG,
      nv ''PTRACE_SETOPTIONS'' PPM_PTRACE_SETOPTIONS, nv ''PTRACE_SYSCALL'' PPM_PTRACE_SYSCALL,
      nv ''PTRACE_DETACH'' PPM_PTRACE_DETACH, nv ''PTRACE_ATTACH'' PPM_PTRACE_ATTACH,
      nv ''PTRACE_SINGLESTEP'' PPM_PTRACE_SINGLESTEP, nv ''PTRACE_KILL'' PPM_PTRACE_KILL,
      nv ''PTRACE_CONT'' PPM_PTRACE_CONT, nv ''PTRACE_POKEUSR'' PPM_PTRACE_POKEUSR,
      nv ''PTRACE_POKEDATA'' PPM_PTRACE_POKEDATA, nv ''PTRACE_POKETEXT'' PPM_PTRACE_POKETEXT,
      nv ''PTRACE_PEEKUSR'' PPM_PTRACE_PEEKUSR, nv ''PTRACE_PEEKDATA'' PPM_PTRACE_PEEKDATA,
      nv ''PTRACE_PEEKTEXT'' PPM_PTRACE_PEEKTEXT, nv ''PTRACE_TRACEME'' PPM_PTRACE_TRACEME,
      nv ''PTRACE_UNKNOWN'' PPM_PTRACE_UNKNOWN]"

definition prot_flags :: "ppm_name_value list" where
  "prot_flags =
     [nv ''PROT_READ'' PPM_PROT_READ, nv ''PROT_WRITE'' PPM_PROT_WRITE,
      nv ''PROT_EXEC'' PPM_PROT_EXEC, nv ''PROT_SEM'' PPM_PROT_SEM,
      nv ''PROT_GROWSDOWN'' PPM_PROT_GROWSDOWN, nv ''PROT_GROWSUP'' PPM_PROT_GROWSUP,
      nv ''PROT_SAO'' PPM_PROT_SAO, nv ''PROT_NONE'' PPM_PROT_NONE]"

definition mmap_flags :: "ppm_name_value list" where
  "mmap_flags =
     [nv ''MAP_SHARED'' PPM_MAP_SHARED, nv ''MAP_PRIVATE'' PPM_MAP_PRIVATE,
      nv ''MAP_FIXED'' PPM_MAP_FIXED, nv ''MAP_ANONYMOUS'' PPM_MAP_ANONYMOUS,
      nv ''MAP_32BIT'' PPM_MAP_32BIT, nv ''MAP_RENAME'' PPM_MAP_RENAME,
      nv ''MAP_NORESERVE'' PPM_MAP_NORESERVE, nv ''MAP_POPULATE'' PPM_MAP_POPULATE,
      nv ''MAP_NONBLOCK'' PPM_MAP_NONBLOCK, nv ''MAP_GROWSDOWN'' PPM_MAP_GROWSDOWN,
      nv ''MAP_DENYWRITE'' PPM_MAP_DENYWRITE, nv ''MAP_EXECUTABLE'' PPM_MAP_EXECUTABLE,
      nv ''MAP_INHERIT'' PPM_MAP_INHERIT, nv ''MAP_FILE'' PPM_MAP_FILE,
      nv ''MAP_LOCKED'' PPM_MAP_LOCKED]"

definition splice_flags :: "ppm_name_value list" where
  "splice_flags =
     [nv ''SPLICE_F_MOVE'' PPM_SPLICE_F_MOVE, nv ''SPLICE_F_NONBLOCK'' PPM_SPLICE_F_NONBLOCK,
      nv ''SPLICE_F_MORE'' PPM_SPLICE_F_MORE, nv ''SPLICE_F_GIFT'' PPM_SPLICE_F_GIFT]"

definition quotactl_dqi_flags :: "ppm_name_value list" where
  "quotactl_dqi_flags =
     [nv ''DQF_NONE'' PPM_DQF_NONE, nv ''V1_DQF_RSQUASH'' PPM_V1_DQF_RSQUASH]"

definition quotactl_cmds :: "ppm_name_value list" where
  "quotactl_cmds =
     [nv ''Q_QUOTAON'' PPM_Q_QUOTAON, nv ''Q_QUOTAOFF'' PPM_Q_QUOTAOFF,
      nv ''Q_GETFMT'' PPM_Q_GETFMT, nv ''Q_GETINFO'' PPM_Q_GETINFO,
      nv ''Q_SETINFO'' PPM_Q_SETINFO, nv ''Q_GETQUOTA'' PPM_Q_GETQUOTA,
      nv ''Q_SETQUOTA'' PPM_Q_SETQUOTA, nv ''Q_SYNC'' PPM_Q_SYNC,
      nv ''Q_XQUOTAON'' PPM_Q_XQUOTAON, nv ''Q_XQUOTAOFF'' PPM_Q_XQUOTAOFF,
      nv ''Q_XGETQUOTA'' PPM_Q_XGETQUOTA, nv ''Q_XSETQLIM'' PPM_Q_XSETQLIM,
      nv ''Q_XGETQSTAT'' PPM_Q_XGETQSTAT, nv ''Q_XQUOTARM'' PPM_Q_XQUOTARM,
      nv ''Q_XQUOTASYNC'' PPM_Q_XQUOTASYNC]"

definition quotactl_types :: "ppm_name_value list" where
  "quotactl_types =
     [nv ''USRQUOTA'' PPM_USRQUOTA, nv ''GRPQUOTA'' PPM_GRPQUOTA]"

definition quotactl_quota_fmts :: "ppm_name_value list" where
  "quotactl_quota_fmts =
     [nv ''QFMT_NOT_USED'' PPM_QFMT_NOT_USED, nv ''QFMT_VFS_OLD'' PPM_QFMT_VFS_OLD,
      nv ''QFMT_VFS_V0'' PPM_QFMT_VFS_V0, nv ''QFMT_VFS_V1'' PPM_QFMT_VFS_V1]"

definition semop_flags :: "ppm_name_value list" where
  "semop_flags =
     [nv ''IPC_NOWAIT'' PPM_IPC_NOWAIT, nv ''SEM_UNDO'' PPM_SEM_UNDO]"

definition semget_flags :: "ppm_name_value list" where
  "semget_flags =
     [nv ''IPC_EXCL'' PPM_IPC_EXCL, nv ''IPC_CREAT'' PPM_IPC_CREAT]"

definition semctl_commands :: "ppm_name_value list" where
  "semctl_commands =
     [nv ''IPC_STAT'' PPM_IPC_STAT, nv ''IPC_SET'' PPM_IPC_SET, nv ''IPC_RMID'' PPM_IPC_RMID,
      nv ''IPC_INFO'' PPM_IPC_INFO, nv ''SEM_INFO'' PPM_SEM_INFO, nv ''SEM_STAT'' PPM_SEM_STAT,
      nv ''GETALL'' PPM_GETALL, nv ''GETNCNT'' PPM_GETNCNT, nv ''GETPID'' PPM_GETPID,
      nv ''GETVAL'' PPM_GETVAL, nv ''GETZCNT'' PPM_GETZCNT, nv ''SETALL'' PPM_SETALL,
      nv ''SETVAL'' PPM_SETVAL]"

definition access_flags :: "ppm_name_value list" where
  "access_flags =
     [nv ''F_OK'' PPM_F_OK, nv ''R_OK'' PPM_R_OK, nv ''W_OK'' PPM_W_OK, nv ''X_OK'' PPM_X_OK]"

definition pf_flags :: "ppm_name_value list" where
  "pf_flags =
     [nv ''PROTECTION_VIOLATION'' PPM_PF_PROTECTION_VIOLATION,
      nv ''PAGE_NOT_PRESENT'' PPM_PF_PAGE_NOT_PRESENT, nv ''WRITE_ACCESS'' PPM_PF_WRITE_ACCESS,
      nv ''READ_ACCESS'' PPM_PF_READ_ACCESS, nv ''USER_FAULT'' PPM_PF_USER_FAULT,
      nv ''SUPERVISOR_FAULT'' PPM_PF_SUPERVISOR_FAULT, nv ''RESERVED_PAGE'' PPM_PF_RESERVED_PAGE,
      nv ''INSTRUCTION_FETCH'' PPM_PF_INSTRUCTION_FETCH]"

definition unlinkat_flags :: "ppm_name_value list" where
  "unlinkat_flags =
     [nv ''AT_REMOVEDIR'' PPM_AT_REMOVEDIR]"

definition linkat_flags :: "ppm_name_value list" where
  "linkat_flags =
     [nv ''AT_SYMLINK_FOLLOW'' PPM_AT_SYMLINK_FOLLOW, nv ''AT_EMPTY_PATH'' PPM_AT_EMPTY_PATH]"

definition chmod_mode :: "ppm_name_value list" where
  "chmod_mode =
     [nv ''S_IXOTH'' PPM_S_IXOTH, nv ''S_IWOTH'' PPM_S_IWOTH, nv ''S_IROTH'' PPM_S_IROTH,
      nv ''S_IXGRP'' PPM_S_IXGRP, nv ''S_IWGRP'' PPM_S_IWGRP, nv ''S_IRGRP'' PPM_S_IRGRP,
      nv ''S_IXUSR'' PPM_S_IXUSR, nv ''S_IWUSR'' PPM_S_IWUSR, nv ''S_IRUSR'' PPM_S_IRUSR,
      nv ''S_ISVTX'' PPM_S_ISVTX, nv ''S_ISGID'' PPM_S_ISGID, nv ''S_ISUID'' PPM_S_ISUID]"

definition renameat2_flags :: "ppm_name_value list" where
  "renameat2_flags =
     [nv ''RENAME_NOREPLACE'' PPM_RENAME_NOREPLACE, nv ''RENAME_EXCHANGE'' PPM_RENAME_EXCHANGE,
      nv ''RENAME_WHITEOUT'' PPM_RENAME_WHITEOUT]"

text \<open>The tables by the name \<open>event_table.c\<close> refers to them.\<close>

definition flag_tables :: "(string \<times> ppm_name_value list) list" where
  "flag_tables =
     [(''socket_families'', socket_families),
      (''file_flags'', file_flags),
      (''flock_flags'', flock_flags),
      (''clone_flags'', clone_flags),
      (''futex_operations'', futex_operations),
      (''poll_flags'', poll_flags),
      (''mount_flags'', mount_flags),
      (''umount_flags'', umount_flags),
      (''lseek_whence'', lseek_whence),
      (''shutdown_how'', shutdown_how),
      (''rlimit_resources'', rlimit_resources),
      (''fcntl_commands'', fcntl_commands),
      (''sockopt_levels'', sockopt_levels),
      (''sockopt_options'', sockopt_options),
      (''ptrace_requests'', ptrace_requests),
      (''prot_flags'', prot_flags),
      (''mmap_flags'', mmap_flags),
      (''splice_flags'', splice_flags),
      (''quotactl_dqi_flags'', quotactl_dqi_flags),
      (''quotactl_cmds'', quotactl_cmds),
      (''quotactl_types'', quotactl_types),
      (''quotactl_quota_fmts'', quotactl_quota_fmts),
      (''semop_flags'', semop_flags),
      (''semget_flags'', semget_flags),
      (''semctl_commands'', semctl_commands),
      (''access_flags'', access_flags),
      (''pf_flags'', pf_flags),
      (''unlinkat_flags'', unlinkat_flags),
      (''linkat_flags'', linkat_flags),
      (''chmod_mode'', chmod_mode),
      (''renameat2_flags'', renameat2_flags)]"

lemmas flag_table_defs =
  socket_families_def
  file_flags_def
  flock_flags_def
  clone_flags_def
  futex_operations_def
  poll_flags_def
  mount_flags_def
  umount_flags_def
  lseek_whence_def
  shutdown_how_def
  rlimit_resources_def
  fcntl_commands_def
  sockopt_levels_def
  sockopt_options_def
  ptrace_requests_def
  prot_flags_def
  mmap_flags_def
  splice_flags_def
  quotactl_dqi_flags_def
  quotactl_cmds_def
  quotactl_types_def
  quotactl_quota_fmts_def
  semop_flags_def
  semget_flags_def
  semctl_commands_def
  access_flags_def
  pf_flags_def
  unlinkat_flags_def
  linkat_flags_def
  chmod_mode_def
  renameat2_flags_def

end
