(* ===== verification/Flag_Helpers.thy ===== *)
theory Flag_Helpers
  imports Linux_Abi Ppm_Flags
begin

text \<open>
  The translations of \<open>driver/ppm_flag_helpers.h\<close> from the flags and commands of Linux system
  calls to the portable values of the event format.  A sequence of \<open>if (flags & X) res |= PPM_X\<close>
  is \<open>add_flags\<close> of the pairs in the order of the source, a \<open>switch\<close> or a chain of comparisons
  that returns one value is \<open>select_case\<close>.  The pairs of a function are a definition of their own
  where theorems speak of them.
\<close>

section \<open>The two shapes\<close>

fun add_flags :: "('a::len word \<times> 'b::len word) list \<Rightarrow> 'a word \<Rightarrow> 'b word \<Rightarrow> 'b word" where
  "add_flags [] flags res = res"
| "add_flags ((x, p) # ps) flags res = add_flags ps flags (if flags AND x \<noteq> 0 then res OR p else res)"

fun select_case :: "('a \<times> 'b) list \<Rightarrow> 'b \<Rightarrow> 'a \<Rightarrow> 'b" where
  "select_case [] dflt v = dflt"
| "select_case ((x, y) # cs) dflt v = (if v = x then y else select_case cs dflt v)"

section \<open>Translations\<close>

definition open_flags_bits :: "(u64 \<times> u32) list" where
  "open_flags_bits =
     [(O_CREAT, PPM_O_CREAT), (O_TMPFILE, PPM_O_TMPFILE), (O_APPEND, PPM_O_APPEND),
      (O_DSYNC, PPM_O_DSYNC), (O_EXCL, PPM_O_EXCL), (O_NONBLOCK, PPM_O_NONBLOCK),
      (O_SYNC, PPM_O_SYNC), (O_TRUNC, PPM_O_TRUNC), (O_DIRECT, PPM_O_DIRECT),
      (O_DIRECTORY, PPM_O_DIRECTORY), (O_LARGEFILE, PPM_O_LARGEFILE), (O_CLOEXEC, PPM_O_CLOEXEC)]"

definition open_flags_to_scap :: "u64 \<Rightarrow> u32" where
  "open_flags_to_scap flags =
     add_flags open_flags_bits flags
       (select_case [(O_WRONLY, PPM_O_WRONLY), (O_RDWR, PPM_O_RDWR)] PPM_O_RDONLY
          (flags AND (O_RDONLY OR O_WRONLY OR O_RDWR)))"

definition mode_bits :: "(u64 \<times> u32) list" where
  "mode_bits =
     [(S_IRUSR, PPM_S_IRUSR), (S_IWUSR, PPM_S_IWUSR), (S_IXUSR, PPM_S_IXUSR),
      (S_IRGRP, PPM_S_IRGRP), (S_IWGRP, PPM_S_IWGRP), (S_IXGRP, PPM_S_IXGRP),
      (S_IROTH, PPM_S_IROTH), (S_IWOTH, PPM_S_IWOTH), (S_IXOTH, PPM_S_IXOTH),
      (S_ISUID, PPM_S_ISUID), (S_ISGID, PPM_S_ISGID), (S_ISVTX, PPM_S_ISVTX)]"

definition open_modes_to_scap :: "u64 \<Rightarrow> u64 \<Rightarrow> u32" where
  "open_modes_to_scap flags modes =
     (if flags AND (O_CREAT OR O_TMPFILE) = 0 then 0 else add_flags mode_bits modes 0)"

definition clone_flags_bits :: "(u64 \<times> u32) list" where
  "clone_flags_bits =
     [(CLONE_FILES, PPM_CL_CLONE_FILES), (CLONE_FS, PPM_CL_CLONE_FS),
      (CLONE_IO, PPM_CL_CLONE_IO), (CLONE_NEWIPC, PPM_CL_CLONE_NEWIPC),
      (CLONE_NEWNET, PPM_CL_CLONE_NEWNET), (CLONE_NEWNS, PPM_CL_CLONE_NEWNS),
      (CLONE_NEWPID, PPM_CL_CLONE_NEWPID), (CLONE_NEWUTS, PPM_CL_CLONE_NEWUTS),
      (CLONE_PARENT_SETTID, PPM_CL_CLONE_PARENT_SETTID), (CLONE_PARENT, PPM_CL_CLONE_PARENT),
      (CLONE_PTRACE, PPM_CL_CLONE_PTRACE), (CLONE_SIGHAND, PPM_CL_CLONE_SIGHAND),
      (CLONE_SYSVSEM, PPM_CL_CLONE_SYSVSEM), (CLONE_THREAD, PPM_CL_CLONE_THREAD),
      (CLONE_UNTRACED, PPM_CL_CLONE_UNTRACED), (CLONE_VM, PPM_CL_CLONE_VM),
      (CLONE_NEWUSER, PPM_CL_CLONE_NEWUSER), (CLONE_CHILD_CLEARTID, PPM_CL_CLONE_CHILD_CLEARTID),
      (CLONE_CHILD_SETTID, PPM_CL_CLONE_CHILD_SETTID), (CLONE_SETTLS, PPM_CL_CLONE_SETTLS),
      (CLONE_VFORK, PPM_CL_CLONE_VFORK), (CLONE_NEWCGROUP, PPM_CL_CLONE_NEWCGROUP)]"

definition clone_flags_to_scap :: "u64 \<Rightarrow> u32" where
  "clone_flags_to_scap flags = add_flags clone_flags_bits flags 0"

definition socket_family_cases :: "(nat \<times> u8) list" where
  "socket_family_cases =
     [(AF_INET, PPM_AF_INET), (AF_INET6, PPM_AF_INET6), (AF_UNIX, PPM_AF_UNIX),
      (AF_NETLINK, PPM_AF_NETLINK), (AF_PACKET, PPM_AF_PACKET), (AF_UNSPEC, PPM_AF_UNSPEC),
      (AF_AX25, PPM_AF_AX25), (AF_IPX, PPM_AF_IPX), (AF_APPLETALK, PPM_AF_APPLETALK),
      (AF_NETROM, PPM_AF_NETROM), (AF_BRIDGE, PPM_AF_BRIDGE), (AF_ATMPVC, PPM_AF_ATMPVC),
      (AF_X25, PPM_AF_X25), (AF_ROSE, PPM_AF_ROSE), (AF_DECnet, PPM_AF_DECnet),
      (AF_NETBEUI, PPM_AF_NETBEUI), (AF_SECURITY, PPM_AF_SECURITY), (AF_KEY, PPM_AF_KEY),
      (AF_ROUTE, PPM_AF_ROUTE), (AF_ASH, PPM_AF_ASH), (AF_ECONET, PPM_AF_ECONET),
      (AF_ATMSVC, PPM_AF_ATMSVC), (AF_RDS, PPM_AF_RDS), (AF_SNA, PPM_AF_SNA),
      (AF_IRDA, PPM_AF_IRDA), (AF_PPPOX, PPM_AF_PPPOX), (AF_WANPIPE, PPM_AF_WANPIPE),
      (AF_LLC, PPM_AF_LLC), (AF_CAN, PPM_AF_CAN), (AF_TIPC, PPM_AF_TIPC),
      (AF_BLUETOOTH, PPM_AF_BLUETOOTH), (AF_IUCV, PPM_AF_IUCV), (AF_RXRPC, PPM_AF_RXRPC),
      (AF_ISDN, PPM_AF_ISDN), (AF_PHONET, PPM_AF_PHONET), (AF_IEEE802154, PPM_AF_IEEE802154),
      (AF_CAIF, PPM_AF_CAIF), (AF_ALG, PPM_AF_ALG), (AF_NFC, PPM_AF_NFC)]"

definition socket_family_to_scap :: "u8 \<Rightarrow> u8" where
  "socket_family_to_scap family = select_case socket_family_cases PPM_AF_UNSPEC (unat family)"

definition prot_flags_bits :: "(u32 \<times> u32) list" where
  "prot_flags_bits =
     [(PROT_READ, PPM_PROT_READ), (PROT_WRITE, PPM_PROT_WRITE), (PROT_EXEC, PPM_PROT_EXEC),
      (PROT_SEM, PPM_PROT_SEM), (PROT_GROWSDOWN, PPM_PROT_GROWSDOWN),
      (PROT_GROWSUP, PPM_PROT_GROWSUP)]"

definition prot_flags_to_scap :: "u32 \<Rightarrow> u32" where
  "prot_flags_to_scap prot = add_flags prot_flags_bits prot 0"

definition mmap_flags_bits :: "(u32 \<times> u32) list" where
  "mmap_flags_bits =
     [(MAP_SHARED, PPM_MAP_SHARED), (MAP_PRIVATE, PPM_MAP_PRIVATE), (MAP_FIXED, PPM_MAP_FIXED),
      (MAP_ANONYMOUS, PPM_MAP_ANONYMOUS), (MAP_32BIT, PPM_MAP_32BIT),
      (MAP_NORESERVE, PPM_MAP_NORESERVE), (MAP_POPULATE, PPM_MAP_POPULATE),
      (MAP_NONBLOCK, PPM_MAP_NONBLOCK), (MAP_GROWSDOWN, PPM_MAP_GROWSDOWN),
      (MAP_DENYWRITE, PPM_MAP_DENYWRITE), (MAP_EXECUTABLE, PPM_MAP_EXECUTABLE),
      (MAP_FILE, PPM_MAP_FILE), (MAP_LOCKED, PPM_MAP_LOCKED)]"

definition mmap_flags_to_scap :: "u32 \<Rightarrow> u32" where
  "mmap_flags_to_scap flags = add_flags mmap_flags_bits flags 0"

definition fcntl_cmd_cases :: "(u64 \<times> u8) list" where
  "fcntl_cmd_cases =
     [(F_DUPFD, PPM_FCNTL_F_DUPFD), (F_GETFD, PPM_FCNTL_F_GETFD), (F_SETFD, PPM_FCNTL_F_SETFD),
      (F_GETFL, PPM_FCNTL_F_GETFL), (F_SETFL, PPM_FCNTL_F_SETFL), (F_GETLK, PPM_FCNTL_F_GETLK),
      (F_SETLK, PPM_FCNTL_F_SETLK), (F_SETLKW, PPM_FCNTL_F_SETLKW),
      (F_SETOWN, PPM_FCNTL_F_SETOWN), (F_GETOWN, PPM_FCNTL_F_GETOWN),
      (F_SETSIG, PPM_FCNTL_F_SETSIG), (F_GETSIG, PPM_FCNTL_F_GETSIG),
      (F_SETOWN_EX, PPM_FCNTL_F_SETOWN_EX), (F_GETOWN_EX, PPM_FCNTL_F_GETOWN_EX),
      (F_SETLEASE, PPM_FCNTL_F_SETLEASE), (F_GETLEASE, PPM_FCNTL_F_GETLEASE),
      (F_CANCELLK, PPM_FCNTL_F_CANCELLK), (F_DUPFD_CLOEXEC, PPM_FCNTL_F_DUPFD_CLOEXEC),
      (F_NOTIFY, PPM_FCNTL_F_NOTIFY), (F_SETPIPE_SZ, PPM_FCNTL_F_SETPIPE_SZ),
      (F_GETPIPE_SZ, PPM_FCNTL_F_GETPIPE_SZ), (F_OFD_GETLK, PPM_FCNTL_F_OFD_GETLK),
      (F_OFD_SETLK, PPM_FCNTL_F_OFD_SETLK), (F_OFD_SETLKW, PPM_FCNTL_F_OFD_SETLKW)]"

definition fcntl_cmd_to_scap :: "u64 \<Rightarrow> u8" where
  "fcntl_cmd_to_scap cmd = select_case fcntl_cmd_cases PPM_FCNTL_UNKNOWN cmd"

definition sockopt_level_cases :: "(u32 \<times> u8) list" where
  "sockopt_level_cases =
     [(SOL_SOCKET, PPM_SOCKOPT_LEVEL_SOL_SOCKET), (SOL_TCP, PPM_SOCKOPT_LEVEL_SOL_TCP)]"

definition sockopt_level_to_scap :: "u32 \<Rightarrow> u8" where
  "sockopt_level_to_scap level = select_case sockopt_level_cases PPM_SOCKOPT_LEVEL_UNKNOWN level"

definition sockopt_cases :: "(u32 \<times> u8) list" where
  "sockopt_cases =
     [(SO_DEBUG, PPM_SOCKOPT_SO_DEBUG), (SO_REUSEADDR, PPM_SOCKOPT_SO_REUSEADDR),
      (SO_TYPE, PPM_SOCKOPT_SO_TYPE), (SO_ERROR, PPM_SOCKOPT_SO_ERROR),
      (SO_DONTROUTE, PPM_SOCKOPT_SO_DONTROUTE), (SO_BROADCAST, PPM_SOCKOPT_SO_BROADCAST),
      (SO_SNDBUF, PPM_SOCKOPT_SO_SNDBUF), (SO_RCVBUF, PPM_SOCKOPT_SO_RCVBUF),
      (SO_SNDBUFFORCE, PPM_SOCKOPT_SO_SNDBUFFORCE), (SO_RCVBUFFORCE, PPM_SOCKOPT_SO_RCVBUFFORCE),
      (SO_KEEPALIVE, PPM_SOCKOPT_SO_KEEPALIVE), (SO_OOBINLINE, PPM_SOCKOPT_SO_OOBINLINE),
      (SO_NO_CHECK, PPM_SOCKOPT_SO_NO_CHECK), (SO_PRIORITY, PPM_SOCKOPT_SO_PRIORITY),
      (SO_LINGER, PPM_SOCKOPT_SO_LINGER), (SO_BSDCOMPAT, PPM_SOCKOPT_SO_BSDCOMPAT),
      (SO_REUSEPORT, PPM_SOCKOPT_SO_REUSEPORT), (SO_PASSCRED, PPM_SOCKOPT_SO_PASSCRED),
      (SO_PEERCRED, PPM_SOCKOPT_SO_PEERCRED), (SO_RCVLOWAT, PPM_SOCKOPT_SO_RCVLOWAT),
      (SO_SNDLOWAT, PPM_SOCKOPT_SO_SNDLOWAT), (SO_RCVTIMEO, PPM_SOCKOPT_SO_RCVTIMEO),
      (SO_SNDTIMEO, PPM_SOCKOPT_SO_SNDTIMEO),
      (SO_SECURITY_AUTHENTICATION, PPM_SOCKOPT_SO_SECURITY_AUTHENTICATION),
      (SO_SECURITY_ENCRYPTION_TRANSPORT, PPM_SOCKOPT_SO_SECURITY_ENCRYPTION_TRANSPORT),
      (SO_SECURITY_ENCRYPTION_NETWORK, PPM_SOCKOPT_SO_SECURITY_ENCRYPTION_NETWORK),
      (SO_BINDTODEVICE, PPM_SOCKOPT_SO_BINDTODEVICE),
      (SO_ATTACH_FILTER, PPM_SOCKOPT_SO_ATTACH_FILTER),
      (SO_DETACH_FILTER, PPM_SOCKOPT_SO_DETACH_FILTER), (SO_PEERNAME, PPM_SOCKOPT_SO_PEERNAME),
      (SO_TIMESTAMP, PPM_SOCKOPT_SO_TIMESTAMP), (SO_ACCEPTCONN, PPM_SOCKOPT_SO_ACCEPTCONN),
      (SO_PEERSEC, PPM_SOCKOPT_SO_PEERSEC), (SO_PASSSEC, PPM_SOCKOPT_SO_PASSSEC),
      (SO_TIMESTAMPNS, PPM_SOCKOPT_SO_TIMESTAMPNS), (SO_MARK, PPM_SOCKOPT_SO_MARK),
      (SO_TIMESTAMPING, PPM_SOCKOPT_SO_TIMESTAMPING), (SO_PROTOCOL, PPM_SOCKOPT_SO_PROTOCOL),
      (SO_DOMAIN, PPM_SOCKOPT_SO_DOMAIN), (SO_RXQ_OVFL, PPM_SOCKOPT_SO_RXQ_OVFL),
      (SO_WIFI_STATUS, PPM_SOCKOPT_SO_WIFI_STATUS), (SO_PEEK_OFF, PPM_SOCKOPT_SO_PEEK_OFF),
      (SO_NOFCS, PPM_SOCKOPT_SO_NOFCS), (SO_LOCK_FILTER, PPM_SOCKOPT_SO_LOCK_FILTER),
      (SO_SELECT_ERR_QUEUE, PPM_SOCKOPT_SO_SELECT_ERR_QUEUE),
      (SO_BUSY_POLL, PPM_SOCKOPT_SO_BUSY_POLL),
      (SO_MAX_PACING_RATE, PPM_SOCKOPT_SO_MAX_PACING_RATE),
      (SO_BPF_EXTENSIONS, PPM_SOCKOPT_SO_BPF_EXTENSIONS),
      (SO_INCOMING_CPU, PPM_SOCKOPT_SO_INCOMING_CPU), (SO_ATTACH_BPF, PPM_SOCKOPT_SO_ATTACH_BPF),
      (SO_PEERGROUPS, PPM_SOCKOPT_SO_PEERGROUPS), (SO_MEMINFO, PPM_SOCKOPT_SO_MEMINFO),
      (SO_COOKIE, PPM_SOCKOPT_SO_COOKIE)]"

definition sockopt_optname_to_scap :: "u32 \<Rightarrow> u32 \<Rightarrow> u8" where
  "sockopt_optname_to_scap level optname =
     (if level \<noteq> SOL_SOCKET then PPM_SOCKOPT_LEVEL_UNKNOWN
      else select_case sockopt_cases PPM_SOCKOPT_UNKNOWN optname)"

definition poll_events_bits :: "(u32 \<times> u16) list" where
  "poll_events_bits =
     [(POLLIN, PPM_POLLIN), (PPM_POLLPRI, PPM_POLLPRI), (POLLOUT, PPM_POLLOUT),
      (POLLRDHUP, PPM_POLLRDHUP), (POLLERR, PPM_POLLERR), (POLLHUP, PPM_POLLHUP),
      (POLLNVAL, PPM_POLLNVAL), (POLLRDNORM, PPM_POLLRDNORM), (POLLRDBAND, PPM_POLLRDBAND),
      (POLLWRNORM, PPM_POLLWRNORM), (POLLWRBAND, PPM_POLLWRBAND)]"

text \<open>The argument is a \<open>short\<close>, which C extends with its sign before it is masked.\<close>

definition poll_events_to_scap :: "u16 \<Rightarrow> u16" where
  "poll_events_to_scap revents = add_flags poll_events_bits (scast revents) 0"

definition epoll_events_bits :: "(u32 \<times> u16) list" where
  "epoll_events_bits =
     [(EPOLLIN, PPM_EPOLLIN), (EPOLLPRI, PPM_EPOLLPRI), (EPOLLOUT, PPM_EPOLLOUT),
      (EPOLLRDHUP, PPM_EPOLLRDHUP), (EPOLLERR, PPM_EPOLLERR), (EPOLLHUP, PPM_EPOLLHUP),
      (EPOLLET, PPM_EPOLLET), (EPOLLONESHOT, PPM_EPOLLONESHOT), (EPOLLWAKEUP, PPM_EPOLLWAKEUP),
      (EPOLLEXCLUSIVE, PPM_EPOLLEXCLUSIVE)]"

definition epoll_events_to_scap :: "u16 \<Rightarrow> u16" where
  "epoll_events_to_scap revents = add_flags epoll_events_bits (scast revents) 0"

definition futex_op_bits :: "(u64 \<times> u16) list" where
  "futex_op_bits =
     [(FUTEX_PRIVATE_FLAG, PPM_FU_FUTEX_PRIVATE_FLAG),
      (FUTEX_CLOCK_REALTIME, PPM_FU_FUTEX_CLOCK_REALTIME)]"

definition futex_ops :: "(u64 \<times> u16) list" where
  "futex_ops =
     [(FUTEX_WAIT, PPM_FU_FUTEX_WAIT), (FUTEX_WAKE, PPM_FU_FUTEX_WAKE),
      (FUTEX_FD, PPM_FU_FUTEX_FD), (FUTEX_REQUEUE, PPM_FU_FUTEX_REQUEUE),
      (FUTEX_CMP_REQUEUE, PPM_FU_FUTEX_CMP_REQUEUE), (FUTEX_WAKE_OP, PPM_FU_FUTEX_WAKE_OP),
      (FUTEX_LOCK_PI, PPM_FU_FUTEX_LOCK_PI), (FUTEX_UNLOCK_PI, PPM_FU_FUTEX_UNLOCK_PI),
      (FUTEX_TRYLOCK_PI, PPM_FU_FUTEX_TRYLOCK_PI), (FUTEX_WAIT_BITSET, PPM_FU_FUTEX_WAIT_BITSET),
      (FUTEX_WAKE_BITSET, PPM_FU_FUTEX_WAKE_BITSET),
      (FUTEX_WAIT_REQUEUE_PI, PPM_FU_FUTEX_WAIT_REQUEUE_PI),
      (FUTEX_CMP_REQUEUE_PI, PPM_FU_FUTEX_CMP_REQUEUE_PI)]"

definition futex_op_to_scap :: "u64 \<Rightarrow> u16" where
  "futex_op_to_scap op' = add_flags futex_op_bits op' (select_case futex_ops 0 (op' AND 127))"

definition access_flags_bits :: "(u32 \<times> u32) list" where
  "access_flags_bits =
     [(MAY_EXEC, PPM_X_OK), (MAY_READ, PPM_R_OK), (MAY_WRITE, PPM_W_OK)]"

definition access_flags_to_scap :: "u32 \<Rightarrow> u32" where
  "access_flags_to_scap flags = (if flags = 0 then PPM_F_OK else add_flags access_flags_bits flags 0)"

definition rlimit_resource_cases :: "(u64 \<times> u8) list" where
  "rlimit_resource_cases =
     [(RLIMIT_CPU, PPM_RLIMIT_CPU), (RLIMIT_FSIZE, PPM_RLIMIT_FSIZE),
      (RLIMIT_DATA, PPM_RLIMIT_DATA), (RLIMIT_STACK, PPM_RLIMIT_STACK),
      (RLIMIT_CORE, PPM_RLIMIT_CORE), (RLIMIT_RSS, PPM_RLIMIT_RSS),
      (RLIMIT_NPROC, PPM_RLIMIT_NPROC), (RLIMIT_NOFILE, PPM_RLIMIT_NOFILE),
      (RLIMIT_MEMLOCK, PPM_RLIMIT_MEMLOCK), (RLIMIT_AS, PPM_RLIMIT_AS),
      (RLIMIT_LOCKS, PPM_RLIMIT_LOCKS), (RLIMIT_SIGPENDING, PPM_RLIMIT_SIGPENDING),
      (RLIMIT_MSGQUEUE, PPM_RLIMIT_MSGQUEUE), (RLIMIT_NICE, PPM_RLIMIT_NICE),
      (RLIMIT_RTPRIO, PPM_RLIMIT_RTPRIO), (RLIMIT_RTTIME, PPM_RLIMIT_RTTIME)]"

definition rlimit_resource_to_scap :: "u64 \<Rightarrow> u8" where
  "rlimit_resource_to_scap rresource = select_case rlimit_resource_cases PPM_RLIMIT_UNKNOWN rresource"

text \<open>In the kernel \<open>SHUT_RD\<close> is an enumerator, so the conditional part is not compiled.\<close>

definition shutdown_how_to_scap :: "u64 \<Rightarrow> u16" where
  "shutdown_how_to_scap how = ucast how"

definition lseek_whence_to_scap :: "u64 \<Rightarrow> u64" where
  "lseek_whence_to_scap whence = select_case
     [(SEEK_SET, PPM_SEEK_SET), (SEEK_CUR, PPM_SEEK_CUR), (SEEK_END, PPM_SEEK_END)] 0 whence"

definition semop_flags_bits :: "(u32 \<times> u16) list" where
  "semop_flags_bits =
     [(IPC_NOWAIT, PPM_IPC_NOWAIT), (SEM_UNDO, PPM_SEM_UNDO)]"

definition semop_flags_to_scap :: "u16 \<Rightarrow> u16" where
  "semop_flags_to_scap flags = add_flags semop_flags_bits (scast flags) 0"

definition pf_flags_to_scap :: "u64 \<Rightarrow> u32" where
  "pf_flags_to_scap flags =
     add_flags [(0x8, PPM_PF_RESERVED_PAGE), (0x10, PPM_PF_INSTRUCTION_FETCH)] flags
       ((if flags AND 0x1 \<noteq> 0 then PPM_PF_PROTECTION_VIOLATION else PPM_PF_PAGE_NOT_PRESENT) OR
        (if flags AND 0x2 \<noteq> 0 then PPM_PF_WRITE_ACCESS else PPM_PF_READ_ACCESS) OR
        (if flags AND 0x4 \<noteq> 0 then PPM_PF_USER_FAULT else PPM_PF_SUPERVISOR_FAULT))"

definition flock_flags_bits :: "(u64 \<times> u32) list" where
  "flock_flags_bits =
     [(LOCK_EX, PPM_LOCK_EX), (LOCK_SH, PPM_LOCK_SH), (LOCK_UN, PPM_LOCK_UN),
      (LOCK_NB, PPM_LOCK_NB)]"

definition flock_flags_to_scap :: "u64 \<Rightarrow> u32" where
  "flock_flags_to_scap flags = add_flags flock_flags_bits flags 0"

definition quotactl_type_cases :: "(u64 \<times> u8) list" where
  "quotactl_type_cases =
     [(USRQUOTA, PPM_USRQUOTA), (GRPQUOTA, PPM_GRPQUOTA)]"

definition quotactl_type_to_scap :: "u64 \<Rightarrow> u8" where
  "quotactl_type_to_scap cmd = select_case quotactl_type_cases 0 (cmd AND SUBCMDMASK)"

definition quotactl_cmd_cases :: "(u64 \<times> u16) list" where
  "quotactl_cmd_cases =
     [(Q_SYNC, PPM_Q_SYNC), (Q_QUOTAON, PPM_Q_QUOTAON), (Q_QUOTAOFF, PPM_Q_QUOTAOFF),
      (Q_GETFMT, PPM_Q_GETFMT), (Q_GETINFO, PPM_Q_GETINFO), (Q_SETINFO, PPM_Q_SETINFO),
      (Q_GETQUOTA, PPM_Q_GETQUOTA), (Q_SETQUOTA, PPM_Q_SETQUOTA), (Q_XQUOTAON, PPM_Q_XQUOTAON),
      (Q_XQUOTAOFF, PPM_Q_XQUOTAOFF), (Q_XGETQUOTA, PPM_Q_XGETQUOTA),
      (Q_XSETQLIM, PPM_Q_XSETQLIM), (Q_XGETQSTAT, PPM_Q_XGETQSTAT), (Q_XQUOTARM, PPM_Q_XQUOTARM),
      (Q_XQUOTASYNC, PPM_Q_XQUOTASYNC)]"

definition quotactl_cmd_to_scap :: "u64 \<Rightarrow> u16" where
  "quotactl_cmd_to_scap cmd = select_case quotactl_cmd_cases 0 (drop_bit 8 cmd)"

definition quotactl_fmt_cases :: "(u64 \<times> u8) list" where
  "quotactl_fmt_cases =
     [(QFMT_VFS_OLD, PPM_QFMT_VFS_OLD), (QFMT_VFS_V0, PPM_QFMT_VFS_V0),
      (QFMT_VFS_V1, PPM_QFMT_VFS_V1)]"

definition quotactl_fmt_to_scap :: "u64 \<Rightarrow> u8" where
  "quotactl_fmt_to_scap fmt = select_case quotactl_fmt_cases PPM_QFMT_NOT_USED fmt"

definition semget_flags_bits :: "(u32 \<times> u32) list" where
  "semget_flags_bits =
     [(IPC_CREAT, PPM_IPC_CREAT), (IPC_EXCL, PPM_IPC_EXCL)]"

definition semget_flags_to_scap :: "u32 \<Rightarrow> u32" where
  "semget_flags_to_scap flags = add_flags semget_flags_bits flags 0"

definition semctl_cmd_cases :: "(u32 \<times> u32) list" where
  "semctl_cmd_cases =
     [(IPC_STAT, PPM_IPC_STAT), (IPC_SET, PPM_IPC_SET), (IPC_RMID, PPM_IPC_RMID),
      (IPC_INFO, PPM_IPC_INFO), (SEM_INFO, PPM_SEM_INFO), (SEM_STAT, PPM_SEM_STAT),
      (GETALL, PPM_GETALL), (GETNCNT, PPM_GETNCNT), (GETPID, PPM_GETPID), (GETVAL, PPM_GETVAL),
      (GETZCNT, PPM_GETZCNT), (SETALL, PPM_SETALL), (SETVAL, PPM_SETVAL)]"

definition semctl_cmd_to_scap :: "u32 \<Rightarrow> u32" where
  "semctl_cmd_to_scap cmd = select_case semctl_cmd_cases 0 cmd"

definition ptrace_requests_cases :: "(u64 \<times> u16) list" where
  "ptrace_requests_cases =
     [(PTRACE_SINGLEBLOCK, PPM_PTRACE_SINGLEBLOCK),
      (PTRACE_SYSEMU_SINGLESTEP, PPM_PTRACE_SYSEMU_SINGLESTEP),
      (PTRACE_SYSEMU, PPM_PTRACE_SYSEMU), (PTRACE_ARCH_PRCTL, PPM_PTRACE_ARCH_PRCTL),
      (PTRACE_SET_THREAD_AREA, PPM_PTRACE_SET_THREAD_AREA),
      (PTRACE_GET_THREAD_AREA, PPM_PTRACE_GET_THREAD_AREA),
      (PTRACE_OLDSETOPTIONS, PPM_PTRACE_OLDSETOPTIONS),
      (PTRACE_SETFPXREGS, PPM_PTRACE_SETFPXREGS), (PTRACE_GETFPXREGS, PPM_PTRACE_GETFPXREGS),
      (PTRACE_SETFPREGS, PPM_PTRACE_SETFPREGS), (PTRACE_GETFPREGS, PPM_PTRACE_GETFPREGS),
      (PTRACE_SETREGS, PPM_PTRACE_SETREGS), (PTRACE_GETREGS, PPM_PTRACE_GETREGS),
      (PTRACE_SETSIGMASK, PPM_PTRACE_SETSIGMASK), (PTRACE_GETSIGMASK, PPM_PTRACE_GETSIGMASK),
      (PTRACE_PEEKSIGINFO, PPM_PTRACE_PEEKSIGINFO), (PTRACE_LISTEN, PPM_PTRACE_LISTEN),
      (PTRACE_INTERRUPT, PPM_PTRACE_INTERRUPT), (PTRACE_SEIZE, PPM_PTRACE_SEIZE),
      (PTRACE_SETREGSET, PPM_PTRACE_SETREGSET), (PTRACE_GETREGSET, PPM_PTRACE_GETREGSET),
      (PTRACE_SETSIGINFO, PPM_PTRACE_SETSIGINFO), (PTRACE_GETSIGINFO, PPM_PTRACE_GETSIGINFO),
      (PTRACE_GETEVENTMSG, PPM_PTRACE_GETEVENTMSG), (PTRACE_SETOPTIONS, PPM_PTRACE_SETOPTIONS),
      (PTRACE_SYSCALL, PPM_PTRACE_SYSCALL), (PTRACE_DETACH, PPM_PTRACE_DETACH),
      (PTRACE_ATTACH, PPM_PTRACE_ATTACH), (PTRACE_SINGLESTEP, PPM_PTRACE_SINGLESTEP),
      (PTRACE_KILL, PPM_PTRACE_KILL), (PTRACE_CONT, PPM_PTRACE_CONT),
      (PTRACE_POKEUSR, PPM_PTRACE_POKEUSR), (PTRACE_POKEDATA, PPM_PTRACE_POKEDATA),
      (PTRACE_POKETEXT, PPM_PTRACE_POKETEXT), (PTRACE_PEEKUSR, PPM_PTRACE_PEEKUSR),
      (PTRACE_PEEKDATA, PPM_PTRACE_PEEKDATA), (PTRACE_PEEKTEXT, PPM_PTRACE_PEEKTEXT),
      (PTRACE_TRACEME, PPM_PTRACE_TRACEME)]"

definition ptrace_requests_to_scap :: "u64 \<Rightarrow> u16" where
  "ptrace_requests_to_scap req = select_case ptrace_requests_cases PPM_PTRACE_UNKNOWN req"

definition unlinkat_flags_bits :: "(u64 \<times> u32) list" where
  "unlinkat_flags_bits =
     [(AT_REMOVEDIR, PPM_AT_REMOVEDIR)]"

definition unlinkat_flags_to_scap :: "u64 \<Rightarrow> u32" where
  "unlinkat_flags_to_scap flags = add_flags unlinkat_flags_bits flags 0"

definition linkat_flags_bits :: "(u64 \<times> u32) list" where
  "linkat_flags_bits =
     [(AT_SYMLINK_FOLLOW, PPM_AT_SYMLINK_FOLLOW), (AT_EMPTY_PATH, PPM_AT_EMPTY_PATH)]"

definition linkat_flags_to_scap :: "u64 \<Rightarrow> u32" where
  "linkat_flags_to_scap flags = add_flags linkat_flags_bits flags 0"

definition chmod_mode_bits :: "(u64 \<times> u32) list" where
  "chmod_mode_bits =
     [(S_IRUSR, PPM_S_IRUSR), (S_IWUSR, PPM_S_IWUSR), (S_IXUSR, PPM_S_IXUSR),
      (S_IRGRP, PPM_S_IRGRP), (S_IWGRP, PPM_S_IWGRP), (S_IXGRP, PPM_S_IXGRP),
      (S_IROTH, PPM_S_IROTH), (S_IWOTH, PPM_S_IWOTH), (S_IXOTH, PPM_S_IXOTH),
      (S_ISUID, PPM_S_ISUID), (S_ISGID, PPM_S_ISGID), (S_ISVTX, PPM_S_ISVTX)]"

definition chmod_mode_to_scap :: "u64 \<Rightarrow> u32" where
  "chmod_mode_to_scap modes = add_flags chmod_mode_bits modes 0"

end
