(* ===== verification/Flag_Names.thy ===== *)
theory Flag_Names
  imports Flag_Helpers Event_Table
begin

text \<open>
  How \<open>libsinsp\<close> turns a flags parameter back into names (the cases \<open>PT_FLAGS8\<close>, \<open>PT_FLAGS16\<close>,
  \<open>PT_FLAGS32\<close> and \<open>PT_MODE\<close> of \<open>get_param_as_json\<close> and \<open>get_param_as_str\<close> in
  \<open>userspace/libsinsp/event.cpp\<close>), and what the names say of the system call's arguments after the
  driver's translation.
\<close>

section \<open>The loops over a table\<close>

text \<open>
  The entries the loop appends: it ends at the entry that equals the whole value, which is
  appended after the loop.
\<close>

fun flag_entries :: "ppm_name_value list \<Rightarrow> u32 \<Rightarrow> u32 \<Rightarrow> ppm_name_value list" where
  "flag_entries [] initial_val val = []"
| "flag_entries (f # flags) initial_val val =
     (if nv_value f = initial_val then [f]
      else if nv_value f = 0 \<and> initial_val = 0 \<or>
              nv_value f \<noteq> 0 \<and> val AND nv_value f = nv_value f \<and> val \<noteq> 0
      then f # flag_entries flags initial_val (val AND NOT (nv_value f))
      else flag_entries flags initial_val val)"

definition json_flags :: "ppm_name_value list \<Rightarrow> u32 \<Rightarrow> string list" where
  "json_flags tbl val = map nv_name (flag_entries tbl val val)"

text \<open>
  \<open>snprintf\<close> of \<open>s\<close> at offset \<open>j\<close> of a storage of \<open>sz\<close> bytes that is told the whole size; \<open>None\<close>
  when it writes past the end.
\<close>

definition snprintf_at :: "nat \<Rightarrow> string \<Rightarrow> nat \<Rightarrow> string \<Rightarrow> (string \<times> nat) option" where
  "snprintf_at sz storage j s =
     (if j + min (length s + 1) sz \<le> sz
      then Some (take j storage @ take (sz - 1) s, j + length s) else None)"

fun str_flags :: "ppm_name_value list \<Rightarrow> u32 \<Rightarrow> u32 \<Rightarrow> string \<Rightarrow> nat \<Rightarrow> string \<Rightarrow> nat \<Rightarrow> string option" where
  "str_flags [] initial_val val separator sz storage j = Some storage"
| "str_flags (f # flags) initial_val val separator sz storage j =
     (if nv_value f = initial_val
      then map_option fst (snprintf_at sz storage j (separator @ nv_name f))
      else if nv_value f = 0 \<and> initial_val = 0 \<or>
              nv_value f \<noteq> 0 \<and> val AND nv_value f = nv_value f \<and> val \<noteq> 0
      then let sz' = (if sz < j + length separator + length (nv_name f) then sz * 2 else sz) in
           case snprintf_at sz' storage j (separator @ nv_name f) of
             None \<Rightarrow> None
           | Some (storage', j') \<Rightarrow>
               str_flags flags initial_val (val AND NOT (nv_value f)) ''|'' sz' storage' j'
      else str_flags flags initial_val val separator sz storage j)"

section \<open>Translated flags\<close>

lemma and_or_distrib: "(p :: 'a::len word) AND (a OR b) = (p AND a) OR (p AND b)"
  by (rule bit_word_eqI) (auto simp: bit_simps)

lemma bit_add_flags:
  "bit (add_flags ps f r) n \<longleftrightarrow> bit r n \<or> (\<exists>(x, p) \<in> set ps. bit p n \<and> f AND x \<noteq> 0)"
  by (induction ps f r rule: add_flags.induct) (auto simp: bit_simps)

lemma add_flags_other:
  "list_all (\<lambda>(y, q). p AND q = 0) ps \<Longrightarrow> p AND add_flags ps f r = p AND r"
  by (induction ps f r rule: add_flags.induct) (auto simp: and_or_distrib)

fun disjoint_bits :: "('a::len word \<times> 'b::len word) list \<Rightarrow> bool" where
  "disjoint_bits [] \<longleftrightarrow> True"
| "disjoint_bits ((x, p) # ps) \<longleftrightarrow> list_all (\<lambda>(y, q). p AND q = 0) ps \<and> disjoint_bits ps"

lemma add_flags_at:
  "disjoint_bits ps \<Longrightarrow> (x, p) \<in> set ps \<Longrightarrow> p AND add_flags ps f r = (if f AND x \<noteq> 0 then p else p AND r)"
proof (induction ps f r rule: add_flags.induct)
  case (2 y q ps f r)
  show ?case
  proof (cases "(x, p) = (y, q)")
    case True
    then show ?thesis using 2 by (auto simp: add_flags_other and_or_distrib)
  next
    case False
    then have "(x, p) \<in> set ps" "p AND q = 0" using 2 by (auto simp: list_all_iff and.commute)
    then show ?thesis using 2 by (simp add: and_or_distrib)
  qed
qed simp

section \<open>Names\<close>

definition ors :: "ppm_name_value list \<Rightarrow> u32" where
  "ors es = foldr (\<lambda>e v. nv_value e OR v) es 0"

lemma ors_simps [simp]: "ors [] = 0" "ors (e # es) = nv_value e OR ors es"
  by (simp_all add: ors_def)

lemma entries_in_table: "set (flag_entries tbl i v) \<subseteq> set tbl"
  by (induction tbl i v rule: flag_entries.induct) auto

lemma entries_sound:
  "v AND i = v \<Longrightarrow> e \<in> set (flag_entries tbl i v) \<Longrightarrow> i AND nv_value e = nv_value e"
proof (induction tbl i v rule: flag_entries.induct)
  case (2 f flags i v)
  have sub: "i AND nv_value f = nv_value f" if "v AND nv_value f = nv_value f"
    using that 2(3) by (metis and.assoc and.commute)
  have "(v AND NOT (nv_value f)) AND i = v AND NOT (nv_value f)"
    using 2(3) by (metis and.assoc and.commute)
  then show ?case
    using 2 sub by (auto split: if_splits)
qed simp

lemma and_not_sub: "(v AND NOT a) AND NOT b = v AND NOT (a OR b)" for v :: "'a::len word"
  by (rule bit_word_eqI) (auto simp: bit_simps)

text \<open>After the loop no flag of the table fits into the bits that have not been named.\<close>

lemma entries_maximal:
  assumes "v = i AND NOT w" and "nv_value f \<noteq> 0" and "f \<in> set tbl"
  shows "(i AND NOT (w OR ors (flag_entries tbl i v))) AND nv_value f \<noteq> nv_value f"
  using assms
proof (induction tbl i v arbitrary: w rule: flag_entries.induct)
  case (2 g flags i v)
  show ?case
  proof (cases "nv_value g = i")
    case True
    have "(i AND NOT (w OR i)) = 0" by (rule bit_word_eqI) (auto simp: bit_simps)
    then show ?thesis using True 2(4) by simp
  next
    case False
    let ?hit = "nv_value g = 0 \<and> i = 0 \<or> nv_value g \<noteq> 0 \<and> v AND nv_value g = nv_value g \<and> v \<noteq> 0"
    show ?thesis
    proof (cases ?hit)
      case True
      show ?thesis
      proof (cases "f \<in> set flags")
        case f: True
        have "v AND NOT (nv_value g) = i AND NOT (w OR nv_value g)" using 2(3) by (simp add: and_not_sub)
        from 2(1) [OF False True this 2(4) f] show ?thesis
          using False True by (simp add: or.assoc)
      next
        case f: False
        then have "f = g" using 2(5) by simp
        moreover have "(i AND NOT (w OR (nv_value g OR x))) AND nv_value g = 0" for x
          by (rule bit_word_eqI) (auto simp: bit_simps)
        ultimately show ?thesis
          using True False 2(4) by simp
      qed
    next
      case miss: False
      show ?thesis
      proof (cases "f \<in> set flags")
        case f: True
        have "flag_entries (g # flags) i v = flag_entries flags i v" using False miss by auto
        with 2(2) [OF False miss 2(3,4) f] show ?thesis by (simp only: not_False_eq_True)
      next
        case f: False
        then have fg: "f = g" using 2(5) by simp
        have "v AND nv_value g \<noteq> nv_value g" using miss 2(4) fg by auto
        then obtain n where n: "bit (nv_value g) n" "\<not> bit v n"
          by (auto simp: bit_eq_iff bit_simps)
        let ?m = "(i AND NOT (w OR ors (flag_entries (g # flags) i v))) AND nv_value f"
        have "\<not> bit ?m n" using n 2(3) by (auto simp: bit_simps)
        then show ?thesis using n fg by metis
      qed
    qed
  qed
qed simp

text \<open>A flag that shares no bit with the others is named exactly when it is set.\<close>

lemma named_iff:
  assumes e: "e \<in> set tbl" "nv_value e \<noteq> 0"
    and alone: "\<And>f. f \<in> set tbl \<Longrightarrow> f \<noteq> e \<Longrightarrow> nv_value e AND nv_value f = 0"
  shows "e \<in> set (flag_entries tbl v v) \<longleftrightarrow> v AND nv_value e = nv_value e"
proof
  assume "e \<in> set (flag_entries tbl v v)"
  then show "v AND nv_value e = nv_value e" by (rule entries_sound [rotated]) simp
next
  assume v: "v AND nv_value e = nv_value e"
  show "e \<in> set (flag_entries tbl v v)"
  proof (rule ccontr)
    assume not: "e \<notin> set (flag_entries tbl v v)"
    have "nv_value e AND ors es = 0" if "set es \<subseteq> set tbl" "e \<notin> set es" for es
      using that by (induction es) (auto simp: and_or_distrib alone)
    then have "nv_value e AND ors (flag_entries tbl v v) = 0"
      using not entries_in_table by blast
    then have "(v AND NOT (0 OR ors (flag_entries tbl v v))) AND nv_value e = nv_value e"
      using v by (auto simp: bit_eq_iff bit_simps)
    with entries_maximal [of v v 0 e tbl] e show False by simp
  qed
qed

section \<open>The tables\<close>

text \<open>The entry of a table that is the flag \<open>p\<close>, when no other entry shares a bit with it.\<close>

definition lone_entry :: "ppm_name_value list \<Rightarrow> u32 \<Rightarrow> ppm_name_value option" where
  "lone_entry tbl p =
     (case filter (\<lambda>e. p AND nv_value e \<noteq> 0) tbl of [e] \<Rightarrow> if nv_value e = p then Some e else None | _ \<Rightarrow> None)"

lemma lone_entry_named:
  assumes "lone_entry tbl p = Some e" and "p \<noteq> 0"
  shows "e \<in> set tbl \<and> nv_value e = p \<and> (e \<in> set (flag_entries tbl v v) \<longleftrightarrow> v AND p = p)"
proof -
  have one: "filter (\<lambda>e. p AND nv_value e \<noteq> 0) tbl = [e]" and val: "nv_value e = p"
    using assms(1) by (auto simp: lone_entry_def split: list.splits if_splits)
  have "set (filter (\<lambda>e. p AND nv_value e \<noteq> 0) tbl) = {e}" unfolding one by simp
  then have mem: "e \<in> set tbl" and alone: "\<And>f. f \<in> set tbl \<Longrightarrow> f \<noteq> e \<Longrightarrow> p AND nv_value f = 0"
    by (auto simp: set_eq_iff)
  from named_iff [of e tbl v] mem alone val assms(2) show ?thesis by simp
qed

text \<open>
  \<open>reports bits tbl flags res\<close>: for each translated flag, the table has an entry of its own, and the
  names given for \<open>res\<close> contain it exactly when \<open>flags\<close> has a bit of the flag.
\<close>

definition reports :: "('a::len word \<times> u32) list \<Rightarrow> ppm_name_value list \<Rightarrow> 'a word \<Rightarrow> u32 \<Rightarrow> bool" where
  "reports bits tbl flags res \<longleftrightarrow>
     (\<forall>(x, p) \<in> set bits. \<exists>e \<in> set tbl. nv_value e = p \<and>
        (e \<in> set (flag_entries tbl res res) \<longleftrightarrow> flags AND x \<noteq> 0))"

definition named_apart :: "('a::len word \<times> u32) list \<Rightarrow> ppm_name_value list \<Rightarrow> bool" where
  "named_apart bits tbl \<longleftrightarrow>
     disjoint_bits bits \<and> list_all (\<lambda>(x, p). p \<noteq> 0 \<and> lone_entry tbl p \<noteq> None) bits"

lemma reports_add_flags:
  assumes "named_apart bits tbl" and "list_all (\<lambda>(x, p). p AND r = 0) bits"
  shows "reports bits tbl flags (add_flags bits flags r)"
  unfolding reports_def
proof clarify
  fix x p assume xp: "(x, p) \<in> set bits"
  with assms obtain e where e: "lone_entry tbl p = Some e" "p \<noteq> 0" and r: "p AND r = 0" and d: "disjoint_bits bits"
    by (fastforce simp: named_apart_def list_all_iff)
  have "add_flags bits flags r AND p = p \<longleftrightarrow> flags AND x \<noteq> 0"
    using add_flags_at [OF d xp, of flags r] r e(2) by (auto simp: and.commute)
  with lone_entry_named [OF e] show "\<exists>e\<in>set tbl. nv_value e = p \<and>
      (e \<in> set (flag_entries tbl (add_flags bits flags r) (add_flags bits flags r))) = (flags AND x \<noteq> 0)"
    by blast
qed

lemma apart_tables:
  "named_apart clone_flags_bits clone_flags" "named_apart open_flags_bits file_flags"
  "named_apart mode_bits chmod_mode" "named_apart prot_flags_bits prot_flags" "named_apart mmap_flags_bits mmap_flags"
  "named_apart flock_flags_bits flock_flags" "named_apart semget_flags_bits semget_flags"
  "named_apart access_flags_bits access_flags" "named_apart unlinkat_flags_bits unlinkat_flags"
  "named_apart linkat_flags_bits linkat_flags"
  by code_simp+

text \<open>Values each of which is named by itself: no flag before it in the table is part of it.\<close>

fun exact_table :: "ppm_name_value list \<Rightarrow> bool" where
  "exact_table [] \<longleftrightarrow> True"
| "exact_table (f # fs) \<longleftrightarrow>
     list_all (\<lambda>g. nv_value f = 0 \<or> nv_value g = nv_value f \<or> nv_value g AND nv_value f \<noteq> nv_value f) fs \<and>
     exact_table fs"

lemma exact_table_names:
  "exact_table tbl \<Longrightarrow> e \<in> set tbl \<Longrightarrow> v = nv_value e \<Longrightarrow>
    \<exists>f \<in> set tbl. nv_value f = v \<and> flag_entries tbl v v = [f]"
proof (induction tbl)
  case (Cons g tbl)
  then show ?case
    by (cases "nv_value g = v") (auto simp: list_all_iff)
qed simp

definition inexact_tables :: "string list" where
  "inexact_tables = map fst (filter (\<lambda>t. \<not> exact_table (snd t)) flag_tables)"

fun info_tables :: "ppm_param_info \<Rightarrow> string list" where
  "info_tables (ParamInfo n t f (INFO_FLAGS tbl) k) = [tbl]"
| "info_tables _ = []"


lemma tables_named: "list_all (\<lambda>e. list_all (\<lambda>p. list_all (\<lambda>t. t \<in> set (map fst flag_tables)) (info_tables p)) (ei_params e)) g_event_info_rows"
  by code_simp

definition table_text :: "ppm_name_value list \<Rightarrow> nat" where
  "table_text tbl = sum_list (map (\<lambda>e. length (nv_name e) + 1) tbl)"

lemma table_texts: "list_all (\<lambda>t. table_text (snd t) \<le> 1000) flag_tables"
  by code_simp

fun joined :: "string \<Rightarrow> ppm_name_value list \<Rightarrow> string" where
  "joined sep [] = []"
| "joined sep (e # es) = sep @ nv_name e @ joined ''|'' es"

lemma table_text_simps [simp]:
  "table_text [] = 0" "table_text (e # es) = length (nv_name e) + 1 + table_text es"
  by (simp_all add: table_text_def)

lemma snprintf_fits:
  "j + length s + 1 \<le> sz \<Longrightarrow> snprintf_at sz storage j s = Some (take j storage @ s, j + length s)"
  by (simp add: snprintf_at_def)

lemma str_flags_joined:
  assumes "j + table_text tbl + 1 \<le> sz" and "length sep \<le> 1" and "j \<le> length storage"
  shows "str_flags tbl i v sep sz storage j =
    Some (if flag_entries tbl i v = [] then storage else take j storage @ joined sep (flag_entries tbl i v))"
  using assms
proof (induction tbl arbitrary: v sep storage j)
  case (Cons f tbl)
  let ?s = "sep @ nv_name f"
  have room: "j + length ?s + 1 \<le> sz" and no_resize: "\<not> sz < j + length sep + length (nv_name f)"
    and rest: "(j + length ?s) + table_text tbl + 1 \<le> sz"
    using Cons.prems by auto
  have "str_flags tbl i w ''|'' sz (take j storage @ ?s) (j + length ?s) =
      Some (take j storage @ ?s @ joined ''|'' (flag_entries tbl i w))" for w
    using Cons.IH [OF rest, of "''|''" "take j storage @ ?s" w] Cons.prems by simp
  moreover have "str_flags tbl i v sep sz storage j =
      Some (if flag_entries tbl i v = [] then storage else take j storage @ joined sep (flag_entries tbl i v))"
    using Cons.prems by (intro Cons.IH) auto
  ultimately show ?case
    using no_resize snprintf_fits [OF room, of storage] by (auto simp: Let_def)
qed simp

lemma inexact: "inexact_tables = [''fcntl_commands'']"
  by code_simp

lemma bit_add_flags_same:
  "n < LENGTH('b) \<Longrightarrow>
    bit (add_flags (map (\<lambda>k. (push_bit k 1, push_bit k 1 :: 'b::len word)) ks) (f :: 'a::len word) 0) n \<longleftrightarrow>
    n \<in> set ks \<and> bit f n"
proof -
  assume n: "n < LENGTH('b)"
  have "f AND push_bit k 1 \<noteq> 0 \<longleftrightarrow> bit f k" for k
    by (simp only: bit_iff_and_push_bit_not_eq_0)
  with n show ?thesis
    unfolding bit_add_flags by (auto simp: bit_simps)
qed

lemma mode_bits_identity: "add_flags mode_bits modes 0 = ucast (modes AND 0xFFF)"
proof -
  let ?ks = "[8, 7, 6, 5, 4, 3, 2, 1, 0, 11, 10, 9 :: nat]"
  have ks: "mode_bits = map (\<lambda>k. (push_bit k 1, push_bit k 1)) ?ks"
    by (simp add: mode_bits_def)
  have "bit (add_flags mode_bits modes 0) n \<longleftrightarrow> n \<in> set ?ks \<and> bit modes n" if "n < 32" for n
    unfolding ks by (rule bit_add_flags_same) (use that in simp)
  moreover have "n \<in> set ?ks \<longleftrightarrow> n < 12" for n by simp presburger
  moreover have "bit (0xFFF :: u64) n \<longleftrightarrow> n < 12" if "n < 32" for n
  proof -
    have "(0xFFF :: u64) = mask 12" by (simp add: mask_eq_exp_minus_1)
    then show ?thesis using that by (simp only: bit_mask_iff) simp
  qed
  ultimately show ?thesis
    by (intro bit_word_eqI) (auto simp: bit_simps)
qed

section \<open>Properties\<close>


text \<open>
  C24.  The permission bits are carried unchanged: \<open>chmod_mode_to_scap\<close> is the low twelve bits of
  the mode, and \<open>open_modes_to_scap\<close> is the same when the call can create a file and 0 otherwise.
\<close>

theorem modes_unchanged:
  "chmod_mode_to_scap modes = ucast (modes AND 0xFFF) \<and>
   open_modes_to_scap flags modes =
     (if flags AND (O_CREAT OR O_TMPFILE) = 0 then 0 else ucast (modes AND 0xFFF))"
proof -
  have "add_flags mode_bits modes 0 = ucast (modes AND 0xFFF)"
    by (rule mode_bits_identity)
  moreover have "chmod_mode_bits = mode_bits"
    by (simp add: chmod_mode_bits_def mode_bits_def)
  ultimately show ?thesis
    by (simp add: chmod_mode_to_scap_def open_modes_to_scap_def)
qed

text \<open>
  C26.  An enumeration value is resolved to one name, that of an entry with this value, in every
  flag table but \<open>fcntl_commands\<close>.
\<close>

theorem enum_value_named:
  assumes "(n, tbl) \<in> set flag_tables" and "n \<noteq> ''fcntl_commands''" and "e \<in> set tbl"
  shows "\<exists>f \<in> set tbl. nv_value f = nv_value e \<and> json_flags tbl (nv_value e) = [nv_name f]"
proof -
  have "exact_table tbl"
  proof (rule ccontr)
    assume "\<not> exact_table tbl"
    then have "n \<in> set inexact_tables" using assms(1) by (force simp: inexact_tables_def)
    with assms(2) show False by (simp add: inexact)
  qed
  from exact_table_names [OF this assms(3) refl] show ?thesis by (auto simp: json_flags_def)
qed

theorem enum_value_named_witness:
  "\<exists>f \<in> set lseek_whence. nv_value f = 2 \<and> json_flags lseek_whence 2 = [nv_name f]"
  using enum_value_named [of "''lseek_whence''" lseek_whence "nv ''SEEK_END'' PPM_SEEK_END"]
  by (simp add: flag_tables_def lseek_whence_def nv_def)


text \<open>
  C25.  The text of a flags parameter is written inside the storage, which has at least 1024 bytes:
  for every flag table and every value it is the names of the value joined by bars, and the
  storage is left as it was when the value has no name.
\<close>

theorem str_flags_inside:
  assumes "(n, tbl) \<in> set flag_tables" and "1024 \<le> sz"
  shows "str_flags tbl val val [] sz storage 0 =
    Some (if flag_entries tbl val val = [] then storage else joined [] (flag_entries tbl val val))"
  using str_flags_joined [of 0 tbl sz "[]" storage val val] table_texts assms
  by (auto simp: list_all_iff)

theorem str_flags_inside_witness:
  "str_flags lseek_whence 2 2 [] 1024 [] 0 = Some (joined [] (flag_entries lseek_whence 2 2))"
  using str_flags_inside [of "''lseek_whence''" lseek_whence 1024 2 "[]"]
  by (simp add: flag_tables_def lseek_whence_def nv_def)



end
