(* ===== verification/Gen_Filter.thy ===== *)
theory Gen_Filter
  imports Prelude
begin

text \<open>
  The tree of checks of a filter (\<open>userspace/libsinsp/gen_filter.cpp\<close>, \<open>gen_filter.h\<close>): the boolean
  operators, the evaluation of an expression with its short circuits and its check identifiers, the test
  that an expression does not mix \<open>and\<close> and \<open>or\<close>, and the cursor that the compiler builds the tree with.
  A leaf of the tree is a check of some type \<open>'l\<close>; how a leaf compares and which identifier it has are
  arguments (in the code: virtual methods of the filter check classes).
\<close>

section \<open>Operators and checks\<close>

text \<open>\<open>enum boolop\<close>; its values are or'ed and masked as integers.\<close>

definition BO_NONE :: int where "BO_NONE = 0"
definition BO_NOT :: int where "BO_NOT = 1"
definition BO_OR :: int where "BO_OR = 2"
definition BO_AND :: int where "BO_AND = 4"
definition BO_ORNOT :: int where "BO_ORNOT = 3"
definition BO_ANDNOT :: int where "BO_ANDNOT = 5"

lemmas boolop_defs = BO_NONE_def BO_NOT_def BO_OR_def BO_AND_def BO_ORNOT_def BO_ANDNOT_def

datatype cmpop = CO_NONE | CO_EQ | CO_NE | CO_LT | CO_LE | CO_GT | CO_GE | CO_CONTAINS | CO_IN | CO_EXISTS
  | CO_ICONTAINS | CO_STARTSWITH | CO_GLOB | CO_PMATCH | CO_ENDSWITH | CO_INTERSECTS

text \<open>A check is a leaf or an expression; both carry the operator that joins them to their predecessors.\<close>

datatype 'l check = Check int 'l | Expr int "'l check list"

fun m_boolop :: "'l check \<Rightarrow> int" where
  "m_boolop (Check op l) = op"
| "m_boolop (Expr op cs) = op"

text \<open>\<open>gen_event::set_check_id\<close>: an identifier of zero leaves the event as it is.\<close>

definition set_check_id :: "int \<Rightarrow> int \<Rightarrow> int" where
  "set_check_id cid old = (if cid \<noteq> 0 then cid else old)"

text \<open>Expressions keep the identifier zero that every check is created with.\<close>

fun get_check_id :: "('l \<Rightarrow> int) \<Rightarrow> 'l check \<Rightarrow> int" where
  "get_check_id ids (Check op l) = ids l"
| "get_check_id ids (Expr op cs) = 0"

text \<open>
  \<open>gen_event_filter_expression::compare\<close>; \<open>compare_from\<close> is the loop from the second check on.  The
  result carries the check identifier of the event.
\<close>

fun compare :: "('l \<Rightarrow> bool) \<Rightarrow> ('l \<Rightarrow> int) \<Rightarrow> 'l check \<Rightarrow> int \<Rightarrow> bool \<times> int"
  and compare_from :: "('l \<Rightarrow> bool) \<Rightarrow> ('l \<Rightarrow> int) \<Rightarrow> 'l check list \<Rightarrow> bool \<Rightarrow> int \<Rightarrow> bool \<times> int" where
  "compare cmp ids (Check op l) cid = (cmp l, cid)"
| "compare cmp ids (Expr op []) cid = (True, cid)"
| "compare cmp ids (Expr op (c # cs)) cid =
     (if m_boolop c = BO_NONE then
        let (res, cid) = compare cmp ids c cid
        in compare_from cmp ids cs res (if res then set_check_id (get_check_id ids c) cid else cid)
      else if m_boolop c = BO_NOT then
        let (res, cid) = compare cmp ids c cid in compare_from cmp ids cs (\<not> res) cid
      else compare_from cmp ids cs True cid)"
| "compare_from cmp ids [] res cid = (res, cid)"
| "compare_from cmp ids (c # cs) res cid =
     (if m_boolop c = BO_OR then
        if res then (res, cid)
        else let (res, cid) = compare cmp ids c cid
             in compare_from cmp ids cs res (if res then set_check_id (get_check_id ids c) cid else cid)
      else if m_boolop c = BO_AND then
        if \<not> res then (res, cid)
        else let (res, cid) = compare cmp ids c cid
             in compare_from cmp ids cs res (if res then set_check_id (get_check_id ids c) cid else cid)
      else if m_boolop c = BO_ORNOT then
        if res then (res, cid)
        else let (r, cid) = compare cmp ids c cid; res = (\<not> r)
             in compare_from cmp ids cs res (if res then set_check_id (get_check_id ids c) cid else cid)
      else if m_boolop c = BO_ANDNOT then
        if \<not> res then (res, cid)
        else let (r, cid) = compare cmp ids c cid; res = (\<not> r)
             in compare_from cmp ids cs res (if res then set_check_id (get_check_id ids c) cid else cid)
      else compare_from cmp ids cs res cid)"

text \<open>\<open>get_expr_boolop\<close>: bit 0 of an operator is its negation; -1 when the operators differ.\<close>

definition strip_not :: "int \<Rightarrow> int" where
  "strip_not op = op AND NOT 1"

definition get_expr_boolop :: "int \<Rightarrow> 'l check list \<Rightarrow> int" where
  "get_expr_boolop boolop cks =
     (if length cks \<le> 1 then boolop
      else let b0 = strip_not (m_boolop (cks ! 1)) in
        if length cks \<le> 2 then b0
        else if list_all (\<lambda>c. strip_not (m_boolop c) = b0) (drop 2 cks) then b0
        else -1)"

section \<open>The cursor\<close>

text \<open>
  A filter under construction: \<open>m_open\<close> are the expressions from \<open>m_curexpr\<close> up to the root along
  \<open>m_parent\<close>, each with its operator and its checks; it is empty when \<open>m_curexpr\<close> is \<open>NULL\<close>, and then
  \<open>m_root\<close> are the checks of the root.  An open expression becomes the last check of its parent when it
  is closed, which is where \<open>push_expression\<close> puts it.
\<close>

record 'l gen_event_filter =
  m_open :: "(int \<times> 'l check list) list"
  m_root :: "'l check list"

datatype filter_error = Unrecognized_Escape | Unclosed_Quotes | Unrecognized_Operator | Unrecognized_Field
  | Not_For_Thread_Table | Expected_Bracket | Expected_Separator | Pmatch_Needs_Charbuf | Bad_Field | Bad_Value
  | Unexpected_End | Mixed_And_Or | Unexpected_Bracket | Unexpected_Or | Unexpected_And | Unexpected_Not
  | Syntax_Error | Out_Of_Range | Null_Dereference | Out_Of_Bounds | Out_Of_Fuel

text \<open>The operator of the root expression is not initialised by the constructor: it is an argument.\<close>

definition new_filter :: "int \<Rightarrow> 'l gen_event_filter" where
  "new_filter uninit = \<lparr>m_open = [(uninit, [])], m_root = []\<rparr>"

definition add_check :: "'l check \<Rightarrow> 'l gen_event_filter \<Rightarrow> filter_error + 'l gen_event_filter" where
  "add_check chk f =
     (case m_open f of
        [] \<Rightarrow> Inl Null_Dereference
      | (op, cs) # up \<Rightarrow> Inr (f\<lparr>m_open := (op, cs @ [chk]) # up\<rparr>))"

definition push_expression :: "int \<Rightarrow> 'l gen_event_filter \<Rightarrow> filter_error + 'l gen_event_filter" where
  "push_expression op f =
     (case m_open f of
        [] \<Rightarrow> Inl Null_Dereference
      | up \<Rightarrow> Inr (f\<lparr>m_open := (op, []) # up\<rparr>))"

definition pop_expression :: "'l gen_event_filter \<Rightarrow> filter_error + 'l gen_event_filter" where
  "pop_expression f =
     (case m_open f of
        [] \<Rightarrow> Inl Null_Dereference
      | (op, cs) # up \<Rightarrow>
          if get_expr_boolop op cs = -1 then Inl Mixed_And_Or
          else (case up of
                  [] \<Rightarrow> Inr (f\<lparr>m_open := [], m_root := cs\<rparr>)
                | (op2, cs2) # up2 \<Rightarrow> Inr (f\<lparr>m_open := (op2, cs2 @ [Expr op cs]) # up2\<rparr>)))"

text \<open>The checks of the root, with the open expressions in their places.\<close>

fun zip_up :: "(int \<times> 'l check list) list \<Rightarrow> 'l check list" where
  "zip_up [] = []"
| "zip_up [(op, cs)] = cs"
| "zip_up ((op, cs) # (op2, cs2) # up) = zip_up ((op2, cs2 @ [Expr op cs]) # up)"

definition root_checks :: "'l gen_event_filter \<Rightarrow> 'l check list" where
  "root_checks f = (if m_open f = [] then m_root f else zip_up (m_open f))"

definition root_boolop :: "int \<Rightarrow> 'l gen_event_filter \<Rightarrow> int" where
  "root_boolop uninit f = get_expr_boolop uninit (root_checks f)"

text \<open>\<open>gen_event_filter::run\<close>.\<close>

definition run :: "('l \<Rightarrow> bool) \<Rightarrow> ('l \<Rightarrow> int) \<Rightarrow> 'l gen_event_filter \<Rightarrow> int \<Rightarrow> bool \<times> int" where
  "run cmp ids f cid = compare cmp ids (Expr 0 (root_checks f)) cid"

section \<open>The meaning of an expression\<close>

text \<open>
  The reference: an expression whose operators agree is the conjunction or the disjunction of its
  checks, each negated where its operator says so, with no order of evaluation.
\<close>

definition negated :: "'l check \<Rightarrow> bool" where
  "negated c \<longleftrightarrow> odd (m_boolop c)"

fun holds :: "('l \<Rightarrow> bool) \<Rightarrow> 'l check \<Rightarrow> bool" where
  "holds cmp (Check op l) = cmp l"
| "holds cmp (Expr op cs) =
     (if length cs \<le> 1 \<or> strip_not (m_boolop (cs ! 1)) = BO_AND
      then (\<forall>c \<in> set cs. holds cmp c \<noteq> negated c)
      else (\<exists>c \<in> set cs. holds cmp c \<noteq> negated c))"

fun well_joined :: "'l check \<Rightarrow> bool" where
  "well_joined (Check op l) \<longleftrightarrow> True"
| "well_joined (Expr op cs) \<longleftrightarrow>
     (case cs of [] \<Rightarrow> True | c # cs' \<Rightarrow>
        m_boolop c \<in> {BO_NONE, BO_NOT} \<and>
        (list_all (\<lambda>c. m_boolop c \<in> {BO_AND, BO_ANDNOT}) cs' \<or> list_all (\<lambda>c. m_boolop c \<in> {BO_OR, BO_ORNOT}) cs')) \<and>
     (\<forall>c \<in> set cs. well_joined c)"

lemma compare_from_and:
  assumes "list_all (\<lambda>c. m_boolop c \<in> {BO_AND, BO_ANDNOT}) cs"
    and "\<And>c cid. c \<in> set cs \<Longrightarrow> fst (compare cmp ids c cid) = holds cmp c"
  shows "fst (compare_from cmp ids cs res cid) \<longleftrightarrow> res \<and> (\<forall>c \<in> set cs. holds cmp c \<noteq> negated c)"
  using assms
proof (induction cs arbitrary: res cid)
  case (Cons c cs)
  obtain r i where ri: "compare cmp ids c cid = (r, i)" by fastforce
  then have "r = holds cmp c" using Cons.prems(2) [of c cid] by simp
  moreover have "m_boolop c = 4 \<or> m_boolop c = 5" using Cons.prems(1) by (auto simp: boolop_defs)
  ultimately show ?case
    using Cons ri by (auto simp: boolop_defs negated_def Let_def)
qed simp

lemma compare_from_or:
  assumes "list_all (\<lambda>c. m_boolop c \<in> {BO_OR, BO_ORNOT}) cs"
    and "\<And>c cid. c \<in> set cs \<Longrightarrow> fst (compare cmp ids c cid) = holds cmp c"
  shows "fst (compare_from cmp ids cs res cid) \<longleftrightarrow> res \<or> (\<exists>c \<in> set cs. holds cmp c \<noteq> negated c)"
  using assms
proof (induction cs arbitrary: res cid)
  case (Cons c cs)
  obtain r i where ri: "compare cmp ids c cid = (r, i)" by fastforce
  then have "r = holds cmp c" using Cons.prems(2) [of c cid] by simp
  moreover have "m_boolop c = 2 \<or> m_boolop c = 3" using Cons.prems(1) by (auto simp: boolop_defs)
  ultimately show ?case
    using Cons ri by (auto simp: boolop_defs negated_def Let_def)
qed simp

lemma compare_holds:
  "well_joined c \<Longrightarrow> fst (compare cmp ids c cid) = holds cmp c"
proof (induction c arbitrary: cid)
  case (Expr op cs)
  show ?case
  proof (cases cs)
    case (Cons c cs')
    obtain r i where ri: "compare cmp ids c cid = (r, i)" by fastforce
    have r: "r = holds cmp c" using Expr ri Cons by (metis fst_conv list.set_intros(1) well_joined.simps(2))
    have sub: "\<And>c cid. c \<in> set cs' \<Longrightarrow> fst (compare cmp ids c cid) = holds cmp c"
      using Expr Cons by auto
    have "m_boolop c = 0 \<or> m_boolop c = 1" using Expr.prems Cons by (auto simp: boolop_defs)
    then have first: "fst (compare cmp ids (Expr op cs) cid) = fst (compare_from cmp ids cs' (holds cmp c \<noteq> negated c) i')"
      if "i' = (if m_boolop c = 0 \<and> r then set_check_id (get_check_id ids c) i else i)" for i'
      using ri r Cons that by (auto simp: boolop_defs negated_def)
    consider (one) "cs' = []" | (con) d ds where "cs' = d # ds" "list_all (\<lambda>c. m_boolop c \<in> {BO_AND, BO_ANDNOT}) cs'"
      | (dis) d ds where "cs' = d # ds" "list_all (\<lambda>c. m_boolop c \<in> {BO_OR, BO_ORNOT}) cs'"
      using Expr.prems Cons by (cases cs') auto
    then show ?thesis
    proof cases
      case one
      then show ?thesis using first Cons by simp
    next
      case con
      then have "strip_not (m_boolop (cs ! 1)) = BO_AND" using Cons by (auto simp: boolop_defs strip_not_def)
      with con show ?thesis using first compare_from_and [OF con(2) sub] Cons by auto
    next
      case dis
      then have "strip_not (m_boolop (cs ! 1)) = BO_OR" using Cons by (auto simp: boolop_defs strip_not_def)
      with dis show ?thesis using first compare_from_or [OF dis(2) sub] Cons by (auto simp: boolop_defs)
    qed
  qed simp
qed simp

text \<open>
  C11. Evaluating an expression from left to right, stopping as soon as a check decides and recording
  check identifiers on the way, gives what the expression means: the conjunction or the disjunction of
  its possibly negated checks, at every level of the tree.  It holds for every tree whose expressions
  start with a plain or negated check and continue with only \<open>and\<close> or only \<open>or\<close>.
\<close>

theorem filter_compare_meaning:
  "well_joined c \<Longrightarrow> fst (compare cmp ids c cid) = holds cmp c"
  by (rule compare_holds)

theorem filter_compare_meaning_witness:
  "fst (compare (\<lambda>l. 2 < l) (\<lambda>_. 7) (Expr BO_NONE [Check BO_NOT (1 :: nat), Expr BO_AND [Check BO_NONE 2, Check BO_ORNOT 3, Check BO_OR 4]]) 0) =
   holds (\<lambda>l. 2 < l) (Expr BO_NONE [Check BO_NOT (1 :: nat), Expr BO_AND [Check BO_NONE 2, Check BO_ORNOT 3, Check BO_OR 4]])"
  by (rule filter_compare_meaning) simp

end
