(* ===== verification/Filter_Compiler.thy ===== *)
theory Filter_Compiler
  imports Gen_Filter
begin

text \<open>
  The compiler of filter strings (\<open>sinsp_filter_compiler\<close> of \<open>userspace/libsinsp/filter.cpp\<close>).  Its state
  is the record \<open>compiler\<close>; positions are integers as in the code (\<open>m_scanpos\<close> starts at -1), reading the
  filter string one past its end gives the terminating NUL of a \<open>std::string\<close> and reading further is the
  error \<open>Out_Of_Bounds\<close>; an exception is a left value with the position it was thrown at.  Filter
  strings are shorter than 2 GB, so that positions fit their type.  The check classes are arguments,
  collected in \<open>check_env\<close>.
\<close>

section \<open>Checks and state\<close>

record filter_check =
  chk_field :: string
  chk_cmpop :: cmpop
  chk_values :: "string list"

text \<open>
  What the compiler asks of the check classes: \<open>parse_field_name\<close> of every class of the check list (the
  length of the field name or -1), whether a class works on the thread table, whether a field is a
  \<open>PT_CHARBUF\<close>, and whether \<open>parse_field_name\<close> and \<open>add_filter_value\<close> return without an exception.
\<close>

record check_env =
  m_check_list :: "(string \<Rightarrow> int) list"
  works_on_thread_table :: "nat \<Rightarrow> bool"
  is_charbuf :: "string \<Rightarrow> bool"
  field_parses :: "string \<Rightarrow> bool"
  value_parses :: "string \<Rightarrow> cmpop \<Rightarrow> string \<Rightarrow> nat \<Rightarrow> bool"

fun find_check :: "(string \<Rightarrow> int) list \<Rightarrow> nat \<Rightarrow> string \<Rightarrow> bool \<Rightarrow> nat option" where
  "find_check [] j name do_exact_check = None"
| "find_check (parse_field_name # cks) j name do_exact_check =
     (let fldnamelen = parse_field_name name in
      if fldnamelen \<noteq> -1 then
        if do_exact_check \<and> int (length name) \<noteq> fldnamelen then None else Some j
      else find_check cks (Suc j) name do_exact_check)"

definition new_filter_check_from_fldname :: "check_env \<Rightarrow> string \<Rightarrow> bool \<Rightarrow> nat option" where
  "new_filter_check_from_fldname env name do_exact_check = find_check (m_check_list env) 0 name do_exact_check"

datatype compiler_state = ST_EXPRESSION_DONE | ST_NEED_EXPRESSION

record compiler =
  m_fltstr :: string
  m_scanpos :: int
  m_state :: compiler_state
  m_last_boolop :: int
  m_nest_level :: int
  m_ttable_only :: bool
  m_filter :: "filter_check gen_event_filter"

type_synonym 'a parsed = "(filter_error \<times> int) + 'a"

definition bindE :: "'e + 'a \<Rightarrow> ('a \<Rightarrow> 'e + 'b) \<Rightarrow> 'e + 'b" where
  "bindE r k = (case r of Inl e \<Rightarrow> Inl e | Inr x \<Rightarrow> k x)"

lemma bindE_simps [simp]: "bindE (Inl e) k = Inl e" "bindE (Inr x) k = k x"
  by (simp_all add: bindE_def)

lemma bindE_Inr: "bindE r k = Inr y \<longleftrightarrow> (\<exists>x. r = Inr x \<and> k x = Inr y)"
  by (cases r) auto

lemma bindE_Inl: "bindE r k = Inl e \<longleftrightarrow> r = Inl e \<or> (\<exists>x. r = Inr x \<and> k x = Inl e)"
  by (cases r) auto

definition throw :: "compiler \<Rightarrow> filter_error \<Rightarrow> 'a parsed" where
  "throw st e = Inl (e, m_scanpos st)"

text \<open>\<open>m_fltstr[m_scanpos]\<close>, and \<open>m_scansize\<close>.\<close>

abbreviation m_scansize :: "compiler \<Rightarrow> int" where
  "m_scansize st \<equiv> int (length (m_fltstr st))"

definition cur :: "compiler \<Rightarrow> char parsed" where
  "cur st =
     (if m_scanpos st < 0 \<or> m_scanpos st > m_scansize st then throw st Out_Of_Bounds
      else if m_scanpos st = m_scansize st then Inr (CHR 0x00)
      else Inr (m_fltstr st ! nat (m_scanpos st)))"

abbreviation advance :: "int \<Rightarrow> compiler \<Rightarrow> compiler" where
  "advance n st \<equiv> st\<lparr>m_scanpos := m_scanpos st + n\<rparr>"

section \<open>Scanning\<close>

definition is_blank :: "char \<Rightarrow> bool" where
  "is_blank c \<longleftrightarrow> c \<in> {CHR '' '', CHR 0x09, CHR 0x0A, CHR 0x0D}"

definition is_special_char :: "char \<Rightarrow> bool" where
  "is_special_char c \<longleftrightarrow> c \<in> {CHR ''('', CHR '')'', CHR ''!'', CHR ''='', CHR ''<'', CHR ''>''}"

definition is_bracket :: "char \<Rightarrow> bool" where
  "is_bracket c \<longleftrightarrow> c \<in> {CHR ''('', CHR '')''}"

text \<open>\<open>next\<close>: the position of the next character that is not blank, or the end.\<close>

function next_pos :: "string \<Rightarrow> int \<Rightarrow> int" where
  "next_pos s pos =
     (let p = pos + 1 in
      if p \<ge> int (length s) then p
      else if is_blank (s ! nat p) then next_pos s p
      else p)"
  by auto
termination by (relation "measure (\<lambda>(s, pos). nat (int (length s) - pos))") auto

declare next_pos.simps [simp del]

definition scan_next :: "compiler \<Rightarrow> char \<times> compiler" where
  "scan_next st =
     (let p = next_pos (m_fltstr st) (m_scanpos st) in
      (if p \<ge> m_scansize st then CHR 0x00 else m_fltstr st ! nat p, st\<lparr>m_scanpos := p\<rparr>))"

definition skip_blanks :: "compiler \<Rightarrow> compiler parsed" where
  "skip_blanks st = bindE (cur st) (\<lambda>c. Inr (if is_blank c then snd (scan_next st) else st))"

datatype ppm_escape_state = PES_NORMAL | PES_SLASH | PES_NUMBER | PES_ERROR

text \<open>The digits of \<open>\\xHH\<close>; \<open>None\<close> for any other character.\<close>

definition xdigit :: "char \<Rightarrow> nat option" where
  "xdigit c =
     (let n = of_char c in
      if 48 \<le> n \<and> n \<le> 57 then Some (n - 48)
      else if 97 \<le> n \<and> n \<le> 102 then Some (n - 97 + 10)
      else if 65 \<le> n \<and> n \<le> 70 then Some (n - 65 + 10)
      else None)"

definition is_end_of_word :: "bool \<Rightarrow> bool \<Rightarrow> bool \<Rightarrow> ppm_escape_state \<Rightarrow> char \<Rightarrow> bool" where
  "is_end_of_word expecting_first_operand in_or_pmatch_clause is_quoted esc curchar =
     (if expecting_first_operand then is_blank curchar \<or> is_special_char curchar
      else (\<not> is_quoted \<and> (is_blank curchar \<or> is_bracket curchar \<or> in_or_pmatch_clause \<and> curchar = CHR '','')) \<or>
           (is_quoted \<and> esc \<noteq> PES_SLASH \<and> (curchar = CHR 0x22 \<or> curchar = CHR 0x27)))"

text \<open>
  One character of an operand that is not its end: the escape state, the digits read so far (the array
  \<open>nums\<close> up to \<open>num_pos\<close>) and the operand.
\<close>

definition operand_step ::
    "bool \<Rightarrow> char \<Rightarrow> ppm_escape_state \<times> nat list \<times> string \<Rightarrow> ppm_escape_state \<times> nat list \<times> string" where
  "operand_step expecting_first_operand curchar = (\<lambda>(esc, nums, res).
     case esc of
       PES_NORMAL \<Rightarrow>
         if curchar = CHR 0x5C \<and> \<not> expecting_first_operand then (PES_SLASH, nums, res)
         else (PES_NORMAL, nums, res @ [curchar])
     | PES_SLASH \<Rightarrow>
         if curchar = CHR 0x5C \<or> curchar = CHR 0x22 then (PES_NORMAL, nums, res @ [curchar])
         else if curchar = CHR ''x'' then (PES_NUMBER, nums, res)
         else (PES_NORMAL, nums, res @ [CHR 0x5C, curchar])
     | PES_NUMBER \<Rightarrow>
         (case xdigit curchar of
            None \<Rightarrow> (PES_ERROR, nums, res)
          | Some d \<Rightarrow>
              if length nums = 1 then (PES_NORMAL, [], res @ [char_of (hd nums * 16 + d)])
              else (PES_NUMBER, nums @ [d], res))
     | PES_ERROR \<Rightarrow> (PES_ERROR, nums, res))"

function operand_loop ::
    "bool \<Rightarrow> bool \<Rightarrow> bool \<Rightarrow> string \<Rightarrow> int \<Rightarrow> ppm_escape_state \<times> nat list \<times> string \<Rightarrow> (int \<times> string) parsed" where
  "operand_loop first inc quoted s pos w =
     (if pos < int (length s) \<and> fst w \<noteq> PES_ERROR then
        let curchar = s ! nat pos in
        if is_end_of_word first inc quoted (fst w) curchar then
          if fst w \<noteq> PES_NORMAL then Inl (Unrecognized_Escape, pos)
          else Inr (if curchar = CHR ''('' \<or> curchar = CHR '')'' \<or> inc \<and> curchar = CHR '','' then pos - 1 else pos,
                    snd (snd w))
        else operand_loop first inc quoted s (pos + 1) (operand_step first curchar w)
      else if fst w = PES_ERROR then Inl (Unrecognized_Escape, pos)
      else if quoted then Inl (Unclosed_Quotes, pos)
      else Inr (pos, snd (snd w)))"
  by auto
termination by (relation "measure (\<lambda>(first, inc, quoted, s, pos, w). nat (int (length s) - pos))") auto

declare operand_loop.simps [simp del]

definition next_operand :: "bool \<Rightarrow> bool \<Rightarrow> compiler \<Rightarrow> (string \<times> compiler) parsed" where
  "next_operand expecting_first_operand in_or_pmatch_clause st =
     bindE (skip_blanks st) (\<lambda>st.
     let is_quoted = (m_scanpos st < m_scansize st \<and> m_fltstr st ! nat (m_scanpos st) \<in> {CHR 0x22, CHR 0x27});
         start = (if is_quoted then m_scanpos st + 1 else m_scanpos st) in
     bindE (operand_loop expecting_first_operand in_or_pmatch_clause is_quoted (m_fltstr st) start (PES_NORMAL, [], []))
       (\<lambda>(pos, res). Inr (res, st\<lparr>m_scanpos := pos\<rparr>)))"

definition compare_no_consume :: "compiler \<Rightarrow> string \<Rightarrow> bool" where
  "compare_no_consume st str \<longleftrightarrow>
     m_scanpos st + int (length str) \<le> m_scansize st \<and>
     take (length str) (drop (nat (m_scanpos st)) (m_fltstr st)) = str"

definition comparison_operators :: "(string \<times> cmpop) list" where
  "comparison_operators =
     [(''='', CO_EQ), (''!='', CO_NE), (''<='', CO_LE), (''<'', CO_LT), (''>='', CO_GE), (''>'', CO_GT),
      (''contains'', CO_CONTAINS), (''icontains'', CO_ICONTAINS), (''startswith'', CO_STARTSWITH),
      (''endswith'', CO_ENDSWITH), (''glob'', CO_GLOB), (''in'', CO_IN), (''intersects'', CO_INTERSECTS),
      (''pmatch'', CO_PMATCH), (''exists'', CO_EXISTS)]"

definition next_comparison_operator :: "compiler \<Rightarrow> (cmpop \<times> compiler) parsed" where
  "next_comparison_operator st =
     bindE (skip_blanks st) (\<lambda>st.
     case find (\<lambda>(str, co). compare_no_consume st str) comparison_operators of
       None \<Rightarrow> throw st Unrecognized_Operator
     | Some (str, co) \<Rightarrow> Inr (co, advance (int (length str)) st))"

section \<open>Parsing\<close>

definition filter_op :: "(filter_check gen_event_filter \<Rightarrow> filter_error + filter_check gen_event_filter) \<Rightarrow>
    compiler \<Rightarrow> compiler parsed" where
  "filter_op f st = (case f (m_filter st) of Inl e \<Rightarrow> throw st e | Inr flt \<Rightarrow> Inr (st\<lparr>m_filter := flt\<rparr>))"

text \<open>Opening and closing a nested expression.\<close>

definition open_bracket :: "int \<Rightarrow> compiler \<Rightarrow> compiler parsed" where
  "open_bracket op st =
     bindE (filter_op (push_expression op) st)
       (\<lambda>st. Inr (st\<lparr>m_last_boolop := BO_NONE, m_nest_level := m_nest_level st + 1\<rparr>))"

definition close_bracket :: "compiler \<Rightarrow> compiler parsed" where
  "close_bracket st =
     bindE (filter_op pop_expression st) (\<lambda>st. Inr (st\<lparr>m_nest_level := m_nest_level st - 1\<rparr>))"

text \<open>
  The values of an \<open>in\<close> or \<open>pmatch\<close> clause: for character buffers they are collected in one check, for
  other types each value is a check of its own.  The loops end with the bracket; \<open>fuel\<close> bounds the
  number of values.
\<close>

fun in_values :: "nat \<Rightarrow> check_env \<Rightarrow> string \<Rightarrow> cmpop \<Rightarrow> string list \<Rightarrow> compiler \<Rightarrow> (string list \<times> compiler) parsed" where
  "in_values 0 env field co vals st = throw st Out_Of_Fuel"
| "in_values (Suc fuel) env field co vals st =
     bindE (next_operand False True st) (\<lambda>(operand2, st).
     if \<not> value_parses env field co operand2 (length vals) then throw st Bad_Value
     else let vals = vals @ [operand2]; st = snd (scan_next st) in
     bindE (cur st) (\<lambda>c.
     if c = CHR '')'' then Inr (vals, st)
     else if c = CHR '','' then in_values fuel env field co vals (advance 1 st)
     else throw st Expected_Separator))"

fun in_checks :: "nat \<Rightarrow> check_env \<Rightarrow> string \<Rightarrow> int \<Rightarrow> compiler \<Rightarrow> compiler parsed" where
  "in_checks 0 env field op st = throw st Out_Of_Fuel"
| "in_checks (Suc fuel) env field op st =
     bindE (next_operand False True st) (\<lambda>(operand2, st).
     if \<not> value_parses env field CO_EQ operand2 0 then throw st Bad_Value
     else
     bindE (filter_op (add_check (Check op \<lparr>chk_field = field, chk_cmpop = CO_EQ, chk_values = [operand2]\<rparr>)) st) (\<lambda>st.
     let st = snd (scan_next st) in
     bindE (cur st) (\<lambda>c.
     if c = CHR '')'' then Inr st
     else if c = CHR '','' then in_checks fuel env field BO_OR (advance 1 st)
     else throw st Expected_Separator)))"

declare in_values.simps [simp del] in_checks.simps [simp del]

definition thread_table_fields :: "string list" where
  "thread_table_fields = [''evt.rawtime'', ''evt.rawtime.s'', ''evt.rawtime.ns'', ''evt.time'', ''evt.time.s'',
     ''evt.datetime'', ''evt.reltime'']"

definition parse_in :: "check_env \<Rightarrow> string \<Rightarrow> cmpop \<Rightarrow> int \<Rightarrow> compiler \<Rightarrow> compiler parsed" where
  "parse_in env field co op st =
     bindE (skip_blanks st) (\<lambda>st.
     bindE (cur st) (\<lambda>c.
     if c \<noteq> CHR ''('' then throw st Expected_Bracket
     else
       let st = advance 1 st; fuel = length (m_fltstr st) + 2 in
       if is_charbuf env field then
         bindE (in_values fuel env field co [] st) (\<lambda>(vals, st).
         filter_op (add_check (Check op \<lparr>chk_field = field, chk_cmpop = co, chk_values = vals\<rparr>)) st)
       else if co = CO_PMATCH then throw st Pmatch_Needs_Charbuf
       else
         bindE (open_bracket op st) (\<lambda>st.
         bindE (in_checks fuel env field BO_NONE st) close_bracket)))"

text \<open>The comparison operator and the value, once the field is known.\<close>

definition parse_comparison :: "check_env \<Rightarrow> string \<Rightarrow> int \<Rightarrow> compiler \<Rightarrow> compiler parsed" where
  "parse_comparison env field op st =
     bindE (next_comparison_operator st) (\<lambda>(co, st).
     if \<not> field_parses env field then throw st Bad_Field
     else if co \<in> {CO_IN, CO_INTERSECTS, CO_PMATCH} then parse_in env field co op st
     else if co = CO_EXISTS then
       filter_op (add_check (Check op \<lparr>chk_field = field, chk_cmpop = co, chk_values = []\<rparr>)) (advance (-1) st)
     else
       bindE (next_operand False False st) (\<lambda>(operand2, st).
       if \<not> value_parses env field co operand2 0 then throw st Bad_Value
       else filter_op (add_check (Check op \<lparr>chk_field = field, chk_cmpop = co, chk_values = [operand2]\<rparr>)) st))"

definition parse_check :: "check_env \<Rightarrow> compiler \<Rightarrow> compiler parsed" where
  "parse_check env st =
     bindE (next_operand True False st) (\<lambda>(operand1, st).
     let field = takeWhile (\<lambda>c. c \<noteq> CHR 0x00) operand1 in
     case new_filter_check_from_fldname env field True of
       None \<Rightarrow> throw st Unrecognized_Field
     | Some j \<Rightarrow>
         if m_ttable_only st \<and> \<not> works_on_thread_table env j \<and> field \<notin> set thread_table_fields
         then throw st Not_For_Thread_Table
         else parse_comparison env field (m_last_boolop st) st)"

text \<open>The operators \<open>or\<close>, \<open>and\<close> and \<open>not\<close>, after their first letter.\<close>

definition parse_or :: "compiler \<Rightarrow> compiler parsed" where
  "parse_or st =
     (let (c, st) = scan_next st in
      if c \<noteq> CHR ''r'' then throw st Syntax_Error
      else if m_state st \<noteq> ST_EXPRESSION_DONE then throw st Unexpected_Or
      else Inr (st\<lparr>m_last_boolop := BO_OR, m_state := ST_NEED_EXPRESSION\<rparr>))"

definition parse_and :: "compiler \<Rightarrow> compiler parsed" where
  "parse_and st =
     (let (c, st) = scan_next st in
      if c \<noteq> CHR ''n'' then throw st Syntax_Error
      else let (c, st) = scan_next st in
      if c \<noteq> CHR ''d'' then throw st Syntax_Error
      else if m_state st \<noteq> ST_EXPRESSION_DONE then throw st Unexpected_And
      else Inr (st\<lparr>m_last_boolop := BO_AND, m_state := ST_NEED_EXPRESSION\<rparr>))"

definition parse_not :: "compiler \<Rightarrow> compiler parsed" where
  "parse_not st =
     (let (c, st) = scan_next st in
      if c \<noteq> CHR ''o'' then throw st Syntax_Error
      else let (c, st) = scan_next st in
      if c \<noteq> CHR ''t'' then throw st Syntax_Error
      else if m_state st \<noteq> ST_EXPRESSION_DONE \<and> m_state st \<noteq> ST_NEED_EXPRESSION then throw st Unexpected_Not
      else Inr (st\<lparr>m_last_boolop := m_last_boolop st OR BO_NOT, m_state := ST_NEED_EXPRESSION\<rparr>))"

definition parse_operand :: "check_env \<Rightarrow> compiler \<Rightarrow> compiler parsed" where
  "parse_operand env st = bindE (parse_check env st) (\<lambda>st. Inr (st\<lparr>m_state := ST_EXPRESSION_DONE\<rparr>))"

text \<open>The \<open>switch\<close> of \<open>compile_\<close> for every character but NUL.\<close>

definition compile_char :: "check_env \<Rightarrow> char \<Rightarrow> compiler \<Rightarrow> compiler parsed" where
  "compile_char env a st =
     (if a = CHR ''('' then
        if m_state st \<noteq> ST_NEED_EXPRESSION then throw st Unexpected_Bracket else open_bracket (m_last_boolop st) st
      else if a = CHR '')'' then close_bracket st
      else if a = CHR ''o'' then
        if m_scanpos st \<noteq> 0 \<and> m_state st \<noteq> ST_NEED_EXPRESSION then parse_or st else parse_operand env st
      else if a = CHR ''a'' then
        if m_scanpos st \<noteq> 0 \<and> m_state st \<noteq> ST_NEED_EXPRESSION then parse_and st else parse_operand env st
      else if a = CHR ''n'' then parse_not st
      else if m_state st = ST_NEED_EXPRESSION then parse_operand env st
      else throw st Syntax_Error)"

definition end_of_filter :: "int \<Rightarrow> compiler \<Rightarrow> filter_check gen_event_filter parsed" where
  "end_of_filter uninit st =
     (if m_nest_level st \<noteq> 0 then throw st Unexpected_End
      else if m_state st \<noteq> ST_EXPRESSION_DONE then throw st Unexpected_End
      else if get_expr_boolop uninit (root_checks (m_filter st)) = -1 then throw st Mixed_And_Or
      else Inr (m_filter st))"

fun compile_loop :: "nat \<Rightarrow> check_env \<Rightarrow> int \<Rightarrow> compiler \<Rightarrow> filter_check gen_event_filter parsed" where
  "compile_loop 0 env uninit st = throw st Out_Of_Fuel"
| "compile_loop (Suc fuel) env uninit st =
     (let (a, st) = scan_next st in
      if a = CHR 0x00 then end_of_filter uninit st
      else bindE (compile_char env a st) (compile_loop fuel env uninit))"

definition new_compiler :: "int \<Rightarrow> bool \<Rightarrow> string \<Rightarrow> compiler" where
  "new_compiler uninit ttable_only fltstr =
     \<lparr>m_fltstr = fltstr, m_scanpos = -1, m_state = ST_NEED_EXPRESSION, m_last_boolop = BO_NONE, m_nest_level = 0,
      m_ttable_only = ttable_only, m_filter = new_filter uninit\<rparr>"

definition compile :: "check_env \<Rightarrow> int \<Rightarrow> bool \<Rightarrow> string \<Rightarrow> filter_check gen_event_filter parsed" where
  "compile env uninit ttable_only fltstr =
     compile_loop (length fltstr + 2) env uninit (new_compiler uninit ttable_only fltstr)"

section \<open>Progress\<close>

lemma next_pos_gt: "pos < next_pos s pos"
proof (induction s pos rule: next_pos.induct)
  case (1 s pos)
  show ?case using 1 by (subst next_pos.simps) (fastforce simp: Let_def)
qed

lemma scan_next_pos: "scan_next st = (c, st') \<Longrightarrow> m_scanpos st < m_scanpos st' \<and> m_fltstr st' = m_fltstr st"
  using next_pos_gt by (auto simp: scan_next_def Let_def)

lemma scan_next_end: "scan_next st = (c, st') \<Longrightarrow> c \<noteq> CHR 0x00 \<Longrightarrow> m_scanpos st' < m_scansize st"
  by (auto simp: scan_next_def Let_def split: if_splits)

lemma skip_blanks_pos:
  "skip_blanks st = Inr st' \<Longrightarrow> m_scanpos st \<le> m_scanpos st' \<and> m_fltstr st' = m_fltstr st"
  using next_pos_gt [of "m_scanpos st" "m_fltstr st"]
  by (auto simp: skip_blanks_def bindE_Inr scan_next_def Let_def)

lemma operand_loop_pos:
  "operand_loop first inc quoted s pos w = Inr (pos', res) \<Longrightarrow> pos - 1 \<le> pos'"
proof (induction first inc quoted s pos w rule: operand_loop.induct)
  case (1 first inc quoted s pos w)
  have "pos \<le> pos'" if "pos < int (length s)" "fst w \<noteq> PES_ERROR" "\<not> is_end_of_word first inc quoted (fst w) (s ! nat pos)"
    "operand_loop first inc quoted s (pos + 1) (operand_step first (s ! nat pos) w) = Inr (pos', res)"
    using 1(1) [OF _ refl] that by simp
  then show ?case
    using 1(2) by (subst (asm) operand_loop.simps) (auto simp: Let_def split: if_splits)
qed

lemma next_operand_pos:
  "next_operand first inc st = Inr (res, st') \<Longrightarrow> m_scanpos st - 1 \<le> m_scanpos st' \<and> m_fltstr st' = m_fltstr st"
  by (auto simp: next_operand_def bindE_Inr Let_def split: if_splits
      dest!: skip_blanks_pos operand_loop_pos)

lemma first_operand_pos:
  assumes "next_operand True False st = Inr (res, st')" and "0 \<le> m_scanpos st" "m_scanpos st < m_scansize st"
    and "m_fltstr st ! nat (m_scanpos st) = c" "\<not> is_blank c" "\<not> is_bracket c"
  shows "m_scanpos st \<le> m_scanpos st'"
proof -
  let ?q = "c \<in> {CHR 0x22, CHR 0x27}" and ?p = "m_scanpos st"
  have "skip_blanks st = Inr st" using assms by (simp add: skip_blanks_def cur_def)
  then obtain pos where l: "operand_loop True False ?q (m_fltstr st) (if ?q then ?p + 1 else ?p) (PES_NORMAL, [], []) = Inr (pos, res)"
    and pos: "m_scanpos st' = pos"
    using assms by (auto simp: next_operand_def bindE_Inr Let_def split: if_splits)
  show ?thesis
  proof (cases ?q)
    case True
    with operand_loop_pos [OF l] pos show ?thesis by simp
  next
    case False
    with l assms show ?thesis
      by (subst (asm) operand_loop.simps)
         (auto simp: pos Let_def is_bracket_def split: if_splits dest!: operand_loop_pos)
  qed
qed

lemma next_comparison_operator_pos:
  assumes "next_comparison_operator st = Inr (co, st')"
  shows "m_scanpos st < m_scanpos st' \<and> m_fltstr st' = m_fltstr st"
proof -
  obtain st1 str where 1: "skip_blanks st = Inr st1"
    and f: "find (\<lambda>(str, co). compare_no_consume st1 str) comparison_operators = Some (str, co)"
    and 2: "st' = advance (int (length str)) st1"
    using assms by (auto simp: next_comparison_operator_def bindE_Inr throw_def split: option.splits prod.splits)
  have "list_all (\<lambda>(str, co). str \<noteq> []) comparison_operators" by (simp add: comparison_operators_def)
  then have "str \<noteq> []" using f by (auto simp: find_Some_iff list_all_length)
  with skip_blanks_pos [OF 1] 2 show ?thesis by (cases str) auto
qed

lemma filter_op_pos: "filter_op f st = Inr st' \<Longrightarrow> m_scanpos st' = m_scanpos st \<and> m_fltstr st' = m_fltstr st"
  by (auto simp: filter_op_def throw_def split: sum.splits)

lemma bracket_pos:
  "open_bracket op st = Inr st' \<Longrightarrow> m_scanpos st' = m_scanpos st \<and> m_fltstr st' = m_fltstr st"
  "close_bracket st = Inr st' \<Longrightarrow> m_scanpos st' = m_scanpos st \<and> m_fltstr st' = m_fltstr st"
  by (auto simp: open_bracket_def close_bracket_def bindE_Inr dest: filter_op_pos)

lemma cur_pos: "cur st = Inr c \<Longrightarrow> c \<noteq> CHR 0x00 \<Longrightarrow> m_scanpos st < m_scansize st"
  by (auto simp: cur_def throw_def split: if_splits)

lemma snd_scan [simp]: "m_fltstr (snd (scan_next st)) = m_fltstr st"
  by (simp add: scan_next_def Let_def)

lemma snd_scan_pos: "m_scanpos st < m_scanpos (snd (scan_next st))"
  by (simp add: scan_next_def Let_def next_pos_gt)

lemma in_values_pos:
  "in_values fuel env field co vals st = Inr (vals', st') \<Longrightarrow> m_scanpos st \<le> m_scanpos st' \<and> m_fltstr st' = m_fltstr st"
proof (induction fuel arbitrary: vals st)
  case (Suc fuel)
  obtain v st1 c where o: "next_operand False True st = Inr (v, st1)" and c: "cur (snd (scan_next st1)) = Inr c"
    and alt: "c = CHR '')'' \<and> st' = snd (scan_next st1) \<or> c = CHR '','' \<and>
      in_values fuel env field co (vals @ [v]) (advance 1 (snd (scan_next st1))) = Inr (vals', st')"
    using Suc.prems by (auto simp: in_values.simps bindE_Inr throw_def Let_def split: if_splits)
  show ?case using alt next_operand_pos [OF o] snd_scan_pos [of st1] by (auto dest!: Suc.IH)
qed (simp add: in_values.simps throw_def)

lemma in_checks_pos:
  "in_checks fuel env field op st = Inr st' \<Longrightarrow> m_scanpos st \<le> m_scanpos st' \<and> m_fltstr st' = m_fltstr st"
proof (induction fuel arbitrary: op st)
  case (Suc fuel)
  obtain v st1 st2 c f where o: "next_operand False True st = Inr (v, st1)" and f: "filter_op f st1 = Inr st2"
    and c: "cur (snd (scan_next st2)) = Inr c"
    and alt: "c = CHR '')'' \<and> st' = snd (scan_next st2) \<or> c = CHR '','' \<and>
      in_checks fuel env field BO_OR (advance 1 (snd (scan_next st2))) = Inr st'"
    using Suc.prems by (auto simp: in_checks.simps bindE_Inr throw_def Let_def split: if_splits)
  show ?case using alt next_operand_pos [OF o] filter_op_pos [OF f] snd_scan_pos [of st2] by (auto dest!: Suc.IH)
qed (simp add: in_checks.simps throw_def)

lemma parse_in_pos:
  "parse_in env field co op st = Inr st' \<Longrightarrow> m_scanpos st \<le> m_scanpos st' \<and> m_fltstr st' = m_fltstr st"
  by (auto simp: parse_in_def bindE_Inr throw_def Let_def split: if_splits
      dest!: skip_blanks_pos bracket_pos filter_op_pos in_values_pos in_checks_pos)

lemma parse_comparison_pos:
  assumes "parse_comparison env field op st = Inr st'"
  shows "m_scanpos st \<le> m_scanpos st' \<and> m_fltstr st' = m_fltstr st"
proof -
  obtain co st1 where c: "next_comparison_operator st = Inr (co, st1)"
    and "parse_in env field co op st1 = Inr st' \<or> (\<exists>f. filter_op f (advance (-1) st1) = Inr st') \<or>
      (\<exists>v st2 f. next_operand False False st1 = Inr (v, st2) \<and> filter_op f st2 = Inr st')"
    using assms by (auto simp: parse_comparison_def bindE_Inr throw_def split: if_splits)
  then show ?thesis
    using next_comparison_operator_pos [OF c] by (auto dest!: parse_in_pos filter_op_pos next_operand_pos)
qed

lemma parse_check_pos:
  assumes "parse_check env st = Inr st'" and "0 \<le> m_scanpos st" "m_scanpos st < m_scansize st"
    and "m_fltstr st ! nat (m_scanpos st) = c" "\<not> is_blank c" "\<not> is_bracket c"
  shows "m_scanpos st \<le> m_scanpos st' \<and> m_fltstr st' = m_fltstr st"
proof -
  obtain v st1 where o: "next_operand True False st = Inr (v, st1)"
    and "\<exists>field. parse_comparison env field (m_last_boolop st1) st1 = Inr st'"
    using assms(1) by (auto simp: parse_check_def bindE_Inr throw_def Let_def split: if_splits option.splits)
  then show ?thesis
    using first_operand_pos [OF o assms(2-6)] next_operand_pos [OF o] by (auto dest!: parse_comparison_pos)
qed

lemma parse_operand_pos:
  assumes "parse_operand env st = Inr st'" and "0 \<le> m_scanpos st" "m_scanpos st < m_scansize st"
    and "m_fltstr st ! nat (m_scanpos st) = c" "\<not> is_blank c" "\<not> is_bracket c"
  shows "m_scanpos st \<le> m_scanpos st' \<and> m_fltstr st' = m_fltstr st"
  using assms(1) parse_check_pos [OF _ assms(2-6)] by (auto simp: parse_operand_def bindE_Inr)

lemma keyword_pos:
  "parse_or st = Inr st' \<Longrightarrow> m_scanpos st \<le> m_scanpos st' \<and> m_fltstr st' = m_fltstr st"
  "parse_and st = Inr st' \<Longrightarrow> m_scanpos st \<le> m_scanpos st' \<and> m_fltstr st' = m_fltstr st"
  "parse_not st = Inr st' \<Longrightarrow> m_scanpos st \<le> m_scanpos st' \<and> m_fltstr st' = m_fltstr st"
  by (auto simp: parse_or_def parse_and_def parse_not_def Let_def throw_def split: prod.splits if_splits
      dest!: scan_next_pos)

lemma compile_char_pos:
  assumes "compile_char env a st = Inr st'" and "0 \<le> m_scanpos st" "m_scanpos st < m_scansize st"
    and "m_fltstr st ! nat (m_scanpos st) = a" "\<not> is_blank a"
  shows "m_scanpos st \<le> m_scanpos st' \<and> m_fltstr st' = m_fltstr st"
  using assms(1) parse_operand_pos [OF _ assms(2-5)]
  by (auto simp: compile_char_def bindE_Inr throw_def is_bracket_def split: if_splits
      dest!: keyword_pos bracket_pos)

lemma next_pos_not_blank: "next_pos s pos < int (length s) \<Longrightarrow> \<not> is_blank (s ! nat (next_pos s pos))"
proof (induction s pos rule: next_pos.induct)
  case (1 s pos)
  then show ?case by (subst next_pos.simps, subst (asm) (2) next_pos.simps) (auto simp: Let_def split: if_splits)
qed

lemma scan_next_char:
  assumes "scan_next st = (c, st')" and "c \<noteq> CHR 0x00" and "-1 \<le> m_scanpos st"
  shows "0 \<le> m_scanpos st'" "m_scanpos st' < m_scansize st'" "m_fltstr st' ! nat (m_scanpos st') = c" "\<not> is_blank c"
  using assms next_pos_gt [of "m_scanpos st" "m_fltstr st"] next_pos_not_blank [of "m_fltstr st" "m_scanpos st"]
  by (auto simp: scan_next_def Let_def split: if_splits)

section \<open>Termination\<close>

definition ends :: "'a parsed \<Rightarrow> bool" where
  "ends r \<longleftrightarrow> (\<forall>p. r \<noteq> Inl (Out_Of_Fuel, p))"

lemma ends_simps [simp]: "ends (Inr x)" "ends (throw st e) \<longleftrightarrow> e \<noteq> Out_Of_Fuel" "ends (Inl (e, p)) \<longleftrightarrow> e \<noteq> Out_Of_Fuel"
  by (auto simp: ends_def throw_def)

lemma ends_bindE [intro!]: "ends r \<Longrightarrow> (\<And>x. r = Inr x \<Longrightarrow> ends (k x)) \<Longrightarrow> ends (bindE r k)"
  by (cases r) (auto simp: ends_def)

lemma ends_cur [simp]: "ends (cur st)"
  by (simp add: cur_def)

lemma ends_skip_blanks [simp]: "ends (skip_blanks st)"
  by (auto simp: skip_blanks_def)

lemma ends_operand_loop [simp]: "ends (operand_loop first inc quoted s pos w)"
proof (induction first inc quoted s pos w rule: operand_loop.induct)
  case (1 first inc quoted s pos w)
  note IH = 1 [OF _ refl]
  note [simp] = operand_loop.simps [of first inc quoted s pos w] Let_def
  show ?case
  proof (cases "pos < int (length s) \<and> fst w \<noteq> PES_ERROR")
    case True
    then show ?thesis using IH by (cases "is_end_of_word first inc quoted (fst w) (s ! nat pos)") simp_all
  next
    case False
    then have "operand_loop first inc quoted s pos w = Inl (Unrecognized_Escape, pos) \<or>
        operand_loop first inc quoted s pos w = Inl (Unclosed_Quotes, pos) \<or>
        operand_loop first inc quoted s pos w = Inr (pos, snd (snd w))"
      by (simp del: operand_loop.simps) (metis operand_loop.simps)
    then show ?thesis by (auto simp del: operand_loop.simps)
  qed
qed

lemma ends_next_operand [simp]: "ends (next_operand first inc st)"
  by (auto simp: next_operand_def Let_def)

lemma ends_next_comparison_operator [simp]: "ends (next_comparison_operator st)"
  by (auto simp: next_comparison_operator_def split: option.splits)

lemma ends_filter_op [simp]:
  "ends (filter_op (add_check chk) st)" "ends (filter_op (push_expression op) st)" "ends (filter_op pop_expression st)"
  by (auto simp: filter_op_def add_check_def push_expression_def pop_expression_def split: sum.splits list.splits if_splits)

lemma ends_bracket [simp]: "ends (open_bracket op st)" "ends (close_bracket st)"
  by (auto simp: open_bracket_def close_bracket_def)

lemma ends_in_values:
  "m_scanpos st \<le> m_scansize st \<Longrightarrow> m_scansize st < m_scanpos st + int fuel \<Longrightarrow> ends (in_values fuel env field co vals st)"
proof (induction fuel arbitrary: vals st)
  case (Suc fuel)
  have "ends (in_values fuel env field co vs (advance 1 (snd (scan_next st1))))"
    if "next_operand False True st = Inr (v, st1)" "cur (snd (scan_next st1)) = Inr CHR '',''" for v st1 vs
    using Suc.prems next_operand_pos [OF that(1)] snd_scan_pos [of st1] cur_pos [OF that(2)]
    by (intro Suc.IH) simp_all
  then show ?case by (auto simp: in_values.simps Let_def)
qed simp

lemma ends_in_checks:
  "m_scanpos st \<le> m_scansize st \<Longrightarrow> m_scansize st < m_scanpos st + int fuel \<Longrightarrow> ends (in_checks fuel env field op st)"
proof (induction fuel arbitrary: op st)
  case (Suc fuel)
  have "ends (in_checks fuel env field BO_OR (advance 1 (snd (scan_next st2))))"
    if "next_operand False True st = Inr (v, st1)" "filter_op f st1 = Inr st2" "cur (snd (scan_next st2)) = Inr CHR '',''" for v st1 st2 f
    using Suc.prems next_operand_pos [OF that(1)] filter_op_pos [OF that(2)] snd_scan_pos [of st2] cur_pos [OF that(3)]
    by (intro Suc.IH) simp_all
  then show ?case by (auto simp: in_checks.simps Let_def)
qed simp

lemma cur_nonneg: "cur st = Inr c \<Longrightarrow> 0 \<le> m_scanpos st"
  by (auto simp: cur_def throw_def split: if_splits)

lemma ends_parse_in [simp]: "ends (parse_in env field co op st)"
proof -
  have vals: "ends (in_values (length (m_fltstr st1) + 2) env field co [] (advance 1 st1))" if "cur st1 = Inr CHR ''(''" for st1 co
    using cur_pos [OF that] cur_nonneg [OF that] by (intro ends_in_values) simp_all
  have cks: "ends (in_checks (length (m_fltstr st1) + 2) env field BO_NONE st2)"
    if "cur st1 = Inr CHR ''(''" "open_bracket op (advance 1 st1) = Inr st2" for st1 st2
    using cur_pos [OF that(1)] cur_nonneg [OF that(1)] bracket_pos(1) [OF that(2)] by (intro ends_in_checks) simp_all
  show ?thesis unfolding parse_in_def Let_def
    by (intro ends_bindE ends_skip_blanks ends_cur) (auto intro!: ends_bindE vals [simplified] cks [simplified])
qed

lemma ends_parse_check [simp]: "ends (parse_check env st)"
  by (auto simp: parse_check_def parse_comparison_def Let_def split: option.splits)

lemma ends_keyword [simp]: "ends (parse_or st)" "ends (parse_and st)" "ends (parse_not st)"
  by (simp_all add: parse_or_def parse_and_def parse_not_def Let_def split_beta)

lemma ends_parse_operand [simp]: "ends (parse_operand env st)"
  by (auto simp: parse_operand_def)

lemma ends_compile_char [simp]: "ends (compile_char env a st)"
  by (simp add: compile_char_def)

lemma ends_compile_loop:
  "-1 \<le> m_scanpos st \<Longrightarrow> 0 < fuel \<Longrightarrow> m_scansize st < m_scanpos st + int fuel \<Longrightarrow> ends (compile_loop fuel env uninit st)"
proof (induction fuel arbitrary: st)
  case (Suc fuel)
  obtain a st1 where n: "scan_next st = (a, st1)" by fastforce
  have "ends (compile_loop fuel env uninit st2)" if a: "a \<noteq> CHR 0x00" and c: "compile_char env a st1 = Inr st2" for st2
    using Suc.prems scan_next_pos [OF n] scan_next_end [OF n a] compile_char_pos [OF c scan_next_char [OF n a]]
    by (intro Suc.IH) auto
  then show ?case using n by (auto simp: end_of_filter_def)
qed simp

lemma compile_loop_more_fuel:
  "ends (compile_loop n env uninit st) \<Longrightarrow> n \<le> m \<Longrightarrow> compile_loop m env uninit st = compile_loop n env uninit st"
proof (induction n arbitrary: m st)
  case (Suc n)
  obtain k where m: "m = Suc k" "n \<le> k" using Suc.prems(2) by (cases m) auto
  obtain a st1 where a: "scan_next st = (a, st1)" by fastforce
  have "ends (compile_loop n env uninit st2)" if "a \<noteq> CHR 0x00" "compile_char env a st1 = Inr st2" for st2
    using Suc.prems(1) a that by (auto simp: ends_def)
  then show ?case
    using Suc.IH [OF _ m(2)] a m(1) by (cases "compile_char env a st1") auto
qed simp

section \<open>What an accepted filter looks like\<close>

fun consistent :: "'l check \<Rightarrow> bool" where
  "consistent (Check op l) \<longleftrightarrow> True"
| "consistent (Expr op cs) \<longleftrightarrow>
     get_expr_boolop op cs \<noteq> -1 \<and> (cs \<noteq> [] \<longrightarrow> m_boolop (hd cs) \<in> {BO_NONE, BO_NOT}) \<and> (\<forall>c \<in> set cs. consistent c)"

definition frame_ok :: "'l check list \<Rightarrow> bool" where
  "frame_ok cs \<longleftrightarrow> (cs \<noteq> [] \<longrightarrow> m_boolop (hd cs) \<in> {BO_NONE, BO_NOT}) \<and> (\<forall>c \<in> set cs. consistent c)"

fun frames_ok :: "(int \<times> 'l check list) list \<Rightarrow> bool" where
  "frames_ok [] \<longleftrightarrow> True"
| "frames_ok [(op, cs)] \<longleftrightarrow> frame_ok cs"
| "frames_ok ((op, cs) # (op2, cs2) # up) \<longleftrightarrow>
     frame_ok cs \<and> (cs2 = [] \<longrightarrow> op \<in> {BO_NONE, BO_NOT}) \<and> frames_ok ((op2, cs2) # up)"

lemma frame_ok_snoc: "frame_ok (cs @ [c]) \<longleftrightarrow> frame_ok cs \<and> (cs = [] \<longrightarrow> m_boolop c \<in> {BO_NONE, BO_NOT}) \<and> consistent c"
  by (cases cs) (auto simp: frame_ok_def)

lemma frames_ok_snoc:
  "frames_ok ((op, cs @ [c]) # up) \<longleftrightarrow>
     frames_ok ((op, cs) # up) \<and> (cs = [] \<longrightarrow> m_boolop c \<in> {BO_NONE, BO_NOT}) \<and> consistent c"
  by (cases up; cases cs) (auto simp: frame_ok_def)

definition filter_ok :: "'l gen_event_filter \<Rightarrow> int \<Rightarrow> bool" where
  "filter_ok f nest \<longleftrightarrow> int (length (m_open f)) = nest + 1 \<and> frames_ok (m_open f)"

definition cur_empty :: "'l gen_event_filter \<Rightarrow> bool" where
  "cur_empty f \<longleftrightarrow> (\<exists>op up. m_open f = (op, []) # up)"

definition compiler_ok :: "compiler \<Rightarrow> bool" where
  "compiler_ok st \<longleftrightarrow>
     filter_ok (m_filter st) (m_nest_level st) \<and>
     (cur_empty (m_filter st) \<longrightarrow> m_last_boolop st \<in> {BO_NONE, BO_NOT} \<and> m_state st = ST_NEED_EXPRESSION)"

definition moved :: "compiler \<Rightarrow> compiler \<Rightarrow> bool" where
  "moved st st' \<longleftrightarrow> (\<exists>p. st' = st\<lparr>m_scanpos := p\<rparr>)"

lemma moved_scan: "moved st (snd (scan_next st))" "scan_next st = (c, st') \<Longrightarrow> moved st st'"
  by (auto simp: moved_def scan_next_def Let_def)

lemma moved_skip: "skip_blanks st = Inr st' \<Longrightarrow> moved st st'"
  by (auto simp: skip_blanks_def bindE_Inr moved_scan(1) split: if_splits) (auto simp: moved_def intro: exI [of _ "m_scanpos st"])

lemma moved_trans: "moved st st' \<Longrightarrow> moved st' st'' \<Longrightarrow> moved st st''"
  by (auto simp: moved_def)

lemma moved_operand: "next_operand first inc st = Inr (v, st') \<Longrightarrow> moved st st'"
  by (auto simp: next_operand_def bindE_Inr Let_def dest!: moved_skip) (auto simp: moved_def)

lemma moved_operator: "next_comparison_operator st = Inr (co, st') \<Longrightarrow> moved st st'"
  by (auto simp: next_comparison_operator_def bindE_Inr throw_def split: option.splits dest!: moved_skip) (auto simp: moved_def)

lemma moved_fields:
  "moved st st' \<Longrightarrow> m_filter st' = m_filter st \<and> m_nest_level st' = m_nest_level st \<and> m_last_boolop st' = m_last_boolop st \<and>
     m_state st' = m_state st \<and> m_fltstr st' = m_fltstr st \<and> m_ttable_only st' = m_ttable_only st"
  by (auto simp: moved_def)

lemma add_check_ok:
  assumes "filter_op (add_check (Check op l)) st = Inr st'" and "filter_ok (m_filter st) n"
    and "cur_empty (m_filter st) \<longrightarrow> op \<in> {BO_NONE, BO_NOT}"
  shows "filter_ok (m_filter st') n \<and> \<not> cur_empty (m_filter st') \<and> m_nest_level st' = m_nest_level st \<and>
    m_last_boolop st' = m_last_boolop st \<and> m_state st' = m_state st"
proof -
  obtain o1 cs up where o: "m_open (m_filter st) = (o1, cs) # up"
      "st' = st\<lparr>m_filter := (m_filter st)\<lparr>m_open := (o1, cs @ [Check op l]) # up\<rparr>\<rparr>"
    using assms(1) by (auto simp: filter_op_def add_check_def throw_def split: sum.splits list.splits)
  then show ?thesis
    using assms(2,3) by (auto simp: filter_ok_def cur_empty_def frames_ok_snoc)
qed

lemma open_bracket_ok:
  assumes "open_bracket op st = Inr st'" and "filter_ok (m_filter st) (m_nest_level st)"
    and "cur_empty (m_filter st) \<longrightarrow> op \<in> {BO_NONE, BO_NOT}"
  shows "filter_ok (m_filter st') (m_nest_level st') \<and> m_last_boolop st' = BO_NONE \<and> m_state st' = m_state st"
proof -
  obtain o1 cs up where o: "m_open (m_filter st) = (o1, cs) # up"
      "st' = st\<lparr>m_filter := (m_filter st)\<lparr>m_open := (op, []) # (o1, cs) # up\<rparr>, m_last_boolop := BO_NONE,
         m_nest_level := m_nest_level st + 1\<rparr>"
    using assms(1)
    by (auto simp: open_bracket_def bindE_Inr filter_op_def push_expression_def throw_def split: sum.splits list.splits)
  then show ?thesis using assms(2,3) by (auto simp: filter_ok_def cur_empty_def frame_ok_def)
qed

lemma close_bracket_ok:
  assumes "close_bracket st = Inr st'" and "filter_ok (m_filter st) (m_nest_level st)"
  shows "filter_ok (m_filter st') (m_nest_level st') \<and> \<not> cur_empty (m_filter st') \<and>
    m_last_boolop st' = m_last_boolop st \<and> m_state st' = m_state st"
proof -
  obtain op cs up where o: "m_open (m_filter st) = (op, cs) # up" and g: "get_expr_boolop op cs \<noteq> -1"
    and "up = [] \<and> st' = st\<lparr>m_filter := (m_filter st)\<lparr>m_open := [], m_root := cs\<rparr>, m_nest_level := m_nest_level st - 1\<rparr> \<or>
      (\<exists>op2 cs2 up2. up = (op2, cs2) # up2 \<and>
        st' = st\<lparr>m_filter := (m_filter st)\<lparr>m_open := (op2, cs2 @ [Expr op cs]) # up2\<rparr>, m_nest_level := m_nest_level st - 1\<rparr>)"
    using assms(1)
    by (auto simp: close_bracket_def bindE_Inr filter_op_def pop_expression_def throw_def split: sum.splits list.splits if_splits)
  moreover have "frame_ok cs" using assms(2) o by (cases up) (auto simp: filter_ok_def)
  ultimately show ?thesis
    using assms(2) by (auto simp: filter_ok_def cur_empty_def frames_ok_snoc frame_ok_def)
qed

lemma in_checks_ok:
  "in_checks fuel env field op st = Inr st' \<Longrightarrow> filter_ok (m_filter st) (m_nest_level st) \<Longrightarrow>
    (cur_empty (m_filter st) \<longrightarrow> op \<in> {BO_NONE, BO_NOT}) \<Longrightarrow>
    filter_ok (m_filter st') (m_nest_level st') \<and> m_last_boolop st' = m_last_boolop st \<and> m_state st' = m_state st"
proof (induction fuel arbitrary: op st)
  case (Suc fuel)
  obtain v st1 st2 c l where o: "next_operand False True st = Inr (v, st1)"
    and f: "filter_op (add_check (Check op l)) st1 = Inr st2"
    and c: "cur (snd (scan_next st2)) = Inr c"
    and alt: "c = CHR '')'' \<and> st' = snd (scan_next st2) \<or> c = CHR '','' \<and>
      in_checks fuel env field BO_OR (advance 1 (snd (scan_next st2))) = Inr st'"
    using Suc.prems(1) by (auto simp: in_checks.simps bindE_Inr throw_def Let_def split: if_splits)
  note m = moved_fields [OF moved_operand [OF o]] moved_fields [OF moved_scan(1) [of st2]]
  have "filter_ok (m_filter st2) (m_nest_level st2) \<and> \<not> cur_empty (m_filter st2) \<and>
      m_last_boolop st2 = m_last_boolop st \<and> m_state st2 = m_state st"
    using add_check_ok [OF f, of "m_nest_level st"] Suc.prems(2,3) m by simp
  then show ?case using alt m by (auto dest!: Suc.IH)
qed (simp add: in_checks.simps throw_def)

lemma moved_values: "in_values fuel env field co vals st = Inr (vals', st') \<Longrightarrow> moved st st'"
proof (induction fuel arbitrary: vals st)
  case (Suc fuel)
  obtain v st1 c where o: "next_operand False True st = Inr (v, st1)" and c: "cur (snd (scan_next st1)) = Inr c"
    and alt: "c = CHR '')'' \<and> st' = snd (scan_next st1) \<or> c = CHR '','' \<and>
      in_values fuel env field co (vals @ [v]) (advance 1 (snd (scan_next st1))) = Inr (vals', st')"
    using Suc.prems by (auto simp: in_values.simps bindE_Inr throw_def Let_def split: if_splits)
  have "moved st (snd (scan_next st1))" "moved st (advance 1 (snd (scan_next st1)))"
    using moved_operand [OF o] moved_scan(1) [of st1] by (auto simp: moved_def)
  then show ?case using alt by (auto dest!: Suc.IH intro: moved_trans)
qed (simp add: in_values.simps throw_def)

text \<open>The state after an operand: the current expression has a check.\<close>

definition operand_added :: "compiler \<Rightarrow> compiler \<Rightarrow> bool" where
  "operand_added st st' \<longleftrightarrow>
     filter_ok (m_filter st') (m_nest_level st') \<and> \<not> cur_empty (m_filter st') \<and> m_state st' = m_state st"

lemma parse_in_ok:
  assumes "parse_in env field co op st = Inr st'" and "filter_ok (m_filter st) (m_nest_level st)"
    and "cur_empty (m_filter st) \<longrightarrow> op \<in> {BO_NONE, BO_NOT}"
  shows "operand_added st st'"
proof -
  obtain st1 fuel where s: "skip_blanks st = Inr st1"
    and alt: "(\<exists>vals st2 l. in_values fuel env field co [] (advance 1 st1) = Inr (vals, st2) \<and>
        filter_op (add_check (Check op l)) st2 = Inr st') \<or>
      (\<exists>st2 st3. open_bracket op (advance 1 st1) = Inr st2 \<and> in_checks fuel env field BO_NONE st2 = Inr st3 \<and>
        close_bracket st3 = Inr st')"
    using assms(1) by (auto simp: parse_in_def bindE_Inr throw_def Let_def split: if_splits) blast+
  note m = moved_fields [OF moved_skip [OF s]]
  from alt show ?thesis
  proof (elim disjE exE conjE)
    fix vals st2 l assume "in_values fuel env field co [] (advance 1 st1) = Inr (vals, st2)"
      and a: "filter_op (add_check (Check op l)) st2 = Inr st'"
    then have "moved (advance 1 st1) st2" by (auto dest: moved_values)
    then show ?thesis
      using add_check_ok [OF a, of "m_nest_level st"] m assms(2,3) by (auto simp: operand_added_def dest!: moved_fields)
  next
    fix st2 st3 assume o: "open_bracket op (advance 1 st1) = Inr st2"
      and i: "in_checks fuel env field BO_NONE st2 = Inr st3" and c: "close_bracket st3 = Inr st'"
    show ?thesis
      using close_bracket_ok [OF c] in_checks_ok [OF i] open_bracket_ok [OF o] m assms(2,3)
      by (auto simp: operand_added_def)
  qed
qed

lemma parse_comparison_ok:
  assumes "parse_comparison env field op st = Inr st'" and "filter_ok (m_filter st) (m_nest_level st)"
    and "cur_empty (m_filter st) \<longrightarrow> op \<in> {BO_NONE, BO_NOT}"
  shows "operand_added st st'"
proof -
  obtain co st1 where c: "next_comparison_operator st = Inr (co, st1)"
    and alt: "parse_in env field co op st1 = Inr st' \<or>
      (\<exists>l st2. moved st1 st2 \<and> filter_op (add_check (Check op l)) st2 = Inr st')"
    using assms(1) by (auto simp: parse_comparison_def bindE_Inr throw_def split: if_splits dest: moved_operand) (auto simp: moved_def)
  note m = moved_fields [OF moved_operator [OF c]]
  from alt show ?thesis
  proof (elim disjE exE conjE)
    assume "parse_in env field co op st1 = Inr st'"
    then show ?thesis using parse_in_ok [of env field co op st1 st'] m assms(2,3) by (simp add: operand_added_def)
  next
    fix l st2 assume "moved st1 st2" and a: "filter_op (add_check (Check op l)) st2 = Inr st'"
    then show ?thesis
      using add_check_ok [OF a, of "m_nest_level st"] m assms(2,3) by (auto simp: operand_added_def dest!: moved_fields)
  qed
qed

lemma parse_operand_ok:
  assumes "parse_operand env st = Inr st'" and "compiler_ok st"
  shows "compiler_ok st'"
proof -
  obtain st0 v st1 field where 0: "st' = st0\<lparr>m_state := ST_EXPRESSION_DONE\<rparr>"
    and 1: "next_operand True False st = Inr (v, st1)" and 2: "parse_comparison env field (m_last_boolop st1) st1 = Inr st0"
    using assms(1)
    by (auto simp: parse_operand_def parse_check_def bindE_Inr throw_def Let_def split: option.splits if_splits)
  from parse_comparison_ok [OF 2] moved_fields [OF moved_operand [OF 1]] assms(2) show ?thesis
    by (auto simp: compiler_ok_def operand_added_def 0)
qed

lemma keyword_ok:
  "compiler_ok st \<Longrightarrow> parse_or st = Inr st' \<Longrightarrow> compiler_ok st'"
  "compiler_ok st \<Longrightarrow> parse_and st = Inr st' \<Longrightarrow> compiler_ok st'"
  "compiler_ok st \<Longrightarrow> parse_not st = Inr st' \<Longrightarrow> compiler_ok st'"
  by (auto simp: parse_or_def parse_and_def parse_not_def compiler_ok_def boolop_defs throw_def Let_def
      split: prod.splits if_splits dest!: moved_scan(2) moved_fields)

lemma compile_char_ok:
  assumes "compile_char env a st = Inr st'" and "compiler_ok st"
  shows "compiler_ok st'"
proof -
  consider (opened) "open_bracket (m_last_boolop st) st = Inr st'" "m_state st = ST_NEED_EXPRESSION"
    | (closed) "close_bracket st = Inr st'" | (oper) "parse_operand env st = Inr st'"
    | (key) "parse_or st = Inr st' \<or> parse_and st = Inr st' \<or> parse_not st = Inr st'"
    using assms(1) by (auto simp: compile_char_def throw_def split: if_splits)
  then show ?thesis
  proof cases
    case opened
    then show ?thesis using open_bracket_ok [OF opened(1)] assms(2) by (auto simp: compiler_ok_def)
  next
    case closed
    then show ?thesis using close_bracket_ok [OF closed] assms(2) by (auto simp: compiler_ok_def)
  qed (use parse_operand_ok keyword_ok assms(2) in blast)+
qed

lemma compile_loop_ok:
  "compile_loop fuel env uninit st = Inr f \<Longrightarrow> compiler_ok st \<Longrightarrow>
    filter_ok f 0 \<and> get_expr_boolop uninit (root_checks f) \<noteq> -1 \<and> root_checks f \<noteq> []"
proof (induction fuel arbitrary: st)
  case (Suc fuel)
  obtain a st1 where a: "scan_next st = (a, st1)" by fastforce
  have ok: "compiler_ok st1" using Suc.prems(2) moved_fields [OF moved_scan(2) [OF a]] by (simp add: compiler_ok_def)
  show ?case
  proof (cases "a = CHR 0x00")
    case True
    then have e: "f = m_filter st1" "m_nest_level st1 = 0" "m_state st1 = ST_EXPRESSION_DONE"
        "get_expr_boolop uninit (root_checks f) \<noteq> -1"
      using Suc.prems(1) a by (auto simp: end_of_filter_def throw_def split: if_splits)
    then obtain op cs where "m_open f = [(op, cs)]" "cs \<noteq> []"
      using ok by (cases "m_open f") (auto simp: compiler_ok_def filter_ok_def cur_empty_def)
    then show ?thesis using ok e by (simp add: compiler_ok_def root_checks_def)
  next
    case False
    then obtain st2 where "compile_char env a st1 = Inr st2" "compile_loop fuel env uninit st2 = Inr f"
      using Suc.prems(1) a by (auto simp: bindE_Inr)
    then show ?thesis using Suc.IH compile_char_ok ok by blast
  qed
qed (simp add: throw_def)

lemma compile_ok:
  assumes "compile env uninit tt s = Inr f"
  shows "consistent (Expr uninit (root_checks f)) \<and> root_checks f \<noteq> []"
proof -
  have "compiler_ok (new_compiler uninit tt s)"
    by (auto simp: compiler_ok_def new_compiler_def new_filter_def filter_ok_def frame_ok_def)
  with assms have *: "filter_ok f 0" "get_expr_boolop uninit (root_checks f) \<noteq> -1" "root_checks f \<noteq> []"
    using compile_loop_ok unfolding compile_def by blast+
  then obtain op cs where "m_open f = [(op, cs)]" by (auto simp: filter_ok_def length_Suc_conv)
  with * show ?thesis by (auto simp: filter_ok_def root_checks_def frame_ok_def)
qed

lemma compile_balanced: "compile env uninit tt s = Inr f \<Longrightarrow> length (m_open f) = 1"
proof -
  have "compiler_ok (new_compiler uninit tt s)"
    by (auto simp: compiler_ok_def new_compiler_def new_filter_def filter_ok_def frame_ok_def)
  moreover assume "compile env uninit tt s = Inr f"
  ultimately have "filter_ok f 0" using compile_loop_ok unfolding compile_def by blast
  then show ?thesis by (simp add: filter_ok_def)
qed

lemma no_intersects: "next_comparison_operator st \<noteq> Inr (CO_INTERSECTS, st')"
proof -
  have pre: "compare_no_consume st1 ''intersects'' \<Longrightarrow> compare_no_consume st1 ''in''" for st1
  proof -
    assume a: "compare_no_consume st1 ''intersects''"
    define r where "r = drop (nat (m_scanpos st1)) (m_fltstr st1)"
    have t: "take (length ''intersects'') r = ''intersects''" using a unfolding compare_no_consume_def r_def by blast
    have "take (length ''in'') r = take (length ''in'') (take (length ''intersects'') r)" by simp
    also have "\<dots> = ''in''" unfolding t by simp
    finally show "compare_no_consume st1 ''in''" using a unfolding compare_no_consume_def r_def by simp
  qed
  have "find (\<lambda>(str, co). compare_no_consume st1 str) comparison_operators \<noteq> Some (str, CO_INTERSECTS)" for st1 str
    using pre [of st1] by (auto simp: comparison_operators_def split: if_splits)
  then show ?thesis by (auto simp: next_comparison_operator_def bindE_Inr throw_def split: option.splits)
qed

section \<open>A concrete check list\<close>

definition demo_checks :: check_env where
  "demo_checks = \<lparr>m_check_list = [\<lambda>name. if name \<in> {''proc.name'', ''evt.num''} then int (length name) else -1],
     works_on_thread_table = \<lambda>_. False, is_charbuf = \<lambda>f. f = ''proc.name'', field_parses = \<lambda>_. True,
     value_parses = \<lambda>_ _ _ _. True\<rparr>"

section \<open>Properties\<close>

text \<open>
  C10. The compiler ends on every filter string, well-formed or not: with one iteration for each
  character and two more its main loop has ended, in a filter or in an error, and so have the loops over
  the values of \<open>in\<close> clauses; more iterations change nothing.
\<close>

theorem compile_terminates:
  assumes "length fltstr + 2 \<le> fuel"
  shows "compile_loop fuel env uninit (new_compiler uninit tt fltstr) = compile env uninit tt fltstr \<and>
    (\<forall>pos. compile env uninit tt fltstr \<noteq> Inl (Out_Of_Fuel, pos))"
proof -
  have "ends (compile env uninit tt fltstr)"
    unfolding compile_def by (intro ends_compile_loop) (simp_all add: new_compiler_def)
  then show ?thesis
    using compile_loop_more_fuel [OF _ assms, of env uninit] by (auto simp: ends_def compile_def)
qed

theorem compile_terminates_witness:
  "compile_loop 40 demo_checks 0 (new_compiler 0 False ''((evt.num in'') = compile demo_checks 0 False ''((evt.num in'' \<and>
    (\<forall>pos. compile demo_checks 0 False ''((evt.num in'' \<noteq> Inl (Out_Of_Fuel, pos))"
  by (rule compile_terminates) simp



text \<open>
  C13. The operator \<open>intersects\<close> is never recognised: \<open>in\<close> is tried first and is a prefix of it.
\<close>

theorem intersects_unreachable:
  "next_comparison_operator st \<noteq> Inr (CO_INTERSECTS, st')"
  by (rule no_intersects)


end
