(* ===== verification/Filter_Syntax.thy ===== *)
theory Filter_Syntax
  imports Filter_Compiler
begin

text \<open>
  The language of filters: an abstract syntax, its printer, its meaning, and the proof that compiling a
  printed filter gives a filter that decides that meaning.  Values are printed in double quotes, with
  backslashes and quotes escaped so that any string can be a value.
\<close>

section \<open>Abstract syntax\<close>

datatype fexp = Test string cmpop string | Exists string | Among string "string list"
  | Group bool "(bool \<times> fexp) list"

definition escape_char :: "char \<Rightarrow> string" where
  "escape_char c =
     (if c = CHR 0x22 \<or> c = CHR 0x5C then [CHR 0x5C, c]
      else if c = CHR 0x27 then CHR 0x5C # ''x27''
      else [c])"

definition quote :: "string \<Rightarrow> string" where
  "quote v = CHR 0x22 # concat (map escape_char v) @ [CHR 0x22]"

definition op_text :: "cmpop \<Rightarrow> string" where
  "op_text co = (case find (\<lambda>(str, c). c = co) comparison_operators of Some (str, c) \<Rightarrow> str | None \<Rightarrow> [])"

fun sep_values :: "string list \<Rightarrow> string" where
  "sep_values [] = []"
| "sep_values [v] = quote v"
| "sep_values (v # vs) = quote v @ CHR '','' # sep_values vs"

text \<open>\<open>Group True\<close> joins with \<open>and\<close>, \<open>Group False\<close> with \<open>or\<close>; an item is negated when its flag is set.\<close>

fun print_exp :: "fexp \<Rightarrow> string" and print_items :: "bool \<Rightarrow> (bool \<times> fexp) list \<Rightarrow> string" where
  "print_exp (Test f co v) = f @ CHR '' '' # op_text co @ CHR '' '' # quote v"
| "print_exp (Exists f) = f @ '' exists''"
| "print_exp (Among f vs) = f @ '' in ('' @ sep_values vs @ '')''"
| "print_exp (Group cj items) = CHR ''('' # print_items cj items @ '')''"
| "print_items cj [] = []"
| "print_items cj ((neg, e) # items) =
     (if neg then ''not '' else []) @ print_exp e @
     (if items = [] then [] else if cj then '' and '' else '' or '') @ print_items cj items"

fun print_filter :: "fexp \<Rightarrow> string" where
  "print_filter (Group cj items) = print_items cj items"
| "print_filter e = print_exp e"

fun meaning :: "check_env \<Rightarrow> (filter_check \<Rightarrow> bool) \<Rightarrow> fexp \<Rightarrow> bool" where
  "meaning env cmp (Test f co v) = cmp \<lparr>chk_field = f, chk_cmpop = co, chk_values = [v]\<rparr>"
| "meaning env cmp (Exists f) = cmp \<lparr>chk_field = f, chk_cmpop = CO_EXISTS, chk_values = []\<rparr>"
| "meaning env cmp (Among f vs) =
     (if is_charbuf env f then cmp \<lparr>chk_field = f, chk_cmpop = CO_IN, chk_values = vs\<rparr>
      else \<exists>v \<in> set vs. cmp \<lparr>chk_field = f, chk_cmpop = CO_EQ, chk_values = [v]\<rparr>)"
| "meaning env cmp (Group cj items) =
     (if cj then \<forall>(neg, e) \<in> set items. meaning env cmp e \<noteq> neg
      else \<exists>(neg, e) \<in> set items. meaning env cmp e \<noteq> neg)"

text \<open>
  Fields the check list knows, spelled without blanks and special characters; a field that starts with
  the letter \<open>n\<close> cannot be written in a filter, since the compiler takes the letter for \<open>not\<close>.
\<close>

definition field_ok :: "check_env \<Rightarrow> string \<Rightarrow> bool" where
  "field_ok env f \<longleftrightarrow>
     f \<noteq> [] \<and> list_all (\<lambda>c. \<not> is_blank c \<and> \<not> is_special_char c \<and> c \<noteq> CHR 0x00) f \<and>
     hd f \<notin> {CHR ''n'', CHR 0x22, CHR 0x27} \<and>
     new_filter_check_from_fldname env f True \<noteq> None \<and> field_parses env f"

definition binary_ops :: "cmpop set" where
  "binary_ops = {CO_EQ, CO_NE, CO_LT, CO_LE, CO_GT, CO_GE, CO_CONTAINS, CO_ICONTAINS, CO_STARTSWITH, CO_ENDSWITH, CO_GLOB}"

fun writable :: "check_env \<Rightarrow> fexp \<Rightarrow> bool" where
  "writable env (Test f co v) \<longleftrightarrow> field_ok env f \<and> co \<in> binary_ops \<and> value_parses env f co v 0"
| "writable env (Exists f) \<longleftrightarrow> field_ok env f"
| "writable env (Among f vs) \<longleftrightarrow> field_ok env f \<and> vs \<noteq> [] \<and>
     (if is_charbuf env f then \<forall>i < length vs. value_parses env f CO_IN (vs ! i) i
      else \<forall>v \<in> set vs. value_parses env f CO_EQ v 0)"
| "writable env (Group cj items) \<longleftrightarrow> items \<noteq> [] \<and> (\<forall>(neg, e) \<in> set items. writable env e)"

text \<open>The checks that a filter is compiled to.\<close>

definition join_op :: "bool \<Rightarrow> bool \<Rightarrow> int" where
  "join_op cj neg = (if cj then if neg then BO_ANDNOT else BO_AND else if neg then BO_ORNOT else BO_OR)"

definition first_op :: "bool \<Rightarrow> int" where
  "first_op neg = (if neg then BO_NOT else BO_NONE)"

definition eq_check :: "string \<Rightarrow> int \<Rightarrow> string \<Rightarrow> filter_check check" where
  "eq_check f op v = Check op \<lparr>chk_field = f, chk_cmpop = CO_EQ, chk_values = [v]\<rparr>"

fun to_check :: "check_env \<Rightarrow> int \<Rightarrow> fexp \<Rightarrow> filter_check check" where
  "to_check env op (Test f co v) = Check op \<lparr>chk_field = f, chk_cmpop = co, chk_values = [v]\<rparr>"
| "to_check env op (Exists f) = Check op \<lparr>chk_field = f, chk_cmpop = CO_EXISTS, chk_values = []\<rparr>"
| "to_check env op (Among f vs) =
     (if is_charbuf env f then Check op \<lparr>chk_field = f, chk_cmpop = CO_IN, chk_values = vs\<rparr>
      else Expr op (case vs of [] \<Rightarrow> [] | v # vs' \<Rightarrow> eq_check f BO_NONE v # map (eq_check f BO_OR) vs'))"
| "to_check env op (Group cj items) =
     Expr op (case items of [] \<Rightarrow> [] | (neg, e) # items' \<Rightarrow>
       to_check env (first_op neg) e # map (\<lambda>(neg, e). to_check env (join_op cj neg) e) items')"

definition to_checks :: "check_env \<Rightarrow> bool \<Rightarrow> (bool \<times> fexp) list \<Rightarrow> filter_check check list" where
  "to_checks env cj items = (case items of [] \<Rightarrow> [] | (neg, e) # items' \<Rightarrow>
     to_check env (first_op neg) e # map (\<lambda>(neg, e). to_check env (join_op cj neg) e) items')"

lemma to_check_op [simp]: "m_boolop (to_check env op e) = op"
  by (cases e) auto

section \<open>Positions\<close>

definition at :: "compiler \<Rightarrow> string \<Rightarrow> bool" where
  "at st r \<longleftrightarrow> 0 \<le> m_scanpos st \<and> m_scanpos st \<le> m_scansize st \<and> drop (nat (m_scanpos st)) (m_fltstr st) = r"

abbreviation before :: "compiler \<Rightarrow> string \<Rightarrow> bool" where
  "before st r \<equiv> at (advance 1 st) r"

lemma at_app: "at st (xs @ r) \<Longrightarrow> at (advance (int (length xs)) st) r"
proof -
  assume a: "at st (xs @ r)"
  then have "length xs + length r = length (m_fltstr st) - nat (m_scanpos st)"
    unfolding at_def by (metis length_append length_drop)
  then show ?thesis
    using a by (auto simp: at_def nat_add_distrib drop_drop [symmetric] add.commute simp del: drop_drop)
qed

lemma at_Cons: "at st (c # r) \<Longrightarrow> before st r"
  using at_app [of st "[c]" r] by simp

lemma at_nth:
  assumes "at st (c # r)"
  shows "m_scanpos st < m_scansize st" "m_fltstr st ! nat (m_scanpos st) = c"
proof -
  have d: "drop (nat (m_scanpos st)) (m_fltstr st) = c # r" and p: "0 \<le> m_scanpos st" using assms by (auto simp: at_def)
  have "nat (m_scanpos st) < length (m_fltstr st)" using d by (metis drop_all not_less list.distinct(1))
  then show "m_scanpos st < m_scansize st" "m_fltstr st ! nat (m_scanpos st) = c"
    using d p by (auto simp: hd_drop_conv_nth [symmetric])
qed

lemma at_cur [simp]: "at st (c # r) \<Longrightarrow> cur st = Inr c"
  using at_nth [of st c r] by (auto simp: cur_def at_def)

lemma scan_one:
  assumes "before st (c # r)" and "\<not> is_blank c"
  shows "scan_next st = (c, advance 1 st)"
  using at_nth [OF assms(1)] assms(2)
  by (simp add: scan_next_def next_pos.simps [of "m_fltstr st" "m_scanpos st"] Let_def)

lemma scan_two:
  assumes "before st (b # c # r)" and "is_blank b" and "\<not> is_blank c"
  shows "scan_next st = (c, advance 2 st)"
proof -
  have "before (advance 1 st) (c # r)" using at_Cons [OF assms(1)] by simp
  note one = scan_one [OF this assms(3)]
  have "next_pos (m_fltstr st) (m_scanpos st) = next_pos (m_fltstr st) (m_scanpos st + 1)"
    using at_nth [OF assms(1)] assms(2) by (subst next_pos.simps) (simp add: Let_def)
  then have "scan_next st = scan_next (advance 1 st)" by (simp add: scan_next_def Let_def)
  then show ?thesis using one by simp
qed

lemma skip_none [simp]: "at st (c # r) \<Longrightarrow> \<not> is_blank c \<Longrightarrow> skip_blanks st = Inr st"
  by (simp add: skip_blanks_def)

lemma skip_one:
  assumes "at st (b # c # r)" and "is_blank b" and "\<not> is_blank c"
  shows "skip_blanks st = Inr (advance 1 st)"
  using assms scan_one [OF at_Cons [OF assms(1)]] by (simp add: skip_blanks_def)

section \<open>Operands and operators\<close>

lemma drop_step:
  assumes "drop (nat pos) s = c # r" and "0 \<le> pos"
  shows "pos < int (length s)" "s ! nat pos = c" "drop (nat (pos + 1)) s = r"
proof -
  have "nat pos < length s" using assms(1) by (metis drop_all not_less list.distinct(1))
  then show "pos < int (length s)" "s ! nat pos = c"
    using assms by (auto simp: hd_drop_conv_nth [symmetric])
  have "drop (nat (pos + 1)) s = tl (drop (nat pos) s)"
    using assms(2) by (simp add: nat_add_distrib drop_Suc tl_drop)
  then show "drop (nat (pos + 1)) s = r" using assms(1) by simp
qed

lemma drop_app:
  assumes "drop (nat pos) s = xs @ r" and "0 \<le> pos"
  shows "drop (nat (pos + int (length xs))) s = r"
proof -
  have "drop (length xs) (drop (nat pos) s) = r" using assms(1) by simp
  then show ?thesis using assms(2) by (simp add: nat_add_distrib add.commute)
qed

lemma loop_step:
  assumes "drop (nat pos) s = c # r" and "0 \<le> pos" and "\<not> is_end_of_word first inc quoted (fst w) c" and "fst w \<noteq> PES_ERROR"
  shows "operand_loop first inc quoted s pos w = operand_loop first inc quoted s (pos + 1) (operand_step first c w)"
  using drop_step [OF assms(1,2)] assms(3,4) by (subst operand_loop.simps) (simp add: Let_def)

lemma loop_end:
  assumes "drop (nat pos) s = c # r" and "0 \<le> pos" and "is_end_of_word first inc quoted PES_NORMAL c"
    and "\<not> is_bracket c" and "c \<noteq> CHR '',''"
  shows "operand_loop first inc quoted s pos (PES_NORMAL, nums, res) = Inr (pos, res)"
  using drop_step [OF assms(1,2)] assms(3-) by (subst operand_loop.simps) (auto simp: Let_def is_bracket_def)

lemma field_operand:
  assumes "list_all (\<lambda>c. \<not> is_blank c \<and> \<not> is_special_char c \<and> c \<noteq> CHR 0x00) f" and "is_blank b"
    and "drop (nat pos) s = f @ b # r" and "0 \<le> pos"
  shows "operand_loop True False False s pos (PES_NORMAL, [], res) = Inr (pos + int (length f), res @ f)"
  using assms
proof (induction f arbitrary: pos res)
  case Nil
  then show ?case
    by (subst loop_end [of pos s b r]) (auto simp: is_end_of_word_def is_blank_def is_bracket_def)
next
  case (Cons c f)
  have d: "drop (nat pos) s = c # (f @ b # r)" using Cons.prems(3) by simp
  have "operand_loop True False False s pos (PES_NORMAL, [], res) =
      operand_loop True False False s (pos + 1) (PES_NORMAL, [], res @ [c])"
    using Cons.prems by (subst loop_step [OF d]) (simp_all add: is_end_of_word_def operand_step_def)
  then show ?case using Cons.IH [OF _ _ drop_step(3) [OF d]] Cons.prems by simp
qed

lemma escaped_char:
  assumes "drop (nat pos) s = escape_char c @ r" and "0 \<le> pos"
  shows "operand_loop False inc True s pos (PES_NORMAL, [], res) =
    operand_loop False inc True s (pos + int (length (escape_char c))) (PES_NORMAL, [], res @ [c])"
proof -
  note [simp] = is_end_of_word_def operand_step_def escape_char_def xdigit_def
  consider (esc) "c = CHR 0x22 \<or> c = CHR 0x5C" | (single) "c = CHR 0x27"
    | (plain) "c \<noteq> CHR 0x22" "c \<noteq> CHR 0x5C" "c \<noteq> CHR 0x27" by blast
  then show ?thesis
  proof cases
    case esc
    then have d: "drop (nat pos) s = CHR 0x5C # c # r" using assms(1) by auto
    note d2 = drop_step(3) [OF d assms(2)]
    show ?thesis
      using esc assms(2) loop_step [OF d assms(2), of False inc True "(PES_NORMAL, [], res)"]
        loop_step [OF d2, of False inc True "(PES_SLASH, [], res)"]
      by (auto simp: add.assoc)
  next
    case single
    then have d: "drop (nat pos) s = CHR 0x5C # CHR ''x'' # CHR ''2'' # CHR ''7'' # r" using assms(1) by simp
    note d2 = drop_step(3) [OF d assms(2)]
    have d3: "drop (nat (pos + 2)) s = CHR ''2'' # CHR ''7'' # r" using drop_step(3) [OF d2] assms(2) by (simp add: add.assoc)
    have d4: "drop (nat (pos + 3)) s = CHR ''7'' # r" using drop_step(3) [OF d3] assms(2) by (simp add: add.assoc)
    have "(char_of (39 :: nat) :: char) = CHR 0x27" by code_simp
    then show ?thesis
      using single assms(2) loop_step [OF d assms(2), of False inc True "(PES_NORMAL, [], res)"]
        loop_step [OF d2, of False inc True "(PES_SLASH, [], res)"]
        loop_step [OF d3, of False inc True "(PES_NUMBER, [], res)"]
        loop_step [OF d4, of False inc True "(PES_NUMBER, [2], res)"]
      by (auto simp: add.assoc)
  next
    case plain
    then have d: "drop (nat pos) s = c # r" using assms(1) by simp
    show ?thesis using plain assms(2) loop_step [OF d assms(2), of False inc True "(PES_NORMAL, [], res)"] by auto
  qed
qed

lemma quoted_operand:
  assumes "drop (nat pos) s = concat (map escape_char v) @ CHR 0x22 # r" and "0 \<le> pos"
  shows "operand_loop False inc True s pos (PES_NORMAL, [], res) =
    Inr (pos + int (length (concat (map escape_char v))), res @ v)"
  using assms
proof (induction v arbitrary: pos res)
  case Nil
  then show ?case
    by (subst loop_end [of pos s "CHR 0x22" r]) (auto simp: is_end_of_word_def is_bracket_def)
next
  case (Cons c v)
  have d: "drop (nat pos) s = escape_char c @ (concat (map escape_char v) @ CHR 0x22 # r)" using Cons.prems(1) by simp
  then have "drop (nat (pos + int (length (escape_char c)))) s = concat (map escape_char v) @ CHR 0x22 # r"
    using Cons.prems(2) by (rule drop_app)
  from Cons.IH [OF this] escaped_char [OF d Cons.prems(2)] Cons.prems(2) show ?case by (simp add: add.assoc)
qed

lemma next_field:
  assumes "field_ok env f" and "at st (f @ CHR '' '' # r)"
  shows "next_operand True False st = Inr (f, advance (int (length f)) st)" and "at (advance (int (length f)) st) (CHR '' '' # r)"
proof -
  obtain c f' where f: "f = c # f'" using assms(1) by (cases f) (auto simp: field_ok_def)
  have c: "\<not> is_blank c" "c \<notin> {CHR 0x22, CHR 0x27}" using assms(1) f by (auto simp: field_ok_def)
  have a: "at st (c # f' @ CHR '' '' # r)" using assms(2) f by simp
  have "operand_loop True False False (m_fltstr st) (m_scanpos st) (PES_NORMAL, [], []) = Inr (m_scanpos st + int (length f), [] @ f)"
    using assms by (intro field_operand [of _ "CHR '' ''" _ _ r]) (auto simp: field_ok_def at_def is_blank_def)
  then show "next_operand True False st = Inr (f, advance (int (length f)) st)"
    using skip_none [OF a c(1)] at_nth [OF a] c(2) by (simp add: next_operand_def Let_def)
  show "at (advance (int (length f)) st) (CHR '' '' # r)" using at_app [OF assms(2)] .
qed

lemma next_quoted:
  assumes "at st (quote v @ r)"
  shows "\<exists>st'. next_operand False inc st = Inr (v, st') \<and> moved st st' \<and> before st' r"
proof -
  let ?e = "concat (map escape_char v)"
  have a: "at st (CHR 0x22 # ?e @ CHR 0x22 # r)" using assms by (simp add: quote_def)
  have a2: "before st (?e @ CHR 0x22 # r)" by (rule at_Cons [OF a])
  have "operand_loop False inc True (m_fltstr st) (m_scanpos st + 1) (PES_NORMAL, [], []) =
      Inr (m_scanpos st + 1 + int (length ?e), [] @ v)"
    using a2 by (intro quoted_operand [of _ _ _ r]) (auto simp: at_def)
  then have "next_operand False inc st = Inr (v, advance (1 + int (length ?e)) st)"
    using skip_none [OF a] at_nth [OF a] by (simp add: next_operand_def Let_def is_blank_def add.assoc)
  moreover have "before (advance (1 + int (length ?e)) st) r"
    using at_Cons [OF at_app [OF a2]] by (simp add: add.assoc)
  ultimately show ?thesis by (auto simp: moved_def)
qed

lemma next_quoted_blank:
  assumes "at st (CHR '' '' # quote v @ r)"
  shows "\<exists>st'. next_operand False inc st = Inr (v, st') \<and> moved st st' \<and> before st' r"
proof -
  have a: "at (advance 1 st) (quote v @ r)" by (rule at_Cons [OF assms])
  have b: "is_blank CHR '' ''" "\<not> is_blank CHR 0x22" by (simp_all add: is_blank_def)
  have "skip_blanks st = Inr (advance 1 st)"
    using assms b by (intro skip_one [of st "CHR '' ''" "CHR 0x22"]) (simp_all add: quote_def)
  moreover have "skip_blanks (advance 1 st) = Inr (advance 1 st)"
    using a b by (intro skip_none [of _ "CHR 0x22"]) (simp_all add: quote_def)
  ultimately have "next_operand False inc st = next_operand False inc (advance 1 st)"
    by (simp add: next_operand_def)
  then show ?thesis using next_quoted [OF a, of inc] by (auto simp: moved_def)
qed

lemma compare_at:
  assumes "at st r"
  shows "compare_no_consume st str \<longleftrightarrow> take (length str) r = str"
proof -
  have "length r = length (m_fltstr st) - nat (m_scanpos st)" using assms by (auto simp: at_def)
  moreover have "take (length str) r = str \<Longrightarrow> length str \<le> length r" by (metis length_take min.cobounded1 min_def)
  ultimately show ?thesis using assms by (auto simp: compare_no_consume_def at_def)
qed

lemma op_text_simps [simp]:
  "op_text CO_EQ = ''=''" "op_text CO_NE = ''!=''" "op_text CO_LE = ''<=''" "op_text CO_LT = ''<''" "op_text CO_GE = ''>=''"
  "op_text CO_GT = ''>''" "op_text CO_CONTAINS = ''contains''" "op_text CO_ICONTAINS = ''icontains''"
  "op_text CO_STARTSWITH = ''startswith''" "op_text CO_ENDSWITH = ''endswith''" "op_text CO_GLOB = ''glob''"
  "op_text CO_IN = ''in''"
  by code_simp+

lemma operator_found:
  assumes "co \<in> insert CO_IN binary_ops"
  shows "find (\<lambda>(str, c). take (length str) (op_text co @ CHR '' '' # r) = str) comparison_operators = Some (op_text co, co)"
  using assms unfolding binary_ops_def comparison_operators_def
  by (elim insertE emptyE; hypsubst) simp_all

lemma operator_start: "co \<in> insert CO_IN binary_ops \<Longrightarrow> op_text co \<noteq> [] \<and> \<not> is_blank (hd (op_text co))"
  unfolding binary_ops_def is_blank_def by (elim insertE emptyE; hypsubst) simp_all

lemma next_operator:
  assumes "at st (CHR '' '' # op_text co @ CHR '' '' # r)" and "co \<in> insert CO_IN binary_ops"
  shows "\<exists>st'. next_comparison_operator st = Inr (co, st') \<and> moved st st' \<and> at st' (CHR '' '' # r)"
proof -
  have a: "at (advance 1 st) (op_text co @ CHR '' '' # r)" by (rule at_Cons [OF assms(1)])
  note f = operator_found [OF assms(2), of r, folded compare_at [OF a]] and b = operator_start [OF assms(2)]
  have "at st (CHR '' '' # hd (op_text co) # tl (op_text co) @ CHR '' '' # r)" using assms(1) b by (cases "op_text co") auto
  then have "skip_blanks st = Inr (advance 1 st)"
    using b by (intro skip_one) (auto simp: is_blank_def)
  then have "next_comparison_operator st = Inr (co, advance (int (length (op_text co))) (advance 1 st))"
    using f by (simp add: next_comparison_operator_def)
  moreover have "at (advance (int (length (op_text co))) (advance 1 st)) (CHR '' '' # r)" by (rule at_app [OF a])
  ultimately show ?thesis by (auto simp: moved_def)
qed

lemma next_exists:
  assumes "at st ('' exists'' @ r)"
  shows "\<exists>st'. next_comparison_operator st = Inr (CO_EXISTS, st') \<and> moved st st' \<and> at st' r"
proof -
  have a: "at (advance 1 st) (''exists'' @ r)" using at_Cons [of st "CHR '' ''" "''exists'' @ r"] assms by simp
  have "find (\<lambda>(str, c). take (length str) (''exists'' @ r) = str) comparison_operators = Some (''exists'', CO_EXISTS)"
    by (simp add: comparison_operators_def)
  note f = this [folded compare_at [OF a]]
  have "skip_blanks st = Inr (advance 1 st)"
    using assms by (intro skip_one [of st "CHR '' ''" "CHR ''e''" "''xists'' @ r"]) (auto simp: is_blank_def)
  then have "next_comparison_operator st = Inr (CO_EXISTS, advance 6 (advance 1 st))"
    using f by (simp add: next_comparison_operator_def)
  moreover have "at (advance 6 (advance 1 st)) r" using at_app [OF a] by simp
  ultimately show ?thesis by (auto simp: moved_def)
qed

section \<open>Checks\<close>

text \<open>The compiler has added \<open>chk\<close> to the current expression.\<close>

definition added :: "compiler \<Rightarrow> filter_check check \<Rightarrow> compiler \<Rightarrow> bool" where
  "added st chk st' \<longleftrightarrow>
     (\<exists>op cs up. m_open (m_filter st) = (op, cs) # up \<and> m_open (m_filter st') = (op, cs @ [chk]) # up) \<and>
     m_fltstr st' = m_fltstr st \<and> m_nest_level st' = m_nest_level st \<and> m_ttable_only st' = m_ttable_only st"

lemma filter_op_add:
  assumes "m_open (m_filter st) \<noteq> []"
  shows "\<exists>st'. filter_op (add_check chk) st = Inr st' \<and> added st chk st' \<and> m_scanpos st' = m_scanpos st \<and> m_state st' = m_state st"
  using assms by (cases "m_open (m_filter st)") (auto simp: filter_op_def add_check_def added_def)

lemma moved_advance: "moved st (advance n st)"
  unfolding moved_def by blast

lemma at_same: "at st r \<Longrightarrow> m_fltstr st' = m_fltstr st \<Longrightarrow> m_scanpos st' = m_scanpos st \<Longrightarrow> at st' r"
  by (simp add: at_def)

lemma added_moved: "moved st st1 \<Longrightarrow> added st1 chk st2 \<Longrightarrow> added st chk st2"
  by (auto simp: added_def moved_def)

lemma add_after:
  assumes "moved st st1" and "before st1 r" and "m_open (m_filter st) \<noteq> []"
  shows "\<exists>st2. filter_op (add_check chk) st1 = Inr st2 \<and> added st chk st2 \<and> before st2 r \<and> m_state st2 = m_state st"
proof -
  note m = moved_fields [OF assms(1)]
  have "m_open (m_filter st1) \<noteq> []" using assms(3) m by simp
  from filter_op_add [OF this, of chk] obtain st2 where 2: "filter_op (add_check chk) st1 = Inr st2"
      "added st1 chk st2" "m_scanpos st2 = m_scanpos st1" "m_state st2 = m_state st1"
    by blast
  have "m_fltstr st2 = m_fltstr st1" using 2(2) by (simp add: added_def)
  then have "before st2 r" using at_same [OF assms(2), of "advance 1 st2"] 2(3) by simp
  then show ?thesis using 2 added_moved [OF assms(1) 2(2)] m by (intro exI [of _ st2]) simp
qed

lemma known_field:
  "field_ok env f \<Longrightarrow> takeWhile (\<lambda>c. c \<noteq> CHR 0x00) f = f \<and> new_filter_check_from_fldname env f True \<noteq> None \<and> field_parses env f"
  by (auto simp: field_ok_def list_all_iff)

lemma parse_check_field:
  assumes "field_ok env f" and "at st (f @ CHR '' '' # r)" and "\<not> m_ttable_only st"
  shows "\<exists>st'. parse_check env st = parse_comparison env f (m_last_boolop st) st' \<and> moved st st' \<and> at st' (CHR '' '' # r)"
proof -
  obtain j where j: "new_filter_check_from_fldname env f True = Some j" using known_field [OF assms(1)] by blast
  have tw: "takeWhile (\<lambda>c. c \<noteq> CHR 0x00) f = f" using known_field [OF assms(1)] by blast
  have "parse_check env st = parse_comparison env f (m_last_boolop st) (advance (int (length f)) st)"
    unfolding parse_check_def next_field(1) [OF assms(1,2)] using assms(3) by (simp add: tw j)
  then show ?thesis using next_field(2) [OF assms(1,2)] moved_advance by blast
qed

lemma parse_test:
  assumes "writable env (Test f co v)" and "at st (print_exp (Test f co v) @ r)" and "\<not> m_ttable_only st"
    and "m_open (m_filter st) \<noteq> []"
  shows "\<exists>st'. parse_check env st = Inr st' \<and> added st (to_check env (m_last_boolop st) (Test f co v)) st' \<and> before st' r"
proof -
  have f: "field_ok env f" and co: "co \<in> binary_ops" and v: "value_parses env f co v 0" using assms(1) by auto
  have a: "at st (f @ CHR '' '' # op_text co @ CHR '' '' # quote v @ r)" using assms(2) by simp
  obtain st1 where 1: "parse_check env st = parse_comparison env f (m_last_boolop st) st1" "moved st st1"
      "at st1 (CHR '' '' # op_text co @ CHR '' '' # quote v @ r)"
    using parse_check_field [OF f a assms(3)] by auto
  obtain st2 where 2: "next_comparison_operator st1 = Inr (co, st2)" "moved st1 st2" "at st2 (CHR '' '' # quote v @ r)"
    using next_operator [OF 1(3)] co by auto
  obtain st3 where 3: "next_operand False False st2 = Inr (v, st3)" "moved st2 st3" "before st3 r"
    using next_quoted_blank [OF 2(3)] by auto
  have m: "moved st st3" using 1(2) 2(2) 3(2) by (blast intro: moved_trans)
  have "co \<notin> {CO_IN, CO_INTERSECTS, CO_PMATCH}" "co \<noteq> CO_EXISTS" using co by (auto simp: binary_ops_def)
  then have "parse_check env st = filter_op (add_check (to_check env (m_last_boolop st) (Test f co v))) st3"
    using 1(1) 2(1) 3(1) v known_field [OF f] by (simp add: parse_comparison_def)
  then show ?thesis using add_after [OF m 3(3) assms(4)] by auto
qed

lemma parse_exists:
  assumes "writable env (Exists f)" and "at st (print_exp (Exists f) @ r)" and "\<not> m_ttable_only st"
    and "m_open (m_filter st) \<noteq> []"
  shows "\<exists>st'. parse_check env st = Inr st' \<and> added st (to_check env (m_last_boolop st) (Exists f)) st' \<and> before st' r"
proof -
  have f: "field_ok env f" using assms(1) by auto
  have a: "at st (f @ CHR '' '' # ''exists'' @ r)" using assms(2) by simp
  obtain st1 where 1: "parse_check env st = parse_comparison env f (m_last_boolop st) st1" "moved st st1"
      "at st1 ('' exists'' @ r)"
    using parse_check_field [OF f a assms(3)] by auto
  obtain st2 where 2: "next_comparison_operator st1 = Inr (CO_EXISTS, st2)" "moved st1 st2" "at st2 r"
    using next_exists [OF 1(3)] by auto
  have m: "moved st (advance (-1) st2)" using 1(2) 2(2) by (auto simp: moved_def)
  have "parse_check env st = filter_op (add_check (to_check env (m_last_boolop st) (Exists f))) (advance (-1) st2)"
    using 1(1) 2(1) known_field [OF f] by (simp add: parse_comparison_def)
  then show ?thesis using add_after [OF m _ assms(4)] 2(3) by auto
qed

section \<open>Clauses\<close>

lemma sep_values_length: "length vs \<le> length (sep_values vs)"
  by (induction vs rule: sep_values.induct) (auto simp: quote_def)

text \<open>One value and the separator after it.\<close>

lemma value_then:
  assumes "at st (quote v @ c # r)" and "\<not> is_blank c"
  shows "\<exists>st1. next_operand False True st = Inr (v, st1) \<and> moved st st1 \<and> scan_next st1 = (c, advance 1 st1) \<and> before st1 (c # r)"
  using next_quoted [OF assms(1), of True] scan_one assms(2) by blast

lemma in_values_value:
  assumes "at st (quote v @ c # r)" and "\<not> is_blank c" and "value_parses env f co v (length vals)"
  shows "\<exists>st1. moved st st1 \<and> before st1 (c # r) \<and>
    in_values (Suc k) env f co vals st =
      (if c = CHR '')'' then Inr (vals @ [v], advance 1 st1)
       else if c = CHR '','' then in_values k env f co (vals @ [v]) (advance 1 (advance 1 st1))
       else throw (advance 1 st1) Expected_Separator)"
proof -
  from value_then [OF assms(1,2)] obtain st1 where 1: "next_operand False True st = Inr (v, st1)" "moved st st1"
      "scan_next st1 = (c, advance 1 st1)" "before st1 (c # r)"
    by blast
  show ?thesis
    using 1 assms(3) at_cur [OF 1(4)] by (intro exI [of _ st1]) (simp add: in_values.simps)
qed

lemma in_values_run:
  "at st (sep_values vs @ CHR '')'' # r) \<Longrightarrow> vs \<noteq> [] \<Longrightarrow> length vs \<le> fuel \<Longrightarrow>
    (\<And>i. i < length vs \<Longrightarrow> value_parses env f co (vs ! i) (length vals + i)) \<Longrightarrow>
    \<exists>st'. in_values fuel env f co vals st = Inr (vals @ vs, st') \<and> moved st st' \<and> before st' r"
proof (induction vs arbitrary: fuel vals st rule: sep_values.induct)
  case (2 v)
  obtain k where fuel: "fuel = Suc k" using 2 by (cases fuel) auto
  have a: "at st (quote v @ CHR '')'' # r)" "value_parses env f co v (length vals)" using 2(1) 2(4) [of 0] by simp_all
  from in_values_value [OF a(1) _ a(2), of k] obtain st1 where
    o: "moved st st1" "before st1 (CHR '')'' # r)" "in_values fuel env f co vals st = Inr (vals @ [v], advance 1 st1)"
    by (auto simp: fuel is_blank_def)
  show ?case using o(3) moved_trans [OF o(1) moved_advance] at_Cons [OF o(2)] by blast
next
  case (3 v w vs)
  obtain k where fuel: "fuel = Suc k" using 3 by (cases fuel) auto
  have a: "at st (quote v @ CHR '','' # sep_values (w # vs) @ CHR '')'' # r)" "value_parses env f co v (length vals)"
    using 3(2) 3(5) [of 0] by simp_all
  from in_values_value [OF a(1) _ a(2), of k] obtain st1 where
    o: "moved st st1" "before st1 (CHR '','' # sep_values (w # vs) @ CHR '')'' # r)"
      "in_values fuel env f co vals st = in_values k env f co (vals @ [v]) (advance 1 (advance 1 st1))"
    by (auto simp: fuel is_blank_def)
  have "value_parses env f co ((w # vs) ! i) (length (vals @ [v]) + i)" if "i < length (w # vs)" for i
    using 3(5) [of "Suc i"] that by simp
  moreover have "length (w # vs) \<le> k" using 3(4) fuel by simp
  ultimately obtain st' where
    i: "in_values k env f co (vals @ [v]) (advance 1 (advance 1 st1)) = Inr ((vals @ [v]) @ (w # vs), st')"
      "moved (advance 1 (advance 1 st1)) st'" "before st' r"
    using 3(1) [OF at_Cons [OF o(2)], of k "vals @ [v]"] by blast
  have "moved st st'" using o(1) i(2) by (blast intro: moved_trans moved_advance)
  then show ?case using o(3) i(1,3) by simp
qed simp

text \<open>Several checks added to the current expression.\<close>

definition added_all :: "compiler \<Rightarrow> filter_check check list \<Rightarrow> compiler \<Rightarrow> bool" where
  "added_all st chks st' \<longleftrightarrow>
     (\<exists>op cs up. m_open (m_filter st) = (op, cs) # up \<and> m_open (m_filter st') = (op, cs @ chks) # up) \<and>
     m_fltstr st' = m_fltstr st \<and> m_nest_level st' = m_nest_level st \<and> m_ttable_only st' = m_ttable_only st"

lemma added_all_one: "added st chk st' \<Longrightarrow> added_all st [chk] st'"
  by (simp add: added_def added_all_def)

lemma added_all_trans: "added_all st xs st1 \<Longrightarrow> added_all st1 ys st2 \<Longrightarrow> added_all st (xs @ ys) st2"
  by (auto simp: added_all_def)

lemma added_all_moved: "added_all st xs st1 \<Longrightarrow> moved st1 st2 \<Longrightarrow> added_all st xs st2"
  by (auto simp: added_all_def moved_def)

lemma added_all_open: "added_all st xs st1 \<Longrightarrow> m_open (m_filter st1) \<noteq> []"
  by (auto simp: added_all_def)

lemma in_checks_value:
  assumes "at st (quote v @ c # r)" and "\<not> is_blank c" and "value_parses env f CO_EQ v 0" and "m_open (m_filter st) \<noteq> []"
  shows "\<exists>st2. added st (eq_check f op v) st2 \<and> before st2 (c # r) \<and>
    in_checks (Suc k) env f op st =
      (if c = CHR '')'' then Inr (advance 1 st2)
       else if c = CHR '','' then in_checks k env f BO_OR (advance 1 (advance 1 st2))
       else throw (advance 1 st2) Expected_Separator)"
proof -
  from value_then [OF assms(1,2)] obtain st1 where 1: "next_operand False True st = Inr (v, st1)" "moved st st1" "before st1 (c # r)"
    by blast
  from add_after [OF 1(2,3) assms(4), of "eq_check f op v"] obtain st2 where
    2: "filter_op (add_check (eq_check f op v)) st1 = Inr st2" "added st (eq_check f op v) st2" "before st2 (c # r)"
    by blast
  show ?thesis
    using 1(1) 2 assms(3) scan_one [OF 2(3) assms(2)] at_cur [OF 2(3)]
    by (intro exI [of _ st2]) (simp add: in_checks.simps eq_check_def)
qed

lemma in_checks_run:
  "at st (sep_values vs @ CHR '')'' # r) \<Longrightarrow> vs \<noteq> [] \<Longrightarrow> length vs \<le> fuel \<Longrightarrow>
    (\<And>v. v \<in> set vs \<Longrightarrow> value_parses env f CO_EQ v 0) \<Longrightarrow> m_open (m_filter st) \<noteq> [] \<Longrightarrow>
    \<exists>st'. in_checks fuel env f op st = Inr st' \<and>
      added_all st (eq_check f op (hd vs) # map (eq_check f BO_OR) (tl vs)) st' \<and> before st' r"
proof (induction vs arbitrary: fuel op st rule: sep_values.induct)
  case (2 v)
  obtain k where fuel: "fuel = Suc k" using 2 by (cases fuel) auto
  have a: "at st (quote v @ CHR '')'' # r)" "value_parses env f CO_EQ v 0" using 2 by simp_all
  from in_checks_value [OF a(1) _ a(2) 2(5), of op k] obtain st2 where
    o: "added st (eq_check f op v) st2" "before st2 (CHR '')'' # r)" "in_checks fuel env f op st = Inr (advance 1 st2)"
    by (auto simp: fuel is_blank_def)
  then show ?case
    using added_all_moved [OF added_all_one [OF o(1)] moved_advance [of st2 1]] at_Cons [OF o(2)] by simp
next
  case (3 v w vs)
  obtain k where fuel: "fuel = Suc k" using 3 by (cases fuel) auto
  have a: "at st (quote v @ CHR '','' # sep_values (w # vs) @ CHR '')'' # r)" "value_parses env f CO_EQ v 0"
    using 3(2,5) by simp_all
  from in_checks_value [OF a(1) _ a(2) 3(6), of op k] obtain st2 where
    o: "added st (eq_check f op v) st2" "before st2 (CHR '','' # sep_values (w # vs) @ CHR '')'' # r)"
      "in_checks fuel env f op st = in_checks k env f BO_OR (advance 1 (advance 1 st2))"
    by (auto simp: fuel is_blank_def)
  let ?st = "advance 1 (advance 1 st2)"
  have all: "added_all st [eq_check f op v] ?st"
    using added_all_moved [OF added_all_one [OF o(1)]] moved_trans [OF moved_advance moved_advance] by blast
  from 3(1) [OF at_Cons [OF o(2)] _ _ _ added_all_open [OF all], of k BO_OR] obtain st' where
    "in_checks k env f BO_OR ?st = Inr st'" "added_all ?st (map (eq_check f BO_OR) (w # vs)) st'" "before st' r"
    using 3(4,5) fuel by auto
  with o(3) show ?case using added_all_trans [OF all] by fastforce
qed simp

end
