(* ===== verification/Filter_Roundtrip.thy ===== *)
theory Filter_Roundtrip
  imports Filter_Syntax
begin

text \<open>
  Compiling a printed filter, continued: clauses, the main loop of the compiler, nested expressions, and
  the theorem that the compiled filter decides the meaning of the expression.
\<close>

section \<open>Brackets\<close>

lemma parse_in_bracket:
  assumes "at st ('' ('' @ r)"
  shows "parse_in env f co op st = parse_in env f co op (advance 1 st)" and "at (advance 1 st) (CHR ''('' # r)"
    and "at (advance 1 (advance 1 st)) r"
proof -
  have a: "at st (CHR '' '' # CHR ''('' # r)" using assms by simp
  have b: "is_blank CHR '' ''" "\<not> is_blank CHR ''(''" by (simp_all add: is_blank_def)
  show a1: "at (advance 1 st) (CHR ''('' # r)" by (rule at_Cons [OF a])
  show "at (advance 1 (advance 1 st)) r" by (rule at_Cons [OF a1])
  show "parse_in env f co op st = parse_in env f co op (advance 1 st)"
    unfolding parse_in_def skip_one [OF a b] skip_none [OF a1 b(2)] ..
qed

lemma bracket_run:
  assumes "m_open (m_filter st) = (o1, cs) # up"
  shows "open_bracket op st = Inr (st\<lparr>m_filter := (m_filter st)\<lparr>m_open := (op, []) # (o1, cs) # up\<rparr>, m_last_boolop := BO_NONE,
      m_nest_level := m_nest_level st + 1\<rparr>)"
  using assms by (simp add: open_bracket_def filter_op_def push_expression_def)

lemma close_run:
  assumes "m_open (m_filter st) = (op, cs) # (o1, cs1) # up" and "get_expr_boolop op cs \<noteq> -1"
  shows "close_bracket st = Inr (st\<lparr>m_filter := (m_filter st)\<lparr>m_open := (o1, cs1 @ [Expr op cs]) # up\<rparr>,
      m_nest_level := m_nest_level st - 1\<rparr>)"
  using assms by (simp add: close_bracket_def filter_op_def pop_expression_def)

lemma same_ops:
  assumes "list_all (\<lambda>c. strip_not (m_boolop c) = b) cs" and "b \<noteq> -1" and "op \<noteq> -1"
  shows "get_expr_boolop op (c # cs) \<noteq> -1"
  using assms by (cases cs) (auto simp: get_expr_boolop_def Let_def nth_Cons list_all_iff)

lemma strip_not_join [simp]:
  "strip_not (join_op cj neg) = (if cj then BO_AND else BO_OR)" "strip_not BO_OR = BO_OR"
  by (simp_all add: strip_not_def join_op_def boolop_defs)

lemma clause_fuel: "at (advance 1 st) (sep_values vs @ c # r) \<Longrightarrow> length vs \<le> length (m_fltstr st) + 2"
proof -
  assume "at (advance 1 st) (sep_values vs @ c # r)"
  then have "length (sep_values vs @ c # r) = length (m_fltstr st) - nat (m_scanpos st + 1)"
    by (auto simp: at_def dest: arg_cong [of _ _ length])
  then show ?thesis using sep_values_length [of vs] by simp
qed

lemma parse_in_values:
  assumes "at st (CHR ''('' # sep_values vs @ CHR '')'' # r)" and "vs \<noteq> []" and "is_charbuf env f"
    and "\<forall>i < length vs. value_parses env f CO_IN (vs ! i) i" and "m_open (m_filter st) \<noteq> []"
  shows "\<exists>st'. parse_in env f CO_IN op st = Inr st' \<and>
    added st (Check op \<lparr>chk_field = f, chk_cmpop = CO_IN, chk_values = vs\<rparr>) st' \<and> before st' r"
proof -
  have a: "at (advance 1 st) (sep_values vs @ CHR '')'' # r)" by (rule at_Cons [OF assms(1)])
  from in_values_run [OF a assms(2) clause_fuel [OF a], of env f CO_IN "[]"] assms(4)
  obtain st1 where 1: "in_values (length (m_fltstr st) + 2) env f CO_IN [] (advance 1 st) = Inr (vs, st1)"
      "moved (advance 1 st) st1" "before st1 r"
    by auto
  have "parse_in env f CO_IN op st = filter_op (add_check (Check op \<lparr>chk_field = f, chk_cmpop = CO_IN, chk_values = vs\<rparr>)) st1"
    using assms(3) skip_none [OF assms(1)] at_cur [OF assms(1)] 1(1) by (simp add: parse_in_def is_blank_def)
  then show ?thesis using add_after [OF moved_trans [OF moved_advance 1(2)] 1(3) assms(5)] by auto
qed

lemma parse_in_checks:
  assumes "at st (CHR ''('' # sep_values vs @ CHR '')'' # r)" and "vs \<noteq> []" and "\<not> is_charbuf env f"
    and "\<forall>v \<in> set vs. value_parses env f CO_EQ v 0" and o: "m_open (m_filter st) = (o1, cs) # up" and "op \<noteq> -1"
  shows "\<exists>st'. parse_in env f CO_IN op st = Inr st' \<and>
    added st (Expr op (eq_check f BO_NONE (hd vs) # map (eq_check f BO_OR) (tl vs))) st' \<and> before st' r"
proof -
  let ?cks = "eq_check f BO_NONE (hd vs) # map (eq_check f BO_OR) (tl vs)"
  have a: "at (advance 1 st) (sep_values vs @ CHR '')'' # r)" by (rule at_Cons [OF assms(1)])
  have o': "m_open (m_filter (advance 1 st)) = (o1, cs) # up" using o by simp
  define st4 where "st4 = (advance 1 st)\<lparr>m_filter := (m_filter (advance 1 st))\<lparr>m_open := (op, []) # (o1, cs) # up\<rparr>,
    m_last_boolop := BO_NONE, m_nest_level := m_nest_level (advance 1 st) + 1\<rparr>"
  have s4: "m_fltstr st4 = m_fltstr st" "m_scanpos st4 = m_scanpos st + 1" "m_open (m_filter st4) = (op, []) # (o1, cs) # up"
      "m_nest_level st4 = m_nest_level st + 1" "m_ttable_only st4 = m_ttable_only st"
    by (simp_all add: st4_def)
  note ob = bracket_run [OF o', of op, folded st4_def]
  have a4: "at st4 (sep_values vs @ CHR '')'' # r)" by (rule at_same [OF a]) (simp_all add: s4)
  have "m_open (m_filter st4) \<noteq> []" by (simp add: s4)
  with in_checks_run [OF a4 assms(2) clause_fuel [OF a], of env f BO_NONE] assms(4)
  obtain st5 where 5: "in_checks (length (m_fltstr st) + 2) env f BO_NONE st4 = Inr st5" "added_all st4 ?cks st5" "before st5 r"
    by blast
  have o5: "m_open (m_filter st5) = (op, ?cks) # (o1, cs) # up" using 5(2) s4 by (auto simp: added_all_def)
  have "list_all (\<lambda>c. strip_not (m_boolop c) = BO_OR) (map (eq_check f BO_OR) (tl vs))"
    by (simp add: list_all_iff eq_check_def)
  then have g: "get_expr_boolop op ?cks \<noteq> -1" using assms(6) by (intro same_ops [of BO_OR]) (simp_all add: boolop_defs)
  note cl = close_run [OF o5 g]
  have "parse_in env f CO_IN op st = close_bracket st5"
    using assms(3) skip_none [OF assms(1)] at_cur [OF assms(1)] ob 5(1)
    by (simp add: parse_in_def is_blank_def)
  moreover have "added st (Expr op ?cks) (st5\<lparr>m_filter := (m_filter st5)\<lparr>m_open := (o1, cs @ [Expr op ?cks]) # up\<rparr>,
      m_nest_level := m_nest_level st5 - 1\<rparr>)"
    using o s4 5(2) by (simp add: added_def added_all_def)
  ultimately show ?thesis using cl 5(3) by (auto simp: at_def)
qed

lemma parse_among:
  assumes "writable env (Among f vs)" and "at st (print_exp (Among f vs) @ r)" and "\<not> m_ttable_only st"
    and "m_open (m_filter st) \<noteq> []" and "m_last_boolop st \<noteq> -1"
  shows "\<exists>st'. parse_check env st = Inr st' \<and> added st (to_check env (m_last_boolop st) (Among f vs)) st' \<and> before st' r"
proof -
  let ?op = "m_last_boolop st" and ?r = "sep_values vs @ CHR '')'' # r"
  have f: "field_ok env f" and vs: "vs \<noteq> []" using assms(1) by auto
  have a: "at st (f @ CHR '' '' # op_text CO_IN @ CHR '' '' # CHR ''('' # ?r)"
    using assms(2) by simp
  obtain st1 where 1: "parse_check env st = parse_comparison env f ?op st1" "moved st st1"
      "at st1 (CHR '' '' # op_text CO_IN @ CHR '' '' # CHR ''('' # ?r)"
    using parse_check_field [OF f a assms(3)] by blast
  obtain st2 where 2: "next_comparison_operator st1 = Inr (CO_IN, st2)" "moved st1 st2" "at st2 ('' ('' @ ?r)"
    using next_operator [OF 1(3)] by auto
  define st3 where "st3 = advance 1 st2"
  have m: "moved st st3" unfolding st3_def using 1(2) 2(2) by (blast intro: moved_trans moved_advance)
  have a3: "at st3 (CHR ''('' # ?r)" unfolding st3_def by (rule parse_in_bracket(2) [OF 2(3)])
  have p: "parse_check env st = parse_in env f CO_IN ?op st3"
    using 1(1) 2(1) known_field [OF f] parse_in_bracket(1) [OF 2(3), of env f CO_IN ?op]
    by (simp add: parse_comparison_def st3_def)
  obtain o1 cs up where o: "m_open (m_filter st3) = (o1, cs) # up"
    using assms(4) moved_fields [OF m] by (cases "m_open (m_filter st3)") auto
  show ?thesis
  proof (cases "is_charbuf env f")
    case True
    have "\<forall>i < length vs. value_parses env f CO_IN (vs ! i) i" using assms(1) True by simp
    from parse_in_values [OF a3 vs True this, of ?op] obtain st4 where "parse_in env f CO_IN ?op st3 = Inr st4"
        "added st3 (to_check env ?op (Among f vs)) st4" "before st4 r"
      using o True by auto
    then show ?thesis using p added_moved [OF m] by auto
  next
    case False
    then have "to_check env ?op (Among f vs) = Expr ?op (eq_check f BO_NONE (hd vs) # map (eq_check f BO_OR) (tl vs))"
      using vs by (cases vs) simp_all
    moreover have "\<forall>v \<in> set vs. value_parses env f CO_EQ v 0" using assms(1) False by simp
    ultimately obtain st4 where "parse_in env f CO_IN ?op st3 = Inr st4"
        "added st3 (to_check env ?op (Among f vs)) st4" "before st4 r"
      using parse_in_checks [OF a3 vs False _ o assms(5)] by metis
    then show ?thesis using p added_moved [OF m] by auto
  qed
qed

fun atomic :: "fexp \<Rightarrow> bool" where
  "atomic (Group cj items) = False"
| "atomic e = True"

lemma parse_atom:
  assumes "atomic e" and "writable env e" and "at st (print_exp e @ r)" and "\<not> m_ttable_only st"
    and "m_open (m_filter st) \<noteq> []" and "m_last_boolop st \<noteq> -1"
  shows "\<exists>st'. parse_operand env st = Inr st' \<and> added st (to_check env (m_last_boolop st) e) st' \<and> before st' r \<and>
    m_state st' = ST_EXPRESSION_DONE"
proof -
  have "\<exists>st1. parse_check env st = Inr st1 \<and> added st (to_check env (m_last_boolop st) e) st1 \<and> before st1 r"
  proof (cases e)
    case (Test f co v)
    show ?thesis unfolding Test by (rule parse_test [OF assms(2-5) [unfolded Test]])
  next
    case (Exists f)
    show ?thesis unfolding Exists by (rule parse_exists [OF assms(2-5) [unfolded Exists]])
  next
    case (Among f vs)
    show ?thesis unfolding Among by (rule parse_among [OF assms(2-6) [unfolded Among]])
  qed (use assms(1) in simp)
  then obtain st1 where 1: "parse_check env st = Inr st1" "added st (to_check env (m_last_boolop st) e) st1" "before st1 r"
    by blast
  let ?st = "st1\<lparr>m_state := ST_EXPRESSION_DONE\<rparr>"
  have "parse_operand env st = Inr ?st" using 1(1) by (simp add: parse_operand_def)
  moreover have "added st (to_check env (m_last_boolop st) e) ?st" using 1(2) by (simp add: added_def)
  moreover have "before ?st r" using 1(3) by (simp add: at_def)
  ultimately show ?thesis by (intro exI [of _ ?st]) simp
qed

section \<open>The loop\<close>

text \<open>From \<open>st\<close> the loop of the compiler gets to \<open>st'\<close>.\<close>

definition steps :: "check_env \<Rightarrow> int \<Rightarrow> compiler \<Rightarrow> compiler \<Rightarrow> bool" where
  "steps env u st st' \<longleftrightarrow> (\<exists>n. \<forall>k. compile_loop (n + k) env u st = compile_loop k env u st')"

lemma steps_trans: "steps env u st st1 \<Longrightarrow> steps env u st1 st2 \<Longrightarrow> steps env u st st2"
  unfolding steps_def by (metis add.assoc)

lemma steps_one:
  assumes "scan_next st = (a, st1)" and "a \<noteq> CHR 0x00" and "compile_char env a st1 = Inr st2"
  shows "steps env u st st2"
  unfolding steps_def using assms by (intro exI [of _ 1]) simp

text \<open>The next character that is not blank.\<close>

definition upcoming :: "compiler \<Rightarrow> string \<Rightarrow> bool" where
  "upcoming st r \<longleftrightarrow> before st r \<or> before st (CHR '' '' # r)"

lemma upcoming_scan:
  assumes "upcoming st (c # r)" and "\<not> is_blank c"
  shows "\<exists>st1. scan_next st = (c, st1) \<and> moved st st1 \<and> at st1 (c # r) \<and> before st1 r"
proof -
  have b: "is_blank CHR '' ''" by (simp add: is_blank_def)
  consider (one) "before st (c # r)" | (two) "before st (CHR '' '' # c # r)"
    using assms(1) by (auto simp: upcoming_def)
  then show ?thesis
  proof cases
    case one
    then show ?thesis using scan_one [OF one assms(2)] at_Cons [OF one] moved_advance by blast
  next
    case two
    have "at (advance 1 (advance 1 st)) (c # r)" by (rule at_Cons [OF two])
    then have "at (advance 2 st) (c # r)" by (simp add: at_def add.assoc)
    then show ?thesis using scan_two [OF two b assms(2)] at_Cons moved_advance by blast
  qed
qed

lemma scan_char:
  assumes "before st (c # r)" and "\<not> is_blank c"
  shows "scan_next st = (c, advance 1 st)" and "before (advance 1 st) r"
  using scan_one [OF assms] at_Cons [OF assms(1)] by auto

text \<open>The keywords.\<close>

definition keyword_read :: "compiler \<Rightarrow> int \<Rightarrow> compiler \<Rightarrow> bool" where
  "keyword_read st op st' \<longleftrightarrow> (\<exists>p. st' = st\<lparr>m_scanpos := p, m_last_boolop := op, m_state := ST_NEED_EXPRESSION\<rparr>)"

lemma not_run:
  assumes "upcoming st (''not '' @ r)"
  shows "\<exists>st'. steps env u st st' \<and> keyword_read st (m_last_boolop st OR BO_NOT) st' \<and> upcoming st' r"
proof -
  have up: "upcoming st (CHR ''n'' # ''ot '' @ r)" using assms by simp
  have b: "\<not> is_blank CHR ''n''" "\<not> is_blank CHR ''o''" "\<not> is_blank CHR ''t''" by (simp_all add: is_blank_def)
  obtain st1 where 1: "scan_next st = (CHR ''n'', st1)" "moved st st1" "before st1 (CHR ''o'' # ''t '' @ r)"
    using upcoming_scan [OF up b(1)] by auto
  have 2: "scan_next st1 = (CHR ''o'', advance 1 st1)" "before (advance 1 st1) (CHR ''t'' # '' '' @ r)"
    using scan_char [OF 1(3) b(2)] by auto
  have 3: "scan_next (advance 1 st1) = (CHR ''t'', advance 1 (advance 1 st1))" "before (advance 1 (advance 1 st1)) ('' '' @ r)"
    using scan_char [OF 2(2) b(3)] by auto
  let ?st = "(advance 1 (advance 1 st1))\<lparr>m_last_boolop := m_last_boolop st1 OR BO_NOT, m_state := ST_NEED_EXPRESSION\<rparr>"
  have "compile_char env CHR ''n'' st1 = Inr ?st"
    using 2(1) 3(1) by (cases "m_state st1") (simp_all add: compile_char_def parse_not_def)
  from steps_one [OF 1(1) _ this] have "steps env u st ?st" by simp
  moreover have "keyword_read st (m_last_boolop st OR BO_NOT) ?st" using 1(2) by (auto simp: keyword_read_def moved_def)
  moreover have "before ?st (CHR '' '' # r)" using 3(2) by (simp add: at_def)
  ultimately show ?thesis unfolding upcoming_def by blast
qed

definition base_op :: "bool \<Rightarrow> int" where
  "base_op cj = (if cj then BO_AND else BO_OR)"

definition sep :: "bool \<Rightarrow> string" where
  "sep cj = (if cj then '' and '' else '' or '')"

lemma sep_run:
  assumes "before st (sep cj @ r)" and "m_state st = ST_EXPRESSION_DONE"
  shows "\<exists>st'. steps env u st st' \<and> keyword_read st (base_op cj) st' \<and> upcoming st' r"
proof (cases cj)
  case True
  have b: "is_blank CHR '' ''" "\<not> is_blank CHR ''a''" "\<not> is_blank CHR ''n''" "\<not> is_blank CHR ''d''" by (simp_all add: is_blank_def)
  have a: "before st (CHR '' '' # CHR ''a'' # ''nd '' @ r)" using assms(1) True by (simp add: sep_def)
  note 1 = scan_two [OF a b(1,2)]
  have pos: "m_scanpos (advance 2 st) \<noteq> 0" using a by (simp add: at_def)
  have a1: "before (advance 2 st) (CHR ''n'' # ''d '' @ r)"
    using at_Cons [OF at_Cons [OF a]] by (simp add: at_def add.assoc)
  have a2: "before (advance 1 (advance 2 st)) (CHR ''d'' # '' '' @ r)" using scan_char(2) [OF a1 b(3)] by simp
  note 3 = scan_char [OF a2 b(4)]
  let ?st = "(advance 1 (advance 1 (advance 2 st)))\<lparr>m_last_boolop := BO_AND, m_state := ST_NEED_EXPRESSION\<rparr>"
  have "compile_char env CHR ''a'' (advance 2 st) = Inr ?st"
    using scan_char(1) [OF a1 b(3)] 3(1) pos assms(2) by (simp add: compile_char_def parse_and_def)
  from steps_one [OF 1 _ this] have "steps env u st ?st" by simp
  moreover have "keyword_read st (base_op cj) ?st" unfolding keyword_read_def base_op_def using True by auto
  moreover have "before ?st (CHR '' '' # r)" using 3(2) by (simp add: at_def)
  ultimately show ?thesis unfolding upcoming_def by blast
next
  case False
  have b: "is_blank CHR '' ''" "\<not> is_blank CHR ''o''" "\<not> is_blank CHR ''r''" by (simp_all add: is_blank_def)
  have a: "before st (CHR '' '' # CHR ''o'' # ''r '' @ r)" using assms(1) False by (simp add: sep_def)
  note 1 = scan_two [OF a b(1,2)]
  have pos: "m_scanpos (advance 2 st) \<noteq> 0" using a by (simp add: at_def)
  have a1: "before (advance 2 st) (CHR ''r'' # '' '' @ r)"
    using at_Cons [OF at_Cons [OF a]] by (simp add: at_def add.assoc)
  note 2 = scan_char [OF a1 b(3)]
  let ?st = "(advance 1 (advance 2 st))\<lparr>m_last_boolop := BO_OR, m_state := ST_NEED_EXPRESSION\<rparr>"
  have "compile_char env CHR ''o'' (advance 2 st) = Inr ?st"
    using 2(1) pos assms(2) by (simp add: compile_char_def parse_or_def)
  from steps_one [OF 1 _ this] have "steps env u st ?st" by simp
  moreover have "keyword_read st (base_op cj) ?st" unfolding keyword_read_def base_op_def using False by auto
  moreover have "before ?st (CHR '' '' # r)" using 2(2) by (simp add: at_def)
  ultimately show ?thesis unfolding upcoming_def by blast
qed

section \<open>Expressions\<close>

definition neg_op :: "bool \<Rightarrow> int \<Rightarrow> int" where
  "neg_op neg op = (if neg then op OR BO_NOT else op)"

lemma neg_op_simps: "neg_op neg BO_NONE = first_op neg" "neg_op neg (base_op cj) = join_op cj neg"
  by (simp_all add: neg_op_def first_op_def join_op_def base_op_def boolop_defs)

text \<open>Ready for an operand, and the state after it.\<close>

definition ready :: "compiler \<Rightarrow> bool" where
  "ready st \<longleftrightarrow> m_state st = ST_NEED_EXPRESSION \<and> \<not> m_ttable_only st \<and> m_open (m_filter st) \<noteq> [] \<and> 0 \<le> m_last_boolop st"

definition reads :: "check_env \<Rightarrow> int \<Rightarrow> compiler \<Rightarrow> filter_check check list \<Rightarrow> string \<Rightarrow> bool" where
  "reads env u st cks r \<longleftrightarrow>
     (\<exists>st'. steps env u st st' \<and> added_all st cks st' \<and> before st' r \<and> m_state st' = ST_EXPRESSION_DONE)"

lemma keyword_ready: "keyword_read st op st' \<Longrightarrow> m_open (m_filter st) \<noteq> [] \<Longrightarrow> \<not> m_ttable_only st \<Longrightarrow> 0 \<le> op \<Longrightarrow> ready st'"
  by (auto simp: keyword_read_def ready_def)

lemma keyword_added: "keyword_read st op st' \<Longrightarrow> added_all st' cks st2 \<Longrightarrow> added_all st cks st2"
  by (auto simp: keyword_read_def added_all_def)

lemma atom_run:
  assumes "atomic e" and "writable env e" and "upcoming st (print_exp e @ r)" and "ready st"
  shows "reads env u st [to_check env (m_last_boolop st) e] r"
proof -
  obtain c t where p: "print_exp e = c # t" and c: "\<not> is_blank c" "\<not> is_special_char c" "c \<noteq> CHR 0x00" "c \<noteq> CHR ''n''"
  proof (cases e)
    case (Test f co v)
    then show ?thesis using that [of "hd f" "tl f @ CHR '' '' # op_text co @ CHR '' '' # quote v"] assms(2)
      by (auto simp: field_ok_def list_all_iff)
  next
    case (Exists f)
    then show ?thesis using that [of "hd f" "tl f @ '' exists''"] assms(2) by (auto simp: field_ok_def list_all_iff)
  next
    case (Among f vs)
    then show ?thesis using that [of "hd f" "tl f @ '' in ('' @ sep_values vs @ '')''"] assms(2)
      by (auto simp: field_ok_def list_all_iff)
  qed (use assms(1) in simp)
  obtain st1 where 1: "scan_next st = (c, st1)" "moved st st1" "at st1 (c # t @ r)"
    using upcoming_scan [of st c "t @ r"] assms(3) p c(1) by auto
  note m = moved_fields [OF 1(2)]
  have rd: "\<not> m_ttable_only st1" "m_open (m_filter st1) \<noteq> []" "m_last_boolop st1 \<noteq> -1" "m_state st1 = ST_NEED_EXPRESSION"
    using assms(4) m by (auto simp: ready_def)
  have "at st1 (print_exp e @ r)" using 1(3) p by simp
  from parse_atom [OF assms(1,2) this rd(1-3)] obtain st2 where
    2: "parse_operand env st1 = Inr st2" "added st1 (to_check env (m_last_boolop st) e) st2" "before st2 r"
      "m_state st2 = ST_EXPRESSION_DONE"
    using m by auto
  have "compile_char env c st1 = parse_operand env st1"
    using c rd(4) by (auto simp: compile_char_def is_special_char_def)
  with 2(1) have "steps env u st st2" using steps_one [OF 1(1) c(3)] by simp
  then show ?thesis
    unfolding reads_def using added_all_one [OF added_moved [OF 1(2) 2(2)]] 2(3,4) by blast
qed

text \<open>A list of items, when every one of them is read.\<close>

definition item_checks :: "check_env \<Rightarrow> bool \<Rightarrow> int \<Rightarrow> (bool \<times> fexp) list \<Rightarrow> filter_check check list" where
  "item_checks env cj op items = (case items of [] \<Rightarrow> [] | (neg, e) # items' \<Rightarrow>
     to_check env (neg_op neg op) e # map (\<lambda>(neg, e). to_check env (join_op cj neg) e) items')"

lemma item_run:
  assumes run: "\<And>st r. upcoming st (print_exp e @ r) \<Longrightarrow> ready st \<Longrightarrow> reads env u st [to_check env (m_last_boolop st) e] r"
    and "upcoming st ((if neg then ''not '' else []) @ print_exp e @ r)" and "ready st"
  shows "reads env u st [to_check env (neg_op neg (m_last_boolop st)) e] r"
proof (cases neg)
  case True
  have "upcoming st (''not '' @ print_exp e @ r)" using assms(2) True by simp
  from not_run [OF this, of env u] obtain st1 where 1: "steps env u st st1"
      "keyword_read st (m_last_boolop st OR BO_NOT) st1" "upcoming st1 (print_exp e @ r)"
    by blast
  have "0 \<le> m_last_boolop st OR BO_NOT" using assms(3) by (simp add: ready_def BO_NOT_def)
  then have "ready st1" using keyword_ready [OF 1(2)] assms(3) by (simp add: ready_def)
  from run [OF 1(3) this] obtain st2 where "steps env u st1 st2" "added_all st1 [to_check env (m_last_boolop st1) e] st2"
      "before st2 r" "m_state st2 = ST_EXPRESSION_DONE"
    by (auto simp: reads_def)
  moreover have "m_last_boolop st1 = neg_op neg (m_last_boolop st)" using 1(2) True by (auto simp: keyword_read_def neg_op_def)
  ultimately show ?thesis
    unfolding reads_def using steps_trans [OF 1(1)] keyword_added [OF 1(2)] by metis
next
  case False
  then show ?thesis using run [of st r] assms(2,3) by (simp add: neg_op_def)
qed

lemma print_items_sep:
  "print_items cj ((neg, e) # items) =
     (if neg then ''not '' else []) @ print_exp e @ (if items = [] then [] else sep cj) @ print_items cj items"
  by (simp add: sep_def)

lemma items_run:
  "(\<And>neg e st r. (neg, e) \<in> set items \<Longrightarrow> upcoming st (print_exp e @ r) \<Longrightarrow> ready st \<Longrightarrow>
      reads env u st [to_check env (m_last_boolop st) e] r) \<Longrightarrow>
    items \<noteq> [] \<Longrightarrow> upcoming st (print_items cj items @ r) \<Longrightarrow> ready st \<Longrightarrow>
    reads env u st (item_checks env cj (m_last_boolop st) items) r"
proof (induction items arbitrary: st)
  case (Cons x items)
  obtain neg e where x: "x = (neg, e)" by fastforce
  let ?rest = "(if items = [] then [] else sep cj) @ print_items cj items @ r"
  have "upcoming st ((if neg then ''not '' else []) @ print_exp e @ ?rest)" using Cons.prems(3) unfolding x print_items_sep append_assoc .
  moreover have "reads env u st [to_check env (m_last_boolop st) e] r" if "upcoming st (print_exp e @ r)" "ready st" for st r
    using Cons.prems(1) [of neg e] that x by simp
  ultimately have "reads env u st [to_check env (neg_op neg (m_last_boolop st)) e] ?rest"
    using Cons.prems(4) by (intro item_run)
  then obtain st1 where 1: "steps env u st st1"
      "added_all st [to_check env (neg_op neg (m_last_boolop st)) e] st1" "before st1 ?rest" "m_state st1 = ST_EXPRESSION_DONE"
    by (auto simp: reads_def)
  show ?case
  proof (cases "items = []")
    case True
    then show ?thesis using 1 x by (auto simp: reads_def item_checks_def)
  next
    case False
    have "before st1 (sep cj @ print_items cj items @ r)" using 1(3) False by simp
    from sep_run [OF this 1(4), of env u] obtain st2 where 2: "steps env u st1 st2" "keyword_read st1 (base_op cj) st2"
        "upcoming st2 (print_items cj items @ r)"
      by blast
    have "ready st2"
      using keyword_ready [OF 2(2) added_all_open [OF 1(2)]] Cons.prems(4) 1(2)
      by (auto simp: ready_def added_all_def base_op_def boolop_defs)
    with Cons.IH [OF _ False 2(3)] Cons.prems(1) have "reads env u st2 (item_checks env cj (m_last_boolop st2) items) r"
      by (metis list.set_intros(2))
    then obtain st3 where 3: "steps env u st2 st3" "added_all st2 (item_checks env cj (m_last_boolop st2) items) st3"
        "before st3 r" "m_state st3 = ST_EXPRESSION_DONE"
      by (auto simp: reads_def)
    have "m_last_boolop st2 = base_op cj" using 2(2) by (auto simp: keyword_read_def)
    then have "[to_check env (neg_op neg (m_last_boolop st)) e] @ item_checks env cj (m_last_boolop st2) items =
        item_checks env cj (m_last_boolop st) (x # items)"
      using False by (cases items) (auto simp: item_checks_def x neg_op_simps)
    then have "added_all st (item_checks env cj (m_last_boolop st) (x # items)) st3"
      using added_all_trans [OF 1(2) keyword_added [OF 2(2) 3(2)]] by simp
    then show ?thesis
      unfolding reads_def using steps_trans [OF 1(1) steps_trans [OF 2(1) 3(1)]] 3(3,4) by blast
  qed
qed simp

lemma group_checks: "to_check env op (Group cj items) = Expr op (item_checks env cj BO_NONE items)"
  by (cases items) (auto simp: item_checks_def neg_op_simps)

lemma item_checks_consistent: "op \<noteq> -1 \<Longrightarrow> get_expr_boolop op (item_checks env cj BO_NONE items) \<noteq> -1"
proof (cases items)
  case (Cons x items')
  assume "op \<noteq> -1"
  moreover have "list_all (\<lambda>c. strip_not (m_boolop c) = base_op cj) (map (\<lambda>(neg, e). to_check env (join_op cj neg) e) items')"
    by (auto simp: list_all_iff base_op_def)
  moreover have "base_op cj \<noteq> -1" by (simp add: base_op_def boolop_defs)
  ultimately show ?thesis
    using same_ops [of "base_op cj" _ op] by (simp add: Cons item_checks_def split_beta)
qed (simp add: item_checks_def get_expr_boolop_def)

lemma group_run:
  assumes run: "\<And>neg e st r. (neg, e) \<in> set items \<Longrightarrow> upcoming st (print_exp e @ r) \<Longrightarrow> ready st \<Longrightarrow>
      reads env u st [to_check env (m_last_boolop st) e] r"
    and "items \<noteq> []" and "upcoming st (print_exp (Group cj items) @ r)" and rd: "ready st"
  shows "reads env u st [to_check env (m_last_boolop st) (Group cj items)] r"
proof -
  let ?op = "m_last_boolop st" and ?cks = "item_checks env cj BO_NONE items"
  have "upcoming st (CHR ''('' # print_items cj items @ CHR '')'' # r)" using assms(3) by simp
  from upcoming_scan [OF this] obtain st1 where 1: "scan_next st = (CHR ''('', st1)" "moved st st1"
      "before st1 (print_items cj items @ CHR '')'' # r)"
    by (auto simp: is_blank_def)
  note m = moved_fields [OF 1(2)]
  obtain o1 cs up where o: "m_open (m_filter st1) = (o1, cs) # up"
    using rd m by (cases "m_open (m_filter st1)") (auto simp: ready_def)
  define st2 where "st2 = st1\<lparr>m_filter := (m_filter st1)\<lparr>m_open := (?op, []) # (o1, cs) # up\<rparr>, m_last_boolop := BO_NONE,
      m_nest_level := m_nest_level st1 + 1\<rparr>"
  have s2: "m_open (m_filter st2) = (?op, []) # (o1, cs) # up" "m_nest_level st2 = m_nest_level st + 1" "m_fltstr st2 = m_fltstr st"
      "m_ttable_only st2 = m_ttable_only st" "m_last_boolop st2 = BO_NONE" "m_state st2 = m_state st" "m_scanpos st2 = m_scanpos st1"
    using m by (simp_all add: st2_def)
  have "compile_char env CHR ''('' st1 = Inr st2"
    using rd m bracket_run [OF o, of ?op] by (simp add: compile_char_def ready_def st2_def)
  from steps_one [OF 1(1) _ this] have st12: "steps env u st st2" by simp
  have "upcoming st2 (print_items cj items @ CHR '')'' # r)"
    using at_same [OF 1(3), of "advance 1 st2"] s2 m by (simp add: upcoming_def)
  moreover have "ready st2" using rd s2 by (simp add: ready_def boolop_defs)
  ultimately have "reads env u st2 (item_checks env cj (m_last_boolop st2) items) (CHR '')'' # r)"
    using run assms(2) by (intro items_run)
  then obtain st3 where 3: "steps env u st2 st3" "added_all st2 ?cks st3" "before st3 (CHR '')'' # r)"
      "m_state st3 = ST_EXPRESSION_DONE"
    using s2(5) by (auto simp: reads_def)
  have o3: "m_open (m_filter (advance 1 st3)) = (?op, ?cks) # (o1, cs) # up" using 3(2) s2 by (auto simp: added_all_def)
  have g: "get_expr_boolop ?op ?cks \<noteq> -1" using item_checks_consistent rd by (auto simp: ready_def)
  have n3: "scan_next st3 = (CHR '')'', advance 1 st3)" "before (advance 1 st3) r"
    using scan_char [OF 3(3)] by (auto simp: is_blank_def)
  let ?st4 = "(advance 1 st3)\<lparr>m_filter := (m_filter (advance 1 st3))\<lparr>m_open := (o1, cs @ [Expr ?op ?cks]) # up\<rparr>,
      m_nest_level := m_nest_level (advance 1 st3) - 1\<rparr>"
  have "compile_char env CHR '')'' (advance 1 st3) = Inr ?st4"
    using close_run [OF o3 g] by (simp add: compile_char_def)
  from steps_one [OF n3(1) _ this] have "steps env u st ?st4"
    using steps_trans [OF st12 steps_trans [OF 3(1)]] by simp
  moreover have "added_all st [to_check env ?op (Group cj items)] ?st4"
    using o s2 m 3(2) unfolding group_checks by (simp add: added_all_def)
  moreover have "before ?st4 r" using n3(2) by (simp add: at_def)
  moreover have "m_state ?st4 = ST_EXPRESSION_DONE" using 3(4) by simp
  ultimately show ?thesis unfolding reads_def by blast
qed

lemma exp_run:
  "writable env e \<Longrightarrow> upcoming st (print_exp e @ r) \<Longrightarrow> ready st \<Longrightarrow> reads env u st [to_check env (m_last_boolop st) e] r"
proof (induction e arbitrary: st r)
  case (Group cj items)
  show ?case
  proof (rule group_run [OF _ _ Group.prems(2,3)])
    fix neg e st r assume "(neg, e) \<in> set items" "upcoming st (print_exp e @ r)" "ready st"
    moreover from this(1) have "e \<in> Basic_BNFs.snds (neg, e)" "writable env e" using Group.prems(1) by auto
    ultimately show "reads env u st [to_check env (m_last_boolop st) e] r" using Group.IH by blast
  qed (use Group.prems(1) in simp)
qed (rule atom_run; simp)+

section \<open>Compiling what was printed\<close>

fun root_of :: "check_env \<Rightarrow> fexp \<Rightarrow> filter_check check list" where
  "root_of env (Group cj items) = item_checks env cj BO_NONE items"
| "root_of env e = [to_check env BO_NONE e]"

lemma filter_read:
  assumes "writable env e"
  shows "reads env u (new_compiler u False (print_filter e)) (root_of env e) []"
proof -
  let ?st = "new_compiler u False (print_filter e)"
  have b: "upcoming ?st (print_filter e @ [])" by (simp add: upcoming_def at_def new_compiler_def)
  have rd: "ready ?st" "m_last_boolop ?st = BO_NONE" by (simp_all add: ready_def new_compiler_def new_filter_def boolop_defs)
  have atom: ?thesis if "atomic e"
  proof -
    have e: "print_filter e = print_exp e" "root_of env e = [to_check env BO_NONE e]" using that by (cases e; simp)+
    show ?thesis using exp_run [OF assms b [unfolded e] rd(1) [unfolded e], of u] rd(2) [unfolded e] unfolding e by (simp only:)
  qed
  show ?thesis
  proof (cases e)
    case (Group cj items)
    have "reads env u ?st (item_checks env cj (m_last_boolop ?st) items) []"
      using b rd assms Group by (intro items_run exp_run) auto
    then show ?thesis using rd(2) Group by simp
  qed (rule atom; simp)+
qed

lemma at_end:
  assumes "before st []"
  shows "\<exists>st'. scan_next st = (CHR 0x00, st') \<and> moved st st'"
proof -
  have "m_scanpos st + 1 = m_scansize st" using assms by (auto simp: at_def)
  then show ?thesis
    by (simp add: scan_next_def next_pos.simps [of "m_fltstr st" "m_scanpos st"] Let_def) (auto simp: moved_def)
qed

lemma compile_print:
  assumes "writable env e" and "u \<noteq> -1"
  shows "\<exists>f. compile env u False (print_filter e) = Inr f \<and> root_checks f = root_of env e"
proof -
  let ?st = "new_compiler u False (print_filter e)"
  obtain st1 n where 1: "\<forall>k. compile_loop (n + k) env u ?st = compile_loop k env u st1" "added_all ?st (root_of env e) st1"
      "before st1 []" "m_state st1 = ST_EXPRESSION_DONE"
    using filter_read [OF assms(1), of u] by (auto simp: reads_def steps_def)
  obtain st2 where 2: "scan_next st1 = (CHR 0x00, st2)" "moved st1 st2" using at_end [OF 1(3)] by blast
  note m = moved_fields [OF 2(2)]
  have o: "m_open (m_filter st1) = [(u, root_of env e)]" "m_nest_level st1 = 0"
    using 1(2) by (auto simp: added_all_def new_compiler_def new_filter_def)
  then have rc: "root_checks (m_filter st2) = root_of env e" using m by (simp add: root_checks_def)
  have "get_expr_boolop u (root_of env e) \<noteq> -1"
    using item_checks_consistent assms(2) by (cases e) (auto simp: get_expr_boolop_def)
  then have "compile_loop 1 env u st1 = Inr (m_filter st2)"
    using 1(4) 2(1) m o rc by (simp add: end_of_filter_def)
  then have "compile_loop (n + 1) env u ?st = Inr (m_filter st2)" using 1(1) by (simp only:)
  moreover have "compile_loop (n + 1 + (length (print_filter e) + 2)) env u ?st = compile_loop (n + 1) env u ?st"
    using calculation by (intro compile_loop_more_fuel) simp_all
  moreover have "compile_loop (n + 1 + (length (print_filter e) + 2)) env u ?st = compile env u False (print_filter e)"
    unfolding compile_def by (intro compile_loop_more_fuel ends_compile_loop) (simp_all add: new_compiler_def)
  ultimately show ?thesis using rc by metis
qed

lemma or_ops: "list_all (\<lambda>c. m_boolop c \<in> {BO_OR, BO_ORNOT}) (map (eq_check f BO_OR) vs)"
  by (simp add: list_all_iff eq_check_def)

lemma join_ops:
  "list_all (\<lambda>c. m_boolop c \<in> {BO_AND, BO_ANDNOT}) (map (\<lambda>(neg, e). to_check env (join_op True neg) e) items)"
  "list_all (\<lambda>c. m_boolop c \<in> {BO_OR, BO_ORNOT}) (map (\<lambda>(neg, e). to_check env (join_op False neg) e) items)"
  by (auto simp: list_all_iff join_op_def)

lemma to_check_joined: "writable env e \<Longrightarrow> well_joined (to_check env op e)"
proof (induction e arbitrary: op)
  case (Among f vs)
  then show ?case using or_ops by (cases vs) (auto simp: eq_check_def)
next
  case (Group cj items)
  have sub: "\<forall>op. well_joined (to_check env op e)" if "(neg, e) \<in> set items" for neg e
    using Group that by (force intro: Group.IH)
  obtain neg e items' where items: "items = (neg, e) # items'" using Group.prems by (cases items) auto
  have "well_joined c" if "c \<in> set (map (\<lambda>(neg, e). to_check env (join_op cj neg) e) items')" for c
    using that sub items by auto
  moreover have "well_joined (to_check env (first_op neg) e)" using sub items by auto
  moreover have "first_op neg \<in> {BO_NONE, BO_NOT}" by (simp add: first_op_def)
  moreover have "list_all (\<lambda>c. m_boolop c \<in> {BO_AND, BO_ANDNOT}) (map (\<lambda>(neg, e). to_check env (join_op cj neg) e) items') \<or>
      list_all (\<lambda>c. m_boolop c \<in> {BO_OR, BO_ORNOT}) (map (\<lambda>(neg, e). to_check env (join_op cj neg) e) items')"
    using join_ops [of env items'] by (cases cj) simp_all
  ultimately show ?case unfolding items by simp
qed simp_all

lemma negated_ops: "negated (to_check env (first_op neg) e) = neg" "negated (to_check env (join_op cj neg) e) = neg"
  by (simp_all add: negated_def first_op_def join_op_def boolop_defs)

lemma holds_expr:
  assumes "\<And>i. i < length cs \<Longrightarrow> (holds cmp (cs ! i) \<noteq> negated (cs ! i)) = P i"
    and "length cs \<le> 1 \<or> strip_not (m_boolop (cs ! 1)) = (if cj then BO_AND else BO_OR)" and "cs \<noteq> []"
  shows "holds cmp (Expr op cs) = (if cj then \<forall>i < length cs. P i else \<exists>i < length cs. P i)"
proof -
  have "(\<forall>c \<in> set cs. holds cmp c \<noteq> negated c) = (\<forall>i < length cs. P i)"
    "(\<exists>c \<in> set cs. holds cmp c \<noteq> negated c) = (\<exists>i < length cs. P i)"
    using assms(1) by (auto simp: set_conv_nth)
  moreover have "length cs \<le> 1 \<Longrightarrow> (\<forall>i < length cs. P i) = (\<exists>i < length cs. P i)"
    using assms(3) by (cases cs) auto
  ultimately show ?thesis using assms(2) by (auto simp: boolop_defs simp del: One_nat_def)
qed

lemma item_nth:
  assumes "i < length items"
  shows "\<exists>op. item_checks env cj BO_NONE items ! i = to_check env op (snd (items ! i)) \<and>
    negated (item_checks env cj BO_NONE items ! i) = fst (items ! i)"
proof (cases items)
  case (Cons x items')
  then show ?thesis
    using assms by (cases i) (auto simp: item_checks_def neg_op_simps negated_ops split_beta)
qed (use assms in simp)

lemma item_checks_length [simp]: "length (item_checks env cj op items) = length items"
  by (cases items) (auto simp: item_checks_def)

lemma among_holds:
  assumes "vs \<noteq> []"
  shows "holds cmp (Expr op (eq_check f BO_NONE (hd vs) # map (eq_check f BO_OR) (tl vs))) =
    (\<exists>v \<in> set vs. cmp \<lparr>chk_field = f, chk_cmpop = CO_EQ, chk_values = [v]\<rparr>)"
proof -
  let ?cs = "eq_check f BO_NONE (hd vs) # map (eq_check f BO_OR) (tl vs)"
  obtain v vs' where vs: "vs = v # vs'" using assms by (cases vs) auto
  have "(holds cmp (?cs ! i) \<noteq> negated (?cs ! i)) = cmp \<lparr>chk_field = f, chk_cmpop = CO_EQ, chk_values = [vs ! i]\<rparr>"
    if "i < length ?cs" for i
    using that vs by (cases i) (simp_all add: eq_check_def negated_def boolop_defs)
  moreover have "length ?cs \<le> 1 \<or> strip_not (m_boolop (?cs ! 1)) = (if False then BO_AND else BO_OR)"
    using vs by (cases vs') (simp_all add: eq_check_def)
  moreover have "?cs \<noteq> []" by blast
  ultimately have "holds cmp (Expr op ?cs) = (if False then \<forall>i < length ?cs. cmp \<lparr>chk_field = f, chk_cmpop = CO_EQ, chk_values = [vs ! i]\<rparr>
      else \<exists>i < length ?cs. cmp \<lparr>chk_field = f, chk_cmpop = CO_EQ, chk_values = [vs ! i]\<rparr>)"
    by (rule holds_expr)
  moreover have "length ?cs = length vs" using vs by simp
  ultimately show ?thesis by (auto simp: set_conv_nth)
qed

lemma ball_nth: "(\<forall>x \<in> set xs. P x) = (\<forall>i < length xs. P (xs ! i))"
  by (rule all_set_conv_all_nth)

lemma bex_nth: "(\<exists>x \<in> set xs. P x) = (\<exists>i < length xs. P (xs ! i))"
  by (auto simp: set_conv_nth)

lemma group_holds:
  assumes sub: "\<And>neg e op. (neg, e) \<in> set items \<Longrightarrow> holds cmp (to_check env op e) = meaning env cmp e" and "items \<noteq> []"
  shows "holds cmp (to_check env op (Group cj items)) = meaning env cmp (Group cj items)"
proof -
  let ?cs = "item_checks env cj BO_NONE items"
  have "(holds cmp (?cs ! i) \<noteq> negated (?cs ! i)) = (meaning env cmp (snd (items ! i)) \<noteq> fst (items ! i))"
    if "i < length ?cs" for i
    using item_nth [of i items env cj] sub [of "fst (items ! i)" "snd (items ! i)"] that by auto
  moreover have "length ?cs \<le> 1 \<or> strip_not (m_boolop (?cs ! 1)) = (if cj then BO_AND else BO_OR)"
    by (cases items rule: remdups_adj.cases) (auto simp: item_checks_def)
  moreover have "?cs \<noteq> []" using assms(2) item_checks_length [of env cj BO_NONE items] by (metis length_0_conv)
  ultimately have "holds cmp (Expr op ?cs) = (if cj then \<forall>i < length ?cs. meaning env cmp (snd (items ! i)) \<noteq> fst (items ! i)
      else \<exists>i < length ?cs. meaning env cmp (snd (items ! i)) \<noteq> fst (items ! i))"
    by (rule holds_expr)
  then show ?thesis unfolding group_checks meaning.simps ball_nth bex_nth split_beta item_checks_length .
qed

lemma to_check_holds: "writable env e \<Longrightarrow> holds cmp (to_check env op e) = meaning env cmp e"
proof (induction e arbitrary: op)
  case (Among f vs)
  show ?case
  proof (cases "is_charbuf env f")
    case False
    have "to_check env op (Among f vs) = Expr op (eq_check f BO_NONE (hd vs) # map (eq_check f BO_OR) (tl vs))"
      using Among False by (cases vs) simp_all
    then show ?thesis using among_holds [of vs cmp op f] Among False by simp
  qed simp
next
  case (Group cj items)
  show ?case
  proof (rule group_holds)
    fix neg e op assume "(neg, e) \<in> set items"
    then show "holds cmp (to_check env op e) = meaning env cmp e" using Group by (force intro: Group.IH)
  qed (use Group.prems in simp)
qed simp_all

lemma root_meaning:
  assumes "writable env e"
  shows "fst (compare cmp ids (Expr 0 (root_of env e)) cid) = meaning env cmp e"
proof (cases "atomic e")
  case True
  let ?c = "to_check env BO_NONE e"
  have "well_joined (Expr 0 [?c])" using to_check_joined [OF assms] by simp
  moreover have "holds cmp (Expr 0 [?c]) = meaning env cmp e"
    using to_check_holds [OF assms] by (simp add: negated_def boolop_defs)
  moreover have "root_of env e = [?c]" using True by (cases e) simp_all
  ultimately show ?thesis using compare_holds by metis
next
  case False
  then obtain cj items where e: "e = Group cj items" by (cases e) auto
  have "fst (compare cmp ids (to_check env 0 e) cid) = meaning env cmp e"
    using compare_holds [OF to_check_joined [OF assms]] to_check_holds [OF assms] by metis
  then show ?thesis unfolding e group_checks by simp
qed

text \<open>\<open>proc.name = "a\x27b" and not (evt.num in ("1","2") or not proc.name exists)\<close>.\<close>

definition demo_exp :: fexp where
  "demo_exp = Group True
     [(False, Test ''proc.name'' CO_EQ [CHR ''a'', CHR 0x27, CHR ''b'']),
      (True, Group False [(False, Among ''evt.num'' [''1'', ''2'']), (True, Exists ''proc.name'')])]"

lemma demo_fields: "field_ok demo_checks ''proc.name''" "field_ok demo_checks ''evt.num''"
  by code_simp+

lemma demo_writable: "writable demo_checks demo_exp"
  by (simp add: demo_exp_def demo_fields binary_ops_def) (simp add: demo_checks_def)

text \<open>
  C9. Compiling the text of a filter gives the filter: for every expression built from comparisons,
  \<open>exists\<close>, \<open>in\<close> clauses, negation, and conjunctions and disjunctions nested to any depth, over fields the
  check list knows and with any strings as values, the compiler accepts the printed text, and running
  the compiled filter decides what the expression means.  The hypothesis on the root operator excludes
  the one value of the uninitialised field that the compiler takes for a mixed expression.
\<close>

theorem compile_print_run:
  assumes "writable env e" and "uninit \<noteq> -1"
  shows "\<exists>f. compile env uninit False (print_filter e) = Inr f \<and> (\<forall>cmp ids cid. fst (run cmp ids f cid) = meaning env cmp e)"
  using compile_print [OF assms] root_meaning [OF assms(1)] by (auto simp: run_def)

theorem compile_print_run_witness:
  "print_filter demo_exp = ''proc.name = '' @ [CHR 0x22] @ ''a'' @ [CHR 0x5C] @ ''x27b'' @ [CHR 0x22] @ '' and not (evt.num in ('' @
     [CHR 0x22] @ ''1'' @ [CHR 0x22] @ '','' @ [CHR 0x22] @ ''2'' @ [CHR 0x22] @ '') or not proc.name exists)'' \<and>
   (\<exists>f. compile demo_checks 0 False (print_filter demo_exp) = Inr f \<and>
     (\<forall>cmp ids cid. fst (run cmp ids f cid) = meaning demo_checks cmp demo_exp))"
  using compile_print_run [OF demo_writable, of 0]
  by (simp only: demo_exp_def print_filter.simps print_items.simps print_exp.simps) (simp add: quote_def escape_char_def)

end
