(* ===== verification/Syscall_Numbers.thy ===== *)
theory Syscall_Numbers
  imports Event_Table
begin

text \<open>
  Names for numbers: the event types that the system call tables use, the system call codes
  \<open>enum ppm_syscall_code\<close> of \<open>driver/ppm_events_public.h\<close>, the system call numbers of the 64-bit x86
  kernel (the Linux ABI, as of 4.17), and those of 32-bit processes in
  \<open>driver/ppm_compat_unistd_32.h\<close>.  That header derives the numbers of the timer, clock and message
  queue calls from \<open>__NR_timer_create\<close> and \<open>__NR_mq_open\<close>, which in a 64-bit build are the 64-bit ones.
\<close>

section \<open>Event types\<close>

abbreviation (input) PPME_SYSCALL_OPEN_E :: nat where "PPME_SYSCALL_OPEN_E \<equiv> 2"
abbreviation (input) PPME_SYSCALL_OPEN_X :: nat where "PPME_SYSCALL_OPEN_X \<equiv> 3"
abbreviation (input) PPME_SYSCALL_READ_E :: nat where "PPME_SYSCALL_READ_E \<equiv> 6"
abbreviation (input) PPME_SYSCALL_READ_X :: nat where "PPME_SYSCALL_READ_X \<equiv> 7"
abbreviation (input) PPME_SYSCALL_WRITE_E :: nat where "PPME_SYSCALL_WRITE_E \<equiv> 8"
abbreviation (input) PPME_SOCKET_SOCKET_E :: nat where "PPME_SOCKET_SOCKET_E \<equiv> 18"
abbreviation (input) PPME_SOCKET_SOCKET_X :: nat where "PPME_SOCKET_SOCKET_X \<equiv> 19"
abbreviation (input) PPME_SOCKET_BIND_E :: nat where "PPME_SOCKET_BIND_E \<equiv> 20"
abbreviation (input) PPME_SOCKET_CONNECT_E :: nat where "PPME_SOCKET_CONNECT_E \<equiv> 22"
abbreviation (input) PPME_SOCKET_CONNECT_X :: nat where "PPME_SOCKET_CONNECT_X \<equiv> 23"
abbreviation (input) PPME_SOCKET_LISTEN_E :: nat where "PPME_SOCKET_LISTEN_E \<equiv> 24"
abbreviation (input) PPME_SOCKET_LISTEN_X :: nat where "PPME_SOCKET_LISTEN_X \<equiv> 25"
abbreviation (input) PPME_SOCKET_SENDTO_E :: nat where "PPME_SOCKET_SENDTO_E \<equiv> 30"
abbreviation (input) PPME_SOCKET_RECVFROM_E :: nat where "PPME_SOCKET_RECVFROM_E \<equiv> 34"
abbreviation (input) PPME_SOCKET_RECVFROM_X :: nat where "PPME_SOCKET_RECVFROM_X \<equiv> 35"
abbreviation (input) PPME_SOCKET_SHUTDOWN_E :: nat where "PPME_SOCKET_SHUTDOWN_E \<equiv> 36"
abbreviation (input) PPME_SOCKET_SHUTDOWN_X :: nat where "PPME_SOCKET_SHUTDOWN_X \<equiv> 37"
abbreviation (input) PPME_SOCKET_GETSOCKNAME_E :: nat where "PPME_SOCKET_GETSOCKNAME_E \<equiv> 38"
abbreviation (input) PPME_SOCKET_GETSOCKNAME_X :: nat where "PPME_SOCKET_GETSOCKNAME_X \<equiv> 39"
abbreviation (input) PPME_SOCKET_GETPEERNAME_E :: nat where "PPME_SOCKET_GETPEERNAME_E \<equiv> 40"
abbreviation (input) PPME_SOCKET_GETPEERNAME_X :: nat where "PPME_SOCKET_GETPEERNAME_X \<equiv> 41"
abbreviation (input) PPME_SOCKET_SOCKETPAIR_E :: nat where "PPME_SOCKET_SOCKETPAIR_E \<equiv> 42"
abbreviation (input) PPME_SOCKET_SOCKETPAIR_X :: nat where "PPME_SOCKET_SOCKETPAIR_X \<equiv> 43"
abbreviation (input) PPME_SOCKET_SETSOCKOPT_E :: nat where "PPME_SOCKET_SETSOCKOPT_E \<equiv> 44"
abbreviation (input) PPME_SOCKET_SETSOCKOPT_X :: nat where "PPME_SOCKET_SETSOCKOPT_X \<equiv> 45"
abbreviation (input) PPME_SOCKET_GETSOCKOPT_E :: nat where "PPME_SOCKET_GETSOCKOPT_E \<equiv> 46"
abbreviation (input) PPME_SOCKET_GETSOCKOPT_X :: nat where "PPME_SOCKET_GETSOCKOPT_X \<equiv> 47"
abbreviation (input) PPME_SOCKET_SENDMSG_E :: nat where "PPME_SOCKET_SENDMSG_E \<equiv> 48"
abbreviation (input) PPME_SOCKET_SENDMMSG_E :: nat where "PPME_SOCKET_SENDMMSG_E \<equiv> 50"
abbreviation (input) PPME_SOCKET_SENDMMSG_X :: nat where "PPME_SOCKET_SENDMMSG_X \<equiv> 51"
abbreviation (input) PPME_SOCKET_RECVMSG_E :: nat where "PPME_SOCKET_RECVMSG_E \<equiv> 52"
abbreviation (input) PPME_SOCKET_RECVMSG_X :: nat where "PPME_SOCKET_RECVMSG_X \<equiv> 53"
abbreviation (input) PPME_SOCKET_RECVMMSG_E :: nat where "PPME_SOCKET_RECVMMSG_E \<equiv> 54"
abbreviation (input) PPME_SOCKET_RECVMMSG_X :: nat where "PPME_SOCKET_RECVMMSG_X \<equiv> 55"
abbreviation (input) PPME_SYSCALL_CREAT_E :: nat where "PPME_SYSCALL_CREAT_E \<equiv> 58"
abbreviation (input) PPME_SYSCALL_CREAT_X :: nat where "PPME_SYSCALL_CREAT_X \<equiv> 59"
abbreviation (input) PPME_SYSCALL_PIPE_E :: nat where "PPME_SYSCALL_PIPE_E \<equiv> 60"
abbreviation (input) PPME_SYSCALL_PIPE_X :: nat where "PPME_SYSCALL_PIPE_X \<equiv> 61"
abbreviation (input) PPME_SYSCALL_EVENTFD_E :: nat where "PPME_SYSCALL_EVENTFD_E \<equiv> 62"
abbreviation (input) PPME_SYSCALL_EVENTFD_X :: nat where "PPME_SYSCALL_EVENTFD_X \<equiv> 63"
abbreviation (input) PPME_SYSCALL_FUTEX_E :: nat where "PPME_SYSCALL_FUTEX_E \<equiv> 64"
abbreviation (input) PPME_SYSCALL_FUTEX_X :: nat where "PPME_SYSCALL_FUTEX_X \<equiv> 65"
abbreviation (input) PPME_SYSCALL_STAT_E :: nat where "PPME_SYSCALL_STAT_E \<equiv> 66"
abbreviation (input) PPME_SYSCALL_STAT_X :: nat where "PPME_SYSCALL_STAT_X \<equiv> 67"
abbreviation (input) PPME_SYSCALL_LSTAT_E :: nat where "PPME_SYSCALL_LSTAT_E \<equiv> 68"
abbreviation (input) PPME_SYSCALL_LSTAT_X :: nat where "PPME_SYSCALL_LSTAT_X \<equiv> 69"
abbreviation (input) PPME_SYSCALL_FSTAT_E :: nat where "PPME_SYSCALL_FSTAT_E \<equiv> 70"
abbreviation (input) PPME_SYSCALL_FSTAT_X :: nat where "PPME_SYSCALL_FSTAT_X \<equiv> 71"
abbreviation (input) PPME_SYSCALL_STAT64_E :: nat where "PPME_SYSCALL_STAT64_E \<equiv> 72"
abbreviation (input) PPME_SYSCALL_STAT64_X :: nat where "PPME_SYSCALL_STAT64_X \<equiv> 73"
abbreviation (input) PPME_SYSCALL_FSTAT64_E :: nat where "PPME_SYSCALL_FSTAT64_E \<equiv> 76"
abbreviation (input) PPME_SYSCALL_FSTAT64_X :: nat where "PPME_SYSCALL_FSTAT64_X \<equiv> 77"
abbreviation (input) PPME_SYSCALL_EPOLLWAIT_E :: nat where "PPME_SYSCALL_EPOLLWAIT_E \<equiv> 78"
abbreviation (input) PPME_SYSCALL_EPOLLWAIT_X :: nat where "PPME_SYSCALL_EPOLLWAIT_X \<equiv> 79"
abbreviation (input) PPME_SYSCALL_POLL_E :: nat where "PPME_SYSCALL_POLL_E \<equiv> 80"
abbreviation (input) PPME_SYSCALL_POLL_X :: nat where "PPME_SYSCALL_POLL_X \<equiv> 81"
abbreviation (input) PPME_SYSCALL_SELECT_E :: nat where "PPME_SYSCALL_SELECT_E \<equiv> 82"
abbreviation (input) PPME_SYSCALL_SELECT_X :: nat where "PPME_SYSCALL_SELECT_X \<equiv> 83"
abbreviation (input) PPME_SYSCALL_LSEEK_E :: nat where "PPME_SYSCALL_LSEEK_E \<equiv> 86"
abbreviation (input) PPME_SYSCALL_LSEEK_X :: nat where "PPME_SYSCALL_LSEEK_X \<equiv> 87"
abbreviation (input) PPME_SYSCALL_LLSEEK_E :: nat where "PPME_SYSCALL_LLSEEK_E \<equiv> 88"
abbreviation (input) PPME_SYSCALL_LLSEEK_X :: nat where "PPME_SYSCALL_LLSEEK_X \<equiv> 89"
abbreviation (input) PPME_SYSCALL_GETCWD_E :: nat where "PPME_SYSCALL_GETCWD_E \<equiv> 92"
abbreviation (input) PPME_SYSCALL_GETCWD_X :: nat where "PPME_SYSCALL_GETCWD_X \<equiv> 93"
abbreviation (input) PPME_SYSCALL_CHDIR_E :: nat where "PPME_SYSCALL_CHDIR_E \<equiv> 94"
abbreviation (input) PPME_SYSCALL_CHDIR_X :: nat where "PPME_SYSCALL_CHDIR_X \<equiv> 95"
abbreviation (input) PPME_SYSCALL_FCHDIR_E :: nat where "PPME_SYSCALL_FCHDIR_E \<equiv> 96"
abbreviation (input) PPME_SYSCALL_FCHDIR_X :: nat where "PPME_SYSCALL_FCHDIR_X \<equiv> 97"
abbreviation (input) PPME_SYSCALL_PREAD_E :: nat where "PPME_SYSCALL_PREAD_E \<equiv> 112"
abbreviation (input) PPME_SYSCALL_PREAD_X :: nat where "PPME_SYSCALL_PREAD_X \<equiv> 113"
abbreviation (input) PPME_SYSCALL_PWRITE_E :: nat where "PPME_SYSCALL_PWRITE_E \<equiv> 114"
abbreviation (input) PPME_SYSCALL_PWRITE_X :: nat where "PPME_SYSCALL_PWRITE_X \<equiv> 115"
abbreviation (input) PPME_SYSCALL_READV_E :: nat where "PPME_SYSCALL_READV_E \<equiv> 116"
abbreviation (input) PPME_SYSCALL_READV_X :: nat where "PPME_SYSCALL_READV_X \<equiv> 117"
abbreviation (input) PPME_SYSCALL_WRITEV_E :: nat where "PPME_SYSCALL_WRITEV_E \<equiv> 118"
abbreviation (input) PPME_SYSCALL_WRITEV_X :: nat where "PPME_SYSCALL_WRITEV_X \<equiv> 119"
abbreviation (input) PPME_SYSCALL_PREADV_E :: nat where "PPME_SYSCALL_PREADV_E \<equiv> 120"
abbreviation (input) PPME_SYSCALL_PREADV_X :: nat where "PPME_SYSCALL_PREADV_X \<equiv> 121"
abbreviation (input) PPME_SYSCALL_PWRITEV_E :: nat where "PPME_SYSCALL_PWRITEV_E \<equiv> 122"
abbreviation (input) PPME_SYSCALL_PWRITEV_X :: nat where "PPME_SYSCALL_PWRITEV_X \<equiv> 123"
abbreviation (input) PPME_SYSCALL_DUP_E :: nat where "PPME_SYSCALL_DUP_E \<equiv> 124"
abbreviation (input) PPME_SYSCALL_DUP_X :: nat where "PPME_SYSCALL_DUP_X \<equiv> 125"
abbreviation (input) PPME_SYSCALL_SIGNALFD_E :: nat where "PPME_SYSCALL_SIGNALFD_E \<equiv> 126"
abbreviation (input) PPME_SYSCALL_SIGNALFD_X :: nat where "PPME_SYSCALL_SIGNALFD_X \<equiv> 127"
abbreviation (input) PPME_SYSCALL_KILL_E :: nat where "PPME_SYSCALL_KILL_E \<equiv> 128"
abbreviation (input) PPME_SYSCALL_KILL_X :: nat where "PPME_SYSCALL_KILL_X \<equiv> 129"
abbreviation (input) PPME_SYSCALL_TKILL_E :: nat where "PPME_SYSCALL_TKILL_E \<equiv> 130"
abbreviation (input) PPME_SYSCALL_TKILL_X :: nat where "PPME_SYSCALL_TKILL_X \<equiv> 131"
abbreviation (input) PPME_SYSCALL_TGKILL_E :: nat where "PPME_SYSCALL_TGKILL_E \<equiv> 132"
abbreviation (input) PPME_SYSCALL_TGKILL_X :: nat where "PPME_SYSCALL_TGKILL_X \<equiv> 133"
abbreviation (input) PPME_SYSCALL_NANOSLEEP_E :: nat where "PPME_SYSCALL_NANOSLEEP_E \<equiv> 134"
abbreviation (input) PPME_SYSCALL_NANOSLEEP_X :: nat where "PPME_SYSCALL_NANOSLEEP_X \<equiv> 135"
abbreviation (input) PPME_SYSCALL_TIMERFD_CREATE_E :: nat where "PPME_SYSCALL_TIMERFD_CREATE_E \<equiv> 136"
abbreviation (input) PPME_SYSCALL_TIMERFD_CREATE_X :: nat where "PPME_SYSCALL_TIMERFD_CREATE_X \<equiv> 137"
abbreviation (input) PPME_SYSCALL_INOTIFY_INIT_E :: nat where "PPME_SYSCALL_INOTIFY_INIT_E \<equiv> 138"
abbreviation (input) PPME_SYSCALL_INOTIFY_INIT_X :: nat where "PPME_SYSCALL_INOTIFY_INIT_X \<equiv> 139"
abbreviation (input) PPME_SYSCALL_GETRLIMIT_E :: nat where "PPME_SYSCALL_GETRLIMIT_E \<equiv> 140"
abbreviation (input) PPME_SYSCALL_GETRLIMIT_X :: nat where "PPME_SYSCALL_GETRLIMIT_X \<equiv> 141"
abbreviation (input) PPME_SYSCALL_SETRLIMIT_E :: nat where "PPME_SYSCALL_SETRLIMIT_E \<equiv> 142"
abbreviation (input) PPME_SYSCALL_SETRLIMIT_X :: nat where "PPME_SYSCALL_SETRLIMIT_X \<equiv> 143"
abbreviation (input) PPME_SYSCALL_PRLIMIT_E :: nat where "PPME_SYSCALL_PRLIMIT_E \<equiv> 144"
abbreviation (input) PPME_SYSCALL_PRLIMIT_X :: nat where "PPME_SYSCALL_PRLIMIT_X \<equiv> 145"
abbreviation (input) PPME_SYSCALL_BRK_4_E :: nat where "PPME_SYSCALL_BRK_4_E \<equiv> 158"
abbreviation (input) PPME_SYSCALL_BRK_4_X :: nat where "PPME_SYSCALL_BRK_4_X \<equiv> 159"
abbreviation (input) PPME_SYSCALL_MMAP_E :: nat where "PPME_SYSCALL_MMAP_E \<equiv> 160"
abbreviation (input) PPME_SYSCALL_MMAP_X :: nat where "PPME_SYSCALL_MMAP_X \<equiv> 161"
abbreviation (input) PPME_SYSCALL_MMAP2_E :: nat where "PPME_SYSCALL_MMAP2_E \<equiv> 162"
abbreviation (input) PPME_SYSCALL_MMAP2_X :: nat where "PPME_SYSCALL_MMAP2_X \<equiv> 163"
abbreviation (input) PPME_SYSCALL_MUNMAP_E :: nat where "PPME_SYSCALL_MUNMAP_E \<equiv> 164"
abbreviation (input) PPME_SYSCALL_MUNMAP_X :: nat where "PPME_SYSCALL_MUNMAP_X \<equiv> 165"
abbreviation (input) PPME_SYSCALL_SPLICE_E :: nat where "PPME_SYSCALL_SPLICE_E \<equiv> 166"
abbreviation (input) PPME_SYSCALL_SPLICE_X :: nat where "PPME_SYSCALL_SPLICE_X \<equiv> 167"
abbreviation (input) PPME_SYSCALL_PTRACE_E :: nat where "PPME_SYSCALL_PTRACE_E \<equiv> 168"
abbreviation (input) PPME_SYSCALL_PTRACE_X :: nat where "PPME_SYSCALL_PTRACE_X \<equiv> 169"
abbreviation (input) PPME_SYSCALL_IOCTL_3_E :: nat where "PPME_SYSCALL_IOCTL_3_E \<equiv> 170"
abbreviation (input) PPME_SYSCALL_IOCTL_3_X :: nat where "PPME_SYSCALL_IOCTL_3_X \<equiv> 171"
abbreviation (input) PPME_SYSCALL_RENAME_E :: nat where "PPME_SYSCALL_RENAME_E \<equiv> 174"
abbreviation (input) PPME_SYSCALL_RENAME_X :: nat where "PPME_SYSCALL_RENAME_X \<equiv> 175"
abbreviation (input) PPME_SYSCALL_RENAMEAT_E :: nat where "PPME_SYSCALL_RENAMEAT_E \<equiv> 176"
abbreviation (input) PPME_SYSCALL_RENAMEAT_X :: nat where "PPME_SYSCALL_RENAMEAT_X \<equiv> 177"
abbreviation (input) PPME_SYSCALL_SYMLINK_E :: nat where "PPME_SYSCALL_SYMLINK_E \<equiv> 178"
abbreviation (input) PPME_SYSCALL_SYMLINK_X :: nat where "PPME_SYSCALL_SYMLINK_X \<equiv> 179"
abbreviation (input) PPME_SYSCALL_SYMLINKAT_E :: nat where "PPME_SYSCALL_SYMLINKAT_E \<equiv> 180"
abbreviation (input) PPME_SYSCALL_SYMLINKAT_X :: nat where "PPME_SYSCALL_SYMLINKAT_X \<equiv> 181"
abbreviation (input) PPME_SYSCALL_SENDFILE_E :: nat where "PPME_SYSCALL_SENDFILE_E \<equiv> 188"
abbreviation (input) PPME_SYSCALL_SENDFILE_X :: nat where "PPME_SYSCALL_SENDFILE_X \<equiv> 189"
abbreviation (input) PPME_SYSCALL_QUOTACTL_E :: nat where "PPME_SYSCALL_QUOTACTL_E \<equiv> 190"
abbreviation (input) PPME_SYSCALL_QUOTACTL_X :: nat where "PPME_SYSCALL_QUOTACTL_X \<equiv> 191"
abbreviation (input) PPME_SYSCALL_SETRESUID_E :: nat where "PPME_SYSCALL_SETRESUID_E \<equiv> 192"
abbreviation (input) PPME_SYSCALL_SETRESUID_X :: nat where "PPME_SYSCALL_SETRESUID_X \<equiv> 193"
abbreviation (input) PPME_SYSCALL_SETRESGID_E :: nat where "PPME_SYSCALL_SETRESGID_E \<equiv> 194"
abbreviation (input) PPME_SYSCALL_SETRESGID_X :: nat where "PPME_SYSCALL_SETRESGID_X \<equiv> 195"
abbreviation (input) PPME_SYSCALL_SETUID_E :: nat where "PPME_SYSCALL_SETUID_E \<equiv> 198"
abbreviation (input) PPME_SYSCALL_SETUID_X :: nat where "PPME_SYSCALL_SETUID_X \<equiv> 199"
abbreviation (input) PPME_SYSCALL_SETGID_E :: nat where "PPME_SYSCALL_SETGID_E \<equiv> 200"
abbreviation (input) PPME_SYSCALL_SETGID_X :: nat where "PPME_SYSCALL_SETGID_X \<equiv> 201"
abbreviation (input) PPME_SYSCALL_GETUID_E :: nat where "PPME_SYSCALL_GETUID_E \<equiv> 202"
abbreviation (input) PPME_SYSCALL_GETUID_X :: nat where "PPME_SYSCALL_GETUID_X \<equiv> 203"
abbreviation (input) PPME_SYSCALL_GETEUID_E :: nat where "PPME_SYSCALL_GETEUID_E \<equiv> 204"
abbreviation (input) PPME_SYSCALL_GETEUID_X :: nat where "PPME_SYSCALL_GETEUID_X \<equiv> 205"
abbreviation (input) PPME_SYSCALL_GETGID_E :: nat where "PPME_SYSCALL_GETGID_E \<equiv> 206"
abbreviation (input) PPME_SYSCALL_GETGID_X :: nat where "PPME_SYSCALL_GETGID_X \<equiv> 207"
abbreviation (input) PPME_SYSCALL_GETEGID_E :: nat where "PPME_SYSCALL_GETEGID_E \<equiv> 208"
abbreviation (input) PPME_SYSCALL_GETEGID_X :: nat where "PPME_SYSCALL_GETEGID_X \<equiv> 209"
abbreviation (input) PPME_SYSCALL_GETRESUID_E :: nat where "PPME_SYSCALL_GETRESUID_E \<equiv> 210"
abbreviation (input) PPME_SYSCALL_GETRESUID_X :: nat where "PPME_SYSCALL_GETRESUID_X \<equiv> 211"
abbreviation (input) PPME_SYSCALL_GETRESGID_E :: nat where "PPME_SYSCALL_GETRESGID_E \<equiv> 212"
abbreviation (input) PPME_SYSCALL_GETRESGID_X :: nat where "PPME_SYSCALL_GETRESGID_X \<equiv> 213"
abbreviation (input) PPME_SYSCALL_CLONE_20_E :: nat where "PPME_SYSCALL_CLONE_20_E \<equiv> 222"
abbreviation (input) PPME_SYSCALL_CLONE_20_X :: nat where "PPME_SYSCALL_CLONE_20_X \<equiv> 223"
abbreviation (input) PPME_SYSCALL_FORK_20_E :: nat where "PPME_SYSCALL_FORK_20_E \<equiv> 224"
abbreviation (input) PPME_SYSCALL_FORK_20_X :: nat where "PPME_SYSCALL_FORK_20_X \<equiv> 225"
abbreviation (input) PPME_SYSCALL_VFORK_20_E :: nat where "PPME_SYSCALL_VFORK_20_E \<equiv> 226"
abbreviation (input) PPME_SYSCALL_VFORK_20_X :: nat where "PPME_SYSCALL_VFORK_20_X \<equiv> 227"
abbreviation (input) PPME_SYSCALL_GETDENTS_E :: nat where "PPME_SYSCALL_GETDENTS_E \<equiv> 236"
abbreviation (input) PPME_SYSCALL_GETDENTS_X :: nat where "PPME_SYSCALL_GETDENTS_X \<equiv> 237"
abbreviation (input) PPME_SYSCALL_GETDENTS64_E :: nat where "PPME_SYSCALL_GETDENTS64_E \<equiv> 238"
abbreviation (input) PPME_SYSCALL_GETDENTS64_X :: nat where "PPME_SYSCALL_GETDENTS64_X \<equiv> 239"
abbreviation (input) PPME_SYSCALL_SETNS_E :: nat where "PPME_SYSCALL_SETNS_E \<equiv> 240"
abbreviation (input) PPME_SYSCALL_SETNS_X :: nat where "PPME_SYSCALL_SETNS_X \<equiv> 241"
abbreviation (input) PPME_SYSCALL_FLOCK_E :: nat where "PPME_SYSCALL_FLOCK_E \<equiv> 242"
abbreviation (input) PPME_SYSCALL_FLOCK_X :: nat where "PPME_SYSCALL_FLOCK_X \<equiv> 243"
abbreviation (input) PPME_SOCKET_ACCEPT_5_E :: nat where "PPME_SOCKET_ACCEPT_5_E \<equiv> 246"
abbreviation (input) PPME_SOCKET_ACCEPT_5_X :: nat where "PPME_SOCKET_ACCEPT_5_X \<equiv> 247"
abbreviation (input) PPME_SOCKET_ACCEPT4_5_E :: nat where "PPME_SOCKET_ACCEPT4_5_E \<equiv> 248"
abbreviation (input) PPME_SOCKET_ACCEPT4_5_X :: nat where "PPME_SOCKET_ACCEPT4_5_X \<equiv> 249"
abbreviation (input) PPME_SYSCALL_SEMOP_E :: nat where "PPME_SYSCALL_SEMOP_E \<equiv> 250"
abbreviation (input) PPME_SYSCALL_SEMOP_X :: nat where "PPME_SYSCALL_SEMOP_X \<equiv> 251"
abbreviation (input) PPME_SYSCALL_SEMCTL_E :: nat where "PPME_SYSCALL_SEMCTL_E \<equiv> 252"
abbreviation (input) PPME_SYSCALL_SEMCTL_X :: nat where "PPME_SYSCALL_SEMCTL_X \<equiv> 253"
abbreviation (input) PPME_SYSCALL_PPOLL_E :: nat where "PPME_SYSCALL_PPOLL_E \<equiv> 254"
abbreviation (input) PPME_SYSCALL_PPOLL_X :: nat where "PPME_SYSCALL_PPOLL_X \<equiv> 255"
abbreviation (input) PPME_SYSCALL_MOUNT_E :: nat where "PPME_SYSCALL_MOUNT_E \<equiv> 256"
abbreviation (input) PPME_SYSCALL_MOUNT_X :: nat where "PPME_SYSCALL_MOUNT_X \<equiv> 257"
abbreviation (input) PPME_SYSCALL_UMOUNT_E :: nat where "PPME_SYSCALL_UMOUNT_E \<equiv> 258"
abbreviation (input) PPME_SYSCALL_UMOUNT_X :: nat where "PPME_SYSCALL_UMOUNT_X \<equiv> 259"
abbreviation (input) PPME_SYSCALL_SEMGET_E :: nat where "PPME_SYSCALL_SEMGET_E \<equiv> 262"
abbreviation (input) PPME_SYSCALL_SEMGET_X :: nat where "PPME_SYSCALL_SEMGET_X \<equiv> 263"
abbreviation (input) PPME_SYSCALL_ACCESS_E :: nat where "PPME_SYSCALL_ACCESS_E \<equiv> 264"
abbreviation (input) PPME_SYSCALL_ACCESS_X :: nat where "PPME_SYSCALL_ACCESS_X \<equiv> 265"
abbreviation (input) PPME_SYSCALL_CHROOT_E :: nat where "PPME_SYSCALL_CHROOT_E \<equiv> 266"
abbreviation (input) PPME_SYSCALL_CHROOT_X :: nat where "PPME_SYSCALL_CHROOT_X \<equiv> 267"
abbreviation (input) PPME_SYSCALL_SETSID_E :: nat where "PPME_SYSCALL_SETSID_E \<equiv> 274"
abbreviation (input) PPME_SYSCALL_SETSID_X :: nat where "PPME_SYSCALL_SETSID_X \<equiv> 275"
abbreviation (input) PPME_SYSCALL_MKDIR_2_E :: nat where "PPME_SYSCALL_MKDIR_2_E \<equiv> 276"
abbreviation (input) PPME_SYSCALL_MKDIR_2_X :: nat where "PPME_SYSCALL_MKDIR_2_X \<equiv> 277"
abbreviation (input) PPME_SYSCALL_RMDIR_2_E :: nat where "PPME_SYSCALL_RMDIR_2_E \<equiv> 278"
abbreviation (input) PPME_SYSCALL_RMDIR_2_X :: nat where "PPME_SYSCALL_RMDIR_2_X \<equiv> 279"
abbreviation (input) PPME_SYSCALL_UNSHARE_E :: nat where "PPME_SYSCALL_UNSHARE_E \<equiv> 284"
abbreviation (input) PPME_SYSCALL_UNSHARE_X :: nat where "PPME_SYSCALL_UNSHARE_X \<equiv> 285"
abbreviation (input) PPME_SYSCALL_EXECVE_19_E :: nat where "PPME_SYSCALL_EXECVE_19_E \<equiv> 292"
abbreviation (input) PPME_SYSCALL_EXECVE_19_X :: nat where "PPME_SYSCALL_EXECVE_19_X \<equiv> 293"
abbreviation (input) PPME_SYSCALL_SETPGID_E :: nat where "PPME_SYSCALL_SETPGID_E \<equiv> 294"
abbreviation (input) PPME_SYSCALL_SETPGID_X :: nat where "PPME_SYSCALL_SETPGID_X \<equiv> 295"
abbreviation (input) PPME_SYSCALL_BPF_E :: nat where "PPME_SYSCALL_BPF_E \<equiv> 296"
abbreviation (input) PPME_SYSCALL_BPF_X :: nat where "PPME_SYSCALL_BPF_X \<equiv> 297"
abbreviation (input) PPME_SYSCALL_SECCOMP_X :: nat where "PPME_SYSCALL_SECCOMP_X \<equiv> 299"
abbreviation (input) PPME_SYSCALL_UNLINK_2_E :: nat where "PPME_SYSCALL_UNLINK_2_E \<equiv> 300"
abbreviation (input) PPME_SYSCALL_UNLINK_2_X :: nat where "PPME_SYSCALL_UNLINK_2_X \<equiv> 301"
abbreviation (input) PPME_SYSCALL_UNLINKAT_2_E :: nat where "PPME_SYSCALL_UNLINKAT_2_E \<equiv> 302"
abbreviation (input) PPME_SYSCALL_UNLINKAT_2_X :: nat where "PPME_SYSCALL_UNLINKAT_2_X \<equiv> 303"
abbreviation (input) PPME_SYSCALL_MKDIRAT_E :: nat where "PPME_SYSCALL_MKDIRAT_E \<equiv> 304"
abbreviation (input) PPME_SYSCALL_MKDIRAT_X :: nat where "PPME_SYSCALL_MKDIRAT_X \<equiv> 305"
abbreviation (input) PPME_SYSCALL_OPENAT_2_E :: nat where "PPME_SYSCALL_OPENAT_2_E \<equiv> 306"
abbreviation (input) PPME_SYSCALL_OPENAT_2_X :: nat where "PPME_SYSCALL_OPENAT_2_X \<equiv> 307"
abbreviation (input) PPME_SYSCALL_LINK_2_E :: nat where "PPME_SYSCALL_LINK_2_E \<equiv> 308"
abbreviation (input) PPME_SYSCALL_LINK_2_X :: nat where "PPME_SYSCALL_LINK_2_X \<equiv> 309"
abbreviation (input) PPME_SYSCALL_LINKAT_2_E :: nat where "PPME_SYSCALL_LINKAT_2_E \<equiv> 310"
abbreviation (input) PPME_SYSCALL_LINKAT_2_X :: nat where "PPME_SYSCALL_LINKAT_2_X \<equiv> 311"
abbreviation (input) PPME_SYSCALL_FCHMODAT_E :: nat where "PPME_SYSCALL_FCHMODAT_E \<equiv> 312"
abbreviation (input) PPME_SYSCALL_FCHMODAT_X :: nat where "PPME_SYSCALL_FCHMODAT_X \<equiv> 313"
abbreviation (input) PPME_SYSCALL_CHMOD_E :: nat where "PPME_SYSCALL_CHMOD_E \<equiv> 314"
abbreviation (input) PPME_SYSCALL_CHMOD_X :: nat where "PPME_SYSCALL_CHMOD_X \<equiv> 315"
abbreviation (input) PPME_SYSCALL_FCHMOD_E :: nat where "PPME_SYSCALL_FCHMOD_E \<equiv> 316"
abbreviation (input) PPME_SYSCALL_FCHMOD_X :: nat where "PPME_SYSCALL_FCHMOD_X \<equiv> 317"
abbreviation (input) PPME_SYSCALL_RENAMEAT2_E :: nat where "PPME_SYSCALL_RENAMEAT2_E \<equiv> 318"
abbreviation (input) PPME_SYSCALL_RENAMEAT2_X :: nat where "PPME_SYSCALL_RENAMEAT2_X \<equiv> 319"
abbreviation (input) PPME_SYSCALL_USERFAULTFD_E :: nat where "PPME_SYSCALL_USERFAULTFD_E \<equiv> 320"
abbreviation (input) PPME_SYSCALL_USERFAULTFD_X :: nat where "PPME_SYSCALL_USERFAULTFD_X \<equiv> 321"

section \<open>System call codes\<close>

abbreviation (input) PPM_SC_UNKNOWN :: int where "PPM_SC_UNKNOWN \<equiv> 0"
abbreviation (input) PPM_SC_RESTART_SYSCALL :: int where "PPM_SC_RESTART_SYSCALL \<equiv> 1"
abbreviation (input) PPM_SC_EXIT :: int where "PPM_SC_EXIT \<equiv> 2"
abbreviation (input) PPM_SC_READ :: int where "PPM_SC_READ \<equiv> 3"
abbreviation (input) PPM_SC_WRITE :: int where "PPM_SC_WRITE \<equiv> 4"
abbreviation (input) PPM_SC_OPEN :: int where "PPM_SC_OPEN \<equiv> 5"
abbreviation (input) PPM_SC_CLOSE :: int where "PPM_SC_CLOSE \<equiv> 6"
abbreviation (input) PPM_SC_CREAT :: int where "PPM_SC_CREAT \<equiv> 7"
abbreviation (input) PPM_SC_LINK :: int where "PPM_SC_LINK \<equiv> 8"
abbreviation (input) PPM_SC_UNLINK :: int where "PPM_SC_UNLINK \<equiv> 9"
abbreviation (input) PPM_SC_CHDIR :: int where "PPM_SC_CHDIR \<equiv> 10"
abbreviation (input) PPM_SC_TIME :: int where "PPM_SC_TIME \<equiv> 11"
abbreviation (input) PPM_SC_MKNOD :: int where "PPM_SC_MKNOD \<equiv> 12"
abbreviation (input) PPM_SC_CHMOD :: int where "PPM_SC_CHMOD \<equiv> 13"
abbreviation (input) PPM_SC_STAT :: int where "PPM_SC_STAT \<equiv> 14"
abbreviation (input) PPM_SC_LSEEK :: int where "PPM_SC_LSEEK \<equiv> 15"
abbreviation (input) PPM_SC_GETPID :: int where "PPM_SC_GETPID \<equiv> 16"
abbreviation (input) PPM_SC_MOUNT :: int where "PPM_SC_MOUNT \<equiv> 17"
abbreviation (input) PPM_SC_PTRACE :: int where "PPM_SC_PTRACE \<equiv> 18"
abbreviation (input) PPM_SC_ALARM :: int where "PPM_SC_ALARM \<equiv> 19"
abbreviation (input) PPM_SC_FSTAT :: int where "PPM_SC_FSTAT \<equiv> 20"
abbreviation (input) PPM_SC_PAUSE :: int where "PPM_SC_PAUSE \<equiv> 21"
abbreviation (input) PPM_SC_UTIME :: int where "PPM_SC_UTIME \<equiv> 22"
abbreviation (input) PPM_SC_ACCESS :: int where "PPM_SC_ACCESS \<equiv> 23"
abbreviation (input) PPM_SC_SYNC :: int where "PPM_SC_SYNC \<equiv> 24"
abbreviation (input) PPM_SC_KILL :: int where "PPM_SC_KILL \<equiv> 25"
abbreviation (input) PPM_SC_RENAME :: int where "PPM_SC_RENAME \<equiv> 26"
abbreviation (input) PPM_SC_MKDIR :: int where "PPM_SC_MKDIR \<equiv> 27"
abbreviation (input) PPM_SC_RMDIR :: int where "PPM_SC_RMDIR \<equiv> 28"
abbreviation (input) PPM_SC_DUP :: int where "PPM_SC_DUP \<equiv> 29"
abbreviation (input) PPM_SC_PIPE :: int where "PPM_SC_PIPE \<equiv> 30"
abbreviation (input) PPM_SC_TIMES :: int where "PPM_SC_TIMES \<equiv> 31"
abbreviation (input) PPM_SC_BRK :: int where "PPM_SC_BRK \<equiv> 32"
abbreviation (input) PPM_SC_ACCT :: int where "PPM_SC_ACCT \<equiv> 33"
abbreviation (input) PPM_SC_IOCTL :: int where "PPM_SC_IOCTL \<equiv> 34"
abbreviation (input) PPM_SC_FCNTL :: int where "PPM_SC_FCNTL \<equiv> 35"
abbreviation (input) PPM_SC_SETPGID :: int where "PPM_SC_SETPGID \<equiv> 36"
abbreviation (input) PPM_SC_UMASK :: int where "PPM_SC_UMASK \<equiv> 37"
abbreviation (input) PPM_SC_CHROOT :: int where "PPM_SC_CHROOT \<equiv> 38"
abbreviation (input) PPM_SC_USTAT :: int where "PPM_SC_USTAT \<equiv> 39"
abbreviation (input) PPM_SC_DUP2 :: int where "PPM_SC_DUP2 \<equiv> 40"
abbreviation (input) PPM_SC_GETPPID :: int where "PPM_SC_GETPPID \<equiv> 41"
abbreviation (input) PPM_SC_GETPGRP :: int where "PPM_SC_GETPGRP \<equiv> 42"
abbreviation (input) PPM_SC_SETSID :: int where "PPM_SC_SETSID \<equiv> 43"
abbreviation (input) PPM_SC_SETHOSTNAME :: int where "PPM_SC_SETHOSTNAME \<equiv> 44"
abbreviation (input) PPM_SC_SETRLIMIT :: int where "PPM_SC_SETRLIMIT \<equiv> 45"
abbreviation (input) PPM_SC_GETRUSAGE :: int where "PPM_SC_GETRUSAGE \<equiv> 46"
abbreviation (input) PPM_SC_GETTIMEOFDAY :: int where "PPM_SC_GETTIMEOFDAY \<equiv> 47"
abbreviation (input) PPM_SC_SETTIMEOFDAY :: int where "PPM_SC_SETTIMEOFDAY \<equiv> 48"
abbreviation (input) PPM_SC_SYMLINK :: int where "PPM_SC_SYMLINK \<equiv> 49"
abbreviation (input) PPM_SC_LSTAT :: int where "PPM_SC_LSTAT \<equiv> 50"
abbreviation (input) PPM_SC_READLINK :: int where "PPM_SC_READLINK \<equiv> 51"
abbreviation (input) PPM_SC_USELIB :: int where "PPM_SC_USELIB \<equiv> 52"
abbreviation (input) PPM_SC_SWAPON :: int where "PPM_SC_SWAPON \<equiv> 53"
abbreviation (input) PPM_SC_REBOOT :: int where "PPM_SC_REBOOT \<equiv> 54"
abbreviation (input) PPM_SC_MMAP :: int where "PPM_SC_MMAP \<equiv> 55"
abbreviation (input) PPM_SC_MUNMAP :: int where "PPM_SC_MUNMAP \<equiv> 56"
abbreviation (input) PPM_SC_TRUNCATE :: int where "PPM_SC_TRUNCATE \<equiv> 57"
abbreviation (input) PPM_SC_FTRUNCATE :: int where "PPM_SC_FTRUNCATE \<equiv> 58"
abbreviation (input) PPM_SC_FCHMOD :: int where "PPM_SC_FCHMOD \<equiv> 59"
abbreviation (input) PPM_SC_GETPRIORITY :: int where "PPM_SC_GETPRIORITY \<equiv> 60"
abbreviation (input) PPM_SC_SETPRIORITY :: int where "PPM_SC_SETPRIORITY \<equiv> 61"
abbreviation (input) PPM_SC_STATFS :: int where "PPM_SC_STATFS \<equiv> 62"
abbreviation (input) PPM_SC_FSTATFS :: int where "PPM_SC_FSTATFS \<equiv> 63"
abbreviation (input) PPM_SC_SYSLOG :: int where "PPM_SC_SYSLOG \<equiv> 64"
abbreviation (input) PPM_SC_SETITIMER :: int where "PPM_SC_SETITIMER \<equiv> 65"
abbreviation (input) PPM_SC_GETITIMER :: int where "PPM_SC_GETITIMER \<equiv> 66"
abbreviation (input) PPM_SC_UNAME :: int where "PPM_SC_UNAME \<equiv> 67"
abbreviation (input) PPM_SC_VHANGUP :: int where "PPM_SC_VHANGUP \<equiv> 68"
abbreviation (input) PPM_SC_WAIT4 :: int where "PPM_SC_WAIT4 \<equiv> 69"
abbreviation (input) PPM_SC_SWAPOFF :: int where "PPM_SC_SWAPOFF \<equiv> 70"
abbreviation (input) PPM_SC_SYSINFO :: int where "PPM_SC_SYSINFO \<equiv> 71"
abbreviation (input) PPM_SC_FSYNC :: int where "PPM_SC_FSYNC \<equiv> 72"
abbreviation (input) PPM_SC_SETDOMAINNAME :: int where "PPM_SC_SETDOMAINNAME \<equiv> 73"
abbreviation (input) PPM_SC_ADJTIMEX :: int where "PPM_SC_ADJTIMEX \<equiv> 74"
abbreviation (input) PPM_SC_MPROTECT :: int where "PPM_SC_MPROTECT \<equiv> 75"
abbreviation (input) PPM_SC_INIT_MODULE :: int where "PPM_SC_INIT_MODULE \<equiv> 76"
abbreviation (input) PPM_SC_DELETE_MODULE :: int where "PPM_SC_DELETE_MODULE \<equiv> 77"
abbreviation (input) PPM_SC_QUOTACTL :: int where "PPM_SC_QUOTACTL \<equiv> 78"
abbreviation (input) PPM_SC_GETPGID :: int where "PPM_SC_GETPGID \<equiv> 79"
abbreviation (input) PPM_SC_FCHDIR :: int where "PPM_SC_FCHDIR \<equiv> 80"
abbreviation (input) PPM_SC_SYSFS :: int where "PPM_SC_SYSFS \<equiv> 81"
abbreviation (input) PPM_SC_PERSONALITY :: int where "PPM_SC_PERSONALITY \<equiv> 82"
abbreviation (input) PPM_SC_GETDENTS :: int where "PPM_SC_GETDENTS \<equiv> 83"
abbreviation (input) PPM_SC_SELECT :: int where "PPM_SC_SELECT \<equiv> 84"
abbreviation (input) PPM_SC_FLOCK :: int where "PPM_SC_FLOCK \<equiv> 85"
abbreviation (input) PPM_SC_MSYNC :: int where "PPM_SC_MSYNC \<equiv> 86"
abbreviation (input) PPM_SC_READV :: int where "PPM_SC_READV \<equiv> 87"
abbreviation (input) PPM_SC_WRITEV :: int where "PPM_SC_WRITEV \<equiv> 88"
abbreviation (input) PPM_SC_GETSID :: int where "PPM_SC_GETSID \<equiv> 89"
abbreviation (input) PPM_SC_FDATASYNC :: int where "PPM_SC_FDATASYNC \<equiv> 90"
abbreviation (input) PPM_SC_MLOCK :: int where "PPM_SC_MLOCK \<equiv> 91"
abbreviation (input) PPM_SC_MUNLOCK :: int where "PPM_SC_MUNLOCK \<equiv> 92"
abbreviation (input) PPM_SC_MLOCKALL :: int where "PPM_SC_MLOCKALL \<equiv> 93"
abbreviation (input) PPM_SC_MUNLOCKALL :: int where "PPM_SC_MUNLOCKALL \<equiv> 94"
abbreviation (input) PPM_SC_SCHED_SETPARAM :: int where "PPM_SC_SCHED_SETPARAM \<equiv> 95"
abbreviation (input) PPM_SC_SCHED_GETPARAM :: int where "PPM_SC_SCHED_GETPARAM \<equiv> 96"
abbreviation (input) PPM_SC_SCHED_SETSCHEDULER :: int where "PPM_SC_SCHED_SETSCHEDULER \<equiv> 97"
abbreviation (input) PPM_SC_SCHED_GETSCHEDULER :: int where "PPM_SC_SCHED_GETSCHEDULER \<equiv> 98"
abbreviation (input) PPM_SC_SCHED_YIELD :: int where "PPM_SC_SCHED_YIELD \<equiv> 99"
abbreviation (input) PPM_SC_SCHED_GET_PRIORITY_MAX :: int where "PPM_SC_SCHED_GET_PRIORITY_MAX \<equiv> 100"
abbreviation (input) PPM_SC_SCHED_GET_PRIORITY_MIN :: int where "PPM_SC_SCHED_GET_PRIORITY_MIN \<equiv> 101"
abbreviation (input) PPM_SC_SCHED_RR_GET_INTERVAL :: int where "PPM_SC_SCHED_RR_GET_INTERVAL \<equiv> 102"
abbreviation (input) PPM_SC_NANOSLEEP :: int where "PPM_SC_NANOSLEEP \<equiv> 103"
abbreviation (input) PPM_SC_MREMAP :: int where "PPM_SC_MREMAP \<equiv> 104"
abbreviation (input) PPM_SC_POLL :: int where "PPM_SC_POLL \<equiv> 105"
abbreviation (input) PPM_SC_PRCTL :: int where "PPM_SC_PRCTL \<equiv> 106"
abbreviation (input) PPM_SC_RT_SIGACTION :: int where "PPM_SC_RT_SIGACTION \<equiv> 107"
abbreviation (input) PPM_SC_RT_SIGPROCMASK :: int where "PPM_SC_RT_SIGPROCMASK \<equiv> 108"
abbreviation (input) PPM_SC_RT_SIGPENDING :: int where "PPM_SC_RT_SIGPENDING \<equiv> 109"
abbreviation (input) PPM_SC_RT_SIGTIMEDWAIT :: int where "PPM_SC_RT_SIGTIMEDWAIT \<equiv> 110"
abbreviation (input) PPM_SC_RT_SIGQUEUEINFO :: int where "PPM_SC_RT_SIGQUEUEINFO \<equiv> 111"
abbreviation (input) PPM_SC_RT_SIGSUSPEND :: int where "PPM_SC_RT_SIGSUSPEND \<equiv> 112"
abbreviation (input) PPM_SC_GETCWD :: int where "PPM_SC_GETCWD \<equiv> 113"
abbreviation (input) PPM_SC_CAPGET :: int where "PPM_SC_CAPGET \<equiv> 114"
abbreviation (input) PPM_SC_CAPSET :: int where "PPM_SC_CAPSET \<equiv> 115"
abbreviation (input) PPM_SC_SENDFILE :: int where "PPM_SC_SENDFILE \<equiv> 116"
abbreviation (input) PPM_SC_GETRLIMIT :: int where "PPM_SC_GETRLIMIT \<equiv> 117"
abbreviation (input) PPM_SC_LCHOWN :: int where "PPM_SC_LCHOWN \<equiv> 118"
abbreviation (input) PPM_SC_GETUID :: int where "PPM_SC_GETUID \<equiv> 119"
abbreviation (input) PPM_SC_GETGID :: int where "PPM_SC_GETGID \<equiv> 120"
abbreviation (input) PPM_SC_GETEUID :: int where "PPM_SC_GETEUID \<equiv> 121"
abbreviation (input) PPM_SC_GETEGID :: int where "PPM_SC_GETEGID \<equiv> 122"
abbreviation (input) PPM_SC_SETREUID :: int where "PPM_SC_SETREUID \<equiv> 123"
abbreviation (input) PPM_SC_SETREGID :: int where "PPM_SC_SETREGID \<equiv> 124"
abbreviation (input) PPM_SC_GETGROUPS :: int where "PPM_SC_GETGROUPS \<equiv> 125"
abbreviation (input) PPM_SC_SETGROUPS :: int where "PPM_SC_SETGROUPS \<equiv> 126"
abbreviation (input) PPM_SC_FCHOWN :: int where "PPM_SC_FCHOWN \<equiv> 127"
abbreviation (input) PPM_SC_SETRESUID :: int where "PPM_SC_SETRESUID \<equiv> 128"
abbreviation (input) PPM_SC_GETRESUID :: int where "PPM_SC_GETRESUID \<equiv> 129"
abbreviation (input) PPM_SC_SETRESGID :: int where "PPM_SC_SETRESGID \<equiv> 130"
abbreviation (input) PPM_SC_GETRESGID :: int where "PPM_SC_GETRESGID \<equiv> 131"
abbreviation (input) PPM_SC_CHOWN :: int where "PPM_SC_CHOWN \<equiv> 132"
abbreviation (input) PPM_SC_SETUID :: int where "PPM_SC_SETUID \<equiv> 133"
abbreviation (input) PPM_SC_SETGID :: int where "PPM_SC_SETGID \<equiv> 134"
abbreviation (input) PPM_SC_SETFSUID :: int where "PPM_SC_SETFSUID \<equiv> 135"
abbreviation (input) PPM_SC_SETFSGID :: int where "PPM_SC_SETFSGID \<equiv> 136"
abbreviation (input) PPM_SC_PIVOT_ROOT :: int where "PPM_SC_PIVOT_ROOT \<equiv> 137"
abbreviation (input) PPM_SC_MINCORE :: int where "PPM_SC_MINCORE \<equiv> 138"
abbreviation (input) PPM_SC_MADVISE :: int where "PPM_SC_MADVISE \<equiv> 139"
abbreviation (input) PPM_SC_GETTID :: int where "PPM_SC_GETTID \<equiv> 140"
abbreviation (input) PPM_SC_SETXATTR :: int where "PPM_SC_SETXATTR \<equiv> 141"
abbreviation (input) PPM_SC_LSETXATTR :: int where "PPM_SC_LSETXATTR \<equiv> 142"
abbreviation (input) PPM_SC_FSETXATTR :: int where "PPM_SC_FSETXATTR \<equiv> 143"
abbreviation (input) PPM_SC_GETXATTR :: int where "PPM_SC_GETXATTR \<equiv> 144"
abbreviation (input) PPM_SC_LGETXATTR :: int where "PPM_SC_LGETXATTR \<equiv> 145"
abbreviation (input) PPM_SC_FGETXATTR :: int where "PPM_SC_FGETXATTR \<equiv> 146"
abbreviation (input) PPM_SC_LISTXATTR :: int where "PPM_SC_LISTXATTR \<equiv> 147"
abbreviation (input) PPM_SC_LLISTXATTR :: int where "PPM_SC_LLISTXATTR \<equiv> 148"
abbreviation (input) PPM_SC_FLISTXATTR :: int where "PPM_SC_FLISTXATTR \<equiv> 149"
abbreviation (input) PPM_SC_REMOVEXATTR :: int where "PPM_SC_REMOVEXATTR \<equiv> 150"
abbreviation (input) PPM_SC_LREMOVEXATTR :: int where "PPM_SC_LREMOVEXATTR \<equiv> 151"
abbreviation (input) PPM_SC_FREMOVEXATTR :: int where "PPM_SC_FREMOVEXATTR \<equiv> 152"
abbreviation (input) PPM_SC_TKILL :: int where "PPM_SC_TKILL \<equiv> 153"
abbreviation (input) PPM_SC_FUTEX :: int where "PPM_SC_FUTEX \<equiv> 154"
abbreviation (input) PPM_SC_SCHED_SETAFFINITY :: int where "PPM_SC_SCHED_SETAFFINITY \<equiv> 155"
abbreviation (input) PPM_SC_SCHED_GETAFFINITY :: int where "PPM_SC_SCHED_GETAFFINITY \<equiv> 156"
abbreviation (input) PPM_SC_SET_THREAD_AREA :: int where "PPM_SC_SET_THREAD_AREA \<equiv> 157"
abbreviation (input) PPM_SC_GET_THREAD_AREA :: int where "PPM_SC_GET_THREAD_AREA \<equiv> 158"
abbreviation (input) PPM_SC_IO_SETUP :: int where "PPM_SC_IO_SETUP \<equiv> 159"
abbreviation (input) PPM_SC_IO_DESTROY :: int where "PPM_SC_IO_DESTROY \<equiv> 160"
abbreviation (input) PPM_SC_IO_GETEVENTS :: int where "PPM_SC_IO_GETEVENTS \<equiv> 161"
abbreviation (input) PPM_SC_IO_SUBMIT :: int where "PPM_SC_IO_SUBMIT \<equiv> 162"
abbreviation (input) PPM_SC_IO_CANCEL :: int where "PPM_SC_IO_CANCEL \<equiv> 163"
abbreviation (input) PPM_SC_EXIT_GROUP :: int where "PPM_SC_EXIT_GROUP \<equiv> 164"
abbreviation (input) PPM_SC_EPOLL_CREATE :: int where "PPM_SC_EPOLL_CREATE \<equiv> 165"
abbreviation (input) PPM_SC_EPOLL_CTL :: int where "PPM_SC_EPOLL_CTL \<equiv> 166"
abbreviation (input) PPM_SC_EPOLL_WAIT :: int where "PPM_SC_EPOLL_WAIT \<equiv> 167"
abbreviation (input) PPM_SC_REMAP_FILE_PAGES :: int where "PPM_SC_REMAP_FILE_PAGES \<equiv> 168"
abbreviation (input) PPM_SC_SET_TID_ADDRESS :: int where "PPM_SC_SET_TID_ADDRESS \<equiv> 169"
abbreviation (input) PPM_SC_TIMER_CREATE :: int where "PPM_SC_TIMER_CREATE \<equiv> 170"
abbreviation (input) PPM_SC_TIMER_SETTIME :: int where "PPM_SC_TIMER_SETTIME \<equiv> 171"
abbreviation (input) PPM_SC_TIMER_GETTIME :: int where "PPM_SC_TIMER_GETTIME \<equiv> 172"
abbreviation (input) PPM_SC_TIMER_GETOVERRUN :: int where "PPM_SC_TIMER_GETOVERRUN \<equiv> 173"
abbreviation (input) PPM_SC_TIMER_DELETE :: int where "PPM_SC_TIMER_DELETE \<equiv> 174"
abbreviation (input) PPM_SC_CLOCK_SETTIME :: int where "PPM_SC_CLOCK_SETTIME \<equiv> 175"
abbreviation (input) PPM_SC_CLOCK_GETTIME :: int where "PPM_SC_CLOCK_GETTIME \<equiv> 176"
abbreviation (input) PPM_SC_CLOCK_GETRES :: int where "PPM_SC_CLOCK_GETRES \<equiv> 177"
abbreviation (input) PPM_SC_CLOCK_NANOSLEEP :: int where "PPM_SC_CLOCK_NANOSLEEP \<equiv> 178"
abbreviation (input) PPM_SC_TGKILL :: int where "PPM_SC_TGKILL \<equiv> 179"
abbreviation (input) PPM_SC_UTIMES :: int where "PPM_SC_UTIMES \<equiv> 180"
abbreviation (input) PPM_SC_MQ_OPEN :: int where "PPM_SC_MQ_OPEN \<equiv> 181"
abbreviation (input) PPM_SC_MQ_UNLINK :: int where "PPM_SC_MQ_UNLINK \<equiv> 182"
abbreviation (input) PPM_SC_MQ_TIMEDSEND :: int where "PPM_SC_MQ_TIMEDSEND \<equiv> 183"
abbreviation (input) PPM_SC_MQ_TIMEDRECEIVE :: int where "PPM_SC_MQ_TIMEDRECEIVE \<equiv> 184"
abbreviation (input) PPM_SC_MQ_NOTIFY :: int where "PPM_SC_MQ_NOTIFY \<equiv> 185"
abbreviation (input) PPM_SC_MQ_GETSETATTR :: int where "PPM_SC_MQ_GETSETATTR \<equiv> 186"
abbreviation (input) PPM_SC_KEXEC_LOAD :: int where "PPM_SC_KEXEC_LOAD \<equiv> 187"
abbreviation (input) PPM_SC_WAITID :: int where "PPM_SC_WAITID \<equiv> 188"
abbreviation (input) PPM_SC_ADD_KEY :: int where "PPM_SC_ADD_KEY \<equiv> 189"
abbreviation (input) PPM_SC_REQUEST_KEY :: int where "PPM_SC_REQUEST_KEY \<equiv> 190"
abbreviation (input) PPM_SC_KEYCTL :: int where "PPM_SC_KEYCTL \<equiv> 191"
abbreviation (input) PPM_SC_IOPRIO_SET :: int where "PPM_SC_IOPRIO_SET \<equiv> 192"
abbreviation (input) PPM_SC_IOPRIO_GET :: int where "PPM_SC_IOPRIO_GET \<equiv> 193"
abbreviation (input) PPM_SC_INOTIFY_INIT :: int where "PPM_SC_INOTIFY_INIT \<equiv> 194"
abbreviation (input) PPM_SC_INOTIFY_ADD_WATCH :: int where "PPM_SC_INOTIFY_ADD_WATCH \<equiv> 195"
abbreviation (input) PPM_SC_INOTIFY_RM_WATCH :: int where "PPM_SC_INOTIFY_RM_WATCH \<equiv> 196"
abbreviation (input) PPM_SC_OPENAT :: int where "PPM_SC_OPENAT \<equiv> 197"
abbreviation (input) PPM_SC_MKDIRAT :: int where "PPM_SC_MKDIRAT \<equiv> 198"
abbreviation (input) PPM_SC_MKNODAT :: int where "PPM_SC_MKNODAT \<equiv> 199"
abbreviation (input) PPM_SC_FCHOWNAT :: int where "PPM_SC_FCHOWNAT \<equiv> 200"
abbreviation (input) PPM_SC_FUTIMESAT :: int where "PPM_SC_FUTIMESAT \<equiv> 201"
abbreviation (input) PPM_SC_UNLINKAT :: int where "PPM_SC_UNLINKAT \<equiv> 202"
abbreviation (input) PPM_SC_RENAMEAT :: int where "PPM_SC_RENAMEAT \<equiv> 203"
abbreviation (input) PPM_SC_LINKAT :: int where "PPM_SC_LINKAT \<equiv> 204"
abbreviation (input) PPM_SC_SYMLINKAT :: int where "PPM_SC_SYMLINKAT \<equiv> 205"
abbreviation (input) PPM_SC_READLINKAT :: int where "PPM_SC_READLINKAT \<equiv> 206"
abbreviation (input) PPM_SC_FCHMODAT :: int where "PPM_SC_FCHMODAT \<equiv> 207"
abbreviation (input) PPM_SC_FACCESSAT :: int where "PPM_SC_FACCESSAT \<equiv> 208"
abbreviation (input) PPM_SC_PSELECT6 :: int where "PPM_SC_PSELECT6 \<equiv> 209"
abbreviation (input) PPM_SC_PPOLL :: int where "PPM_SC_PPOLL \<equiv> 210"
abbreviation (input) PPM_SC_UNSHARE :: int where "PPM_SC_UNSHARE \<equiv> 211"
abbreviation (input) PPM_SC_SET_ROBUST_LIST :: int where "PPM_SC_SET_ROBUST_LIST \<equiv> 212"
abbreviation (input) PPM_SC_GET_ROBUST_LIST :: int where "PPM_SC_GET_ROBUST_LIST \<equiv> 213"
abbreviation (input) PPM_SC_SPLICE :: int where "PPM_SC_SPLICE \<equiv> 214"
abbreviation (input) PPM_SC_TEE :: int where "PPM_SC_TEE \<equiv> 215"
abbreviation (input) PPM_SC_VMSPLICE :: int where "PPM_SC_VMSPLICE \<equiv> 216"
abbreviation (input) PPM_SC_GETCPU :: int where "PPM_SC_GETCPU \<equiv> 217"
abbreviation (input) PPM_SC_EPOLL_PWAIT :: int where "PPM_SC_EPOLL_PWAIT \<equiv> 218"
abbreviation (input) PPM_SC_UTIMENSAT :: int where "PPM_SC_UTIMENSAT \<equiv> 219"
abbreviation (input) PPM_SC_SIGNALFD :: int where "PPM_SC_SIGNALFD \<equiv> 220"
abbreviation (input) PPM_SC_TIMERFD_CREATE :: int where "PPM_SC_TIMERFD_CREATE \<equiv> 221"
abbreviation (input) PPM_SC_EVENTFD :: int where "PPM_SC_EVENTFD \<equiv> 222"
abbreviation (input) PPM_SC_TIMERFD_SETTIME :: int where "PPM_SC_TIMERFD_SETTIME \<equiv> 223"
abbreviation (input) PPM_SC_TIMERFD_GETTIME :: int where "PPM_SC_TIMERFD_GETTIME \<equiv> 224"
abbreviation (input) PPM_SC_SIGNALFD4 :: int where "PPM_SC_SIGNALFD4 \<equiv> 225"
abbreviation (input) PPM_SC_EVENTFD2 :: int where "PPM_SC_EVENTFD2 \<equiv> 226"
abbreviation (input) PPM_SC_EPOLL_CREATE1 :: int where "PPM_SC_EPOLL_CREATE1 \<equiv> 227"
abbreviation (input) PPM_SC_DUP3 :: int where "PPM_SC_DUP3 \<equiv> 228"
abbreviation (input) PPM_SC_PIPE2 :: int where "PPM_SC_PIPE2 \<equiv> 229"
abbreviation (input) PPM_SC_INOTIFY_INIT1 :: int where "PPM_SC_INOTIFY_INIT1 \<equiv> 230"
abbreviation (input) PPM_SC_PREADV :: int where "PPM_SC_PREADV \<equiv> 231"
abbreviation (input) PPM_SC_PWRITEV :: int where "PPM_SC_PWRITEV \<equiv> 232"
abbreviation (input) PPM_SC_RT_TGSIGQUEUEINFO :: int where "PPM_SC_RT_TGSIGQUEUEINFO \<equiv> 233"
abbreviation (input) PPM_SC_PERF_EVENT_OPEN :: int where "PPM_SC_PERF_EVENT_OPEN \<equiv> 234"
abbreviation (input) PPM_SC_FANOTIFY_INIT :: int where "PPM_SC_FANOTIFY_INIT \<equiv> 235"
abbreviation (input) PPM_SC_PRLIMIT64 :: int where "PPM_SC_PRLIMIT64 \<equiv> 236"
abbreviation (input) PPM_SC_CLOCK_ADJTIME :: int where "PPM_SC_CLOCK_ADJTIME \<equiv> 237"
abbreviation (input) PPM_SC_SYNCFS :: int where "PPM_SC_SYNCFS \<equiv> 238"
abbreviation (input) PPM_SC_SETNS :: int where "PPM_SC_SETNS \<equiv> 239"
abbreviation (input) PPM_SC_GETDENTS64 :: int where "PPM_SC_GETDENTS64 \<equiv> 240"
abbreviation (input) PPM_SC_SOCKET :: int where "PPM_SC_SOCKET \<equiv> 241"
abbreviation (input) PPM_SC_BIND :: int where "PPM_SC_BIND \<equiv> 242"
abbreviation (input) PPM_SC_CONNECT :: int where "PPM_SC_CONNECT \<equiv> 243"
abbreviation (input) PPM_SC_LISTEN :: int where "PPM_SC_LISTEN \<equiv> 244"
abbreviation (input) PPM_SC_ACCEPT :: int where "PPM_SC_ACCEPT \<equiv> 245"
abbreviation (input) PPM_SC_GETSOCKNAME :: int where "PPM_SC_GETSOCKNAME \<equiv> 246"
abbreviation (input) PPM_SC_GETPEERNAME :: int where "PPM_SC_GETPEERNAME \<equiv> 247"
abbreviation (input) PPM_SC_SOCKETPAIR :: int where "PPM_SC_SOCKETPAIR \<equiv> 248"
abbreviation (input) PPM_SC_SENDTO :: int where "PPM_SC_SENDTO \<equiv> 249"
abbreviation (input) PPM_SC_RECVFROM :: int where "PPM_SC_RECVFROM \<equiv> 250"
abbreviation (input) PPM_SC_SHUTDOWN :: int where "PPM_SC_SHUTDOWN \<equiv> 251"
abbreviation (input) PPM_SC_SETSOCKOPT :: int where "PPM_SC_SETSOCKOPT \<equiv> 252"
abbreviation (input) PPM_SC_GETSOCKOPT :: int where "PPM_SC_GETSOCKOPT \<equiv> 253"
abbreviation (input) PPM_SC_SENDMSG :: int where "PPM_SC_SENDMSG \<equiv> 254"
abbreviation (input) PPM_SC_SENDMMSG :: int where "PPM_SC_SENDMMSG \<equiv> 255"
abbreviation (input) PPM_SC_RECVMSG :: int where "PPM_SC_RECVMSG \<equiv> 256"
abbreviation (input) PPM_SC_RECVMMSG :: int where "PPM_SC_RECVMMSG \<equiv> 257"
abbreviation (input) PPM_SC_ACCEPT4 :: int where "PPM_SC_ACCEPT4 \<equiv> 258"
abbreviation (input) PPM_SC_SEMOP :: int where "PPM_SC_SEMOP \<equiv> 259"
abbreviation (input) PPM_SC_SEMGET :: int where "PPM_SC_SEMGET \<equiv> 260"
abbreviation (input) PPM_SC_SEMCTL :: int where "PPM_SC_SEMCTL \<equiv> 261"
abbreviation (input) PPM_SC_MSGSND :: int where "PPM_SC_MSGSND \<equiv> 262"
abbreviation (input) PPM_SC_MSGRCV :: int where "PPM_SC_MSGRCV \<equiv> 263"
abbreviation (input) PPM_SC_MSGGET :: int where "PPM_SC_MSGGET \<equiv> 264"
abbreviation (input) PPM_SC_MSGCTL :: int where "PPM_SC_MSGCTL \<equiv> 265"
abbreviation (input) PPM_SC_SHMDT :: int where "PPM_SC_SHMDT \<equiv> 266"
abbreviation (input) PPM_SC_SHMGET :: int where "PPM_SC_SHMGET \<equiv> 267"
abbreviation (input) PPM_SC_SHMCTL :: int where "PPM_SC_SHMCTL \<equiv> 268"
abbreviation (input) PPM_SC_STATFS64 :: int where "PPM_SC_STATFS64 \<equiv> 269"
abbreviation (input) PPM_SC_FSTATFS64 :: int where "PPM_SC_FSTATFS64 \<equiv> 270"
abbreviation (input) PPM_SC_FSTATAT64 :: int where "PPM_SC_FSTATAT64 \<equiv> 271"
abbreviation (input) PPM_SC_SENDFILE64 :: int where "PPM_SC_SENDFILE64 \<equiv> 272"
abbreviation (input) PPM_SC_UGETRLIMIT :: int where "PPM_SC_UGETRLIMIT \<equiv> 273"
abbreviation (input) PPM_SC_BDFLUSH :: int where "PPM_SC_BDFLUSH \<equiv> 274"
abbreviation (input) PPM_SC_SIGPROCMASK :: int where "PPM_SC_SIGPROCMASK \<equiv> 275"
abbreviation (input) PPM_SC_IPC :: int where "PPM_SC_IPC \<equiv> 276"
abbreviation (input) PPM_SC_SOCKETCALL :: int where "PPM_SC_SOCKETCALL \<equiv> 277"
abbreviation (input) PPM_SC_STAT64 :: int where "PPM_SC_STAT64 \<equiv> 278"
abbreviation (input) PPM_SC_LSTAT64 :: int where "PPM_SC_LSTAT64 \<equiv> 279"
abbreviation (input) PPM_SC_FSTAT64 :: int where "PPM_SC_FSTAT64 \<equiv> 280"
abbreviation (input) PPM_SC_FCNTL64 :: int where "PPM_SC_FCNTL64 \<equiv> 281"
abbreviation (input) PPM_SC_MMAP2 :: int where "PPM_SC_MMAP2 \<equiv> 282"
abbreviation (input) PPM_SC__NEWSELECT :: int where "PPM_SC__NEWSELECT \<equiv> 283"
abbreviation (input) PPM_SC_SGETMASK :: int where "PPM_SC_SGETMASK \<equiv> 284"
abbreviation (input) PPM_SC_SSETMASK :: int where "PPM_SC_SSETMASK \<equiv> 285"
abbreviation (input) PPM_SC_SIGPENDING :: int where "PPM_SC_SIGPENDING \<equiv> 286"
abbreviation (input) PPM_SC_OLDUNAME :: int where "PPM_SC_OLDUNAME \<equiv> 287"
abbreviation (input) PPM_SC_UMOUNT :: int where "PPM_SC_UMOUNT \<equiv> 288"
abbreviation (input) PPM_SC_SIGNAL :: int where "PPM_SC_SIGNAL \<equiv> 289"
abbreviation (input) PPM_SC_NICE :: int where "PPM_SC_NICE \<equiv> 290"
abbreviation (input) PPM_SC_STIME :: int where "PPM_SC_STIME \<equiv> 291"
abbreviation (input) PPM_SC__LLSEEK :: int where "PPM_SC__LLSEEK \<equiv> 292"
abbreviation (input) PPM_SC_WAITPID :: int where "PPM_SC_WAITPID \<equiv> 293"
abbreviation (input) PPM_SC_PREAD64 :: int where "PPM_SC_PREAD64 \<equiv> 294"
abbreviation (input) PPM_SC_PWRITE64 :: int where "PPM_SC_PWRITE64 \<equiv> 295"
abbreviation (input) PPM_SC_ARCH_PRCTL :: int where "PPM_SC_ARCH_PRCTL \<equiv> 296"
abbreviation (input) PPM_SC_SHMAT :: int where "PPM_SC_SHMAT \<equiv> 297"
abbreviation (input) PPM_SC_SIGRETURN :: int where "PPM_SC_SIGRETURN \<equiv> 298"
abbreviation (input) PPM_SC_FALLOCATE :: int where "PPM_SC_FALLOCATE \<equiv> 299"
abbreviation (input) PPM_SC_NEWFSSTAT :: int where "PPM_SC_NEWFSSTAT \<equiv> 300"
abbreviation (input) PPM_SC_PROCESS_VM_READV :: int where "PPM_SC_PROCESS_VM_READV \<equiv> 301"
abbreviation (input) PPM_SC_PROCESS_VM_WRITEV :: int where "PPM_SC_PROCESS_VM_WRITEV \<equiv> 302"
abbreviation (input) PPM_SC_FORK :: int where "PPM_SC_FORK \<equiv> 303"
abbreviation (input) PPM_SC_VFORK :: int where "PPM_SC_VFORK \<equiv> 304"
abbreviation (input) PPM_SC_SETUID32 :: int where "PPM_SC_SETUID32 \<equiv> 305"
abbreviation (input) PPM_SC_GETUID32 :: int where "PPM_SC_GETUID32 \<equiv> 306"
abbreviation (input) PPM_SC_SETGID32 :: int where "PPM_SC_SETGID32 \<equiv> 307"
abbreviation (input) PPM_SC_GETEUID32 :: int where "PPM_SC_GETEUID32 \<equiv> 308"
abbreviation (input) PPM_SC_GETGID32 :: int where "PPM_SC_GETGID32 \<equiv> 309"
abbreviation (input) PPM_SC_SETRESUID32 :: int where "PPM_SC_SETRESUID32 \<equiv> 310"
abbreviation (input) PPM_SC_SETRESGID32 :: int where "PPM_SC_SETRESGID32 \<equiv> 311"
abbreviation (input) PPM_SC_GETRESUID32 :: int where "PPM_SC_GETRESUID32 \<equiv> 312"
abbreviation (input) PPM_SC_GETRESGID32 :: int where "PPM_SC_GETRESGID32 \<equiv> 313"
abbreviation (input) PPM_SC_FINIT_MODULE :: int where "PPM_SC_FINIT_MODULE \<equiv> 314"
abbreviation (input) PPM_SC_BPF :: int where "PPM_SC_BPF \<equiv> 315"
abbreviation (input) PPM_SC_SECCOMP :: int where "PPM_SC_SECCOMP \<equiv> 316"
abbreviation (input) PPM_SC_SIGALTSTACK :: int where "PPM_SC_SIGALTSTACK \<equiv> 317"
abbreviation (input) PPM_SC_GETRANDOM :: int where "PPM_SC_GETRANDOM \<equiv> 318"
abbreviation (input) PPM_SC_FADVISE64 :: int where "PPM_SC_FADVISE64 \<equiv> 319"
abbreviation (input) PPM_SC_RENAMEAT2 :: int where "PPM_SC_RENAMEAT2 \<equiv> 320"
abbreviation (input) PPM_SC_USERFAULTFD :: int where "PPM_SC_USERFAULTFD \<equiv> 321"
abbreviation (input) PPM_SC_MAX :: int where "PPM_SC_MAX \<equiv> 322"

section \<open>System call numbers, 64 bit\<close>

abbreviation (input) NR_read :: int where "NR_read \<equiv> 0"
abbreviation (input) NR_write :: int where "NR_write \<equiv> 1"
abbreviation (input) NR_open :: int where "NR_open \<equiv> 2"
abbreviation (input) NR_close :: int where "NR_close \<equiv> 3"
abbreviation (input) NR_stat :: int where "NR_stat \<equiv> 4"
abbreviation (input) NR_fstat :: int where "NR_fstat \<equiv> 5"
abbreviation (input) NR_lstat :: int where "NR_lstat \<equiv> 6"
abbreviation (input) NR_poll :: int where "NR_poll \<equiv> 7"
abbreviation (input) NR_lseek :: int where "NR_lseek \<equiv> 8"
abbreviation (input) NR_mmap :: int where "NR_mmap \<equiv> 9"
abbreviation (input) NR_mprotect :: int where "NR_mprotect \<equiv> 10"
abbreviation (input) NR_munmap :: int where "NR_munmap \<equiv> 11"
abbreviation (input) NR_brk :: int where "NR_brk \<equiv> 12"
abbreviation (input) NR_rt_sigaction :: int where "NR_rt_sigaction \<equiv> 13"
abbreviation (input) NR_rt_sigprocmask :: int where "NR_rt_sigprocmask \<equiv> 14"
abbreviation (input) NR_rt_sigreturn :: int where "NR_rt_sigreturn \<equiv> 15"
abbreviation (input) NR_ioctl :: int where "NR_ioctl \<equiv> 16"
abbreviation (input) NR_pread64 :: int where "NR_pread64 \<equiv> 17"
abbreviation (input) NR_pwrite64 :: int where "NR_pwrite64 \<equiv> 18"
abbreviation (input) NR_readv :: int where "NR_readv \<equiv> 19"
abbreviation (input) NR_writev :: int where "NR_writev \<equiv> 20"
abbreviation (input) NR_access :: int where "NR_access \<equiv> 21"
abbreviation (input) NR_pipe :: int where "NR_pipe \<equiv> 22"
abbreviation (input) NR_select :: int where "NR_select \<equiv> 23"
abbreviation (input) NR_sched_yield :: int where "NR_sched_yield \<equiv> 24"
abbreviation (input) NR_mremap :: int where "NR_mremap \<equiv> 25"
abbreviation (input) NR_msync :: int where "NR_msync \<equiv> 26"
abbreviation (input) NR_mincore :: int where "NR_mincore \<equiv> 27"
abbreviation (input) NR_madvise :: int where "NR_madvise \<equiv> 28"
abbreviation (input) NR_shmget :: int where "NR_shmget \<equiv> 29"
abbreviation (input) NR_shmat :: int where "NR_shmat \<equiv> 30"
abbreviation (input) NR_shmctl :: int where "NR_shmctl \<equiv> 31"
abbreviation (input) NR_dup :: int where "NR_dup \<equiv> 32"
abbreviation (input) NR_dup2 :: int where "NR_dup2 \<equiv> 33"
abbreviation (input) NR_pause :: int where "NR_pause \<equiv> 34"
abbreviation (input) NR_nanosleep :: int where "NR_nanosleep \<equiv> 35"
abbreviation (input) NR_getitimer :: int where "NR_getitimer \<equiv> 36"
abbreviation (input) NR_alarm :: int where "NR_alarm \<equiv> 37"
abbreviation (input) NR_setitimer :: int where "NR_setitimer \<equiv> 38"
abbreviation (input) NR_getpid :: int where "NR_getpid \<equiv> 39"
abbreviation (input) NR_sendfile :: int where "NR_sendfile \<equiv> 40"
abbreviation (input) NR_socket :: int where "NR_socket \<equiv> 41"
abbreviation (input) NR_connect :: int where "NR_connect \<equiv> 42"
abbreviation (input) NR_accept :: int where "NR_accept \<equiv> 43"
abbreviation (input) NR_sendto :: int where "NR_sendto \<equiv> 44"
abbreviation (input) NR_recvfrom :: int where "NR_recvfrom \<equiv> 45"
abbreviation (input) NR_sendmsg :: int where "NR_sendmsg \<equiv> 46"
abbreviation (input) NR_recvmsg :: int where "NR_recvmsg \<equiv> 47"
abbreviation (input) NR_shutdown :: int where "NR_shutdown \<equiv> 48"
abbreviation (input) NR_bind :: int where "NR_bind \<equiv> 49"
abbreviation (input) NR_listen :: int where "NR_listen \<equiv> 50"
abbreviation (input) NR_getsockname :: int where "NR_getsockname \<equiv> 51"
abbreviation (input) NR_getpeername :: int where "NR_getpeername \<equiv> 52"
abbreviation (input) NR_socketpair :: int where "NR_socketpair \<equiv> 53"
abbreviation (input) NR_setsockopt :: int where "NR_setsockopt \<equiv> 54"
abbreviation (input) NR_getsockopt :: int where "NR_getsockopt \<equiv> 55"
abbreviation (input) NR_clone :: int where "NR_clone \<equiv> 56"
abbreviation (input) NR_fork :: int where "NR_fork \<equiv> 57"
abbreviation (input) NR_vfork :: int where "NR_vfork \<equiv> 58"
abbreviation (input) NR_execve :: int where "NR_execve \<equiv> 59"
abbreviation (input) NR_exit :: int where "NR_exit \<equiv> 60"
abbreviation (input) NR_wait4 :: int where "NR_wait4 \<equiv> 61"
abbreviation (input) NR_kill :: int where "NR_kill \<equiv> 62"
abbreviation (input) NR_uname :: int where "NR_uname \<equiv> 63"
abbreviation (input) NR_semget :: int where "NR_semget \<equiv> 64"
abbreviation (input) NR_semop :: int where "NR_semop \<equiv> 65"
abbreviation (input) NR_semctl :: int where "NR_semctl \<equiv> 66"
abbreviation (input) NR_shmdt :: int where "NR_shmdt \<equiv> 67"
abbreviation (input) NR_msgget :: int where "NR_msgget \<equiv> 68"
abbreviation (input) NR_msgsnd :: int where "NR_msgsnd \<equiv> 69"
abbreviation (input) NR_msgrcv :: int where "NR_msgrcv \<equiv> 70"
abbreviation (input) NR_msgctl :: int where "NR_msgctl \<equiv> 71"
abbreviation (input) NR_fcntl :: int where "NR_fcntl \<equiv> 72"
abbreviation (input) NR_flock :: int where "NR_flock \<equiv> 73"
abbreviation (input) NR_fsync :: int where "NR_fsync \<equiv> 74"
abbreviation (input) NR_fdatasync :: int where "NR_fdatasync \<equiv> 75"
abbreviation (input) NR_truncate :: int where "NR_truncate \<equiv> 76"
abbreviation (input) NR_ftruncate :: int where "NR_ftruncate \<equiv> 77"
abbreviation (input) NR_getdents :: int where "NR_getdents \<equiv> 78"
abbreviation (input) NR_getcwd :: int where "NR_getcwd \<equiv> 79"
abbreviation (input) NR_chdir :: int where "NR_chdir \<equiv> 80"
abbreviation (input) NR_fchdir :: int where "NR_fchdir \<equiv> 81"
abbreviation (input) NR_rename :: int where "NR_rename \<equiv> 82"
abbreviation (input) NR_mkdir :: int where "NR_mkdir \<equiv> 83"
abbreviation (input) NR_rmdir :: int where "NR_rmdir \<equiv> 84"
abbreviation (input) NR_creat :: int where "NR_creat \<equiv> 85"
abbreviation (input) NR_link :: int where "NR_link \<equiv> 86"
abbreviation (input) NR_unlink :: int where "NR_unlink \<equiv> 87"
abbreviation (input) NR_symlink :: int where "NR_symlink \<equiv> 88"
abbreviation (input) NR_readlink :: int where "NR_readlink \<equiv> 89"
abbreviation (input) NR_chmod :: int where "NR_chmod \<equiv> 90"
abbreviation (input) NR_fchmod :: int where "NR_fchmod \<equiv> 91"
abbreviation (input) NR_chown :: int where "NR_chown \<equiv> 92"
abbreviation (input) NR_fchown :: int where "NR_fchown \<equiv> 93"
abbreviation (input) NR_lchown :: int where "NR_lchown \<equiv> 94"
abbreviation (input) NR_umask :: int where "NR_umask \<equiv> 95"
abbreviation (input) NR_gettimeofday :: int where "NR_gettimeofday \<equiv> 96"
abbreviation (input) NR_getrlimit :: int where "NR_getrlimit \<equiv> 97"
abbreviation (input) NR_getrusage :: int where "NR_getrusage \<equiv> 98"
abbreviation (input) NR_sysinfo :: int where "NR_sysinfo \<equiv> 99"
abbreviation (input) NR_times :: int where "NR_times \<equiv> 100"
abbreviation (input) NR_ptrace :: int where "NR_ptrace \<equiv> 101"
abbreviation (input) NR_getuid :: int where "NR_getuid \<equiv> 102"
abbreviation (input) NR_syslog :: int where "NR_syslog \<equiv> 103"
abbreviation (input) NR_getgid :: int where "NR_getgid \<equiv> 104"
abbreviation (input) NR_setuid :: int where "NR_setuid \<equiv> 105"
abbreviation (input) NR_setgid :: int where "NR_setgid \<equiv> 106"
abbreviation (input) NR_geteuid :: int where "NR_geteuid \<equiv> 107"
abbreviation (input) NR_getegid :: int where "NR_getegid \<equiv> 108"
abbreviation (input) NR_setpgid :: int where "NR_setpgid \<equiv> 109"
abbreviation (input) NR_getppid :: int where "NR_getppid \<equiv> 110"
abbreviation (input) NR_getpgrp :: int where "NR_getpgrp \<equiv> 111"
abbreviation (input) NR_setsid :: int where "NR_setsid \<equiv> 112"
abbreviation (input) NR_setreuid :: int where "NR_setreuid \<equiv> 113"
abbreviation (input) NR_setregid :: int where "NR_setregid \<equiv> 114"
abbreviation (input) NR_getgroups :: int where "NR_getgroups \<equiv> 115"
abbreviation (input) NR_setgroups :: int where "NR_setgroups \<equiv> 116"
abbreviation (input) NR_setresuid :: int where "NR_setresuid \<equiv> 117"
abbreviation (input) NR_getresuid :: int where "NR_getresuid \<equiv> 118"
abbreviation (input) NR_setresgid :: int where "NR_setresgid \<equiv> 119"
abbreviation (input) NR_getresgid :: int where "NR_getresgid \<equiv> 120"
abbreviation (input) NR_getpgid :: int where "NR_getpgid \<equiv> 121"
abbreviation (input) NR_setfsuid :: int where "NR_setfsuid \<equiv> 122"
abbreviation (input) NR_setfsgid :: int where "NR_setfsgid \<equiv> 123"
abbreviation (input) NR_getsid :: int where "NR_getsid \<equiv> 124"
abbreviation (input) NR_capget :: int where "NR_capget \<equiv> 125"
abbreviation (input) NR_capset :: int where "NR_capset \<equiv> 126"
abbreviation (input) NR_rt_sigpending :: int where "NR_rt_sigpending \<equiv> 127"
abbreviation (input) NR_rt_sigtimedwait :: int where "NR_rt_sigtimedwait \<equiv> 128"
abbreviation (input) NR_rt_sigqueueinfo :: int where "NR_rt_sigqueueinfo \<equiv> 129"
abbreviation (input) NR_rt_sigsuspend :: int where "NR_rt_sigsuspend \<equiv> 130"
abbreviation (input) NR_sigaltstack :: int where "NR_sigaltstack \<equiv> 131"
abbreviation (input) NR_utime :: int where "NR_utime \<equiv> 132"
abbreviation (input) NR_mknod :: int where "NR_mknod \<equiv> 133"
abbreviation (input) NR_uselib :: int where "NR_uselib \<equiv> 134"
abbreviation (input) NR_personality :: int where "NR_personality \<equiv> 135"
abbreviation (input) NR_ustat :: int where "NR_ustat \<equiv> 136"
abbreviation (input) NR_statfs :: int where "NR_statfs \<equiv> 137"
abbreviation (input) NR_fstatfs :: int where "NR_fstatfs \<equiv> 138"
abbreviation (input) NR_sysfs :: int where "NR_sysfs \<equiv> 139"
abbreviation (input) NR_getpriority :: int where "NR_getpriority \<equiv> 140"
abbreviation (input) NR_setpriority :: int where "NR_setpriority \<equiv> 141"
abbreviation (input) NR_sched_setparam :: int where "NR_sched_setparam \<equiv> 142"
abbreviation (input) NR_sched_getparam :: int where "NR_sched_getparam \<equiv> 143"
abbreviation (input) NR_sched_setscheduler :: int where "NR_sched_setscheduler \<equiv> 144"
abbreviation (input) NR_sched_getscheduler :: int where "NR_sched_getscheduler \<equiv> 145"
abbreviation (input) NR_sched_get_priority_max :: int where "NR_sched_get_priority_max \<equiv> 146"
abbreviation (input) NR_sched_get_priority_min :: int where "NR_sched_get_priority_min \<equiv> 147"
abbreviation (input) NR_sched_rr_get_interval :: int where "NR_sched_rr_get_interval \<equiv> 148"
abbreviation (input) NR_mlock :: int where "NR_mlock \<equiv> 149"
abbreviation (input) NR_munlock :: int where "NR_munlock \<equiv> 150"
abbreviation (input) NR_mlockall :: int where "NR_mlockall \<equiv> 151"
abbreviation (input) NR_munlockall :: int where "NR_munlockall \<equiv> 152"
abbreviation (input) NR_vhangup :: int where "NR_vhangup \<equiv> 153"
abbreviation (input) NR_modify_ldt :: int where "NR_modify_ldt \<equiv> 154"
abbreviation (input) NR_pivot_root :: int where "NR_pivot_root \<equiv> 155"
abbreviation (input) NR__sysctl :: int where "NR__sysctl \<equiv> 156"
abbreviation (input) NR_prctl :: int where "NR_prctl \<equiv> 157"
abbreviation (input) NR_arch_prctl :: int where "NR_arch_prctl \<equiv> 158"
abbreviation (input) NR_adjtimex :: int where "NR_adjtimex \<equiv> 159"
abbreviation (input) NR_setrlimit :: int where "NR_setrlimit \<equiv> 160"
abbreviation (input) NR_chroot :: int where "NR_chroot \<equiv> 161"
abbreviation (input) NR_sync :: int where "NR_sync \<equiv> 162"
abbreviation (input) NR_acct :: int where "NR_acct \<equiv> 163"
abbreviation (input) NR_settimeofday :: int where "NR_settimeofday \<equiv> 164"
abbreviation (input) NR_mount :: int where "NR_mount \<equiv> 165"
abbreviation (input) NR_umount2 :: int where "NR_umount2 \<equiv> 166"
abbreviation (input) NR_swapon :: int where "NR_swapon \<equiv> 167"
abbreviation (input) NR_swapoff :: int where "NR_swapoff \<equiv> 168"
abbreviation (input) NR_reboot :: int where "NR_reboot \<equiv> 169"
abbreviation (input) NR_sethostname :: int where "NR_sethostname \<equiv> 170"
abbreviation (input) NR_setdomainname :: int where "NR_setdomainname \<equiv> 171"
abbreviation (input) NR_iopl :: int where "NR_iopl \<equiv> 172"
abbreviation (input) NR_ioperm :: int where "NR_ioperm \<equiv> 173"
abbreviation (input) NR_create_module :: int where "NR_create_module \<equiv> 174"
abbreviation (input) NR_init_module :: int where "NR_init_module \<equiv> 175"
abbreviation (input) NR_delete_module :: int where "NR_delete_module \<equiv> 176"
abbreviation (input) NR_get_kernel_syms :: int where "NR_get_kernel_syms \<equiv> 177"
abbreviation (input) NR_query_module :: int where "NR_query_module \<equiv> 178"
abbreviation (input) NR_quotactl :: int where "NR_quotactl \<equiv> 179"
abbreviation (input) NR_nfsservctl :: int where "NR_nfsservctl \<equiv> 180"
abbreviation (input) NR_getpmsg :: int where "NR_getpmsg \<equiv> 181"
abbreviation (input) NR_putpmsg :: int where "NR_putpmsg \<equiv> 182"
abbreviation (input) NR_afs_syscall :: int where "NR_afs_syscall \<equiv> 183"
abbreviation (input) NR_tuxcall :: int where "NR_tuxcall \<equiv> 184"
abbreviation (input) NR_security :: int where "NR_security \<equiv> 185"
abbreviation (input) NR_gettid :: int where "NR_gettid \<equiv> 186"
abbreviation (input) NR_readahead :: int where "NR_readahead \<equiv> 187"
abbreviation (input) NR_setxattr :: int where "NR_setxattr \<equiv> 188"
abbreviation (input) NR_lsetxattr :: int where "NR_lsetxattr \<equiv> 189"
abbreviation (input) NR_fsetxattr :: int where "NR_fsetxattr \<equiv> 190"
abbreviation (input) NR_getxattr :: int where "NR_getxattr \<equiv> 191"
abbreviation (input) NR_lgetxattr :: int where "NR_lgetxattr \<equiv> 192"
abbreviation (input) NR_fgetxattr :: int where "NR_fgetxattr \<equiv> 193"
abbreviation (input) NR_listxattr :: int where "NR_listxattr \<equiv> 194"
abbreviation (input) NR_llistxattr :: int where "NR_llistxattr \<equiv> 195"
abbreviation (input) NR_flistxattr :: int where "NR_flistxattr \<equiv> 196"
abbreviation (input) NR_removexattr :: int where "NR_removexattr \<equiv> 197"
abbreviation (input) NR_lremovexattr :: int where "NR_lremovexattr \<equiv> 198"
abbreviation (input) NR_fremovexattr :: int where "NR_fremovexattr \<equiv> 199"
abbreviation (input) NR_tkill :: int where "NR_tkill \<equiv> 200"
abbreviation (input) NR_time :: int where "NR_time \<equiv> 201"
abbreviation (input) NR_futex :: int where "NR_futex \<equiv> 202"
abbreviation (input) NR_sched_setaffinity :: int where "NR_sched_setaffinity \<equiv> 203"
abbreviation (input) NR_sched_getaffinity :: int where "NR_sched_getaffinity \<equiv> 204"
abbreviation (input) NR_set_thread_area :: int where "NR_set_thread_area \<equiv> 205"
abbreviation (input) NR_io_setup :: int where "NR_io_setup \<equiv> 206"
abbreviation (input) NR_io_destroy :: int where "NR_io_destroy \<equiv> 207"
abbreviation (input) NR_io_getevents :: int where "NR_io_getevents \<equiv> 208"
abbreviation (input) NR_io_submit :: int where "NR_io_submit \<equiv> 209"
abbreviation (input) NR_io_cancel :: int where "NR_io_cancel \<equiv> 210"
abbreviation (input) NR_get_thread_area :: int where "NR_get_thread_area \<equiv> 211"
abbreviation (input) NR_lookup_dcookie :: int where "NR_lookup_dcookie \<equiv> 212"
abbreviation (input) NR_epoll_create :: int where "NR_epoll_create \<equiv> 213"
abbreviation (input) NR_epoll_ctl_old :: int where "NR_epoll_ctl_old \<equiv> 214"
abbreviation (input) NR_epoll_wait_old :: int where "NR_epoll_wait_old \<equiv> 215"
abbreviation (input) NR_remap_file_pages :: int where "NR_remap_file_pages \<equiv> 216"
abbreviation (input) NR_getdents64 :: int where "NR_getdents64 \<equiv> 217"
abbreviation (input) NR_set_tid_address :: int where "NR_set_tid_address \<equiv> 218"
abbreviation (input) NR_restart_syscall :: int where "NR_restart_syscall \<equiv> 219"
abbreviation (input) NR_semtimedop :: int where "NR_semtimedop \<equiv> 220"
abbreviation (input) NR_fadvise64 :: int where "NR_fadvise64 \<equiv> 221"
abbreviation (input) NR_timer_create :: int where "NR_timer_create \<equiv> 222"
abbreviation (input) NR_timer_settime :: int where "NR_timer_settime \<equiv> 223"
abbreviation (input) NR_timer_gettime :: int where "NR_timer_gettime \<equiv> 224"
abbreviation (input) NR_timer_getoverrun :: int where "NR_timer_getoverrun \<equiv> 225"
abbreviation (input) NR_timer_delete :: int where "NR_timer_delete \<equiv> 226"
abbreviation (input) NR_clock_settime :: int where "NR_clock_settime \<equiv> 227"
abbreviation (input) NR_clock_gettime :: int where "NR_clock_gettime \<equiv> 228"
abbreviation (input) NR_clock_getres :: int where "NR_clock_getres \<equiv> 229"
abbreviation (input) NR_clock_nanosleep :: int where "NR_clock_nanosleep \<equiv> 230"
abbreviation (input) NR_exit_group :: int where "NR_exit_group \<equiv> 231"
abbreviation (input) NR_epoll_wait :: int where "NR_epoll_wait \<equiv> 232"
abbreviation (input) NR_epoll_ctl :: int where "NR_epoll_ctl \<equiv> 233"
abbreviation (input) NR_tgkill :: int where "NR_tgkill \<equiv> 234"
abbreviation (input) NR_utimes :: int where "NR_utimes \<equiv> 235"
abbreviation (input) NR_vserver :: int where "NR_vserver \<equiv> 236"
abbreviation (input) NR_mbind :: int where "NR_mbind \<equiv> 237"
abbreviation (input) NR_set_mempolicy :: int where "NR_set_mempolicy \<equiv> 238"
abbreviation (input) NR_get_mempolicy :: int where "NR_get_mempolicy \<equiv> 239"
abbreviation (input) NR_mq_open :: int where "NR_mq_open \<equiv> 240"
abbreviation (input) NR_mq_unlink :: int where "NR_mq_unlink \<equiv> 241"
abbreviation (input) NR_mq_timedsend :: int where "NR_mq_timedsend \<equiv> 242"
abbreviation (input) NR_mq_timedreceive :: int where "NR_mq_timedreceive \<equiv> 243"
abbreviation (input) NR_mq_notify :: int where "NR_mq_notify \<equiv> 244"
abbreviation (input) NR_mq_getsetattr :: int where "NR_mq_getsetattr \<equiv> 245"
abbreviation (input) NR_kexec_load :: int where "NR_kexec_load \<equiv> 246"
abbreviation (input) NR_waitid :: int where "NR_waitid \<equiv> 247"
abbreviation (input) NR_add_key :: int where "NR_add_key \<equiv> 248"
abbreviation (input) NR_request_key :: int where "NR_request_key \<equiv> 249"
abbreviation (input) NR_keyctl :: int where "NR_keyctl \<equiv> 250"
abbreviation (input) NR_ioprio_set :: int where "NR_ioprio_set \<equiv> 251"
abbreviation (input) NR_ioprio_get :: int where "NR_ioprio_get \<equiv> 252"
abbreviation (input) NR_inotify_init :: int where "NR_inotify_init \<equiv> 253"
abbreviation (input) NR_inotify_add_watch :: int where "NR_inotify_add_watch \<equiv> 254"
abbreviation (input) NR_inotify_rm_watch :: int where "NR_inotify_rm_watch \<equiv> 255"
abbreviation (input) NR_migrate_pages :: int where "NR_migrate_pages \<equiv> 256"
abbreviation (input) NR_openat :: int where "NR_openat \<equiv> 257"
abbreviation (input) NR_mkdirat :: int where "NR_mkdirat \<equiv> 258"
abbreviation (input) NR_mknodat :: int where "NR_mknodat \<equiv> 259"
abbreviation (input) NR_fchownat :: int where "NR_fchownat \<equiv> 260"
abbreviation (input) NR_futimesat :: int where "NR_futimesat \<equiv> 261"
abbreviation (input) NR_newfstatat :: int where "NR_newfstatat \<equiv> 262"
abbreviation (input) NR_unlinkat :: int where "NR_unlinkat \<equiv> 263"
abbreviation (input) NR_renameat :: int where "NR_renameat \<equiv> 264"
abbreviation (input) NR_linkat :: int where "NR_linkat \<equiv> 265"
abbreviation (input) NR_symlinkat :: int where "NR_symlinkat \<equiv> 266"
abbreviation (input) NR_readlinkat :: int where "NR_readlinkat \<equiv> 267"
abbreviation (input) NR_fchmodat :: int where "NR_fchmodat \<equiv> 268"
abbreviation (input) NR_faccessat :: int where "NR_faccessat \<equiv> 269"
abbreviation (input) NR_pselect6 :: int where "NR_pselect6 \<equiv> 270"
abbreviation (input) NR_ppoll :: int where "NR_ppoll \<equiv> 271"
abbreviation (input) NR_unshare :: int where "NR_unshare \<equiv> 272"
abbreviation (input) NR_set_robust_list :: int where "NR_set_robust_list \<equiv> 273"
abbreviation (input) NR_get_robust_list :: int where "NR_get_robust_list \<equiv> 274"
abbreviation (input) NR_splice :: int where "NR_splice \<equiv> 275"
abbreviation (input) NR_tee :: int where "NR_tee \<equiv> 276"
abbreviation (input) NR_sync_file_range :: int where "NR_sync_file_range \<equiv> 277"
abbreviation (input) NR_vmsplice :: int where "NR_vmsplice \<equiv> 278"
abbreviation (input) NR_move_pages :: int where "NR_move_pages \<equiv> 279"
abbreviation (input) NR_utimensat :: int where "NR_utimensat \<equiv> 280"
abbreviation (input) NR_epoll_pwait :: int where "NR_epoll_pwait \<equiv> 281"
abbreviation (input) NR_signalfd :: int where "NR_signalfd \<equiv> 282"
abbreviation (input) NR_timerfd_create :: int where "NR_timerfd_create \<equiv> 283"
abbreviation (input) NR_eventfd :: int where "NR_eventfd \<equiv> 284"
abbreviation (input) NR_fallocate :: int where "NR_fallocate \<equiv> 285"
abbreviation (input) NR_timerfd_settime :: int where "NR_timerfd_settime \<equiv> 286"
abbreviation (input) NR_timerfd_gettime :: int where "NR_timerfd_gettime \<equiv> 287"
abbreviation (input) NR_accept4 :: int where "NR_accept4 \<equiv> 288"
abbreviation (input) NR_signalfd4 :: int where "NR_signalfd4 \<equiv> 289"
abbreviation (input) NR_eventfd2 :: int where "NR_eventfd2 \<equiv> 290"
abbreviation (input) NR_epoll_create1 :: int where "NR_epoll_create1 \<equiv> 291"
abbreviation (input) NR_dup3 :: int where "NR_dup3 \<equiv> 292"
abbreviation (input) NR_pipe2 :: int where "NR_pipe2 \<equiv> 293"
abbreviation (input) NR_inotify_init1 :: int where "NR_inotify_init1 \<equiv> 294"
abbreviation (input) NR_preadv :: int where "NR_preadv \<equiv> 295"
abbreviation (input) NR_pwritev :: int where "NR_pwritev \<equiv> 296"
abbreviation (input) NR_rt_tgsigqueueinfo :: int where "NR_rt_tgsigqueueinfo \<equiv> 297"
abbreviation (input) NR_perf_event_open :: int where "NR_perf_event_open \<equiv> 298"
abbreviation (input) NR_recvmmsg :: int where "NR_recvmmsg \<equiv> 299"
abbreviation (input) NR_fanotify_init :: int where "NR_fanotify_init \<equiv> 300"
abbreviation (input) NR_fanotify_mark :: int where "NR_fanotify_mark \<equiv> 301"
abbreviation (input) NR_prlimit64 :: int where "NR_prlimit64 \<equiv> 302"
abbreviation (input) NR_name_to_handle_at :: int where "NR_name_to_handle_at \<equiv> 303"
abbreviation (input) NR_open_by_handle_at :: int where "NR_open_by_handle_at \<equiv> 304"
abbreviation (input) NR_clock_adjtime :: int where "NR_clock_adjtime \<equiv> 305"
abbreviation (input) NR_syncfs :: int where "NR_syncfs \<equiv> 306"
abbreviation (input) NR_sendmmsg :: int where "NR_sendmmsg \<equiv> 307"
abbreviation (input) NR_setns :: int where "NR_setns \<equiv> 308"
abbreviation (input) NR_getcpu :: int where "NR_getcpu \<equiv> 309"
abbreviation (input) NR_process_vm_readv :: int where "NR_process_vm_readv \<equiv> 310"
abbreviation (input) NR_process_vm_writev :: int where "NR_process_vm_writev \<equiv> 311"
abbreviation (input) NR_kcmp :: int where "NR_kcmp \<equiv> 312"
abbreviation (input) NR_finit_module :: int where "NR_finit_module \<equiv> 313"
abbreviation (input) NR_sched_setattr :: int where "NR_sched_setattr \<equiv> 314"
abbreviation (input) NR_sched_getattr :: int where "NR_sched_getattr \<equiv> 315"
abbreviation (input) NR_renameat2 :: int where "NR_renameat2 \<equiv> 316"
abbreviation (input) NR_seccomp :: int where "NR_seccomp \<equiv> 317"
abbreviation (input) NR_getrandom :: int where "NR_getrandom \<equiv> 318"
abbreviation (input) NR_memfd_create :: int where "NR_memfd_create \<equiv> 319"
abbreviation (input) NR_kexec_file_load :: int where "NR_kexec_file_load \<equiv> 320"
abbreviation (input) NR_bpf :: int where "NR_bpf \<equiv> 321"
abbreviation (input) NR_execveat :: int where "NR_execveat \<equiv> 322"
abbreviation (input) NR_userfaultfd :: int where "NR_userfaultfd \<equiv> 323"
abbreviation (input) NR_membarrier :: int where "NR_membarrier \<equiv> 324"
abbreviation (input) NR_mlock2 :: int where "NR_mlock2 \<equiv> 325"
abbreviation (input) NR_copy_file_range :: int where "NR_copy_file_range \<equiv> 326"
abbreviation (input) NR_preadv2 :: int where "NR_preadv2 \<equiv> 327"
abbreviation (input) NR_pwritev2 :: int where "NR_pwritev2 \<equiv> 328"
abbreviation (input) NR_pkey_mprotect :: int where "NR_pkey_mprotect \<equiv> 329"
abbreviation (input) NR_pkey_alloc :: int where "NR_pkey_alloc \<equiv> 330"
abbreviation (input) NR_pkey_free :: int where "NR_pkey_free \<equiv> 331"
abbreviation (input) NR_statx :: int where "NR_statx \<equiv> 332"

section \<open>System call numbers, 32 bit\<close>

abbreviation (input) NR_ia32_restart_syscall :: int where "NR_ia32_restart_syscall \<equiv> 0"
abbreviation (input) NR_ia32_exit :: int where "NR_ia32_exit \<equiv> 1"
abbreviation (input) NR_ia32_fork :: int where "NR_ia32_fork \<equiv> 2"
abbreviation (input) NR_ia32_read :: int where "NR_ia32_read \<equiv> 3"
abbreviation (input) NR_ia32_write :: int where "NR_ia32_write \<equiv> 4"
abbreviation (input) NR_ia32_open :: int where "NR_ia32_open \<equiv> 5"
abbreviation (input) NR_ia32_close :: int where "NR_ia32_close \<equiv> 6"
abbreviation (input) NR_ia32_waitpid :: int where "NR_ia32_waitpid \<equiv> 7"
abbreviation (input) NR_ia32_creat :: int where "NR_ia32_creat \<equiv> 8"
abbreviation (input) NR_ia32_link :: int where "NR_ia32_link \<equiv> 9"
abbreviation (input) NR_ia32_unlink :: int where "NR_ia32_unlink \<equiv> 10"
abbreviation (input) NR_ia32_execve :: int where "NR_ia32_execve \<equiv> 11"
abbreviation (input) NR_ia32_chdir :: int where "NR_ia32_chdir \<equiv> 12"
abbreviation (input) NR_ia32_time :: int where "NR_ia32_time \<equiv> 13"
abbreviation (input) NR_ia32_mknod :: int where "NR_ia32_mknod \<equiv> 14"
abbreviation (input) NR_ia32_chmod :: int where "NR_ia32_chmod \<equiv> 15"
abbreviation (input) NR_ia32_lchown :: int where "NR_ia32_lchown \<equiv> 16"
abbreviation (input) NR_ia32_break :: int where "NR_ia32_break \<equiv> 17"
abbreviation (input) NR_ia32_oldstat :: int where "NR_ia32_oldstat \<equiv> 18"
abbreviation (input) NR_ia32_lseek :: int where "NR_ia32_lseek \<equiv> 19"
abbreviation (input) NR_ia32_getpid :: int where "NR_ia32_getpid \<equiv> 20"
abbreviation (input) NR_ia32_mount :: int where "NR_ia32_mount \<equiv> 21"
abbreviation (input) NR_ia32_umount :: int where "NR_ia32_umount \<equiv> 22"
abbreviation (input) NR_ia32_setuid :: int where "NR_ia32_setuid \<equiv> 23"
abbreviation (input) NR_ia32_getuid :: int where "NR_ia32_getuid \<equiv> 24"
abbreviation (input) NR_ia32_stime :: int where "NR_ia32_stime \<equiv> 25"
abbreviation (input) NR_ia32_ptrace :: int where "NR_ia32_ptrace \<equiv> 26"
abbreviation (input) NR_ia32_alarm :: int where "NR_ia32_alarm \<equiv> 27"
abbreviation (input) NR_ia32_oldfstat :: int where "NR_ia32_oldfstat \<equiv> 28"
abbreviation (input) NR_ia32_pause :: int where "NR_ia32_pause \<equiv> 29"
abbreviation (input) NR_ia32_utime :: int where "NR_ia32_utime \<equiv> 30"
abbreviation (input) NR_ia32_stty :: int where "NR_ia32_stty \<equiv> 31"
abbreviation (input) NR_ia32_gtty :: int where "NR_ia32_gtty \<equiv> 32"
abbreviation (input) NR_ia32_access :: int where "NR_ia32_access \<equiv> 33"
abbreviation (input) NR_ia32_nice :: int where "NR_ia32_nice \<equiv> 34"
abbreviation (input) NR_ia32_ftime :: int where "NR_ia32_ftime \<equiv> 35"
abbreviation (input) NR_ia32_sync :: int where "NR_ia32_sync \<equiv> 36"
abbreviation (input) NR_ia32_kill :: int where "NR_ia32_kill \<equiv> 37"
abbreviation (input) NR_ia32_rename :: int where "NR_ia32_rename \<equiv> 38"
abbreviation (input) NR_ia32_mkdir :: int where "NR_ia32_mkdir \<equiv> 39"
abbreviation (input) NR_ia32_rmdir :: int where "NR_ia32_rmdir \<equiv> 40"
abbreviation (input) NR_ia32_dup :: int where "NR_ia32_dup \<equiv> 41"
abbreviation (input) NR_ia32_pipe :: int where "NR_ia32_pipe \<equiv> 42"
abbreviation (input) NR_ia32_times :: int where "NR_ia32_times \<equiv> 43"
abbreviation (input) NR_ia32_prof :: int where "NR_ia32_prof \<equiv> 44"
abbreviation (input) NR_ia32_brk :: int where "NR_ia32_brk \<equiv> 45"
abbreviation (input) NR_ia32_setgid :: int where "NR_ia32_setgid \<equiv> 46"
abbreviation (input) NR_ia32_getgid :: int where "NR_ia32_getgid \<equiv> 47"
abbreviation (input) NR_ia32_signal :: int where "NR_ia32_signal \<equiv> 48"
abbreviation (input) NR_ia32_geteuid :: int where "NR_ia32_geteuid \<equiv> 49"
abbreviation (input) NR_ia32_getegid :: int where "NR_ia32_getegid \<equiv> 50"
abbreviation (input) NR_ia32_acct :: int where "NR_ia32_acct \<equiv> 51"
abbreviation (input) NR_ia32_umount2 :: int where "NR_ia32_umount2 \<equiv> 52"
abbreviation (input) NR_ia32_lock :: int where "NR_ia32_lock \<equiv> 53"
abbreviation (input) NR_ia32_ioctl :: int where "NR_ia32_ioctl \<equiv> 54"
abbreviation (input) NR_ia32_fcntl :: int where "NR_ia32_fcntl \<equiv> 55"
abbreviation (input) NR_ia32_mpx :: int where "NR_ia32_mpx \<equiv> 56"
abbreviation (input) NR_ia32_setpgid :: int where "NR_ia32_setpgid \<equiv> 57"
abbreviation (input) NR_ia32_ulimit :: int where "NR_ia32_ulimit \<equiv> 58"
abbreviation (input) NR_ia32_oldolduname :: int where "NR_ia32_oldolduname \<equiv> 59"
abbreviation (input) NR_ia32_umask :: int where "NR_ia32_umask \<equiv> 60"
abbreviation (input) NR_ia32_chroot :: int where "NR_ia32_chroot \<equiv> 61"
abbreviation (input) NR_ia32_ustat :: int where "NR_ia32_ustat \<equiv> 62"
abbreviation (input) NR_ia32_dup2 :: int where "NR_ia32_dup2 \<equiv> 63"
abbreviation (input) NR_ia32_getppid :: int where "NR_ia32_getppid \<equiv> 64"
abbreviation (input) NR_ia32_getpgrp :: int where "NR_ia32_getpgrp \<equiv> 65"
abbreviation (input) NR_ia32_setsid :: int where "NR_ia32_setsid \<equiv> 66"
abbreviation (input) NR_ia32_sigaction :: int where "NR_ia32_sigaction \<equiv> 67"
abbreviation (input) NR_ia32_sgetmask :: int where "NR_ia32_sgetmask \<equiv> 68"
abbreviation (input) NR_ia32_ssetmask :: int where "NR_ia32_ssetmask \<equiv> 69"
abbreviation (input) NR_ia32_setreuid :: int where "NR_ia32_setreuid \<equiv> 70"
abbreviation (input) NR_ia32_setregid :: int where "NR_ia32_setregid \<equiv> 71"
abbreviation (input) NR_ia32_sigsuspend :: int where "NR_ia32_sigsuspend \<equiv> 72"
abbreviation (input) NR_ia32_sigpending :: int where "NR_ia32_sigpending \<equiv> 73"
abbreviation (input) NR_ia32_sethostname :: int where "NR_ia32_sethostname \<equiv> 74"
abbreviation (input) NR_ia32_setrlimit :: int where "NR_ia32_setrlimit \<equiv> 75"
abbreviation (input) NR_ia32_getrlimit :: int where "NR_ia32_getrlimit \<equiv> 76"
abbreviation (input) NR_ia32_getrusage :: int where "NR_ia32_getrusage \<equiv> 77"
abbreviation (input) NR_ia32_gettimeofday :: int where "NR_ia32_gettimeofday \<equiv> 78"
abbreviation (input) NR_ia32_settimeofday :: int where "NR_ia32_settimeofday \<equiv> 79"
abbreviation (input) NR_ia32_getgroups :: int where "NR_ia32_getgroups \<equiv> 80"
abbreviation (input) NR_ia32_setgroups :: int where "NR_ia32_setgroups \<equiv> 81"
abbreviation (input) NR_ia32_select :: int where "NR_ia32_select \<equiv> 82"
abbreviation (input) NR_ia32_symlink :: int where "NR_ia32_symlink \<equiv> 83"
abbreviation (input) NR_ia32_oldlstat :: int where "NR_ia32_oldlstat \<equiv> 84"
abbreviation (input) NR_ia32_readlink :: int where "NR_ia32_readlink \<equiv> 85"
abbreviation (input) NR_ia32_uselib :: int where "NR_ia32_uselib \<equiv> 86"
abbreviation (input) NR_ia32_swapon :: int where "NR_ia32_swapon \<equiv> 87"
abbreviation (input) NR_ia32_reboot :: int where "NR_ia32_reboot \<equiv> 88"
abbreviation (input) NR_ia32_readdir :: int where "NR_ia32_readdir \<equiv> 89"
abbreviation (input) NR_ia32_mmap :: int where "NR_ia32_mmap \<equiv> 90"
abbreviation (input) NR_ia32_munmap :: int where "NR_ia32_munmap \<equiv> 91"
abbreviation (input) NR_ia32_truncate :: int where "NR_ia32_truncate \<equiv> 92"
abbreviation (input) NR_ia32_ftruncate :: int where "NR_ia32_ftruncate \<equiv> 93"
abbreviation (input) NR_ia32_fchmod :: int where "NR_ia32_fchmod \<equiv> 94"
abbreviation (input) NR_ia32_fchown :: int where "NR_ia32_fchown \<equiv> 95"
abbreviation (input) NR_ia32_getpriority :: int where "NR_ia32_getpriority \<equiv> 96"
abbreviation (input) NR_ia32_setpriority :: int where "NR_ia32_setpriority \<equiv> 97"
abbreviation (input) NR_ia32_profil :: int where "NR_ia32_profil \<equiv> 98"
abbreviation (input) NR_ia32_statfs :: int where "NR_ia32_statfs \<equiv> 99"
abbreviation (input) NR_ia32_fstatfs :: int where "NR_ia32_fstatfs \<equiv> 100"
abbreviation (input) NR_ia32_ioperm :: int where "NR_ia32_ioperm \<equiv> 101"
abbreviation (input) NR_ia32_socketcall :: int where "NR_ia32_socketcall \<equiv> 102"
abbreviation (input) NR_ia32_syslog :: int where "NR_ia32_syslog \<equiv> 103"
abbreviation (input) NR_ia32_setitimer :: int where "NR_ia32_setitimer \<equiv> 104"
abbreviation (input) NR_ia32_getitimer :: int where "NR_ia32_getitimer \<equiv> 105"
abbreviation (input) NR_ia32_stat :: int where "NR_ia32_stat \<equiv> 106"
abbreviation (input) NR_ia32_lstat :: int where "NR_ia32_lstat \<equiv> 107"
abbreviation (input) NR_ia32_fstat :: int where "NR_ia32_fstat \<equiv> 108"
abbreviation (input) NR_ia32_olduname :: int where "NR_ia32_olduname \<equiv> 109"
abbreviation (input) NR_ia32_iopl :: int where "NR_ia32_iopl \<equiv> 110"
abbreviation (input) NR_ia32_vhangup :: int where "NR_ia32_vhangup \<equiv> 111"
abbreviation (input) NR_ia32_idle :: int where "NR_ia32_idle \<equiv> 112"
abbreviation (input) NR_ia32_vm86old :: int where "NR_ia32_vm86old \<equiv> 113"
abbreviation (input) NR_ia32_wait4 :: int where "NR_ia32_wait4 \<equiv> 114"
abbreviation (input) NR_ia32_swapoff :: int where "NR_ia32_swapoff \<equiv> 115"
abbreviation (input) NR_ia32_sysinfo :: int where "NR_ia32_sysinfo \<equiv> 116"
abbreviation (input) NR_ia32_ipc :: int where "NR_ia32_ipc \<equiv> 117"
abbreviation (input) NR_ia32_fsync :: int where "NR_ia32_fsync \<equiv> 118"
abbreviation (input) NR_ia32_sigreturn :: int where "NR_ia32_sigreturn \<equiv> 119"
abbreviation (input) NR_ia32_clone :: int where "NR_ia32_clone \<equiv> 120"
abbreviation (input) NR_ia32_setdomainname :: int where "NR_ia32_setdomainname \<equiv> 121"
abbreviation (input) NR_ia32_uname :: int where "NR_ia32_uname \<equiv> 122"
abbreviation (input) NR_ia32_modify_ldt :: int where "NR_ia32_modify_ldt \<equiv> 123"
abbreviation (input) NR_ia32_adjtimex :: int where "NR_ia32_adjtimex \<equiv> 124"
abbreviation (input) NR_ia32_mprotect :: int where "NR_ia32_mprotect \<equiv> 125"
abbreviation (input) NR_ia32_sigprocmask :: int where "NR_ia32_sigprocmask \<equiv> 126"
abbreviation (input) NR_ia32_create_module :: int where "NR_ia32_create_module \<equiv> 127"
abbreviation (input) NR_ia32_init_module :: int where "NR_ia32_init_module \<equiv> 128"
abbreviation (input) NR_ia32_delete_module :: int where "NR_ia32_delete_module \<equiv> 129"
abbreviation (input) NR_ia32_get_kernel_syms :: int where "NR_ia32_get_kernel_syms \<equiv> 130"
abbreviation (input) NR_ia32_quotactl :: int where "NR_ia32_quotactl \<equiv> 131"
abbreviation (input) NR_ia32_getpgid :: int where "NR_ia32_getpgid \<equiv> 132"
abbreviation (input) NR_ia32_fchdir :: int where "NR_ia32_fchdir \<equiv> 133"
abbreviation (input) NR_ia32_bdflush :: int where "NR_ia32_bdflush \<equiv> 134"
abbreviation (input) NR_ia32_sysfs :: int where "NR_ia32_sysfs \<equiv> 135"
abbreviation (input) NR_ia32_personality :: int where "NR_ia32_personality \<equiv> 136"
abbreviation (input) NR_ia32_afs_syscall :: int where "NR_ia32_afs_syscall \<equiv> 137"
abbreviation (input) NR_ia32_setfsuid :: int where "NR_ia32_setfsuid \<equiv> 138"
abbreviation (input) NR_ia32_setfsgid :: int where "NR_ia32_setfsgid \<equiv> 139"
abbreviation (input) NR_ia32__llseek :: int where "NR_ia32__llseek \<equiv> 140"
abbreviation (input) NR_ia32_getdents :: int where "NR_ia32_getdents \<equiv> 141"
abbreviation (input) NR_ia32__newselect :: int where "NR_ia32__newselect \<equiv> 142"
abbreviation (input) NR_ia32_flock :: int where "NR_ia32_flock \<equiv> 143"
abbreviation (input) NR_ia32_msync :: int where "NR_ia32_msync \<equiv> 144"
abbreviation (input) NR_ia32_readv :: int where "NR_ia32_readv \<equiv> 145"
abbreviation (input) NR_ia32_writev :: int where "NR_ia32_writev \<equiv> 146"
abbreviation (input) NR_ia32_getsid :: int where "NR_ia32_getsid \<equiv> 147"
abbreviation (input) NR_ia32_fdatasync :: int where "NR_ia32_fdatasync \<equiv> 148"
abbreviation (input) NR_ia32__sysctl :: int where "NR_ia32__sysctl \<equiv> 149"
abbreviation (input) NR_ia32_mlock :: int where "NR_ia32_mlock \<equiv> 150"
abbreviation (input) NR_ia32_munlock :: int where "NR_ia32_munlock \<equiv> 151"
abbreviation (input) NR_ia32_mlockall :: int where "NR_ia32_mlockall \<equiv> 152"
abbreviation (input) NR_ia32_munlockall :: int where "NR_ia32_munlockall \<equiv> 153"
abbreviation (input) NR_ia32_sched_setparam :: int where "NR_ia32_sched_setparam \<equiv> 154"
abbreviation (input) NR_ia32_sched_getparam :: int where "NR_ia32_sched_getparam \<equiv> 155"
abbreviation (input) NR_ia32_sched_setscheduler :: int where "NR_ia32_sched_setscheduler \<equiv> 156"
abbreviation (input) NR_ia32_sched_getscheduler :: int where "NR_ia32_sched_getscheduler \<equiv> 157"
abbreviation (input) NR_ia32_sched_yield :: int where "NR_ia32_sched_yield \<equiv> 158"
abbreviation (input) NR_ia32_sched_get_priority_max :: int where "NR_ia32_sched_get_priority_max \<equiv> 159"
abbreviation (input) NR_ia32_sched_get_priority_min :: int where "NR_ia32_sched_get_priority_min \<equiv> 160"
abbreviation (input) NR_ia32_sched_rr_get_interval :: int where "NR_ia32_sched_rr_get_interval \<equiv> 161"
abbreviation (input) NR_ia32_nanosleep :: int where "NR_ia32_nanosleep \<equiv> 162"
abbreviation (input) NR_ia32_mremap :: int where "NR_ia32_mremap \<equiv> 163"
abbreviation (input) NR_ia32_setresuid :: int where "NR_ia32_setresuid \<equiv> 164"
abbreviation (input) NR_ia32_getresuid :: int where "NR_ia32_getresuid \<equiv> 165"
abbreviation (input) NR_ia32_vm86 :: int where "NR_ia32_vm86 \<equiv> 166"
abbreviation (input) NR_ia32_query_module :: int where "NR_ia32_query_module \<equiv> 167"
abbreviation (input) NR_ia32_poll :: int where "NR_ia32_poll \<equiv> 168"
abbreviation (input) NR_ia32_nfsservctl :: int where "NR_ia32_nfsservctl \<equiv> 169"
abbreviation (input) NR_ia32_setresgid :: int where "NR_ia32_setresgid \<equiv> 170"
abbreviation (input) NR_ia32_getresgid :: int where "NR_ia32_getresgid \<equiv> 171"
abbreviation (input) NR_ia32_prctl :: int where "NR_ia32_prctl \<equiv> 172"
abbreviation (input) NR_ia32_rt_sigreturn :: int where "NR_ia32_rt_sigreturn \<equiv> 173"
abbreviation (input) NR_ia32_rt_sigaction :: int where "NR_ia32_rt_sigaction \<equiv> 174"
abbreviation (input) NR_ia32_rt_sigprocmask :: int where "NR_ia32_rt_sigprocmask \<equiv> 175"
abbreviation (input) NR_ia32_rt_sigpending :: int where "NR_ia32_rt_sigpending \<equiv> 176"
abbreviation (input) NR_ia32_rt_sigtimedwait :: int where "NR_ia32_rt_sigtimedwait \<equiv> 177"
abbreviation (input) NR_ia32_rt_sigqueueinfo :: int where "NR_ia32_rt_sigqueueinfo \<equiv> 178"
abbreviation (input) NR_ia32_rt_sigsuspend :: int where "NR_ia32_rt_sigsuspend \<equiv> 179"
abbreviation (input) NR_ia32_pread64 :: int where "NR_ia32_pread64 \<equiv> 180"
abbreviation (input) NR_ia32_pwrite64 :: int where "NR_ia32_pwrite64 \<equiv> 181"
abbreviation (input) NR_ia32_chown :: int where "NR_ia32_chown \<equiv> 182"
abbreviation (input) NR_ia32_getcwd :: int where "NR_ia32_getcwd \<equiv> 183"
abbreviation (input) NR_ia32_capget :: int where "NR_ia32_capget \<equiv> 184"
abbreviation (input) NR_ia32_capset :: int where "NR_ia32_capset \<equiv> 185"
abbreviation (input) NR_ia32_sigaltstack :: int where "NR_ia32_sigaltstack \<equiv> 186"
abbreviation (input) NR_ia32_sendfile :: int where "NR_ia32_sendfile \<equiv> 187"
abbreviation (input) NR_ia32_getpmsg :: int where "NR_ia32_getpmsg \<equiv> 188"
abbreviation (input) NR_ia32_putpmsg :: int where "NR_ia32_putpmsg \<equiv> 189"
abbreviation (input) NR_ia32_vfork :: int where "NR_ia32_vfork \<equiv> 190"
abbreviation (input) NR_ia32_ugetrlimit :: int where "NR_ia32_ugetrlimit \<equiv> 191"
abbreviation (input) NR_ia32_mmap2 :: int where "NR_ia32_mmap2 \<equiv> 192"
abbreviation (input) NR_ia32_truncate64 :: int where "NR_ia32_truncate64 \<equiv> 193"
abbreviation (input) NR_ia32_ftruncate64 :: int where "NR_ia32_ftruncate64 \<equiv> 194"
abbreviation (input) NR_ia32_stat64 :: int where "NR_ia32_stat64 \<equiv> 195"
abbreviation (input) NR_ia32_lstat64 :: int where "NR_ia32_lstat64 \<equiv> 196"
abbreviation (input) NR_ia32_fstat64 :: int where "NR_ia32_fstat64 \<equiv> 197"
abbreviation (input) NR_ia32_lchown32 :: int where "NR_ia32_lchown32 \<equiv> 198"
abbreviation (input) NR_ia32_getuid32 :: int where "NR_ia32_getuid32 \<equiv> 199"
abbreviation (input) NR_ia32_getgid32 :: int where "NR_ia32_getgid32 \<equiv> 200"
abbreviation (input) NR_ia32_geteuid32 :: int where "NR_ia32_geteuid32 \<equiv> 201"
abbreviation (input) NR_ia32_getegid32 :: int where "NR_ia32_getegid32 \<equiv> 202"
abbreviation (input) NR_ia32_setreuid32 :: int where "NR_ia32_setreuid32 \<equiv> 203"
abbreviation (input) NR_ia32_setregid32 :: int where "NR_ia32_setregid32 \<equiv> 204"
abbreviation (input) NR_ia32_getgroups32 :: int where "NR_ia32_getgroups32 \<equiv> 205"
abbreviation (input) NR_ia32_setgroups32 :: int where "NR_ia32_setgroups32 \<equiv> 206"
abbreviation (input) NR_ia32_fchown32 :: int where "NR_ia32_fchown32 \<equiv> 207"
abbreviation (input) NR_ia32_setresuid32 :: int where "NR_ia32_setresuid32 \<equiv> 208"
abbreviation (input) NR_ia32_getresuid32 :: int where "NR_ia32_getresuid32 \<equiv> 209"
abbreviation (input) NR_ia32_setresgid32 :: int where "NR_ia32_setresgid32 \<equiv> 210"
abbreviation (input) NR_ia32_getresgid32 :: int where "NR_ia32_getresgid32 \<equiv> 211"
abbreviation (input) NR_ia32_chown32 :: int where "NR_ia32_chown32 \<equiv> 212"
abbreviation (input) NR_ia32_setuid32 :: int where "NR_ia32_setuid32 \<equiv> 213"
abbreviation (input) NR_ia32_setgid32 :: int where "NR_ia32_setgid32 \<equiv> 214"
abbreviation (input) NR_ia32_setfsuid32 :: int where "NR_ia32_setfsuid32 \<equiv> 215"
abbreviation (input) NR_ia32_setfsgid32 :: int where "NR_ia32_setfsgid32 \<equiv> 216"
abbreviation (input) NR_ia32_pivot_root :: int where "NR_ia32_pivot_root \<equiv> 217"
abbreviation (input) NR_ia32_mincore :: int where "NR_ia32_mincore \<equiv> 218"
abbreviation (input) NR_ia32_madvise :: int where "NR_ia32_madvise \<equiv> 219"
abbreviation (input) NR_ia32_madvise1 :: int where "NR_ia32_madvise1 \<equiv> 219"
abbreviation (input) NR_ia32_getdents64 :: int where "NR_ia32_getdents64 \<equiv> 220"
abbreviation (input) NR_ia32_fcntl64 :: int where "NR_ia32_fcntl64 \<equiv> 221"
abbreviation (input) NR_ia32_gettid :: int where "NR_ia32_gettid \<equiv> 224"
abbreviation (input) NR_ia32_readahead :: int where "NR_ia32_readahead \<equiv> 225"
abbreviation (input) NR_ia32_setxattr :: int where "NR_ia32_setxattr \<equiv> 226"
abbreviation (input) NR_ia32_lsetxattr :: int where "NR_ia32_lsetxattr \<equiv> 227"
abbreviation (input) NR_ia32_fsetxattr :: int where "NR_ia32_fsetxattr \<equiv> 228"
abbreviation (input) NR_ia32_getxattr :: int where "NR_ia32_getxattr \<equiv> 229"
abbreviation (input) NR_ia32_lgetxattr :: int where "NR_ia32_lgetxattr \<equiv> 230"
abbreviation (input) NR_ia32_fgetxattr :: int where "NR_ia32_fgetxattr \<equiv> 231"
abbreviation (input) NR_ia32_listxattr :: int where "NR_ia32_listxattr \<equiv> 232"
abbreviation (input) NR_ia32_llistxattr :: int where "NR_ia32_llistxattr \<equiv> 233"
abbreviation (input) NR_ia32_flistxattr :: int where "NR_ia32_flistxattr \<equiv> 234"
abbreviation (input) NR_ia32_removexattr :: int where "NR_ia32_removexattr \<equiv> 235"
abbreviation (input) NR_ia32_lremovexattr :: int where "NR_ia32_lremovexattr \<equiv> 236"
abbreviation (input) NR_ia32_fremovexattr :: int where "NR_ia32_fremovexattr \<equiv> 237"
abbreviation (input) NR_ia32_tkill :: int where "NR_ia32_tkill \<equiv> 238"
abbreviation (input) NR_ia32_sendfile64 :: int where "NR_ia32_sendfile64 \<equiv> 239"
abbreviation (input) NR_ia32_futex :: int where "NR_ia32_futex \<equiv> 240"
abbreviation (input) NR_ia32_sched_setaffinity :: int where "NR_ia32_sched_setaffinity \<equiv> 241"
abbreviation (input) NR_ia32_sched_getaffinity :: int where "NR_ia32_sched_getaffinity \<equiv> 242"
abbreviation (input) NR_ia32_set_thread_area :: int where "NR_ia32_set_thread_area \<equiv> 243"
abbreviation (input) NR_ia32_get_thread_area :: int where "NR_ia32_get_thread_area \<equiv> 244"
abbreviation (input) NR_ia32_io_setup :: int where "NR_ia32_io_setup \<equiv> 245"
abbreviation (input) NR_ia32_io_destroy :: int where "NR_ia32_io_destroy \<equiv> 246"
abbreviation (input) NR_ia32_io_getevents :: int where "NR_ia32_io_getevents \<equiv> 247"
abbreviation (input) NR_ia32_io_submit :: int where "NR_ia32_io_submit \<equiv> 248"
abbreviation (input) NR_ia32_io_cancel :: int where "NR_ia32_io_cancel \<equiv> 249"
abbreviation (input) NR_ia32_fadvise64 :: int where "NR_ia32_fadvise64 \<equiv> 250"
abbreviation (input) NR_ia32_exit_group :: int where "NR_ia32_exit_group \<equiv> 252"
abbreviation (input) NR_ia32_lookup_dcookie :: int where "NR_ia32_lookup_dcookie \<equiv> 253"
abbreviation (input) NR_ia32_epoll_create :: int where "NR_ia32_epoll_create \<equiv> 254"
abbreviation (input) NR_ia32_epoll_ctl :: int where "NR_ia32_epoll_ctl \<equiv> 255"
abbreviation (input) NR_ia32_epoll_wait :: int where "NR_ia32_epoll_wait \<equiv> 256"
abbreviation (input) NR_ia32_remap_file_pages :: int where "NR_ia32_remap_file_pages \<equiv> 257"
abbreviation (input) NR_ia32_set_tid_address :: int where "NR_ia32_set_tid_address \<equiv> 258"
abbreviation (input) NR_ia32_timer_create :: int where "NR_ia32_timer_create \<equiv> 259"
abbreviation (input) NR_ia32_timer_settime :: int where "NR_ia32_timer_settime \<equiv> NR_timer_create + 1"
abbreviation (input) NR_ia32_timer_gettime :: int where "NR_ia32_timer_gettime \<equiv> NR_timer_create + 2"
abbreviation (input) NR_ia32_timer_getoverrun :: int where "NR_ia32_timer_getoverrun \<equiv> NR_timer_create + 3"
abbreviation (input) NR_ia32_timer_delete :: int where "NR_ia32_timer_delete \<equiv> NR_timer_create + 4"
abbreviation (input) NR_ia32_clock_settime :: int where "NR_ia32_clock_settime \<equiv> NR_timer_create + 5"
abbreviation (input) NR_ia32_clock_gettime :: int where "NR_ia32_clock_gettime \<equiv> NR_timer_create + 6"
abbreviation (input) NR_ia32_clock_getres :: int where "NR_ia32_clock_getres \<equiv> NR_timer_create + 7"
abbreviation (input) NR_ia32_clock_nanosleep :: int where "NR_ia32_clock_nanosleep \<equiv> NR_timer_create + 8"
abbreviation (input) NR_ia32_statfs64 :: int where "NR_ia32_statfs64 \<equiv> 268"
abbreviation (input) NR_ia32_fstatfs64 :: int where "NR_ia32_fstatfs64 \<equiv> 269"
abbreviation (input) NR_ia32_tgkill :: int where "NR_ia32_tgkill \<equiv> 270"
abbreviation (input) NR_ia32_utimes :: int where "NR_ia32_utimes \<equiv> 271"
abbreviation (input) NR_ia32_fadvise64_64 :: int where "NR_ia32_fadvise64_64 \<equiv> 272"
abbreviation (input) NR_ia32_vserver :: int where "NR_ia32_vserver \<equiv> 273"
abbreviation (input) NR_ia32_mbind :: int where "NR_ia32_mbind \<equiv> 274"
abbreviation (input) NR_ia32_get_mempolicy :: int where "NR_ia32_get_mempolicy \<equiv> 275"
abbreviation (input) NR_ia32_set_mempolicy :: int where "NR_ia32_set_mempolicy \<equiv> 276"
abbreviation (input) NR_ia32_mq_open :: int where "NR_ia32_mq_open \<equiv> 277"
abbreviation (input) NR_ia32_mq_unlink :: int where "NR_ia32_mq_unlink \<equiv> NR_mq_open + 1"
abbreviation (input) NR_ia32_mq_timedsend :: int where "NR_ia32_mq_timedsend \<equiv> NR_mq_open + 2"
abbreviation (input) NR_ia32_mq_timedreceive :: int where "NR_ia32_mq_timedreceive \<equiv> NR_mq_open + 3"
abbreviation (input) NR_ia32_mq_notify :: int where "NR_ia32_mq_notify \<equiv> NR_mq_open + 4"
abbreviation (input) NR_ia32_mq_getsetattr :: int where "NR_ia32_mq_getsetattr \<equiv> NR_mq_open + 5"
abbreviation (input) NR_ia32_kexec_load :: int where "NR_ia32_kexec_load \<equiv> 283"
abbreviation (input) NR_ia32_waitid :: int where "NR_ia32_waitid \<equiv> 284"
abbreviation (input) NR_ia32_add_key :: int where "NR_ia32_add_key \<equiv> 286"
abbreviation (input) NR_ia32_request_key :: int where "NR_ia32_request_key \<equiv> 287"
abbreviation (input) NR_ia32_keyctl :: int where "NR_ia32_keyctl \<equiv> 288"
abbreviation (input) NR_ia32_ioprio_set :: int where "NR_ia32_ioprio_set \<equiv> 289"
abbreviation (input) NR_ia32_ioprio_get :: int where "NR_ia32_ioprio_get \<equiv> 290"
abbreviation (input) NR_ia32_inotify_init :: int where "NR_ia32_inotify_init \<equiv> 291"
abbreviation (input) NR_ia32_inotify_add_watch :: int where "NR_ia32_inotify_add_watch \<equiv> 292"
abbreviation (input) NR_ia32_inotify_rm_watch :: int where "NR_ia32_inotify_rm_watch \<equiv> 293"
abbreviation (input) NR_ia32_migrate_pages :: int where "NR_ia32_migrate_pages \<equiv> 294"
abbreviation (input) NR_ia32_openat :: int where "NR_ia32_openat \<equiv> 295"
abbreviation (input) NR_ia32_mkdirat :: int where "NR_ia32_mkdirat \<equiv> 296"
abbreviation (input) NR_ia32_mknodat :: int where "NR_ia32_mknodat \<equiv> 297"
abbreviation (input) NR_ia32_fchownat :: int where "NR_ia32_fchownat \<equiv> 298"
abbreviation (input) NR_ia32_futimesat :: int where "NR_ia32_futimesat \<equiv> 299"
abbreviation (input) NR_ia32_fstatat64 :: int where "NR_ia32_fstatat64 \<equiv> 300"
abbreviation (input) NR_ia32_unlinkat :: int where "NR_ia32_unlinkat \<equiv> 301"
abbreviation (input) NR_ia32_renameat :: int where "NR_ia32_renameat \<equiv> 302"
abbreviation (input) NR_ia32_linkat :: int where "NR_ia32_linkat \<equiv> 303"
abbreviation (input) NR_ia32_symlinkat :: int where "NR_ia32_symlinkat \<equiv> 304"
abbreviation (input) NR_ia32_readlinkat :: int where "NR_ia32_readlinkat \<equiv> 305"
abbreviation (input) NR_ia32_fchmodat :: int where "NR_ia32_fchmodat \<equiv> 306"
abbreviation (input) NR_ia32_faccessat :: int where "NR_ia32_faccessat \<equiv> 307"
abbreviation (input) NR_ia32_pselect6 :: int where "NR_ia32_pselect6 \<equiv> 308"
abbreviation (input) NR_ia32_ppoll :: int where "NR_ia32_ppoll \<equiv> 309"
abbreviation (input) NR_ia32_unshare :: int where "NR_ia32_unshare \<equiv> 310"
abbreviation (input) NR_ia32_set_robust_list :: int where "NR_ia32_set_robust_list \<equiv> 311"
abbreviation (input) NR_ia32_get_robust_list :: int where "NR_ia32_get_robust_list \<equiv> 312"
abbreviation (input) NR_ia32_splice :: int where "NR_ia32_splice \<equiv> 313"
abbreviation (input) NR_ia32_sync_file_range :: int where "NR_ia32_sync_file_range \<equiv> 314"
abbreviation (input) NR_ia32_tee :: int where "NR_ia32_tee \<equiv> 315"
abbreviation (input) NR_ia32_vmsplice :: int where "NR_ia32_vmsplice \<equiv> 316"
abbreviation (input) NR_ia32_move_pages :: int where "NR_ia32_move_pages \<equiv> 317"
abbreviation (input) NR_ia32_getcpu :: int where "NR_ia32_getcpu \<equiv> 318"
abbreviation (input) NR_ia32_epoll_pwait :: int where "NR_ia32_epoll_pwait \<equiv> 319"
abbreviation (input) NR_ia32_utimensat :: int where "NR_ia32_utimensat \<equiv> 320"
abbreviation (input) NR_ia32_signalfd :: int where "NR_ia32_signalfd \<equiv> 321"
abbreviation (input) NR_ia32_timerfd_create :: int where "NR_ia32_timerfd_create \<equiv> 322"
abbreviation (input) NR_ia32_eventfd :: int where "NR_ia32_eventfd \<equiv> 323"
abbreviation (input) NR_ia32_fallocate :: int where "NR_ia32_fallocate \<equiv> 324"
abbreviation (input) NR_ia32_timerfd_settime :: int where "NR_ia32_timerfd_settime \<equiv> 325"
abbreviation (input) NR_ia32_timerfd_gettime :: int where "NR_ia32_timerfd_gettime \<equiv> 326"
abbreviation (input) NR_ia32_signalfd4 :: int where "NR_ia32_signalfd4 \<equiv> 327"
abbreviation (input) NR_ia32_eventfd2 :: int where "NR_ia32_eventfd2 \<equiv> 328"
abbreviation (input) NR_ia32_epoll_create1 :: int where "NR_ia32_epoll_create1 \<equiv> 329"
abbreviation (input) NR_ia32_dup3 :: int where "NR_ia32_dup3 \<equiv> 330"
abbreviation (input) NR_ia32_pipe2 :: int where "NR_ia32_pipe2 \<equiv> 331"
abbreviation (input) NR_ia32_inotify_init1 :: int where "NR_ia32_inotify_init1 \<equiv> 332"
abbreviation (input) NR_ia32_preadv :: int where "NR_ia32_preadv \<equiv> 333"
abbreviation (input) NR_ia32_pwritev :: int where "NR_ia32_pwritev \<equiv> 334"
abbreviation (input) NR_ia32_rt_tgsigqueueinfo :: int where "NR_ia32_rt_tgsigqueueinfo \<equiv> 335"
abbreviation (input) NR_ia32_perf_event_open :: int where "NR_ia32_perf_event_open \<equiv> 336"
abbreviation (input) NR_ia32_recvmmsg :: int where "NR_ia32_recvmmsg \<equiv> 337"
abbreviation (input) NR_ia32_fanotify_init :: int where "NR_ia32_fanotify_init \<equiv> 338"
abbreviation (input) NR_ia32_fanotify_mark :: int where "NR_ia32_fanotify_mark \<equiv> 339"
abbreviation (input) NR_ia32_prlimit64 :: int where "NR_ia32_prlimit64 \<equiv> 340"
abbreviation (input) NR_ia32_name_to_handle_at :: int where "NR_ia32_name_to_handle_at \<equiv> 341"
abbreviation (input) NR_ia32_open_by_handle_at :: int where "NR_ia32_open_by_handle_at \<equiv> 342"
abbreviation (input) NR_ia32_clock_adjtime :: int where "NR_ia32_clock_adjtime \<equiv> 343"
abbreviation (input) NR_ia32_syncfs :: int where "NR_ia32_syncfs \<equiv> 344"
abbreviation (input) NR_ia32_sendmmsg :: int where "NR_ia32_sendmmsg \<equiv> 345"
abbreviation (input) NR_ia32_setns :: int where "NR_ia32_setns \<equiv> 346"
abbreviation (input) NR_ia32_process_vm_readv :: int where "NR_ia32_process_vm_readv \<equiv> 347"
abbreviation (input) NR_ia32_process_vm_writev :: int where "NR_ia32_process_vm_writev \<equiv> 348"
abbreviation (input) NR_ia32_renameat2 :: int where "NR_ia32_renameat2 \<equiv> 349"
abbreviation (input) NR_ia32_userfaultfd :: int where "NR_ia32_userfaultfd \<equiv> 350"

end
