(* ===== verification/Syscall_Table.thy ===== *)
theory Syscall_Table
  imports Syscall_Numbers
begin

text \<open>
  The tables that give a system call its events and its code (\<open>driver/syscall_table.c\<close>), for native
  and for 32-bit processes, and the descriptions of the codes (\<open>g_syscall_info_table\<close> of
  \<open>userspace/libscap/syscall_info_table.c\<close>).  The conditional rows are resolved for the kernel module on
  x86-64.  An initialiser with the same index as an earlier one replaces it, as in C.
\<close>

section \<open>Rows\<close>

record syscall_evt_pair =
  sp_flags :: u32
  sp_enter_event_type :: nat
  sp_exit_event_type :: nat

definition SYSCALL_TABLE_SIZE :: int where [ppm_consts]: "SYSCALL_TABLE_SIZE = 512"

definition evt_pair :: "u32 \<Rightarrow> nat \<Rightarrow> nat \<Rightarrow> syscall_evt_pair" where
  "evt_pair f e x = \<lparr>sp_flags = f, sp_enter_event_type = e, sp_exit_event_type = x\<rparr>"

record ppm_syscall_desc =
  sd_category :: nat
  sd_flags :: u32
  sd_name :: string

definition desc :: "nat \<Rightarrow> u32 \<Rightarrow> string \<Rightarrow> ppm_syscall_desc" where
  "desc c f n = \<lparr>sd_category = c, sd_flags = f, sd_name = n\<rparr>"

text \<open>The array a list of designated initialisers describes.\<close>

definition array_of :: "'a \<Rightarrow> (int \<times> 'a) list \<Rightarrow> int \<Rightarrow> 'a" where
  "array_of zero rows i = (case map_of (rev rows) i of None \<Rightarrow> zero | Some r \<Rightarrow> r)"

section \<open>Events of system calls\<close>

definition g_syscall_table_0 :: "(int \<times> syscall_evt_pair) list" where
  "g_syscall_table_0 =
     [(NR_open, evt_pair (UF_USED OR UF_NEVER_DROP) PPME_SYSCALL_OPEN_E PPME_SYSCALL_OPEN_X),
      (NR_creat, evt_pair (UF_USED OR UF_NEVER_DROP) PPME_SYSCALL_CREAT_E PPME_SYSCALL_CREAT_X),
      (NR_close, evt_pair (UF_USED OR UF_NEVER_DROP OR UF_SIMPLEDRIVER_KEEP) PPME_SYSCALL_CLOSE_E PPME_SYSCALL_CLOSE_X),
      (NR_brk, evt_pair (UF_USED OR UF_ALWAYS_DROP) PPME_SYSCALL_BRK_4_E PPME_SYSCALL_BRK_4_X),
      (NR_read, evt_pair UF_USED PPME_SYSCALL_READ_E PPME_SYSCALL_READ_X),
      (NR_write, evt_pair UF_USED PPME_SYSCALL_WRITE_E PPME_SYSCALL_WRITE_X),
      (NR_execve, evt_pair (UF_USED OR UF_NEVER_DROP OR UF_SIMPLEDRIVER_KEEP) PPME_SYSCALL_EXECVE_19_E PPME_SYSCALL_EXECVE_19_X),
      (NR_clone, evt_pair (UF_USED OR UF_NEVER_DROP OR UF_SIMPLEDRIVER_KEEP) PPME_SYSCALL_CLONE_20_E PPME_SYSCALL_CLONE_20_X),
      (NR_fork, evt_pair (UF_USED OR UF_NEVER_DROP OR UF_SIMPLEDRIVER_KEEP) PPME_SYSCALL_FORK_20_E PPME_SYSCALL_FORK_20_X),
      (NR_vfork, evt_pair (UF_USED OR UF_NEVER_DROP OR UF_SIMPLEDRIVER_KEEP) PPME_SYSCALL_VFORK_20_E PPME_SYSCALL_VFORK_20_X),
      (NR_pipe, evt_pair (UF_USED OR UF_NEVER_DROP) PPME_SYSCALL_PIPE_E PPME_SYSCALL_PIPE_X),
      (NR_pipe2, evt_pair (UF_USED OR UF_NEVER_DROP) PPME_SYSCALL_PIPE_E PPME_SYSCALL_PIPE_X),
      (NR_eventfd, evt_pair (UF_USED OR UF_NEVER_DROP) PPME_SYSCALL_EVENTFD_E PPME_SYSCALL_EVENTFD_X),
      (NR_eventfd2, evt_pair (UF_USED OR UF_NEVER_DROP) PPME_SYSCALL_EVENTFD_E PPME_SYSCALL_EVENTFD_X),
      (NR_futex, evt_pair (UF_USED OR UF_ALWAYS_DROP) PPME_SYSCALL_FUTEX_E PPME_SYSCALL_FUTEX_X),
      (NR_stat, evt_pair (UF_USED OR UF_ALWAYS_DROP) PPME_SYSCALL_STAT_E PPME_SYSCALL_STAT_X),
      (NR_lstat, evt_pair (UF_USED OR UF_ALWAYS_DROP) PPME_SYSCALL_LSTAT_E PPME_SYSCALL_LSTAT_X),
      (NR_fstat, evt_pair (UF_USED OR UF_ALWAYS_DROP) PPME_SYSCALL_FSTAT_E PPME_SYSCALL_FSTAT_X),
      (NR_epoll_wait, evt_pair (UF_USED OR UF_ALWAYS_DROP) PPME_SYSCALL_EPOLLWAIT_E PPME_SYSCALL_EPOLLWAIT_X),
      (NR_poll, evt_pair (UF_USED OR UF_ALWAYS_DROP) PPME_SYSCALL_POLL_E PPME_SYSCALL_POLL_X),
      (NR_select, evt_pair (UF_USED OR UF_ALWAYS_DROP) PPME_SYSCALL_SELECT_E PPME_SYSCALL_SELECT_X),
      (NR_lseek, evt_pair (UF_USED OR UF_ALWAYS_DROP) PPME_SYSCALL_LSEEK_E PPME_SYSCALL_LSEEK_X),
      (NR_ioctl, evt_pair (UF_USED OR UF_ALWAYS_DROP) PPME_SYSCALL_IOCTL_3_E PPME_SYSCALL_IOCTL_3_X),
      (NR_getcwd, evt_pair (UF_USED OR UF_ALWAYS_DROP) PPME_SYSCALL_GETCWD_E PPME_SYSCALL_GETCWD_X),
      (NR_chdir, evt_pair (UF_USED OR UF_NEVER_DROP OR UF_SIMPLEDRIVER_KEEP) PPME_SYSCALL_CHDIR_E PPME_SYSCALL_CHDIR_X),
      (NR_fchdir, evt_pair (UF_USED OR UF_NEVER_DROP OR UF_SIMPLEDRIVER_KEEP) PPME_SYSCALL_FCHDIR_E PPME_SYSCALL_FCHDIR_X),
      (NR_mkdir, evt_pair UF_USED PPME_SYSCALL_MKDIR_2_E PPME_SYSCALL_MKDIR_2_X),
      (NR_rmdir, evt_pair UF_USED PPME_SYSCALL_RMDIR_2_E PPME_SYSCALL_RMDIR_2_X),
      (NR_openat, evt_pair (UF_USED OR UF_NEVER_DROP) PPME_SYSCALL_OPENAT_2_E PPME_SYSCALL_OPENAT_2_X),
      (NR_mkdirat, evt_pair UF_USED PPME_SYSCALL_MKDIRAT_E PPME_SYSCALL_MKDIRAT_X),
      (NR_link, evt_pair UF_USED PPME_SYSCALL_LINK_2_E PPME_SYSCALL_LINK_2_X),
      (NR_linkat, evt_pair UF_USED PPME_SYSCALL_LINKAT_2_E PPME_SYSCALL_LINKAT_2_X),
      (NR_unlink, evt_pair UF_USED PPME_SYSCALL_UNLINK_2_E PPME_SYSCALL_UNLINK_2_X),
      (NR_unlinkat, evt_pair UF_USED PPME_SYSCALL_UNLINKAT_2_E PPME_SYSCALL_UNLINKAT_2_X),
      (NR_pread64, evt_pair UF_USED PPME_SYSCALL_PREAD_E PPME_SYSCALL_PREAD_X),
      (NR_pwrite64, evt_pair UF_USED PPME_SYSCALL_PWRITE_E PPME_SYSCALL_PWRITE_X),
      (NR_readv, evt_pair UF_USED PPME_SYSCALL_READV_E PPME_SYSCALL_READV_X),
      (NR_writev, evt_pair UF_USED PPME_SYSCALL_WRITEV_E PPME_SYSCALL_WRITEV_X),
      (NR_preadv, evt_pair UF_USED PPME_SYSCALL_PREADV_E PPME_SYSCALL_PREADV_X),
      (NR_pwritev, evt_pair UF_USED PPME_SYSCALL_PWRITEV_E PPME_SYSCALL_PWRITEV_X),
      (NR_dup, evt_pair (UF_USED OR UF_NEVER_DROP OR UF_SIMPLEDRIVER_KEEP) PPME_SYSCALL_DUP_E PPME_SYSCALL_DUP_X),
      (NR_dup2, evt_pair (UF_USED OR UF_NEVER_DROP OR UF_SIMPLEDRIVER_KEEP) PPME_SYSCALL_DUP_E PPME_SYSCALL_DUP_X),
      (NR_dup3, evt_pair (UF_USED OR UF_NEVER_DROP OR UF_SIMPLEDRIVER_KEEP) PPME_SYSCALL_DUP_E PPME_SYSCALL_DUP_X),
      (NR_signalfd, evt_pair (UF_USED OR UF_NEVER_DROP) PPME_SYSCALL_SIGNALFD_E PPME_SYSCALL_SIGNALFD_X),
      (NR_signalfd4, evt_pair (UF_USED OR UF_NEVER_DROP) PPME_SYSCALL_SIGNALFD_E PPME_SYSCALL_SIGNALFD_X),
      (NR_kill, evt_pair UF_USED PPME_SYSCALL_KILL_E PPME_SYSCALL_KILL_X),
      (NR_tkill, evt_pair UF_USED PPME_SYSCALL_TKILL_E PPME_SYSCALL_TKILL_X),
      (NR_tgkill, evt_pair UF_USED PPME_SYSCALL_TGKILL_E PPME_SYSCALL_TGKILL_X),
      (NR_nanosleep, evt_pair (UF_USED OR UF_ALWAYS_DROP) PPME_SYSCALL_NANOSLEEP_E PPME_SYSCALL_NANOSLEEP_X),
      (NR_timerfd_create, evt_pair (UF_USED OR UF_NEVER_DROP) PPME_SYSCALL_TIMERFD_CREATE_E PPME_SYSCALL_TIMERFD_CREATE_X),
      (NR_inotify_init, evt_pair (UF_USED OR UF_NEVER_DROP) PPME_SYSCALL_INOTIFY_INIT_E PPME_SYSCALL_INOTIFY_INIT_X),
      (NR_inotify_init1, evt_pair (UF_USED OR UF_NEVER_DROP) PPME_SYSCALL_INOTIFY_INIT_E PPME_SYSCALL_INOTIFY_INIT_X),
      (NR_fchmodat, evt_pair UF_USED PPME_SYSCALL_FCHMODAT_E PPME_SYSCALL_FCHMODAT_X),
      (NR_fchmod, evt_pair UF_USED PPME_SYSCALL_FCHMOD_E PPME_SYSCALL_FCHMOD_X),
      (NR_getrlimit, evt_pair (UF_USED OR UF_NEVER_DROP) PPME_SYSCALL_GETRLIMIT_E PPME_SYSCALL_GETRLIMIT_X),
      (NR_setrlimit, evt_pair (UF_USED OR UF_NEVER_DROP) PPME_SYSCALL_SETRLIMIT_E PPME_SYSCALL_SETRLIMIT_X),
      (NR_prlimit64, evt_pair (UF_USED OR UF_NEVER_DROP) PPME_SYSCALL_PRLIMIT_E PPME_SYSCALL_PRLIMIT_X),
      (NR_fcntl, evt_pair UF_USED PPME_SYSCALL_FCNTL_E PPME_SYSCALL_FCNTL_X),
      (NR_pselect6, evt_pair (UF_USED OR UF_ALWAYS_DROP) PPME_GENERIC_E PPME_GENERIC_X),
      (NR_epoll_create, evt_pair (UF_USED OR UF_ALWAYS_DROP) PPME_GENERIC_E PPME_GENERIC_X),
      (NR_epoll_ctl, evt_pair (UF_USED OR UF_ALWAYS_DROP) PPME_GENERIC_E PPME_GENERIC_X),
      (NR_uselib, evt_pair (UF_USED OR UF_ALWAYS_DROP) PPME_GENERIC_E PPME_GENERIC_X),
      (NR_sched_setparam, evt_pair (UF_USED OR UF_ALWAYS_DROP) PPME_GENERIC_E PPME_GENERIC_X),
      (NR_sched_getparam, evt_pair (UF_USED OR UF_ALWAYS_DROP) PPME_GENERIC_E PPME_GENERIC_X),
      (NR_syslog, evt_pair (UF_USED OR UF_ALWAYS_DROP) PPME_GENERIC_E PPME_GENERIC_X),
      (NR_chmod, evt_pair UF_USED PPME_SYSCALL_CHMOD_E PPME_SYSCALL_CHMOD_X),
      (NR_lchown, evt_pair UF_USED PPME_GENERIC_E PPME_GENERIC_X),
      (NR_utime, evt_pair (UF_USED OR UF_ALWAYS_DROP) PPME_GENERIC_E PPME_GENERIC_X),
      (NR_mount, evt_pair UF_USED PPME_SYSCALL_MOUNT_E PPME_SYSCALL_MOUNT_X),
      (NR_umount2, evt_pair UF_USED PPME_SYSCALL_UMOUNT_E PPME_SYSCALL_UMOUNT_X),
      (NR_ptrace, evt_pair UF_USED PPME_SYSCALL_PTRACE_E PPME_SYSCALL_PTRACE_X),
      (NR_alarm, evt_pair (UF_USED OR UF_ALWAYS_DROP) PPME_GENERIC_E PPME_GENERIC_X),
      (NR_pause, evt_pair (UF_USED OR UF_ALWAYS_DROP) PPME_GENERIC_E PPME_GENERIC_X),
      (NR_socket, evt_pair (UF_USED OR UF_NEVER_DROP OR UF_SIMPLEDRIVER_KEEP) PPME_SOCKET_SOCKET_E PPME_SOCKET_SOCKET_X),
      (NR_bind, evt_pair (UF_USED OR UF_NEVER_DROP) PPME_SOCKET_BIND_E PPME_SOCKET_BIND_X),
      (NR_connect, evt_pair (UF_USED OR UF_SIMPLEDRIVER_KEEP) PPME_SOCKET_CONNECT_E PPME_SOCKET_CONNECT_X),
      (NR_listen, evt_pair UF_USED PPME_SOCKET_LISTEN_E PPME_SOCKET_LISTEN_X),
      (NR_accept, evt_pair (UF_USED OR UF_SIMPLEDRIVER_KEEP) PPME_SOCKET_ACCEPT_5_E PPME_SOCKET_ACCEPT_5_X),
      (NR_getsockname, evt_pair (UF_USED OR UF_ALWAYS_DROP) PPME_SOCKET_GETSOCKNAME_E PPME_SOCKET_GETSOCKNAME_X),
      (NR_getpeername, evt_pair (UF_USED OR UF_ALWAYS_DROP) PPME_SOCKET_GETPEERNAME_E PPME_SOCKET_GETPEERNAME_X),
      (NR_socketpair, evt_pair (UF_USED OR UF_NEVER_DROP) PPME_SOCKET_SOCKETPAIR_E PPME_SOCKET_SOCKETPAIR_X),
      (NR_sendto, evt_pair UF_USED PPME_SOCKET_SENDTO_E PPME_SOCKET_SENDTO_X),
      (NR_recvfrom, evt_pair UF_USED PPME_SOCKET_RECVFROM_E PPME_SOCKET_RECVFROM_X),
      (NR_shutdown, evt_pair UF_USED PPME_SOCKET_SHUTDOWN_E PPME_SOCKET_SHUTDOWN_X)]"

definition g_syscall_table_1 :: "(int \<times> syscall_evt_pair) list" where
  "g_syscall_table_1 =
     [(NR_setsockopt, evt_pair (UF_USED OR UF_ALWAYS_DROP) PPME_SOCKET_SETSOCKOPT_E PPME_SOCKET_SETSOCKOPT_X),
      (NR_getsockopt, evt_pair UF_USED PPME_SOCKET_GETSOCKOPT_E PPME_SOCKET_GETSOCKOPT_X),
      (NR_sendmsg, evt_pair UF_USED PPME_SOCKET_SENDMSG_E PPME_SOCKET_SENDMSG_X),
      (NR_accept4, evt_pair (UF_USED OR UF_SIMPLEDRIVER_KEEP) PPME_SOCKET_ACCEPT4_5_E PPME_SOCKET_ACCEPT4_5_X),
      (NR_sendmmsg, evt_pair UF_USED PPME_SOCKET_SENDMMSG_E PPME_SOCKET_SENDMMSG_X),
      (NR_recvmsg, evt_pair UF_USED PPME_SOCKET_RECVMSG_E PPME_SOCKET_RECVMSG_X),
      (NR_recvmmsg, evt_pair UF_USED PPME_SOCKET_RECVMMSG_E PPME_SOCKET_RECVMMSG_X),
      (NR_mmap, evt_pair (UF_USED OR UF_ALWAYS_DROP) PPME_SYSCALL_MMAP_E PPME_SYSCALL_MMAP_X),
      (NR_munmap, evt_pair (UF_USED OR UF_ALWAYS_DROP) PPME_SYSCALL_MUNMAP_E PPME_SYSCALL_MUNMAP_X),
      (NR_splice, evt_pair UF_USED PPME_SYSCALL_SPLICE_E PPME_SYSCALL_SPLICE_X),
      (NR_process_vm_readv, evt_pair UF_USED PPME_GENERIC_E PPME_GENERIC_X),
      (NR_process_vm_writev, evt_pair UF_USED PPME_GENERIC_E PPME_GENERIC_X),
      (NR_rename, evt_pair UF_USED PPME_SYSCALL_RENAME_E PPME_SYSCALL_RENAME_X),
      (NR_renameat, evt_pair UF_USED PPME_SYSCALL_RENAMEAT_E PPME_SYSCALL_RENAMEAT_X),
      (NR_symlink, evt_pair UF_USED PPME_SYSCALL_SYMLINK_E PPME_SYSCALL_SYMLINK_X),
      (NR_symlinkat, evt_pair UF_USED PPME_SYSCALL_SYMLINKAT_E PPME_SYSCALL_SYMLINKAT_X),
      (NR_sendfile, evt_pair UF_USED PPME_SYSCALL_SENDFILE_E PPME_SYSCALL_SENDFILE_X),
      (NR_quotactl, evt_pair UF_USED PPME_SYSCALL_QUOTACTL_E PPME_SYSCALL_QUOTACTL_X),
      (NR_setresuid, evt_pair UF_USED PPME_SYSCALL_SETRESUID_E PPME_SYSCALL_SETRESUID_X),
      (NR_setresgid, evt_pair UF_USED PPME_SYSCALL_SETRESGID_E PPME_SYSCALL_SETRESGID_X),
      (NR_setuid, evt_pair UF_USED PPME_SYSCALL_SETUID_E PPME_SYSCALL_SETUID_X),
      (NR_setgid, evt_pair UF_USED PPME_SYSCALL_SETGID_E PPME_SYSCALL_SETGID_X),
      (NR_getuid, evt_pair UF_USED PPME_SYSCALL_GETUID_E PPME_SYSCALL_GETUID_X),
      (NR_geteuid, evt_pair UF_USED PPME_SYSCALL_GETEUID_E PPME_SYSCALL_GETEUID_X),
      (NR_getgid, evt_pair UF_USED PPME_SYSCALL_GETGID_E PPME_SYSCALL_GETGID_X),
      (NR_getegid, evt_pair UF_USED PPME_SYSCALL_GETEGID_E PPME_SYSCALL_GETEGID_X),
      (NR_getresuid, evt_pair UF_USED PPME_SYSCALL_GETRESUID_E PPME_SYSCALL_GETRESUID_X),
      (NR_getresgid, evt_pair UF_USED PPME_SYSCALL_GETRESGID_E PPME_SYSCALL_GETRESGID_X),
      (NR_getdents, evt_pair (UF_USED OR UF_ALWAYS_DROP) PPME_SYSCALL_GETDENTS_E PPME_SYSCALL_GETDENTS_X),
      (NR_getdents64, evt_pair (UF_USED OR UF_ALWAYS_DROP) PPME_SYSCALL_GETDENTS64_E PPME_SYSCALL_GETDENTS64_X),
      (NR_setns, evt_pair UF_USED PPME_SYSCALL_SETNS_E PPME_SYSCALL_SETNS_X),
      (NR_unshare, evt_pair (UF_USED OR UF_ALWAYS_DROP) PPME_SYSCALL_UNSHARE_E PPME_SYSCALL_UNSHARE_X),
      (NR_flock, evt_pair (UF_USED OR UF_ALWAYS_DROP) PPME_SYSCALL_FLOCK_E PPME_SYSCALL_FLOCK_X),
      (NR_semop, evt_pair (UF_USED OR UF_ALWAYS_DROP) PPME_SYSCALL_SEMOP_E PPME_SYSCALL_SEMOP_X),
      (NR_semget, evt_pair (UF_USED OR UF_ALWAYS_DROP) PPME_SYSCALL_SEMGET_E PPME_SYSCALL_SEMGET_X),
      (NR_semctl, evt_pair (UF_USED OR UF_ALWAYS_DROP) PPME_SYSCALL_SEMCTL_E PPME_SYSCALL_SEMCTL_X),
      (NR_ppoll, evt_pair (UF_USED OR UF_ALWAYS_DROP) PPME_SYSCALL_PPOLL_E PPME_SYSCALL_PPOLL_X),
      (NR_access, evt_pair (UF_USED OR UF_ALWAYS_DROP) PPME_SYSCALL_ACCESS_E PPME_SYSCALL_ACCESS_X),
      (NR_chroot, evt_pair (UF_USED OR UF_NEVER_DROP) PPME_SYSCALL_CHROOT_E PPME_SYSCALL_CHROOT_X),
      (NR_setsid, evt_pair (UF_USED OR UF_ALWAYS_DROP) PPME_SYSCALL_SETSID_E PPME_SYSCALL_SETSID_X),
      (NR_setpgid, evt_pair (UF_USED OR UF_ALWAYS_DROP) PPME_SYSCALL_SETPGID_E PPME_SYSCALL_SETPGID_X),
      (NR_bpf, evt_pair UF_USED PPME_SYSCALL_BPF_E PPME_SYSCALL_BPF_X),
      (NR_seccomp, evt_pair UF_USED PPME_SYSCALL_SECCOMP_E PPME_SYSCALL_SECCOMP_X)]"

definition g_syscall_table_2 :: "(int \<times> syscall_evt_pair) list" where
  "g_syscall_table_2 =
     [(NR_renameat2, evt_pair UF_USED PPME_SYSCALL_RENAMEAT2_E PPME_SYSCALL_RENAMEAT2_X),
      (NR_userfaultfd, evt_pair (UF_USED OR UF_NEVER_DROP) PPME_SYSCALL_USERFAULTFD_E PPME_SYSCALL_USERFAULTFD_X)]"

definition g_syscall_table_rows :: "(int \<times> syscall_evt_pair) list" where
  "g_syscall_table_rows = g_syscall_table_0 @ g_syscall_table_1 @ g_syscall_table_2"

definition g_syscall_ia32_table_0 :: "(int \<times> syscall_evt_pair) list" where
  "g_syscall_ia32_table_0 =
     [(NR_ia32_open, evt_pair (UF_USED OR UF_NEVER_DROP) PPME_SYSCALL_OPEN_E PPME_SYSCALL_OPEN_X),
      (NR_ia32_creat, evt_pair (UF_USED OR UF_NEVER_DROP) PPME_SYSCALL_CREAT_E PPME_SYSCALL_CREAT_X),
      (NR_ia32_close, evt_pair (UF_USED OR UF_NEVER_DROP OR UF_SIMPLEDRIVER_KEEP) PPME_SYSCALL_CLOSE_E PPME_SYSCALL_CLOSE_X),
      (NR_ia32_brk, evt_pair (UF_USED OR UF_ALWAYS_DROP) PPME_SYSCALL_BRK_4_E PPME_SYSCALL_BRK_4_X),
      (NR_ia32_read, evt_pair UF_USED PPME_SYSCALL_READ_E PPME_SYSCALL_READ_X),
      (NR_ia32_write, evt_pair UF_USED PPME_SYSCALL_WRITE_E PPME_SYSCALL_WRITE_X),
      (NR_ia32_execve, evt_pair (UF_USED OR UF_NEVER_DROP OR UF_SIMPLEDRIVER_KEEP) PPME_SYSCALL_EXECVE_19_E PPME_SYSCALL_EXECVE_19_X),
      (NR_ia32_clone, evt_pair (UF_USED OR UF_NEVER_DROP OR UF_SIMPLEDRIVER_KEEP) PPME_SYSCALL_CLONE_20_E PPME_SYSCALL_CLONE_20_X),
      (NR_ia32_fork, evt_pair (UF_USED OR UF_NEVER_DROP OR UF_SIMPLEDRIVER_KEEP) PPME_SYSCALL_FORK_20_E PPME_SYSCALL_FORK_20_X),
      (NR_ia32_vfork, evt_pair (UF_USED OR UF_NEVER_DROP OR UF_SIMPLEDRIVER_KEEP) PPME_SYSCALL_VFORK_20_E PPME_SYSCALL_VFORK_20_X),
      (NR_ia32_pipe, evt_pair (UF_USED OR UF_NEVER_DROP) PPME_SYSCALL_PIPE_E PPME_SYSCALL_PIPE_X),
      (NR_ia32_pipe2, evt_pair (UF_USED OR UF_NEVER_DROP) PPME_SYSCALL_PIPE_E PPME_SYSCALL_PIPE_X),
      (NR_ia32_eventfd, evt_pair (UF_USED OR UF_NEVER_DROP) PPME_SYSCALL_EVENTFD_E PPME_SYSCALL_EVENTFD_X),
      (NR_ia32_eventfd2, evt_pair (UF_USED OR UF_NEVER_DROP) PPME_SYSCALL_EVENTFD_E PPME_SYSCALL_EVENTFD_X),
      (NR_ia32_futex, evt_pair (UF_USED OR UF_ALWAYS_DROP) PPME_SYSCALL_FUTEX_E PPME_SYSCALL_FUTEX_X),
      (NR_ia32_stat, evt_pair (UF_USED OR UF_ALWAYS_DROP) PPME_SYSCALL_STAT_E PPME_SYSCALL_STAT_X),
      (NR_ia32_lstat, evt_pair (UF_USED OR UF_ALWAYS_DROP) PPME_SYSCALL_LSTAT_E PPME_SYSCALL_LSTAT_X),
      (NR_ia32_fstat, evt_pair (UF_USED OR UF_ALWAYS_DROP) PPME_SYSCALL_FSTAT_E PPME_SYSCALL_FSTAT_X),
      (NR_ia32_epoll_wait, evt_pair (UF_USED OR UF_ALWAYS_DROP) PPME_SYSCALL_EPOLLWAIT_E PPME_SYSCALL_EPOLLWAIT_X),
      (NR_ia32_poll, evt_pair (UF_USED OR UF_ALWAYS_DROP) PPME_SYSCALL_POLL_E PPME_SYSCALL_POLL_X),
      (NR_ia32_select, evt_pair (UF_USED OR UF_ALWAYS_DROP) PPME_SYSCALL_SELECT_E PPME_SYSCALL_SELECT_X),
      (NR_ia32_lseek, evt_pair (UF_USED OR UF_ALWAYS_DROP) PPME_SYSCALL_LSEEK_E PPME_SYSCALL_LSEEK_X),
      (NR_ia32_ioctl, evt_pair (UF_USED OR UF_ALWAYS_DROP) PPME_SYSCALL_IOCTL_3_E PPME_SYSCALL_IOCTL_3_X),
      (NR_ia32_getcwd, evt_pair (UF_USED OR UF_ALWAYS_DROP) PPME_SYSCALL_GETCWD_E PPME_SYSCALL_GETCWD_X),
      (NR_ia32_chdir, evt_pair (UF_USED OR UF_NEVER_DROP OR UF_SIMPLEDRIVER_KEEP) PPME_SYSCALL_CHDIR_E PPME_SYSCALL_CHDIR_X),
      (NR_ia32_fchdir, evt_pair (UF_USED OR UF_NEVER_DROP OR UF_SIMPLEDRIVER_KEEP) PPME_SYSCALL_FCHDIR_E PPME_SYSCALL_FCHDIR_X),
      (NR_ia32_mkdir, evt_pair UF_USED PPME_SYSCALL_MKDIR_2_E PPME_SYSCALL_MKDIR_2_X),
      (NR_ia32_rmdir, evt_pair UF_USED PPME_SYSCALL_RMDIR_2_E PPME_SYSCALL_RMDIR_2_X),
      (NR_ia32_openat, evt_pair (UF_USED OR UF_NEVER_DROP) PPME_SYSCALL_OPENAT_2_E PPME_SYSCALL_OPENAT_2_X),
      (NR_ia32_mkdirat, evt_pair UF_USED PPME_SYSCALL_MKDIRAT_E PPME_SYSCALL_MKDIRAT_X),
      (NR_ia32_link, evt_pair UF_USED PPME_SYSCALL_LINK_2_E PPME_SYSCALL_LINK_2_X),
      (NR_ia32_linkat, evt_pair UF_USED PPME_SYSCALL_LINKAT_2_E PPME_SYSCALL_LINKAT_2_X),
      (NR_ia32_unlink, evt_pair UF_USED PPME_SYSCALL_UNLINK_2_E PPME_SYSCALL_UNLINK_2_X),
      (NR_ia32_unlinkat, evt_pair UF_USED PPME_SYSCALL_UNLINKAT_2_E PPME_SYSCALL_UNLINKAT_2_X),
      (NR_ia32_pread64, evt_pair UF_USED PPME_SYSCALL_PREAD_E PPME_SYSCALL_PREAD_X),
      (NR_ia32_pwrite64, evt_pair UF_USED PPME_SYSCALL_PWRITE_E PPME_SYSCALL_PWRITE_X),
      (NR_ia32_readv, evt_pair UF_USED PPME_SYSCALL_READV_E PPME_SYSCALL_READV_X),
      (NR_ia32_writev, evt_pair UF_USED PPME_SYSCALL_WRITEV_E PPME_SYSCALL_WRITEV_X),
      (NR_ia32_preadv, evt_pair UF_USED PPME_SYSCALL_PREADV_E PPME_SYSCALL_PREADV_X),
      (NR_ia32_pwritev, evt_pair UF_USED PPME_SYSCALL_PWRITEV_E PPME_SYSCALL_PWRITEV_X),
      (NR_ia32_dup, evt_pair (UF_USED OR UF_NEVER_DROP OR UF_SIMPLEDRIVER_KEEP) PPME_SYSCALL_DUP_E PPME_SYSCALL_DUP_X),
      (NR_ia32_dup2, evt_pair (UF_USED OR UF_NEVER_DROP OR UF_SIMPLEDRIVER_KEEP) PPME_SYSCALL_DUP_E PPME_SYSCALL_DUP_X),
      (NR_ia32_dup3, evt_pair (UF_USED OR UF_NEVER_DROP OR UF_SIMPLEDRIVER_KEEP) PPME_SYSCALL_DUP_E PPME_SYSCALL_DUP_X),
      (NR_ia32_signalfd, evt_pair (UF_USED OR UF_NEVER_DROP) PPME_SYSCALL_SIGNALFD_E PPME_SYSCALL_SIGNALFD_X),
      (NR_ia32_signalfd4, evt_pair (UF_USED OR UF_NEVER_DROP) PPME_SYSCALL_SIGNALFD_E PPME_SYSCALL_SIGNALFD_X),
      (NR_ia32_kill, evt_pair UF_USED PPME_SYSCALL_KILL_E PPME_SYSCALL_KILL_X),
      (NR_ia32_tkill, evt_pair UF_USED PPME_SYSCALL_TKILL_E PPME_SYSCALL_TKILL_X),
      (NR_ia32_tgkill, evt_pair UF_USED PPME_SYSCALL_TGKILL_E PPME_SYSCALL_TGKILL_X),
      (NR_ia32_nanosleep, evt_pair (UF_USED OR UF_ALWAYS_DROP) PPME_SYSCALL_NANOSLEEP_E PPME_SYSCALL_NANOSLEEP_X),
      (NR_ia32_timerfd_create, evt_pair (UF_USED OR UF_NEVER_DROP) PPME_SYSCALL_TIMERFD_CREATE_E PPME_SYSCALL_TIMERFD_CREATE_X),
      (NR_ia32_inotify_init, evt_pair (UF_USED OR UF_NEVER_DROP) PPME_SYSCALL_INOTIFY_INIT_E PPME_SYSCALL_INOTIFY_INIT_X),
      (NR_ia32_inotify_init1, evt_pair (UF_USED OR UF_NEVER_DROP) PPME_SYSCALL_INOTIFY_INIT_E PPME_SYSCALL_INOTIFY_INIT_X),
      (NR_ia32_getrlimit, evt_pair (UF_USED OR UF_NEVER_DROP) PPME_SYSCALL_GETRLIMIT_E PPME_SYSCALL_GETRLIMIT_X),
      (NR_ia32_setrlimit, evt_pair (UF_USED OR UF_NEVER_DROP) PPME_SYSCALL_SETRLIMIT_E PPME_SYSCALL_SETRLIMIT_X),
      (NR_ia32_fchmodat, evt_pair UF_USED PPME_SYSCALL_FCHMODAT_E PPME_SYSCALL_FCHMODAT_X),
      (NR_ia32_fchmod, evt_pair UF_USED PPME_SYSCALL_FCHMOD_E PPME_SYSCALL_FCHMOD_X),
      (NR_ia32_prlimit64, evt_pair (UF_USED OR UF_NEVER_DROP) PPME_SYSCALL_PRLIMIT_E PPME_SYSCALL_PRLIMIT_X),
      (NR_ia32_ugetrlimit, evt_pair (UF_USED OR UF_NEVER_DROP) PPME_SYSCALL_GETRLIMIT_E PPME_SYSCALL_GETRLIMIT_X),
      (NR_ia32_fcntl, evt_pair UF_USED PPME_SYSCALL_FCNTL_E PPME_SYSCALL_FCNTL_X),
      (NR_ia32_fcntl64, evt_pair UF_USED PPME_SYSCALL_FCNTL_E PPME_SYSCALL_FCNTL_X),
      (NR_ia32_ppoll, evt_pair (UF_USED OR UF_ALWAYS_DROP) PPME_SYSCALL_PPOLL_E PPME_SYSCALL_PPOLL_X),
      (NR_ia32_pselect6, evt_pair (UF_USED OR UF_ALWAYS_DROP) PPME_GENERIC_E PPME_GENERIC_X),
      (NR_ia32_epoll_create, evt_pair (UF_USED OR UF_ALWAYS_DROP) PPME_GENERIC_E PPME_GENERIC_X),
      (NR_ia32_epoll_ctl, evt_pair (UF_USED OR UF_ALWAYS_DROP) PPME_GENERIC_E PPME_GENERIC_X),
      (NR_ia32_uselib, evt_pair (UF_USED OR UF_ALWAYS_DROP) PPME_GENERIC_E PPME_GENERIC_X),
      (NR_ia32_sched_setparam, evt_pair (UF_USED OR UF_ALWAYS_DROP) PPME_GENERIC_E PPME_GENERIC_X),
      (NR_ia32_sched_getparam, evt_pair (UF_USED OR UF_ALWAYS_DROP) PPME_GENERIC_E PPME_GENERIC_X),
      (NR_ia32_syslog, evt_pair (UF_USED OR UF_ALWAYS_DROP) PPME_GENERIC_E PPME_GENERIC_X),
      (NR_ia32_chmod, evt_pair UF_USED PPME_SYSCALL_CHMOD_E PPME_SYSCALL_CHMOD_X),
      (NR_ia32_lchown, evt_pair UF_USED PPME_GENERIC_E PPME_GENERIC_X),
      (NR_ia32_utime, evt_pair (UF_USED OR UF_ALWAYS_DROP) PPME_GENERIC_E PPME_GENERIC_X),
      (NR_ia32_mount, evt_pair UF_USED PPME_GENERIC_E PPME_GENERIC_X),
      (NR_ia32_umount2, evt_pair UF_USED PPME_GENERIC_E PPME_GENERIC_X),
      (NR_ia32_ptrace, evt_pair UF_USED PPME_SYSCALL_PTRACE_E PPME_SYSCALL_PTRACE_X),
      (NR_ia32_alarm, evt_pair (UF_USED OR UF_ALWAYS_DROP) PPME_GENERIC_E PPME_GENERIC_X),
      (NR_ia32_pause, evt_pair (UF_USED OR UF_ALWAYS_DROP) PPME_GENERIC_E PPME_GENERIC_X),
      (NR_ia32_sendmmsg, evt_pair UF_USED PPME_SOCKET_SENDMMSG_E PPME_SOCKET_SENDMMSG_X),
      (NR_ia32_recvmmsg, evt_pair UF_USED PPME_SOCKET_RECVMMSG_E PPME_SOCKET_RECVMMSG_X),
      (NR_ia32_stat64, evt_pair (UF_USED OR UF_ALWAYS_DROP) PPME_SYSCALL_STAT64_E PPME_SYSCALL_STAT64_X),
      (NR_ia32_fstat64, evt_pair (UF_USED OR UF_ALWAYS_DROP) PPME_SYSCALL_FSTAT64_E PPME_SYSCALL_FSTAT64_X),
      (NR_ia32__llseek, evt_pair (UF_USED OR UF_ALWAYS_DROP) PPME_SYSCALL_LLSEEK_E PPME_SYSCALL_LLSEEK_X),
      (NR_ia32_mmap, evt_pair (UF_USED OR UF_ALWAYS_DROP) PPME_SYSCALL_MMAP_E PPME_SYSCALL_MMAP_X),
      (NR_ia32_mmap2, evt_pair (UF_USED OR UF_ALWAYS_DROP) PPME_SYSCALL_MMAP2_E PPME_SYSCALL_MMAP2_X),
      (NR_ia32_munmap, evt_pair (UF_USED OR UF_ALWAYS_DROP) PPME_SYSCALL_MUNMAP_E PPME_SYSCALL_MUNMAP_X),
      (NR_ia32_splice, evt_pair UF_USED PPME_SYSCALL_SPLICE_E PPME_SYSCALL_SPLICE_X),
      (NR_ia32_process_vm_readv, evt_pair UF_USED PPME_GENERIC_E PPME_GENERIC_X),
      (NR_ia32_process_vm_writev, evt_pair UF_USED PPME_GENERIC_E PPME_GENERIC_X),
      (NR_ia32_rename, evt_pair UF_USED PPME_SYSCALL_RENAME_E PPME_SYSCALL_RENAME_X),
      (NR_ia32_renameat, evt_pair UF_USED PPME_SYSCALL_RENAMEAT_E PPME_SYSCALL_RENAMEAT_X),
      (NR_ia32_symlink, evt_pair UF_USED PPME_SYSCALL_SYMLINK_E PPME_SYSCALL_SYMLINK_X),
      (NR_ia32_symlinkat, evt_pair UF_USED PPME_SYSCALL_SYMLINKAT_E PPME_SYSCALL_SYMLINKAT_X),
      (NR_ia32_sendfile, evt_pair UF_USED PPME_SYSCALL_SENDFILE_E PPME_SYSCALL_SENDFILE_X),
      (NR_ia32_sendfile64, evt_pair UF_USED PPME_SYSCALL_SENDFILE_E PPME_SYSCALL_SENDFILE_X),
      (NR_ia32_quotactl, evt_pair UF_USED PPME_SYSCALL_QUOTACTL_E PPME_SYSCALL_QUOTACTL_X)]"

definition g_syscall_ia32_table_1 :: "(int \<times> syscall_evt_pair) list" where
  "g_syscall_ia32_table_1 =
     [(NR_ia32_setresuid, evt_pair UF_USED PPME_SYSCALL_SETRESUID_E PPME_SYSCALL_SETRESUID_X),
      (NR_ia32_setresuid32, evt_pair UF_USED PPME_SYSCALL_SETRESUID_E PPME_SYSCALL_SETRESUID_X),
      (NR_ia32_setresgid, evt_pair UF_USED PPME_SYSCALL_SETRESGID_E PPME_SYSCALL_SETRESGID_X),
      (NR_ia32_setresgid32, evt_pair UF_USED PPME_SYSCALL_SETRESGID_E PPME_SYSCALL_SETRESGID_X),
      (NR_ia32_setuid, evt_pair UF_USED PPME_SYSCALL_SETUID_E PPME_SYSCALL_SETUID_X),
      (NR_ia32_setuid32, evt_pair UF_USED PPME_SYSCALL_SETUID_E PPME_SYSCALL_SETUID_X),
      (NR_ia32_setgid, evt_pair UF_USED PPME_SYSCALL_SETGID_E PPME_SYSCALL_SETGID_X),
      (NR_ia32_setgid32, evt_pair UF_USED PPME_SYSCALL_SETGID_E PPME_SYSCALL_SETGID_X),
      (NR_ia32_getuid, evt_pair UF_USED PPME_SYSCALL_GETUID_E PPME_SYSCALL_GETUID_X),
      (NR_ia32_getuid32, evt_pair UF_USED PPME_SYSCALL_GETUID_E PPME_SYSCALL_GETUID_X),
      (NR_ia32_geteuid, evt_pair UF_USED PPME_SYSCALL_GETEUID_E PPME_SYSCALL_GETEUID_X),
      (NR_ia32_geteuid32, evt_pair UF_USED PPME_SYSCALL_GETEUID_E PPME_SYSCALL_GETEUID_X),
      (NR_ia32_getgid, evt_pair UF_USED PPME_SYSCALL_GETGID_E PPME_SYSCALL_GETGID_X),
      (NR_ia32_getgid32, evt_pair UF_USED PPME_SYSCALL_GETGID_E PPME_SYSCALL_GETGID_X),
      (NR_ia32_getegid, evt_pair UF_USED PPME_SYSCALL_GETEGID_E PPME_SYSCALL_GETEGID_X),
      (NR_ia32_getegid32, evt_pair UF_USED PPME_SYSCALL_GETEGID_E PPME_SYSCALL_GETEGID_X),
      (NR_ia32_getresuid, evt_pair UF_USED PPME_SYSCALL_GETRESUID_E PPME_SYSCALL_GETRESUID_X),
      (NR_ia32_getresuid32, evt_pair UF_USED PPME_SYSCALL_GETRESUID_E PPME_SYSCALL_GETRESUID_X),
      (NR_ia32_getresgid, evt_pair UF_USED PPME_SYSCALL_GETRESGID_E PPME_SYSCALL_GETRESGID_X),
      (NR_ia32_getresgid32, evt_pair UF_USED PPME_SYSCALL_GETRESGID_E PPME_SYSCALL_GETRESGID_X),
      (NR_ia32_access, evt_pair (UF_USED OR UF_ALWAYS_DROP) PPME_SYSCALL_ACCESS_E PPME_SYSCALL_ACCESS_X),
      (NR_ia32_chroot, evt_pair (UF_USED OR UF_NEVER_DROP) PPME_SYSCALL_CHROOT_E PPME_SYSCALL_CHROOT_X),
      (NR_ia32_setsid, evt_pair (UF_USED OR UF_ALWAYS_DROP) PPME_SYSCALL_SETSID_E PPME_SYSCALL_SETSID_X),
      (NR_ia32_setpgid, evt_pair (UF_USED OR UF_ALWAYS_DROP) PPME_SYSCALL_SETPGID_E PPME_SYSCALL_SETPGID_X),
      (NR_ia32_renameat2, evt_pair UF_USED PPME_SYSCALL_RENAMEAT2_E PPME_SYSCALL_RENAMEAT2_X),
      (NR_ia32_userfaultfd, evt_pair (UF_USED OR UF_NEVER_DROP) PPME_SYSCALL_USERFAULTFD_E PPME_SYSCALL_USERFAULTFD_X)]"

definition g_syscall_ia32_table_rows :: "(int \<times> syscall_evt_pair) list" where
  "g_syscall_ia32_table_rows = g_syscall_ia32_table_0 @ g_syscall_ia32_table_1"

definition g_syscall_table :: "int \<Rightarrow> syscall_evt_pair" where
  "g_syscall_table = array_of (evt_pair 0 0 0) g_syscall_table_rows"

definition g_syscall_ia32_table :: "int \<Rightarrow> syscall_evt_pair" where
  "g_syscall_ia32_table = array_of (evt_pair 0 0 0) g_syscall_ia32_table_rows"

section \<open>Codes of system calls\<close>

definition g_syscall_code_routing_table_0 :: "(int \<times> int) list" where
  "g_syscall_code_routing_table_0 =
     [(NR_restart_syscall, PPM_SC_RESTART_SYSCALL),
      (NR_exit, PPM_SC_EXIT),
      (NR_read, PPM_SC_READ),
      (NR_write, PPM_SC_WRITE),
      (NR_open, PPM_SC_OPEN),
      (NR_close, PPM_SC_CLOSE),
      (NR_creat, PPM_SC_CREAT),
      (NR_link, PPM_SC_LINK),
      (NR_unlink, PPM_SC_UNLINK),
      (NR_chdir, PPM_SC_CHDIR),
      (NR_time, PPM_SC_TIME),
      (NR_mknod, PPM_SC_MKNOD),
      (NR_chmod, PPM_SC_CHMOD),
      (NR_stat, PPM_SC_STAT),
      (NR_lseek, PPM_SC_LSEEK),
      (NR_getpid, PPM_SC_GETPID),
      (NR_mount, PPM_SC_MOUNT),
      (NR_ptrace, PPM_SC_PTRACE),
      (NR_alarm, PPM_SC_ALARM),
      (NR_fstat, PPM_SC_FSTAT),
      (NR_pause, PPM_SC_PAUSE),
      (NR_utime, PPM_SC_UTIME),
      (NR_sync, PPM_SC_SYNC),
      (NR_kill, PPM_SC_KILL),
      (NR_rename, PPM_SC_RENAME),
      (NR_mkdir, PPM_SC_MKDIR),
      (NR_rmdir, PPM_SC_RMDIR),
      (NR_dup, PPM_SC_DUP),
      (NR_pipe, PPM_SC_PIPE),
      (NR_times, PPM_SC_TIMES),
      (NR_brk, PPM_SC_BRK),
      (NR_acct, PPM_SC_ACCT),
      (NR_ioctl, PPM_SC_IOCTL),
      (NR_fcntl, PPM_SC_FCNTL),
      (NR_setpgid, PPM_SC_SETPGID),
      (NR_umask, PPM_SC_UMASK),
      (NR_chroot, PPM_SC_CHROOT),
      (NR_ustat, PPM_SC_USTAT),
      (NR_dup2, PPM_SC_DUP2),
      (NR_getppid, PPM_SC_GETPPID),
      (NR_getpgrp, PPM_SC_GETPGRP),
      (NR_setsid, PPM_SC_SETSID),
      (NR_sethostname, PPM_SC_SETHOSTNAME),
      (NR_setrlimit, PPM_SC_SETRLIMIT),
      (NR_getrusage, PPM_SC_GETRUSAGE),
      (NR_gettimeofday, PPM_SC_GETTIMEOFDAY),
      (NR_settimeofday, PPM_SC_SETTIMEOFDAY),
      (NR_symlink, PPM_SC_SYMLINK),
      (NR_lstat, PPM_SC_LSTAT),
      (NR_readlink, PPM_SC_READLINK),
      (NR_uselib, PPM_SC_USELIB),
      (NR_swapon, PPM_SC_SWAPON),
      (NR_reboot, PPM_SC_REBOOT),
      (NR_mmap, PPM_SC_MMAP),
      (NR_munmap, PPM_SC_MUNMAP),
      (NR_truncate, PPM_SC_TRUNCATE),
      (NR_ftruncate, PPM_SC_FTRUNCATE),
      (NR_fchmod, PPM_SC_FCHMOD),
      (NR_getpriority, PPM_SC_GETPRIORITY),
      (NR_setpriority, PPM_SC_SETPRIORITY),
      (NR_statfs, PPM_SC_STATFS),
      (NR_fstatfs, PPM_SC_FSTATFS),
      (NR_syslog, PPM_SC_SYSLOG),
      (NR_setitimer, PPM_SC_SETITIMER),
      (NR_getitimer, PPM_SC_GETITIMER),
      (NR_uname, PPM_SC_UNAME),
      (NR_vhangup, PPM_SC_VHANGUP),
      (NR_wait4, PPM_SC_WAIT4),
      (NR_swapoff, PPM_SC_SWAPOFF),
      (NR_sysinfo, PPM_SC_SYSINFO),
      (NR_fsync, PPM_SC_FSYNC),
      (NR_setdomainname, PPM_SC_SETDOMAINNAME),
      (NR_adjtimex, PPM_SC_ADJTIMEX),
      (NR_mprotect, PPM_SC_MPROTECT),
      (NR_init_module, PPM_SC_INIT_MODULE),
      (NR_delete_module, PPM_SC_DELETE_MODULE),
      (NR_getpgid, PPM_SC_GETPGID),
      (NR_fchdir, PPM_SC_FCHDIR),
      (NR_sysfs, PPM_SC_SYSFS),
      (NR_personality, PPM_SC_PERSONALITY)]"

definition g_syscall_code_routing_table_1 :: "(int \<times> int) list" where
  "g_syscall_code_routing_table_1 =
     [(NR_getdents, PPM_SC_GETDENTS),
      (NR_select, PPM_SC_SELECT),
      (NR_flock, PPM_SC_FLOCK),
      (NR_msync, PPM_SC_MSYNC),
      (NR_readv, PPM_SC_READV),
      (NR_writev, PPM_SC_WRITEV),
      (NR_getsid, PPM_SC_GETSID),
      (NR_fdatasync, PPM_SC_FDATASYNC),
      (NR_mlock, PPM_SC_MLOCK),
      (NR_munlock, PPM_SC_MUNLOCK),
      (NR_mlockall, PPM_SC_MLOCKALL),
      (NR_munlockall, PPM_SC_MUNLOCKALL),
      (NR_sched_setparam, PPM_SC_SCHED_SETPARAM),
      (NR_sched_getparam, PPM_SC_SCHED_GETPARAM),
      (NR_sched_setscheduler, PPM_SC_SCHED_SETSCHEDULER),
      (NR_sched_getscheduler, PPM_SC_SCHED_GETSCHEDULER),
      (NR_sched_yield, PPM_SC_SCHED_YIELD),
      (NR_sched_get_priority_max, PPM_SC_SCHED_GET_PRIORITY_MAX),
      (NR_sched_get_priority_min, PPM_SC_SCHED_GET_PRIORITY_MIN),
      (NR_sched_rr_get_interval, PPM_SC_SCHED_RR_GET_INTERVAL),
      (NR_nanosleep, PPM_SC_NANOSLEEP),
      (NR_mremap, PPM_SC_MREMAP),
      (NR_poll, PPM_SC_POLL),
      (NR_prctl, PPM_SC_PRCTL),
      (NR_arch_prctl, PPM_SC_ARCH_PRCTL),
      (NR_rt_sigaction, PPM_SC_RT_SIGACTION),
      (NR_rt_sigprocmask, PPM_SC_RT_SIGPROCMASK),
      (NR_rt_sigpending, PPM_SC_RT_SIGPENDING),
      (NR_rt_sigtimedwait, PPM_SC_RT_SIGTIMEDWAIT),
      (NR_rt_sigqueueinfo, PPM_SC_RT_SIGQUEUEINFO),
      (NR_rt_sigsuspend, PPM_SC_RT_SIGSUSPEND),
      (NR_getcwd, PPM_SC_GETCWD),
      (NR_capget, PPM_SC_CAPGET),
      (NR_capset, PPM_SC_CAPSET),
      (NR_sendfile, PPM_SC_SENDFILE),
      (NR_getrlimit, PPM_SC_GETRLIMIT),
      (NR_lchown, PPM_SC_LCHOWN),
      (NR_setreuid, PPM_SC_SETREUID),
      (NR_setregid, PPM_SC_SETREGID),
      (NR_getgroups, PPM_SC_GETGROUPS),
      (NR_setgroups, PPM_SC_SETGROUPS),
      (NR_fchown, PPM_SC_FCHOWN),
      (NR_chown, PPM_SC_CHOWN),
      (NR_setfsuid, PPM_SC_SETFSUID),
      (NR_setfsgid, PPM_SC_SETFSGID),
      (NR_pivot_root, PPM_SC_PIVOT_ROOT),
      (NR_mincore, PPM_SC_MINCORE),
      (NR_madvise, PPM_SC_MADVISE),
      (NR_gettid, PPM_SC_GETTID),
      (NR_setxattr, PPM_SC_SETXATTR),
      (NR_lsetxattr, PPM_SC_LSETXATTR),
      (NR_fsetxattr, PPM_SC_FSETXATTR),
      (NR_getxattr, PPM_SC_GETXATTR),
      (NR_lgetxattr, PPM_SC_LGETXATTR),
      (NR_fgetxattr, PPM_SC_FGETXATTR),
      (NR_listxattr, PPM_SC_LISTXATTR),
      (NR_llistxattr, PPM_SC_LLISTXATTR),
      (NR_flistxattr, PPM_SC_FLISTXATTR),
      (NR_removexattr, PPM_SC_REMOVEXATTR),
      (NR_lremovexattr, PPM_SC_LREMOVEXATTR),
      (NR_fremovexattr, PPM_SC_FREMOVEXATTR),
      (NR_tkill, PPM_SC_TKILL),
      (NR_futex, PPM_SC_FUTEX),
      (NR_sched_setaffinity, PPM_SC_SCHED_SETAFFINITY),
      (NR_sched_getaffinity, PPM_SC_SCHED_GETAFFINITY),
      (NR_set_thread_area, PPM_SC_SET_THREAD_AREA),
      (NR_get_thread_area, PPM_SC_GET_THREAD_AREA),
      (NR_io_setup, PPM_SC_IO_SETUP),
      (NR_io_destroy, PPM_SC_IO_DESTROY),
      (NR_io_getevents, PPM_SC_IO_GETEVENTS),
      (NR_io_submit, PPM_SC_IO_SUBMIT),
      (NR_io_cancel, PPM_SC_IO_CANCEL),
      (NR_exit_group, PPM_SC_EXIT_GROUP),
      (NR_epoll_create, PPM_SC_EPOLL_CREATE),
      (NR_epoll_ctl, PPM_SC_EPOLL_CTL),
      (NR_epoll_wait, PPM_SC_EPOLL_WAIT),
      (NR_remap_file_pages, PPM_SC_REMAP_FILE_PAGES),
      (NR_set_tid_address, PPM_SC_SET_TID_ADDRESS),
      (NR_timer_create, PPM_SC_TIMER_CREATE),
      (NR_timer_settime, PPM_SC_TIMER_SETTIME),
      (NR_timer_gettime, PPM_SC_TIMER_GETTIME),
      (NR_timer_getoverrun, PPM_SC_TIMER_GETOVERRUN),
      (NR_timer_delete, PPM_SC_TIMER_DELETE),
      (NR_clock_settime, PPM_SC_CLOCK_SETTIME),
      (NR_clock_gettime, PPM_SC_CLOCK_GETTIME),
      (NR_clock_getres, PPM_SC_CLOCK_GETRES),
      (NR_clock_nanosleep, PPM_SC_CLOCK_NANOSLEEP),
      (NR_tgkill, PPM_SC_TGKILL),
      (NR_utimes, PPM_SC_UTIMES),
      (NR_mq_open, PPM_SC_MQ_OPEN),
      (NR_mq_unlink, PPM_SC_MQ_UNLINK),
      (NR_mq_timedsend, PPM_SC_MQ_TIMEDSEND),
      (NR_mq_timedreceive, PPM_SC_MQ_TIMEDRECEIVE),
      (NR_mq_notify, PPM_SC_MQ_NOTIFY),
      (NR_mq_getsetattr, PPM_SC_MQ_GETSETATTR),
      (NR_kexec_load, PPM_SC_KEXEC_LOAD),
      (NR_waitid, PPM_SC_WAITID),
      (NR_add_key, PPM_SC_ADD_KEY),
      (NR_request_key, PPM_SC_REQUEST_KEY),
      (NR_keyctl, PPM_SC_KEYCTL),
      (NR_ioprio_set, PPM_SC_IOPRIO_SET),
      (NR_ioprio_get, PPM_SC_IOPRIO_GET),
      (NR_inotify_init, PPM_SC_INOTIFY_INIT),
      (NR_inotify_add_watch, PPM_SC_INOTIFY_ADD_WATCH),
      (NR_inotify_rm_watch, PPM_SC_INOTIFY_RM_WATCH),
      (NR_openat, PPM_SC_OPENAT),
      (NR_mkdirat, PPM_SC_MKDIRAT),
      (NR_mknodat, PPM_SC_MKNODAT),
      (NR_fchownat, PPM_SC_FCHOWNAT),
      (NR_futimesat, PPM_SC_FUTIMESAT),
      (NR_unlinkat, PPM_SC_UNLINKAT),
      (NR_renameat, PPM_SC_RENAMEAT),
      (NR_linkat, PPM_SC_LINKAT),
      (NR_symlinkat, PPM_SC_SYMLINKAT)]"

definition g_syscall_code_routing_table_2 :: "(int \<times> int) list" where
  "g_syscall_code_routing_table_2 =
     [(NR_readlinkat, PPM_SC_READLINKAT),
      (NR_fchmodat, PPM_SC_FCHMODAT),
      (NR_faccessat, PPM_SC_FACCESSAT),
      (NR_pselect6, PPM_SC_PSELECT6),
      (NR_ppoll, PPM_SC_PPOLL),
      (NR_unshare, PPM_SC_UNSHARE),
      (NR_set_robust_list, PPM_SC_SET_ROBUST_LIST),
      (NR_get_robust_list, PPM_SC_GET_ROBUST_LIST),
      (NR_splice, PPM_SC_SPLICE),
      (NR_tee, PPM_SC_TEE),
      (NR_vmsplice, PPM_SC_VMSPLICE),
      (NR_getcpu, PPM_SC_GETCPU),
      (NR_epoll_pwait, PPM_SC_EPOLL_PWAIT),
      (NR_utimensat, PPM_SC_UTIMENSAT),
      (NR_signalfd, PPM_SC_SIGNALFD),
      (NR_timerfd_create, PPM_SC_TIMERFD_CREATE),
      (NR_eventfd, PPM_SC_EVENTFD),
      (NR_timerfd_settime, PPM_SC_TIMERFD_SETTIME),
      (NR_timerfd_gettime, PPM_SC_TIMERFD_GETTIME),
      (NR_signalfd4, PPM_SC_SIGNALFD4),
      (NR_eventfd2, PPM_SC_EVENTFD2),
      (NR_epoll_create1, PPM_SC_EPOLL_CREATE1),
      (NR_dup3, PPM_SC_DUP3),
      (NR_pipe2, PPM_SC_PIPE2),
      (NR_inotify_init1, PPM_SC_INOTIFY_INIT1),
      (NR_preadv, PPM_SC_PREADV),
      (NR_pwritev, PPM_SC_PWRITEV),
      (NR_rt_tgsigqueueinfo, PPM_SC_RT_TGSIGQUEUEINFO),
      (NR_perf_event_open, PPM_SC_PERF_EVENT_OPEN),
      (NR_fanotify_init, PPM_SC_FANOTIFY_INIT),
      (NR_prlimit64, PPM_SC_PRLIMIT64),
      (NR_clock_adjtime, PPM_SC_CLOCK_ADJTIME),
      (NR_syncfs, PPM_SC_SYNCFS),
      (NR_getdents64, PPM_SC_GETDENTS64),
      (NR_socket, PPM_SC_SOCKET),
      (NR_bind, PPM_SC_BIND),
      (NR_connect, PPM_SC_CONNECT),
      (NR_listen, PPM_SC_LISTEN),
      (NR_accept, PPM_SC_ACCEPT),
      (NR_getsockname, PPM_SC_GETSOCKNAME),
      (NR_getpeername, PPM_SC_GETPEERNAME),
      (NR_socketpair, PPM_SC_SOCKETPAIR),
      (NR_sendto, PPM_SC_SENDTO),
      (NR_recvfrom, PPM_SC_RECVFROM),
      (NR_shutdown, PPM_SC_SHUTDOWN),
      (NR_setsockopt, PPM_SC_SETSOCKOPT),
      (NR_getsockopt, PPM_SC_GETSOCKOPT),
      (NR_sendmsg, PPM_SC_SENDMSG),
      (NR_recvmsg, PPM_SC_RECVMSG),
      (NR_accept4, PPM_SC_ACCEPT4),
      (NR_sendmmsg, PPM_SC_SENDMMSG),
      (NR_recvmmsg, PPM_SC_RECVMMSG),
      (NR_semop, PPM_SC_SEMOP),
      (NR_semget, PPM_SC_SEMGET),
      (NR_semctl, PPM_SC_SEMCTL),
      (NR_msgsnd, PPM_SC_MSGSND),
      (NR_msgrcv, PPM_SC_MSGRCV),
      (NR_msgget, PPM_SC_MSGGET),
      (NR_msgctl, PPM_SC_MSGCTL),
      (NR_shmdt, PPM_SC_SHMDT),
      (NR_shmget, PPM_SC_SHMGET),
      (NR_shmctl, PPM_SC_SHMCTL)]"

definition g_syscall_code_routing_table_3 :: "(int \<times> int) list" where
  "g_syscall_code_routing_table_3 =
     [(NR_pread64, PPM_SC_PREAD64),
      (NR_pwrite64, PPM_SC_PWRITE64),
      (NR_shmat, PPM_SC_SHMAT),
      (NR_rt_sigreturn, PPM_SC_SIGRETURN),
      (NR_fallocate, PPM_SC_FALLOCATE),
      (NR_newfstatat, PPM_SC_NEWFSSTAT),
      (NR_process_vm_readv, PPM_SC_PROCESS_VM_READV),
      (NR_process_vm_writev, PPM_SC_PROCESS_VM_WRITEV),
      (NR_fork, PPM_SC_FORK),
      (NR_vfork, PPM_SC_VFORK),
      (NR_quotactl, PPM_SC_QUOTACTL),
      (NR_setresuid, PPM_SC_SETRESUID),
      (NR_setresgid, PPM_SC_SETRESGID),
      (NR_setuid, PPM_SC_SETUID),
      (NR_setgid, PPM_SC_SETGID),
      (NR_getuid, PPM_SC_GETUID),
      (NR_geteuid, PPM_SC_GETEUID),
      (NR_getgid, PPM_SC_GETGID),
      (NR_getegid, PPM_SC_GETEGID),
      (NR_getresuid, PPM_SC_GETRESUID),
      (NR_getresgid, PPM_SC_GETRESGID),
      (NR_setns, PPM_SC_SETNS),
      (NR_access, PPM_SC_ACCESS),
      (NR_finit_module, PPM_SC_FINIT_MODULE),
      (NR_bpf, PPM_SC_BPF),
      (NR_seccomp, PPM_SC_SECCOMP),
      (NR_sigaltstack, PPM_SC_SIGALTSTACK),
      (NR_getrandom, PPM_SC_GETRANDOM),
      (NR_fadvise64, PPM_SC_FADVISE64),
      (NR_renameat2, PPM_SC_RENAMEAT2),
      (NR_userfaultfd, PPM_SC_USERFAULTFD)]"

definition g_syscall_code_routing_table_rows :: "(int \<times> int) list" where
  "g_syscall_code_routing_table_rows = g_syscall_code_routing_table_0 @ g_syscall_code_routing_table_1 @ g_syscall_code_routing_table_2 @ g_syscall_code_routing_table_3"

definition g_syscall_ia32_code_routing_table_0 :: "(int \<times> int) list" where
  "g_syscall_ia32_code_routing_table_0 =
     [(NR_ia32_restart_syscall, PPM_SC_RESTART_SYSCALL),
      (NR_ia32_exit, PPM_SC_EXIT),
      (NR_ia32_read, PPM_SC_READ),
      (NR_ia32_write, PPM_SC_WRITE),
      (NR_ia32_open, PPM_SC_OPEN),
      (NR_ia32_close, PPM_SC_CLOSE),
      (NR_ia32_creat, PPM_SC_CREAT),
      (NR_ia32_link, PPM_SC_LINK),
      (NR_ia32_unlink, PPM_SC_UNLINK),
      (NR_ia32_chdir, PPM_SC_CHDIR),
      (NR_ia32_time, PPM_SC_TIME),
      (NR_ia32_mknod, PPM_SC_MKNOD),
      (NR_ia32_chmod, PPM_SC_CHMOD),
      (NR_ia32_stat, PPM_SC_STAT),
      (NR_ia32_lseek, PPM_SC_LSEEK),
      (NR_ia32_getpid, PPM_SC_GETPID),
      (NR_ia32_mount, PPM_SC_MOUNT),
      (NR_ia32_ptrace, PPM_SC_PTRACE),
      (NR_ia32_alarm, PPM_SC_ALARM),
      (NR_ia32_fstat, PPM_SC_FSTAT),
      (NR_ia32_pause, PPM_SC_PAUSE),
      (NR_ia32_utime, PPM_SC_UTIME),
      (NR_ia32_access, PPM_SC_ACCESS),
      (NR_ia32_sync, PPM_SC_SYNC),
      (NR_ia32_kill, PPM_SC_KILL),
      (NR_ia32_rename, PPM_SC_RENAME),
      (NR_ia32_mkdir, PPM_SC_MKDIR),
      (NR_ia32_rmdir, PPM_SC_RMDIR),
      (NR_ia32_dup, PPM_SC_DUP),
      (NR_ia32_pipe, PPM_SC_PIPE),
      (NR_ia32_times, PPM_SC_TIMES),
      (NR_ia32_brk, PPM_SC_BRK),
      (NR_ia32_acct, PPM_SC_ACCT),
      (NR_ia32_ioctl, PPM_SC_IOCTL),
      (NR_ia32_fcntl, PPM_SC_FCNTL),
      (NR_ia32_setpgid, PPM_SC_SETPGID),
      (NR_ia32_umask, PPM_SC_UMASK),
      (NR_ia32_chroot, PPM_SC_CHROOT),
      (NR_ia32_ustat, PPM_SC_USTAT),
      (NR_ia32_dup2, PPM_SC_DUP2),
      (NR_ia32_getppid, PPM_SC_GETPPID),
      (NR_ia32_getpgrp, PPM_SC_GETPGRP),
      (NR_ia32_setsid, PPM_SC_SETSID),
      (NR_ia32_sethostname, PPM_SC_SETHOSTNAME),
      (NR_ia32_setrlimit, PPM_SC_SETRLIMIT),
      (NR_ia32_getrusage, PPM_SC_GETRUSAGE),
      (NR_ia32_gettimeofday, PPM_SC_GETTIMEOFDAY),
      (NR_ia32_settimeofday, PPM_SC_SETTIMEOFDAY),
      (NR_ia32_symlink, PPM_SC_SYMLINK),
      (NR_ia32_lstat, PPM_SC_LSTAT),
      (NR_ia32_readlink, PPM_SC_READLINK),
      (NR_ia32_uselib, PPM_SC_USELIB),
      (NR_ia32_swapon, PPM_SC_SWAPON),
      (NR_ia32_reboot, PPM_SC_REBOOT),
      (NR_ia32_mmap, PPM_SC_MMAP),
      (NR_ia32_munmap, PPM_SC_MUNMAP),
      (NR_ia32_truncate, PPM_SC_TRUNCATE),
      (NR_ia32_ftruncate, PPM_SC_FTRUNCATE),
      (NR_ia32_fchmod, PPM_SC_FCHMOD),
      (NR_ia32_getpriority, PPM_SC_GETPRIORITY),
      (NR_ia32_setpriority, PPM_SC_SETPRIORITY),
      (NR_ia32_statfs, PPM_SC_STATFS),
      (NR_ia32_fstatfs, PPM_SC_FSTATFS),
      (NR_ia32_syslog, PPM_SC_SYSLOG),
      (NR_ia32_setitimer, PPM_SC_SETITIMER),
      (NR_ia32_getitimer, PPM_SC_GETITIMER),
      (NR_ia32_uname, PPM_SC_UNAME),
      (NR_ia32_vhangup, PPM_SC_VHANGUP),
      (NR_ia32_wait4, PPM_SC_WAIT4),
      (NR_ia32_swapoff, PPM_SC_SWAPOFF),
      (NR_ia32_sysinfo, PPM_SC_SYSINFO),
      (NR_ia32_fsync, PPM_SC_FSYNC),
      (NR_ia32_setdomainname, PPM_SC_SETDOMAINNAME),
      (NR_ia32_adjtimex, PPM_SC_ADJTIMEX),
      (NR_ia32_mprotect, PPM_SC_MPROTECT),
      (NR_ia32_init_module, PPM_SC_INIT_MODULE),
      (NR_ia32_delete_module, PPM_SC_DELETE_MODULE),
      (NR_ia32_quotactl, PPM_SC_QUOTACTL),
      (NR_ia32_getpgid, PPM_SC_GETPGID),
      (NR_ia32_fchdir, PPM_SC_FCHDIR),
      (NR_ia32_sysfs, PPM_SC_SYSFS),
      (NR_ia32_personality, PPM_SC_PERSONALITY),
      (NR_ia32_getdents, PPM_SC_GETDENTS),
      (NR_ia32_select, PPM_SC_SELECT),
      (NR_ia32_flock, PPM_SC_FLOCK),
      (NR_ia32_msync, PPM_SC_MSYNC),
      (NR_ia32_readv, PPM_SC_READV),
      (NR_ia32_writev, PPM_SC_WRITEV),
      (NR_ia32_getsid, PPM_SC_GETSID),
      (NR_ia32_fdatasync, PPM_SC_FDATASYNC),
      (NR_ia32_mlock, PPM_SC_MLOCK),
      (NR_ia32_munlock, PPM_SC_MUNLOCK),
      (NR_ia32_mlockall, PPM_SC_MLOCKALL),
      (NR_ia32_munlockall, PPM_SC_MUNLOCKALL),
      (NR_ia32_sched_setparam, PPM_SC_SCHED_SETPARAM),
      (NR_ia32_sched_getparam, PPM_SC_SCHED_GETPARAM),
      (NR_ia32_sched_setscheduler, PPM_SC_SCHED_SETSCHEDULER),
      (NR_ia32_sched_getscheduler, PPM_SC_SCHED_GETSCHEDULER),
      (NR_ia32_sched_yield, PPM_SC_SCHED_YIELD),
      (NR_ia32_sched_get_priority_max, PPM_SC_SCHED_GET_PRIORITY_MAX),
      (NR_ia32_sched_get_priority_min, PPM_SC_SCHED_GET_PRIORITY_MIN),
      (NR_ia32_sched_rr_get_interval, PPM_SC_SCHED_RR_GET_INTERVAL),
      (NR_ia32_nanosleep, PPM_SC_NANOSLEEP),
      (NR_ia32_mremap, PPM_SC_MREMAP),
      (NR_ia32_poll, PPM_SC_POLL),
      (NR_ia32_prctl, PPM_SC_PRCTL),
      (NR_ia32_rt_sigaction, PPM_SC_RT_SIGACTION),
      (NR_ia32_rt_sigprocmask, PPM_SC_RT_SIGPROCMASK),
      (NR_ia32_rt_sigpending, PPM_SC_RT_SIGPENDING),
      (NR_ia32_rt_sigtimedwait, PPM_SC_RT_SIGTIMEDWAIT),
      (NR_ia32_rt_sigqueueinfo, PPM_SC_RT_SIGQUEUEINFO),
      (NR_ia32_rt_sigsuspend, PPM_SC_RT_SIGSUSPEND),
      (NR_ia32_getcwd, PPM_SC_GETCWD),
      (NR_ia32_capget, PPM_SC_CAPGET)]"

definition g_syscall_ia32_code_routing_table_1 :: "(int \<times> int) list" where
  "g_syscall_ia32_code_routing_table_1 =
     [(NR_ia32_capset, PPM_SC_CAPSET),
      (NR_ia32_sendfile, PPM_SC_SENDFILE),
      (NR_ia32_getrlimit, PPM_SC_GETRLIMIT),
      (NR_ia32_lchown, PPM_SC_LCHOWN),
      (NR_ia32_getuid, PPM_SC_GETUID),
      (NR_ia32_getgid, PPM_SC_GETGID),
      (NR_ia32_geteuid, PPM_SC_GETEUID),
      (NR_ia32_getegid, PPM_SC_GETEGID),
      (NR_ia32_setreuid, PPM_SC_SETREUID),
      (NR_ia32_setregid, PPM_SC_SETREGID),
      (NR_ia32_getgroups, PPM_SC_GETGROUPS),
      (NR_ia32_setgroups, PPM_SC_SETGROUPS),
      (NR_ia32_fchown, PPM_SC_FCHOWN),
      (NR_ia32_setresuid, PPM_SC_SETRESUID),
      (NR_ia32_getresuid, PPM_SC_GETRESUID),
      (NR_ia32_setresgid, PPM_SC_SETRESGID),
      (NR_ia32_getresgid, PPM_SC_GETRESGID),
      (NR_ia32_chown, PPM_SC_CHOWN),
      (NR_ia32_setuid, PPM_SC_SETUID),
      (NR_ia32_setgid, PPM_SC_SETGID),
      (NR_ia32_setfsuid, PPM_SC_SETFSUID),
      (NR_ia32_setfsgid, PPM_SC_SETFSGID),
      (NR_ia32_pivot_root, PPM_SC_PIVOT_ROOT),
      (NR_ia32_mincore, PPM_SC_MINCORE),
      (NR_ia32_madvise, PPM_SC_MADVISE),
      (NR_ia32_gettid, PPM_SC_GETTID),
      (NR_ia32_setxattr, PPM_SC_SETXATTR),
      (NR_ia32_lsetxattr, PPM_SC_LSETXATTR),
      (NR_ia32_fsetxattr, PPM_SC_FSETXATTR),
      (NR_ia32_getxattr, PPM_SC_GETXATTR),
      (NR_ia32_lgetxattr, PPM_SC_LGETXATTR),
      (NR_ia32_fgetxattr, PPM_SC_FGETXATTR),
      (NR_ia32_listxattr, PPM_SC_LISTXATTR),
      (NR_ia32_llistxattr, PPM_SC_LLISTXATTR),
      (NR_ia32_flistxattr, PPM_SC_FLISTXATTR),
      (NR_ia32_removexattr, PPM_SC_REMOVEXATTR),
      (NR_ia32_lremovexattr, PPM_SC_LREMOVEXATTR),
      (NR_ia32_fremovexattr, PPM_SC_FREMOVEXATTR),
      (NR_ia32_tkill, PPM_SC_TKILL),
      (NR_ia32_futex, PPM_SC_FUTEX),
      (NR_ia32_sched_setaffinity, PPM_SC_SCHED_SETAFFINITY),
      (NR_ia32_sched_getaffinity, PPM_SC_SCHED_GETAFFINITY),
      (NR_ia32_set_thread_area, PPM_SC_SET_THREAD_AREA),
      (NR_ia32_get_thread_area, PPM_SC_GET_THREAD_AREA),
      (NR_ia32_io_setup, PPM_SC_IO_SETUP),
      (NR_ia32_io_destroy, PPM_SC_IO_DESTROY),
      (NR_ia32_io_getevents, PPM_SC_IO_GETEVENTS),
      (NR_ia32_io_submit, PPM_SC_IO_SUBMIT),
      (NR_ia32_io_cancel, PPM_SC_IO_CANCEL),
      (NR_ia32_exit_group, PPM_SC_EXIT_GROUP),
      (NR_ia32_epoll_create, PPM_SC_EPOLL_CREATE),
      (NR_ia32_epoll_ctl, PPM_SC_EPOLL_CTL),
      (NR_ia32_epoll_wait, PPM_SC_EPOLL_WAIT),
      (NR_ia32_remap_file_pages, PPM_SC_REMAP_FILE_PAGES),
      (NR_ia32_set_tid_address, PPM_SC_SET_TID_ADDRESS),
      (NR_ia32_timer_create, PPM_SC_TIMER_CREATE),
      (NR_ia32_timer_settime, PPM_SC_TIMER_SETTIME),
      (NR_ia32_timer_gettime, PPM_SC_TIMER_GETTIME),
      (NR_ia32_timer_getoverrun, PPM_SC_TIMER_GETOVERRUN),
      (NR_ia32_timer_delete, PPM_SC_TIMER_DELETE),
      (NR_ia32_clock_settime, PPM_SC_CLOCK_SETTIME),
      (NR_ia32_clock_gettime, PPM_SC_CLOCK_GETTIME),
      (NR_ia32_clock_getres, PPM_SC_CLOCK_GETRES),
      (NR_ia32_clock_nanosleep, PPM_SC_CLOCK_NANOSLEEP),
      (NR_ia32_tgkill, PPM_SC_TGKILL),
      (NR_ia32_utimes, PPM_SC_UTIMES),
      (NR_ia32_mq_open, PPM_SC_MQ_OPEN),
      (NR_ia32_mq_unlink, PPM_SC_MQ_UNLINK),
      (NR_ia32_mq_timedsend, PPM_SC_MQ_TIMEDSEND),
      (NR_ia32_mq_timedreceive, PPM_SC_MQ_TIMEDRECEIVE),
      (NR_ia32_mq_notify, PPM_SC_MQ_NOTIFY),
      (NR_ia32_mq_getsetattr, PPM_SC_MQ_GETSETATTR),
      (NR_ia32_kexec_load, PPM_SC_KEXEC_LOAD),
      (NR_ia32_waitid, PPM_SC_WAITID),
      (NR_ia32_add_key, PPM_SC_ADD_KEY),
      (NR_ia32_request_key, PPM_SC_REQUEST_KEY),
      (NR_ia32_keyctl, PPM_SC_KEYCTL),
      (NR_ia32_ioprio_set, PPM_SC_IOPRIO_SET),
      (NR_ia32_ioprio_get, PPM_SC_IOPRIO_GET),
      (NR_ia32_inotify_init, PPM_SC_INOTIFY_INIT),
      (NR_ia32_inotify_add_watch, PPM_SC_INOTIFY_ADD_WATCH),
      (NR_ia32_inotify_rm_watch, PPM_SC_INOTIFY_RM_WATCH),
      (NR_ia32_openat, PPM_SC_OPENAT),
      (NR_ia32_mkdirat, PPM_SC_MKDIRAT),
      (NR_ia32_mknodat, PPM_SC_MKNODAT),
      (NR_ia32_fchownat, PPM_SC_FCHOWNAT),
      (NR_ia32_futimesat, PPM_SC_FUTIMESAT),
      (NR_ia32_unlinkat, PPM_SC_UNLINKAT),
      (NR_ia32_renameat, PPM_SC_RENAMEAT),
      (NR_ia32_linkat, PPM_SC_LINKAT),
      (NR_ia32_symlinkat, PPM_SC_SYMLINKAT),
      (NR_ia32_readlinkat, PPM_SC_READLINKAT),
      (NR_ia32_fchmodat, PPM_SC_FCHMODAT),
      (NR_ia32_faccessat, PPM_SC_FACCESSAT),
      (NR_ia32_pselect6, PPM_SC_PSELECT6),
      (NR_ia32_ppoll, PPM_SC_PPOLL),
      (NR_ia32_unshare, PPM_SC_UNSHARE),
      (NR_ia32_set_robust_list, PPM_SC_SET_ROBUST_LIST),
      (NR_ia32_get_robust_list, PPM_SC_GET_ROBUST_LIST),
      (NR_ia32_splice, PPM_SC_SPLICE),
      (NR_ia32_tee, PPM_SC_TEE),
      (NR_ia32_vmsplice, PPM_SC_VMSPLICE),
      (NR_ia32_getcpu, PPM_SC_GETCPU),
      (NR_ia32_epoll_pwait, PPM_SC_EPOLL_PWAIT),
      (NR_ia32_utimensat, PPM_SC_UTIMENSAT),
      (NR_ia32_signalfd, PPM_SC_SIGNALFD),
      (NR_ia32_timerfd_create, PPM_SC_TIMERFD_CREATE),
      (NR_ia32_eventfd, PPM_SC_EVENTFD),
      (NR_ia32_timerfd_settime, PPM_SC_TIMERFD_SETTIME),
      (NR_ia32_timerfd_gettime, PPM_SC_TIMERFD_GETTIME),
      (NR_ia32_signalfd4, PPM_SC_SIGNALFD4),
      (NR_ia32_eventfd2, PPM_SC_EVENTFD2),
      (NR_ia32_epoll_create1, PPM_SC_EPOLL_CREATE1),
      (NR_ia32_dup3, PPM_SC_DUP3),
      (NR_ia32_pipe2, PPM_SC_PIPE2),
      (NR_ia32_inotify_init1, PPM_SC_INOTIFY_INIT1),
      (NR_ia32_preadv, PPM_SC_PREADV),
      (NR_ia32_pwritev, PPM_SC_PWRITEV),
      (NR_ia32_rt_tgsigqueueinfo, PPM_SC_RT_TGSIGQUEUEINFO),
      (NR_ia32_perf_event_open, PPM_SC_PERF_EVENT_OPEN),
      (NR_ia32_fanotify_init, PPM_SC_FANOTIFY_INIT),
      (NR_ia32_prlimit64, PPM_SC_PRLIMIT64),
      (NR_ia32_clock_adjtime, PPM_SC_CLOCK_ADJTIME),
      (NR_ia32_syncfs, PPM_SC_SYNCFS),
      (NR_ia32_setns, PPM_SC_SETNS),
      (NR_ia32_getdents64, PPM_SC_GETDENTS64)]"

definition g_syscall_ia32_code_routing_table_2 :: "(int \<times> int) list" where
  "g_syscall_ia32_code_routing_table_2 =
     [(NR_ia32_socketcall, PPM_SC_SOCKETCALL),
      (NR_ia32_sendmmsg, PPM_SC_SENDMMSG),
      (NR_ia32_recvmmsg, PPM_SC_RECVMMSG),
      (NR_ia32_statfs64, PPM_SC_STATFS64),
      (NR_ia32_fstatfs64, PPM_SC_FSTATFS64),
      (NR_ia32_fstatat64, PPM_SC_FSTATAT64),
      (NR_ia32_sendfile64, PPM_SC_SENDFILE64),
      (NR_ia32_ugetrlimit, PPM_SC_UGETRLIMIT),
      (NR_ia32_bdflush, PPM_SC_BDFLUSH),
      (NR_ia32_sigprocmask, PPM_SC_SIGPROCMASK),
      (NR_ia32_ipc, PPM_SC_IPC),
      (NR_ia32_stat64, PPM_SC_STAT64),
      (NR_ia32_lstat64, PPM_SC_LSTAT64),
      (NR_ia32_fstat64, PPM_SC_FSTAT64),
      (NR_ia32_fcntl64, PPM_SC_FCNTL64),
      (NR_ia32_mmap2, PPM_SC_MMAP2),
      (NR_ia32__newselect, PPM_SC__NEWSELECT),
      (NR_ia32_sgetmask, PPM_SC_SGETMASK),
      (NR_ia32_ssetmask, PPM_SC_SSETMASK),
      (NR_ia32_sigpending, PPM_SC_SIGPENDING),
      (NR_ia32_olduname, PPM_SC_OLDUNAME),
      (NR_ia32_umount, PPM_SC_UMOUNT),
      (NR_ia32_signal, PPM_SC_SIGNAL),
      (NR_ia32_nice, PPM_SC_NICE),
      (NR_ia32_stime, PPM_SC_STIME),
      (NR_ia32__llseek, PPM_SC__LLSEEK),
      (NR_ia32_waitpid, PPM_SC_WAITPID),
      (NR_ia32_pread64, PPM_SC_PREAD64),
      (NR_ia32_pwrite64, PPM_SC_PWRITE64),
      (NR_ia32_rt_sigreturn, PPM_SC_SIGRETURN),
      (NR_ia32_fallocate, PPM_SC_FALLOCATE),
      (NR_ia32_process_vm_readv, PPM_SC_PROCESS_VM_READV),
      (NR_ia32_process_vm_writev, PPM_SC_PROCESS_VM_WRITEV)]"

definition g_syscall_ia32_code_routing_table_3 :: "(int \<times> int) list" where
  "g_syscall_ia32_code_routing_table_3 =
     [(NR_ia32_fork, PPM_SC_FORK),
      (NR_ia32_vfork, PPM_SC_VFORK),
      (NR_ia32_quotactl, PPM_SC_QUOTACTL),
      (NR_ia32_setresuid, PPM_SC_SETRESUID),
      (NR_ia32_setresuid32, PPM_SC_SETRESUID),
      (NR_ia32_setresgid, PPM_SC_SETRESGID),
      (NR_ia32_setresgid32, PPM_SC_SETRESGID),
      (NR_ia32_setuid, PPM_SC_SETUID),
      (NR_ia32_setuid32, PPM_SC_SETUID32),
      (NR_ia32_setgid, PPM_SC_SETGID),
      (NR_ia32_setgid32, PPM_SC_SETGID32),
      (NR_ia32_getuid, PPM_SC_GETUID),
      (NR_ia32_getuid32, PPM_SC_GETUID32),
      (NR_ia32_geteuid, PPM_SC_GETEUID),
      (NR_ia32_geteuid32, PPM_SC_GETEUID),
      (NR_ia32_getgid, PPM_SC_GETGID),
      (NR_ia32_getgid32, PPM_SC_GETGID),
      (NR_ia32_getegid, PPM_SC_GETEGID),
      (NR_ia32_getegid32, PPM_SC_GETEGID),
      (NR_ia32_getresuid, PPM_SC_GETRESUID),
      (NR_ia32_getresuid32, PPM_SC_GETRESUID32),
      (NR_ia32_getresgid, PPM_SC_GETRESGID),
      (NR_ia32_getresgid32, PPM_SC_GETRESGID32),
      (NR_ia32_sigaltstack, PPM_SC_SIGALTSTACK),
      (NR_ia32_fadvise64, PPM_SC_FADVISE64),
      (NR_ia32_renameat2, PPM_SC_RENAMEAT2),
      (NR_ia32_userfaultfd, PPM_SC_USERFAULTFD)]"

definition g_syscall_ia32_code_routing_table_rows :: "(int \<times> int) list" where
  "g_syscall_ia32_code_routing_table_rows = g_syscall_ia32_code_routing_table_0 @ g_syscall_ia32_code_routing_table_1 @ g_syscall_ia32_code_routing_table_2 @ g_syscall_ia32_code_routing_table_3"

definition g_syscall_code_routing_table :: "int \<Rightarrow> int" where
  "g_syscall_code_routing_table = array_of PPM_SC_UNKNOWN g_syscall_code_routing_table_rows"

definition g_syscall_ia32_code_routing_table :: "int \<Rightarrow> int" where
  "g_syscall_ia32_code_routing_table = array_of PPM_SC_UNKNOWN g_syscall_ia32_code_routing_table_rows"

section \<open>Descriptions of the codes\<close>

definition g_syscall_info_table_0 :: "ppm_syscall_desc list" where
  "g_syscall_info_table_0 =
     [desc EC_OTHER EF_NONE ''<unknown>'',
      desc EC_SYSTEM EF_NONE ''restart_syscall'',
      desc EC_PROCESS EF_NONE ''exit'',
      desc EC_IO_READ EF_DROP_SIMPLE_CONS ''read'',
      desc EC_IO_WRITE EF_DROP_SIMPLE_CONS ''write'',
      desc EC_FILE EF_NONE ''open'',
      desc EC_FILE EF_DROP_SIMPLE_CONS ''close'',
      desc EC_FILE EF_NONE ''creat'',
      desc EC_FILE EF_NONE ''link'',
      desc EC_FILE EF_NONE ''unlink'',
      desc EC_FILE EF_NONE ''chdir'',
      desc EC_TIME EF_DROP_SIMPLE_CONS ''time'',
      desc EC_FILE EF_NONE ''mknod'',
      desc EC_FILE EF_NONE ''chmod'',
      desc EC_FILE EF_DROP_SIMPLE_CONS ''stat'',
      desc EC_FILE EF_DROP_SIMPLE_CONS ''lseek'',
      desc EC_PROCESS EF_DROP_SIMPLE_CONS ''getpid'',
      desc EC_FILE EF_NONE ''mount'',
      desc EC_OTHER EF_NONE ''ptrace'',
      desc EC_TIME EF_DROP_SIMPLE_CONS ''alarm'',
      desc EC_FILE EF_DROP_SIMPLE_CONS ''fstat'',
      desc EC_WAIT EF_DROP_SIMPLE_CONS ''pause'',
      desc EC_TIME EF_NONE ''utime'',
      desc EC_FILE EF_DROP_SIMPLE_CONS ''access'',
      desc EC_IO_OTHER EF_NONE ''sync'',
      desc EC_IPC EF_NONE ''kill'',
      desc EC_FILE EF_NONE ''rename'',
      desc EC_FILE EF_NONE ''mkdir'',
      desc EC_FILE EF_NONE ''rmdir'',
      desc EC_IO_OTHER EF_NONE ''dup'',
      desc EC_IPC EF_NONE ''pipe'',
      desc EC_TIME EF_DROP_SIMPLE_CONS ''times'',
      desc EC_MEMORY EF_DROP_SIMPLE_CONS ''brk'',
      desc EC_PROCESS EF_NONE ''acct'',
      desc EC_IO_OTHER EF_NONE ''ioctl'',
      desc EC_WAIT EF_DROP_SIMPLE_CONS ''fcntl'',
      desc EC_PROCESS EF_NONE ''setpgid'',
      desc EC_PROCESS EF_DROP_SIMPLE_CONS ''umask'',
      desc EC_IPC EF_NONE ''chroot'',
      desc EC_FILE EF_DROP_SIMPLE_CONS ''ustat'',
      desc EC_IO_OTHER EF_NONE ''dup2'',
      desc EC_PROCESS EF_DROP_SIMPLE_CONS ''getppid'',
      desc EC_PROCESS EF_DROP_SIMPLE_CONS ''getpgrp'',
      desc EC_PROCESS EF_NONE ''setsid'',
      desc EC_SYSTEM EF_NONE ''sethostname'',
      desc EC_PROCESS EF_DROP_SIMPLE_CONS ''setrlimit'',
      desc EC_PROCESS EF_DROP_SIMPLE_CONS ''getrusage'',
      desc EC_TIME EF_DROP_SIMPLE_CONS ''gettimeofday'',
      desc EC_TIME EF_DROP_SIMPLE_CONS ''settimeofday'',
      desc EC_FILE EF_NONE ''symlink'',
      desc EC_FILE EF_DROP_SIMPLE_CONS ''lstat'',
      desc EC_FILE EF_NONE ''readlink'',
      desc EC_PROCESS EF_NONE ''uselib'',
      desc EC_PROCESS EF_NONE ''swapon'',
      desc EC_SYSTEM EF_NONE ''reboot'',
      desc EC_FILE EF_DROP_SIMPLE_CONS ''mmap'',
      desc EC_FILE EF_DROP_SIMPLE_CONS ''munmap'',
      desc EC_FILE EF_NONE ''truncate'',
      desc EC_FILE EF_NONE ''ftruncate'',
      desc EC_FILE EF_NONE ''fchmod'',
      desc EC_PROCESS EF_DROP_SIMPLE_CONS ''getpriority'',
      desc EC_PROCESS EF_NONE ''setpriority'',
      desc EC_FILE EF_DROP_SIMPLE_CONS ''statfs'',
      desc EC_FILE EF_DROP_SIMPLE_CONS ''fstatfs'',
      desc EC_SYSTEM EF_NONE ''syslog'',
      desc EC_TIME EF_DROP_SIMPLE_CONS ''setitimer'',
      desc EC_TIME EF_DROP_SIMPLE_CONS ''getitimer'',
      desc EC_SYSTEM EF_DROP_SIMPLE_CONS ''uname'',
      desc EC_OTHER EF_NONE ''vhangup'',
      desc EC_WAIT EF_DROP_SIMPLE_CONS ''wait4'',
      desc EC_SYSTEM EF_NONE ''swapoff'',
      desc EC_SYSTEM EF_NONE ''sysinfo'',
      desc EC_IO_OTHER EF_DROP_SIMPLE_CONS ''fsync'',
      desc EC_SYSTEM EF_NONE ''setdomainname'',
      desc EC_SYSTEM EF_NONE ''adjtimex'',
      desc EC_MEMORY EF_DROP_SIMPLE_CONS ''mprotect'',
      desc EC_SYSTEM EF_NONE ''init_module'',
      desc EC_SYSTEM EF_NONE ''delete_module'',
      desc EC_SYSTEM EF_NONE ''quotactl'',
      desc EC_PROCESS EF_DROP_SIMPLE_CONS ''getpgid'',
      desc EC_FILE EF_NONE ''fchdir'',
      desc EC_SYSTEM EF_NONE ''sysfs'',
      desc EC_PROCESS EF_NONE ''personality'',
      desc EC_FILE EF_DROP_SIMPLE_CONS ''getdents'',
      desc EC_WAIT EF_DROP_SIMPLE_CONS ''select'',
      desc EC_FILE EF_NONE ''flock'',
      desc EC_IO_OTHER EF_NONE ''msync'',
      desc EC_IO_READ EF_DROP_SIMPLE_CONS ''readv'',
      desc EC_IO_WRITE EF_DROP_SIMPLE_CONS ''writev'',
      desc EC_PROCESS EF_DROP_SIMPLE_CONS ''getsid'',
      desc EC_IO_OTHER EF_DROP_SIMPLE_CONS ''fdatasync'',
      desc EC_MEMORY EF_DROP_SIMPLE_CONS ''mlock'',
      desc EC_MEMORY EF_DROP_SIMPLE_CONS ''munlock'',
      desc EC_MEMORY EF_DROP_SIMPLE_CONS ''mlockall'',
      desc EC_MEMORY EF_DROP_SIMPLE_CONS ''munlockall'',
      desc EC_PROCESS EF_NONE ''sched_setparam'',
      desc EC_PROCESS EF_DROP_SIMPLE_CONS ''sched_getparam'',
      desc EC_PROCESS EF_NONE ''sched_setscheduler'',
      desc EC_PROCESS EF_DROP_SIMPLE_CONS ''sched_getscheduler'',
      desc EC_SLEEP EF_DROP_SIMPLE_CONS ''sched_yield'',
      desc EC_PROCESS EF_DROP_SIMPLE_CONS ''sched_get_priority_max'',
      desc EC_PROCESS EF_DROP_SIMPLE_CONS ''sched_get_priority_min'',
      desc EC_PROCESS EF_NONE ''sched_rr_get_interval'',
      desc EC_SLEEP EF_DROP_SIMPLE_CONS ''nanosleep'',
      desc EC_FILE EF_DROP_SIMPLE_CONS ''mremap'',
      desc EC_WAIT EF_DROP_SIMPLE_CONS ''poll'',
      desc EC_PROCESS EF_NONE ''prctl'',
      desc EC_SIGNAL EF_DROP_SIMPLE_CONS ''rt_sigaction'',
      desc EC_SIGNAL EF_DROP_SIMPLE_CONS ''rt_sigprocmask'',
      desc EC_SIGNAL EF_DROP_SIMPLE_CONS ''rt_sigpending'',
      desc EC_SIGNAL EF_DROP_SIMPLE_CONS ''rt_sigtimedwait'',
      desc EC_SIGNAL EF_NONE ''rt_sigqueueinfo'',
      desc EC_SIGNAL EF_DROP_SIMPLE_CONS ''rt_sigsuspend'',
      desc EC_FILE EF_DROP_SIMPLE_CONS ''getcwd'',
      desc EC_PROCESS EF_DROP_SIMPLE_CONS ''capget'',
      desc EC_PROCESS EF_NONE ''capset'',
      desc EC_FILE EF_DROP_SIMPLE_CONS ''sendfile'',
      desc EC_PROCESS EF_DROP_SIMPLE_CONS ''getrlimit'',
      desc EC_FILE EF_NONE ''lchown'',
      desc EC_USER EF_DROP_SIMPLE_CONS ''getuid'',
      desc EC_USER EF_DROP_SIMPLE_CONS ''getgid'',
      desc EC_USER EF_DROP_SIMPLE_CONS ''geteuid'',
      desc EC_USER EF_DROP_SIMPLE_CONS ''getegid'',
      desc EC_USER EF_NONE ''setreuid'',
      desc EC_USER EF_NONE ''setregid'',
      desc EC_USER EF_DROP_SIMPLE_CONS ''getgroups'',
      desc EC_USER EF_NONE ''setgroups'',
      desc EC_FILE EF_NONE ''fchown'',
      desc EC_USER EF_NONE ''setresuid'',
      desc EC_USER EF_DROP_SIMPLE_CONS ''getresuid'',
      desc EC_USER EF_NONE ''setresgid'',
      desc EC_USER EF_DROP_SIMPLE_CONS ''getresgid'',
      desc EC_FILE EF_NONE ''chown'',
      desc EC_USER EF_NONE ''setuid'',
      desc EC_USER EF_NONE ''setgid'',
      desc EC_USER EF_NONE ''setfsuid'',
      desc EC_USER EF_NONE ''setfsgid'',
      desc EC_PROCESS EF_NONE ''pivot_root'',
      desc EC_MEMORY EF_DROP_SIMPLE_CONS ''mincore'',
      desc EC_MEMORY EF_DROP_SIMPLE_CONS ''madvise'',
      desc EC_PROCESS EF_DROP_SIMPLE_CONS ''gettid'',
      desc EC_FILE EF_NONE ''setxattr'',
      desc EC_FILE EF_NONE ''lsetxattr'',
      desc EC_FILE EF_NONE ''fsetxattr'',
      desc EC_FILE EF_DROP_SIMPLE_CONS ''getxattr'',
      desc EC_FILE EF_DROP_SIMPLE_CONS ''lgetxattr'',
      desc EC_FILE EF_DROP_SIMPLE_CONS ''fgetxattr'']"

definition g_syscall_info_table_1 :: "ppm_syscall_desc list" where
  "g_syscall_info_table_1 =
     [desc EC_FILE EF_DROP_SIMPLE_CONS ''listxattr'',
      desc EC_FILE EF_DROP_SIMPLE_CONS ''llistxattr'',
      desc EC_FILE EF_DROP_SIMPLE_CONS ''flistxattr'',
      desc EC_FILE EF_NONE ''removexattr'',
      desc EC_FILE EF_NONE ''lremovexattr'',
      desc EC_FILE EF_NONE ''fremovexattr'',
      desc EC_SIGNAL EF_NONE ''tkill'',
      desc EC_IPC EF_DROP_SIMPLE_CONS ''futex'',
      desc EC_PROCESS EF_NONE ''sched_setaffinity'',
      desc EC_PROCESS EF_DROP_SIMPLE_CONS ''sched_getaffinity'',
      desc EC_PROCESS EF_NONE ''set_thread_area'',
      desc EC_PROCESS EF_DROP_SIMPLE_CONS ''get_thread_area'',
      desc EC_IO_OTHER EF_DROP_SIMPLE_CONS ''io_setup'',
      desc EC_IO_OTHER EF_DROP_SIMPLE_CONS ''io_destroy'',
      desc EC_IO_OTHER EF_DROP_SIMPLE_CONS ''io_getevents'',
      desc EC_IO_OTHER EF_DROP_SIMPLE_CONS ''io_submit'',
      desc EC_IO_OTHER EF_DROP_SIMPLE_CONS ''io_cancel'',
      desc EC_IO_OTHER EF_DROP_SIMPLE_CONS ''exit_group'',
      desc EC_WAIT EF_DROP_SIMPLE_CONS ''epoll_create'',
      desc EC_WAIT EF_DROP_SIMPLE_CONS ''epoll_ctl'',
      desc EC_WAIT EF_DROP_SIMPLE_CONS ''epoll_wait'',
      desc EC_FILE EF_DROP_SIMPLE_CONS ''remap_file_pages'',
      desc EC_PROCESS EF_NONE ''set_tid_address'',
      desc EC_TIME EF_DROP_SIMPLE_CONS ''timer_create'',
      desc EC_TIME EF_DROP_SIMPLE_CONS ''timer_settime'',
      desc EC_TIME EF_DROP_SIMPLE_CONS ''timer_gettime'',
      desc EC_TIME EF_DROP_SIMPLE_CONS ''timer_getoverrun'',
      desc EC_TIME EF_DROP_SIMPLE_CONS ''timer_delete'',
      desc EC_TIME EF_DROP_SIMPLE_CONS ''clock_settime'',
      desc EC_TIME EF_DROP_SIMPLE_CONS ''clock_gettime'',
      desc EC_TIME EF_DROP_SIMPLE_CONS ''clock_getres'',
      desc EC_SLEEP EF_DROP_SIMPLE_CONS ''clock_nanosleep'',
      desc EC_SIGNAL EF_NONE ''tgkill'',
      desc EC_FILE EF_NONE ''utimes'',
      desc EC_IPC EF_NONE ''mq_open'',
      desc EC_IPC EF_NONE ''mq_unlink'',
      desc EC_IPC EF_DROP_SIMPLE_CONS ''mq_timedsend'',
      desc EC_IPC EF_DROP_SIMPLE_CONS ''mq_timedreceive'',
      desc EC_IPC EF_DROP_SIMPLE_CONS ''mq_notify'',
      desc EC_IPC EF_DROP_SIMPLE_CONS ''mq_getsetattr'',
      desc EC_SYSTEM EF_NONE ''kexec_load'',
      desc EC_WAIT EF_DROP_SIMPLE_CONS ''waitid'',
      desc EC_SYSTEM EF_NONE ''add_key'',
      desc EC_SYSTEM EF_NONE ''request_key'',
      desc EC_SYSTEM EF_NONE ''keyctl'',
      desc EC_PROCESS EF_DROP_SIMPLE_CONS ''ioprio_set'',
      desc EC_PROCESS EF_DROP_SIMPLE_CONS ''ioprio_get'',
      desc EC_IPC EF_NONE ''inotify_init'',
      desc EC_IPC EF_NONE ''inotify_add_watch'',
      desc EC_IPC EF_NONE ''inotify_rm_watch'',
      desc EC_FILE EF_NONE ''openat'',
      desc EC_FILE EF_NONE ''mkdirat'',
      desc EC_FILE EF_NONE ''mknodat'',
      desc EC_FILE EF_NONE ''fchownat'',
      desc EC_FILE EF_NONE ''futimesat'',
      desc EC_FILE EF_NONE ''unlinkat'',
      desc EC_FILE EF_NONE ''renameat'',
      desc EC_FILE EF_NONE ''linkat'',
      desc EC_FILE EF_NONE ''symlinkat'',
      desc EC_FILE EF_NONE ''readlinkat'',
      desc EC_FILE EF_NONE ''fchmodat'',
      desc EC_FILE EF_NONE ''faccessat'',
      desc EC_WAIT EF_DROP_SIMPLE_CONS ''pselect6'',
      desc EC_WAIT EF_DROP_SIMPLE_CONS ''ppoll'',
      desc EC_PROCESS EF_NONE ''unshare'',
      desc EC_PROCESS EF_NONE ''set_robust_list'',
      desc EC_PROCESS EF_DROP_SIMPLE_CONS ''get_robust_list'',
      desc EC_IPC EF_DROP_SIMPLE_CONS ''splice'',
      desc EC_IPC EF_DROP_SIMPLE_CONS ''tee'',
      desc EC_IPC EF_DROP_SIMPLE_CONS ''vmsplice'',
      desc EC_PROCESS EF_DROP_SIMPLE_CONS ''getcpu'',
      desc EC_WAIT EF_DROP_SIMPLE_CONS ''epoll_pwait'',
      desc EC_FILE EF_NONE ''utimensat'',
      desc EC_SIGNAL EF_DROP_SIMPLE_CONS ''signalfd'',
      desc EC_TIME EF_DROP_SIMPLE_CONS ''timerfd_create'',
      desc EC_IPC EF_DROP_SIMPLE_CONS ''eventfd'',
      desc EC_TIME EF_DROP_SIMPLE_CONS ''timerfd_settime'',
      desc EC_TIME EF_DROP_SIMPLE_CONS ''timerfd_gettime'',
      desc EC_SIGNAL EF_DROP_SIMPLE_CONS ''signalfd4'',
      desc EC_IPC EF_DROP_SIMPLE_CONS ''eventfd2'',
      desc EC_WAIT EF_DROP_SIMPLE_CONS ''epoll_create1'',
      desc EC_IO_OTHER EF_NONE ''dup3'',
      desc EC_IPC EF_NONE ''pipe2'',
      desc EC_IPC EF_NONE ''inotify_init1'',
      desc EC_IO_READ EF_DROP_SIMPLE_CONS ''preadv'',
      desc EC_IO_WRITE EF_DROP_SIMPLE_CONS ''pwritev'',
      desc EC_OTHER EF_NONE ''rt_tgsigqueueinfo'',
      desc EC_OTHER EF_NONE ''perf_event_open'',
      desc EC_IPC EF_NONE ''fanotify_init'',
      desc EC_PROCESS EF_NONE ''prlimit64'',
      desc EC_OTHER EF_NONE ''clock_adjtime'',
      desc EC_FILE EF_NONE ''syncfs'',
      desc EC_PROCESS EF_NONE ''setns'',
      desc EC_IPC EF_DROP_SIMPLE_CONS ''getdents64'',
      desc EC_NET EF_NONE ''socket'',
      desc EC_NET EF_NONE ''bind'',
      desc EC_NET EF_NONE ''connect'',
      desc EC_NET EF_NONE ''listen'',
      desc EC_NET EF_NONE ''accept'',
      desc EC_NET EF_DROP_SIMPLE_CONS ''getsockname'',
      desc EC_NET EF_DROP_SIMPLE_CONS ''getpeername'',
      desc EC_NET EF_NONE ''socketpair'',
      desc EC_NET EF_NONE ''sendto'',
      desc EC_NET EF_NONE ''recvfrom'',
      desc EC_NET EF_DROP_SIMPLE_CONS ''shutdown'',
      desc EC_NET EF_NONE ''setsockopt'',
      desc EC_NET EF_DROP_SIMPLE_CONS ''getsockopt'',
      desc EC_NET EF_NONE ''sendmsg'',
      desc EC_NET EF_DROP_SIMPLE_CONS ''sendmmsg'',
      desc EC_NET EF_NONE ''recvmsg'',
      desc EC_NET EF_DROP_SIMPLE_CONS ''recvmmsg'',
      desc EC_NET EF_NONE ''accept4'',
      desc EC_IPC EF_DROP_SIMPLE_CONS ''semop'',
      desc EC_IPC EF_DROP_SIMPLE_CONS ''semget'',
      desc EC_IPC EF_DROP_SIMPLE_CONS ''semctl'',
      desc EC_IPC EF_DROP_SIMPLE_CONS ''msgsnd'',
      desc EC_IPC EF_DROP_SIMPLE_CONS ''msgrcv'',
      desc EC_IPC EF_DROP_SIMPLE_CONS ''msgget'',
      desc EC_IPC EF_NONE ''msgctl'',
      desc EC_IPC EF_NONE ''shmdt'',
      desc EC_IPC EF_NONE ''shmget'',
      desc EC_IPC EF_NONE ''shmctl'',
      desc EC_FILE EF_DROP_SIMPLE_CONS ''statfs64'',
      desc EC_FILE EF_DROP_SIMPLE_CONS ''fstatfs64'',
      desc EC_FILE EF_DROP_SIMPLE_CONS ''fstatat64'',
      desc EC_FILE EF_DROP_SIMPLE_CONS ''sendfile64'',
      desc EC_PROCESS EF_DROP_SIMPLE_CONS ''ugetrlimit'',
      desc EC_OTHER EF_NONE ''bdflush'',
      desc EC_SIGNAL EF_DROP_SIMPLE_CONS ''sigprocmask'',
      desc EC_IPC EF_NONE ''ipc'',
      desc EC_NET EF_NONE ''socketcall'',
      desc EC_FILE EF_DROP_SIMPLE_CONS ''stat64'',
      desc EC_FILE EF_DROP_SIMPLE_CONS ''lstat64'',
      desc EC_FILE EF_DROP_SIMPLE_CONS ''fstat64'',
      desc EC_FILE EF_DROP_SIMPLE_CONS ''fcntl64'',
      desc EC_FILE EF_DROP_SIMPLE_CONS ''mmap2'',
      desc EC_WAIT EF_DROP_SIMPLE_CONS ''newselect'',
      desc EC_SIGNAL EF_DROP_SIMPLE_CONS ''sgetmask'',
      desc EC_SIGNAL EF_NONE ''ssetmask'',
      desc EC_SIGNAL EF_DROP_SIMPLE_CONS ''sigpending'',
      desc EC_SYSTEM EF_DROP_SIMPLE_CONS ''olduname'',
      desc EC_FILE EF_NONE ''umount'']"

definition g_syscall_info_table_2 :: "ppm_syscall_desc list" where
  "g_syscall_info_table_2 =
     [desc EC_SIGNAL EF_NONE ''signal'',
      desc EC_PROCESS EF_NONE ''nice'',
      desc EC_TIME EF_NONE ''stime'',
      desc EC_FILE EF_DROP_SIMPLE_CONS ''llseek'',
      desc EC_WAIT EF_DROP_SIMPLE_CONS ''waitpid'',
      desc EC_FILE EF_DROP_SIMPLE_CONS ''pread64'',
      desc EC_FILE EF_DROP_SIMPLE_CONS ''pwrite64'',
      desc EC_PROCESS EF_NONE ''arch_prctl'',
      desc EC_IPC EF_NONE ''shmat'',
      desc EC_SIGNAL EF_DROP_SIMPLE_CONS ''sigreturn'',
      desc EC_IO_OTHER EF_NONE ''fallocate'',
      desc EC_IO_OTHER EF_DROP_SIMPLE_CONS ''newfstatat'',
      desc EC_IO_OTHER EF_NONE ''process_vm_readv'',
      desc EC_IO_OTHER EF_NONE ''process_vm_writev'',
      desc EC_IO_OTHER EF_NONE ''fork'',
      desc EC_IO_OTHER EF_NONE ''vfork'',
      desc EC_IO_OTHER EF_NONE ''setuid'',
      desc EC_IO_OTHER EF_DROP_SIMPLE_CONS ''getuid'',
      desc EC_IO_OTHER EF_NONE ''setgid'',
      desc EC_IO_OTHER EF_DROP_SIMPLE_CONS ''geteuid'',
      desc EC_IO_OTHER EF_DROP_SIMPLE_CONS ''getgid'',
      desc EC_IO_OTHER EF_NONE ''setresuid'',
      desc EC_IO_OTHER EF_DROP_SIMPLE_CONS ''setresgid'',
      desc EC_IO_OTHER EF_DROP_SIMPLE_CONS ''getresuid'',
      desc EC_IO_OTHER EF_DROP_SIMPLE_CONS ''getresgid'',
      desc EC_SYSTEM EF_NONE ''finit_module'',
      desc EC_OTHER EF_NONE ''bpf'',
      desc EC_OTHER EF_NONE ''seccomp'',
      desc EC_IO_OTHER EF_NONE ''sigaltstack'',
      desc EC_IO_OTHER EF_NONE ''getrandom'',
      desc EC_IO_OTHER EF_NONE ''fadvise64'',
      desc EC_FILE EF_NONE ''renameat2'',
      desc EC_FILE EF_NONE ''userfaultfd'']"

definition g_syscall_info_table_rows :: "ppm_syscall_desc list" where
  "g_syscall_info_table_rows = g_syscall_info_table_0 @ g_syscall_info_table_1 @ g_syscall_info_table_2"

section \<open>Names of the numbers\<close>

text \<open>The members of \<open>enum ppm_syscall_code\<close> in order, without the prefix \<open>PPM_SC_\<close>; the value of a member is its position.\<close>

definition ppm_syscall_code_0 :: "string list" where
  "ppm_syscall_code_0 =
     [''UNKNOWN'',
      ''RESTART_SYSCALL'',
      ''EXIT'',
      ''READ'',
      ''WRITE'',
      ''OPEN'',
      ''CLOSE'',
      ''CREAT'',
      ''LINK'',
      ''UNLINK'',
      ''CHDIR'',
      ''TIME'',
      ''MKNOD'',
      ''CHMOD'',
      ''STAT'',
      ''LSEEK'',
      ''GETPID'',
      ''MOUNT'',
      ''PTRACE'',
      ''ALARM'',
      ''FSTAT'',
      ''PAUSE'',
      ''UTIME'',
      ''ACCESS'',
      ''SYNC'',
      ''KILL'',
      ''RENAME'',
      ''MKDIR'',
      ''RMDIR'',
      ''DUP'',
      ''PIPE'',
      ''TIMES'',
      ''BRK'',
      ''ACCT'',
      ''IOCTL'',
      ''FCNTL'',
      ''SETPGID'',
      ''UMASK'',
      ''CHROOT'',
      ''USTAT'',
      ''DUP2'',
      ''GETPPID'',
      ''GETPGRP'',
      ''SETSID'',
      ''SETHOSTNAME'',
      ''SETRLIMIT'',
      ''GETRUSAGE'',
      ''GETTIMEOFDAY'',
      ''SETTIMEOFDAY'',
      ''SYMLINK'',
      ''LSTAT'',
      ''READLINK'',
      ''USELIB'',
      ''SWAPON'',
      ''REBOOT'',
      ''MMAP'',
      ''MUNMAP'',
      ''TRUNCATE'',
      ''FTRUNCATE'',
      ''FCHMOD'',
      ''GETPRIORITY'',
      ''SETPRIORITY'',
      ''STATFS'',
      ''FSTATFS'',
      ''SYSLOG'',
      ''SETITIMER'',
      ''GETITIMER'',
      ''UNAME'',
      ''VHANGUP'',
      ''WAIT4'',
      ''SWAPOFF'',
      ''SYSINFO'',
      ''FSYNC'',
      ''SETDOMAINNAME'',
      ''ADJTIMEX'',
      ''MPROTECT'',
      ''INIT_MODULE'',
      ''DELETE_MODULE'',
      ''QUOTACTL'',
      ''GETPGID'',
      ''FCHDIR'',
      ''SYSFS'',
      ''PERSONALITY'',
      ''GETDENTS'',
      ''SELECT'',
      ''FLOCK'',
      ''MSYNC'',
      ''READV'',
      ''WRITEV'',
      ''GETSID'',
      ''FDATASYNC'',
      ''MLOCK'',
      ''MUNLOCK'',
      ''MLOCKALL'',
      ''MUNLOCKALL'',
      ''SCHED_SETPARAM'',
      ''SCHED_GETPARAM'',
      ''SCHED_SETSCHEDULER'',
      ''SCHED_GETSCHEDULER'',
      ''SCHED_YIELD'',
      ''SCHED_GET_PRIORITY_MAX'',
      ''SCHED_GET_PRIORITY_MIN'',
      ''SCHED_RR_GET_INTERVAL'',
      ''NANOSLEEP'',
      ''MREMAP'',
      ''POLL'',
      ''PRCTL'',
      ''RT_SIGACTION'',
      ''RT_SIGPROCMASK'',
      ''RT_SIGPENDING'',
      ''RT_SIGTIMEDWAIT'',
      ''RT_SIGQUEUEINFO'',
      ''RT_SIGSUSPEND'',
      ''GETCWD'',
      ''CAPGET'',
      ''CAPSET'',
      ''SENDFILE'',
      ''GETRLIMIT'',
      ''LCHOWN'',
      ''GETUID'',
      ''GETGID'',
      ''GETEUID'',
      ''GETEGID'',
      ''SETREUID'',
      ''SETREGID'',
      ''GETGROUPS'',
      ''SETGROUPS'',
      ''FCHOWN'',
      ''SETRESUID'',
      ''GETRESUID'',
      ''SETRESGID'',
      ''GETRESGID'',
      ''CHOWN'',
      ''SETUID'',
      ''SETGID'',
      ''SETFSUID'',
      ''SETFSGID'',
      ''PIVOT_ROOT'',
      ''MINCORE'',
      ''MADVISE'',
      ''GETTID'',
      ''SETXATTR'',
      ''LSETXATTR'',
      ''FSETXATTR'',
      ''GETXATTR'',
      ''LGETXATTR'',
      ''FGETXATTR'']"

definition ppm_syscall_code_1 :: "string list" where
  "ppm_syscall_code_1 =
     [''LISTXATTR'',
      ''LLISTXATTR'',
      ''FLISTXATTR'',
      ''REMOVEXATTR'',
      ''LREMOVEXATTR'',
      ''FREMOVEXATTR'',
      ''TKILL'',
      ''FUTEX'',
      ''SCHED_SETAFFINITY'',
      ''SCHED_GETAFFINITY'',
      ''SET_THREAD_AREA'',
      ''GET_THREAD_AREA'',
      ''IO_SETUP'',
      ''IO_DESTROY'',
      ''IO_GETEVENTS'',
      ''IO_SUBMIT'',
      ''IO_CANCEL'',
      ''EXIT_GROUP'',
      ''EPOLL_CREATE'',
      ''EPOLL_CTL'',
      ''EPOLL_WAIT'',
      ''REMAP_FILE_PAGES'',
      ''SET_TID_ADDRESS'',
      ''TIMER_CREATE'',
      ''TIMER_SETTIME'',
      ''TIMER_GETTIME'',
      ''TIMER_GETOVERRUN'',
      ''TIMER_DELETE'',
      ''CLOCK_SETTIME'',
      ''CLOCK_GETTIME'',
      ''CLOCK_GETRES'',
      ''CLOCK_NANOSLEEP'',
      ''TGKILL'',
      ''UTIMES'',
      ''MQ_OPEN'',
      ''MQ_UNLINK'',
      ''MQ_TIMEDSEND'',
      ''MQ_TIMEDRECEIVE'',
      ''MQ_NOTIFY'',
      ''MQ_GETSETATTR'',
      ''KEXEC_LOAD'',
      ''WAITID'',
      ''ADD_KEY'',
      ''REQUEST_KEY'',
      ''KEYCTL'',
      ''IOPRIO_SET'',
      ''IOPRIO_GET'',
      ''INOTIFY_INIT'',
      ''INOTIFY_ADD_WATCH'',
      ''INOTIFY_RM_WATCH'',
      ''OPENAT'',
      ''MKDIRAT'',
      ''MKNODAT'',
      ''FCHOWNAT'',
      ''FUTIMESAT'',
      ''UNLINKAT'',
      ''RENAMEAT'',
      ''LINKAT'',
      ''SYMLINKAT'',
      ''READLINKAT'',
      ''FCHMODAT'',
      ''FACCESSAT'',
      ''PSELECT6'',
      ''PPOLL'',
      ''UNSHARE'',
      ''SET_ROBUST_LIST'',
      ''GET_ROBUST_LIST'',
      ''SPLICE'',
      ''TEE'',
      ''VMSPLICE'',
      ''GETCPU'',
      ''EPOLL_PWAIT'',
      ''UTIMENSAT'',
      ''SIGNALFD'',
      ''TIMERFD_CREATE'',
      ''EVENTFD'',
      ''TIMERFD_SETTIME'',
      ''TIMERFD_GETTIME'',
      ''SIGNALFD4'',
      ''EVENTFD2'',
      ''EPOLL_CREATE1'',
      ''DUP3'',
      ''PIPE2'',
      ''INOTIFY_INIT1'',
      ''PREADV'',
      ''PWRITEV'',
      ''RT_TGSIGQUEUEINFO'',
      ''PERF_EVENT_OPEN'',
      ''FANOTIFY_INIT'',
      ''PRLIMIT64'',
      ''CLOCK_ADJTIME'',
      ''SYNCFS'',
      ''SETNS'',
      ''GETDENTS64'',
      ''SOCKET'',
      ''BIND'',
      ''CONNECT'',
      ''LISTEN'',
      ''ACCEPT'',
      ''GETSOCKNAME'',
      ''GETPEERNAME'',
      ''SOCKETPAIR'',
      ''SENDTO'',
      ''RECVFROM'',
      ''SHUTDOWN'',
      ''SETSOCKOPT'',
      ''GETSOCKOPT'',
      ''SENDMSG'',
      ''SENDMMSG'',
      ''RECVMSG'',
      ''RECVMMSG'',
      ''ACCEPT4'',
      ''SEMOP'',
      ''SEMGET'',
      ''SEMCTL'',
      ''MSGSND'',
      ''MSGRCV'',
      ''MSGGET'',
      ''MSGCTL'',
      ''SHMDT'',
      ''SHMGET'',
      ''SHMCTL'',
      ''STATFS64'',
      ''FSTATFS64'',
      ''FSTATAT64'',
      ''SENDFILE64'',
      ''UGETRLIMIT'',
      ''BDFLUSH'',
      ''SIGPROCMASK'',
      ''IPC'',
      ''SOCKETCALL'',
      ''STAT64'',
      ''LSTAT64'',
      ''FSTAT64'',
      ''FCNTL64'',
      ''MMAP2'',
      ''_NEWSELECT'',
      ''SGETMASK'',
      ''SSETMASK'',
      ''SIGPENDING'',
      ''OLDUNAME'',
      ''UMOUNT'']"

definition ppm_syscall_code_2 :: "string list" where
  "ppm_syscall_code_2 =
     [''SIGNAL'',
      ''NICE'',
      ''STIME'',
      ''_LLSEEK'',
      ''WAITPID'',
      ''PREAD64'',
      ''PWRITE64'',
      ''ARCH_PRCTL'',
      ''SHMAT'',
      ''SIGRETURN'',
      ''FALLOCATE'',
      ''NEWFSSTAT'',
      ''PROCESS_VM_READV'',
      ''PROCESS_VM_WRITEV'',
      ''FORK'',
      ''VFORK'',
      ''SETUID32'',
      ''GETUID32'',
      ''SETGID32'',
      ''GETEUID32'',
      ''GETGID32'',
      ''SETRESUID32'',
      ''SETRESGID32'',
      ''GETRESUID32'',
      ''GETRESGID32'',
      ''FINIT_MODULE'',
      ''BPF'',
      ''SECCOMP'',
      ''SIGALTSTACK'',
      ''GETRANDOM'',
      ''FADVISE64'',
      ''RENAMEAT2'',
      ''USERFAULTFD'']"

definition ppm_syscall_code_rows :: "string list" where
  "ppm_syscall_code_rows = ppm_syscall_code_0 @ ppm_syscall_code_1 @ ppm_syscall_code_2"

definition ppm_compat_unistd_32_0 :: "(string \<times> int) list" where
  "ppm_compat_unistd_32_0 =
     [(''restart_syscall'', NR_ia32_restart_syscall),
      (''exit'', NR_ia32_exit),
      (''fork'', NR_ia32_fork),
      (''read'', NR_ia32_read),
      (''write'', NR_ia32_write),
      (''open'', NR_ia32_open),
      (''close'', NR_ia32_close),
      (''waitpid'', NR_ia32_waitpid),
      (''creat'', NR_ia32_creat),
      (''link'', NR_ia32_link),
      (''unlink'', NR_ia32_unlink),
      (''execve'', NR_ia32_execve),
      (''chdir'', NR_ia32_chdir),
      (''time'', NR_ia32_time),
      (''mknod'', NR_ia32_mknod),
      (''chmod'', NR_ia32_chmod),
      (''lchown'', NR_ia32_lchown),
      (''break'', NR_ia32_break),
      (''oldstat'', NR_ia32_oldstat),
      (''lseek'', NR_ia32_lseek),
      (''getpid'', NR_ia32_getpid),
      (''mount'', NR_ia32_mount),
      (''umount'', NR_ia32_umount),
      (''setuid'', NR_ia32_setuid),
      (''getuid'', NR_ia32_getuid),
      (''stime'', NR_ia32_stime),
      (''ptrace'', NR_ia32_ptrace),
      (''alarm'', NR_ia32_alarm),
      (''oldfstat'', NR_ia32_oldfstat),
      (''pause'', NR_ia32_pause),
      (''utime'', NR_ia32_utime),
      (''stty'', NR_ia32_stty),
      (''gtty'', NR_ia32_gtty),
      (''access'', NR_ia32_access),
      (''nice'', NR_ia32_nice),
      (''ftime'', NR_ia32_ftime),
      (''sync'', NR_ia32_sync),
      (''kill'', NR_ia32_kill),
      (''rename'', NR_ia32_rename),
      (''mkdir'', NR_ia32_mkdir),
      (''rmdir'', NR_ia32_rmdir),
      (''dup'', NR_ia32_dup),
      (''pipe'', NR_ia32_pipe),
      (''times'', NR_ia32_times),
      (''prof'', NR_ia32_prof),
      (''brk'', NR_ia32_brk),
      (''setgid'', NR_ia32_setgid),
      (''getgid'', NR_ia32_getgid),
      (''signal'', NR_ia32_signal),
      (''geteuid'', NR_ia32_geteuid),
      (''getegid'', NR_ia32_getegid),
      (''acct'', NR_ia32_acct),
      (''umount2'', NR_ia32_umount2),
      (''lock'', NR_ia32_lock),
      (''ioctl'', NR_ia32_ioctl),
      (''fcntl'', NR_ia32_fcntl),
      (''mpx'', NR_ia32_mpx),
      (''setpgid'', NR_ia32_setpgid),
      (''ulimit'', NR_ia32_ulimit),
      (''oldolduname'', NR_ia32_oldolduname),
      (''umask'', NR_ia32_umask),
      (''chroot'', NR_ia32_chroot),
      (''ustat'', NR_ia32_ustat),
      (''dup2'', NR_ia32_dup2),
      (''getppid'', NR_ia32_getppid),
      (''getpgrp'', NR_ia32_getpgrp),
      (''setsid'', NR_ia32_setsid),
      (''sigaction'', NR_ia32_sigaction),
      (''sgetmask'', NR_ia32_sgetmask),
      (''ssetmask'', NR_ia32_ssetmask),
      (''setreuid'', NR_ia32_setreuid),
      (''setregid'', NR_ia32_setregid),
      (''sigsuspend'', NR_ia32_sigsuspend),
      (''sigpending'', NR_ia32_sigpending),
      (''sethostname'', NR_ia32_sethostname),
      (''setrlimit'', NR_ia32_setrlimit),
      (''getrlimit'', NR_ia32_getrlimit),
      (''getrusage'', NR_ia32_getrusage),
      (''gettimeofday'', NR_ia32_gettimeofday),
      (''settimeofday'', NR_ia32_settimeofday),
      (''getgroups'', NR_ia32_getgroups),
      (''setgroups'', NR_ia32_setgroups),
      (''select'', NR_ia32_select),
      (''symlink'', NR_ia32_symlink),
      (''oldlstat'', NR_ia32_oldlstat),
      (''readlink'', NR_ia32_readlink),
      (''uselib'', NR_ia32_uselib),
      (''swapon'', NR_ia32_swapon),
      (''reboot'', NR_ia32_reboot),
      (''readdir'', NR_ia32_readdir),
      (''mmap'', NR_ia32_mmap),
      (''munmap'', NR_ia32_munmap),
      (''truncate'', NR_ia32_truncate),
      (''ftruncate'', NR_ia32_ftruncate),
      (''fchmod'', NR_ia32_fchmod),
      (''fchown'', NR_ia32_fchown),
      (''getpriority'', NR_ia32_getpriority),
      (''setpriority'', NR_ia32_setpriority),
      (''profil'', NR_ia32_profil),
      (''statfs'', NR_ia32_statfs),
      (''fstatfs'', NR_ia32_fstatfs),
      (''ioperm'', NR_ia32_ioperm),
      (''socketcall'', NR_ia32_socketcall),
      (''syslog'', NR_ia32_syslog),
      (''setitimer'', NR_ia32_setitimer),
      (''getitimer'', NR_ia32_getitimer),
      (''stat'', NR_ia32_stat),
      (''lstat'', NR_ia32_lstat),
      (''fstat'', NR_ia32_fstat),
      (''olduname'', NR_ia32_olduname),
      (''iopl'', NR_ia32_iopl),
      (''vhangup'', NR_ia32_vhangup),
      (''idle'', NR_ia32_idle),
      (''vm86old'', NR_ia32_vm86old),
      (''wait4'', NR_ia32_wait4),
      (''swapoff'', NR_ia32_swapoff),
      (''sysinfo'', NR_ia32_sysinfo),
      (''ipc'', NR_ia32_ipc),
      (''fsync'', NR_ia32_fsync),
      (''sigreturn'', NR_ia32_sigreturn),
      (''clone'', NR_ia32_clone),
      (''setdomainname'', NR_ia32_setdomainname),
      (''uname'', NR_ia32_uname),
      (''modify_ldt'', NR_ia32_modify_ldt),
      (''adjtimex'', NR_ia32_adjtimex),
      (''mprotect'', NR_ia32_mprotect),
      (''sigprocmask'', NR_ia32_sigprocmask),
      (''create_module'', NR_ia32_create_module),
      (''init_module'', NR_ia32_init_module),
      (''delete_module'', NR_ia32_delete_module),
      (''get_kernel_syms'', NR_ia32_get_kernel_syms),
      (''quotactl'', NR_ia32_quotactl),
      (''getpgid'', NR_ia32_getpgid),
      (''fchdir'', NR_ia32_fchdir),
      (''bdflush'', NR_ia32_bdflush),
      (''sysfs'', NR_ia32_sysfs),
      (''personality'', NR_ia32_personality),
      (''afs_syscall'', NR_ia32_afs_syscall),
      (''setfsuid'', NR_ia32_setfsuid),
      (''setfsgid'', NR_ia32_setfsgid),
      (''_llseek'', NR_ia32__llseek),
      (''getdents'', NR_ia32_getdents),
      (''_newselect'', NR_ia32__newselect),
      (''flock'', NR_ia32_flock),
      (''msync'', NR_ia32_msync),
      (''readv'', NR_ia32_readv),
      (''writev'', NR_ia32_writev),
      (''getsid'', NR_ia32_getsid)]"

definition ppm_compat_unistd_32_1 :: "(string \<times> int) list" where
  "ppm_compat_unistd_32_1 =
     [(''fdatasync'', NR_ia32_fdatasync),
      (''_sysctl'', NR_ia32__sysctl),
      (''mlock'', NR_ia32_mlock),
      (''munlock'', NR_ia32_munlock),
      (''mlockall'', NR_ia32_mlockall),
      (''munlockall'', NR_ia32_munlockall),
      (''sched_setparam'', NR_ia32_sched_setparam),
      (''sched_getparam'', NR_ia32_sched_getparam),
      (''sched_setscheduler'', NR_ia32_sched_setscheduler),
      (''sched_getscheduler'', NR_ia32_sched_getscheduler),
      (''sched_yield'', NR_ia32_sched_yield),
      (''sched_get_priority_max'', NR_ia32_sched_get_priority_max),
      (''sched_get_priority_min'', NR_ia32_sched_get_priority_min),
      (''sched_rr_get_interval'', NR_ia32_sched_rr_get_interval),
      (''nanosleep'', NR_ia32_nanosleep),
      (''mremap'', NR_ia32_mremap),
      (''setresuid'', NR_ia32_setresuid),
      (''getresuid'', NR_ia32_getresuid),
      (''vm86'', NR_ia32_vm86),
      (''query_module'', NR_ia32_query_module),
      (''poll'', NR_ia32_poll),
      (''nfsservctl'', NR_ia32_nfsservctl),
      (''setresgid'', NR_ia32_setresgid),
      (''getresgid'', NR_ia32_getresgid),
      (''prctl'', NR_ia32_prctl),
      (''rt_sigreturn'', NR_ia32_rt_sigreturn),
      (''rt_sigaction'', NR_ia32_rt_sigaction),
      (''rt_sigprocmask'', NR_ia32_rt_sigprocmask),
      (''rt_sigpending'', NR_ia32_rt_sigpending),
      (''rt_sigtimedwait'', NR_ia32_rt_sigtimedwait),
      (''rt_sigqueueinfo'', NR_ia32_rt_sigqueueinfo),
      (''rt_sigsuspend'', NR_ia32_rt_sigsuspend),
      (''pread64'', NR_ia32_pread64),
      (''pwrite64'', NR_ia32_pwrite64),
      (''chown'', NR_ia32_chown),
      (''getcwd'', NR_ia32_getcwd),
      (''capget'', NR_ia32_capget),
      (''capset'', NR_ia32_capset),
      (''sigaltstack'', NR_ia32_sigaltstack),
      (''sendfile'', NR_ia32_sendfile),
      (''getpmsg'', NR_ia32_getpmsg),
      (''putpmsg'', NR_ia32_putpmsg),
      (''vfork'', NR_ia32_vfork),
      (''ugetrlimit'', NR_ia32_ugetrlimit),
      (''mmap2'', NR_ia32_mmap2),
      (''truncate64'', NR_ia32_truncate64),
      (''ftruncate64'', NR_ia32_ftruncate64),
      (''stat64'', NR_ia32_stat64),
      (''lstat64'', NR_ia32_lstat64),
      (''fstat64'', NR_ia32_fstat64),
      (''lchown32'', NR_ia32_lchown32),
      (''getuid32'', NR_ia32_getuid32),
      (''getgid32'', NR_ia32_getgid32),
      (''geteuid32'', NR_ia32_geteuid32),
      (''getegid32'', NR_ia32_getegid32),
      (''setreuid32'', NR_ia32_setreuid32),
      (''setregid32'', NR_ia32_setregid32),
      (''getgroups32'', NR_ia32_getgroups32),
      (''setgroups32'', NR_ia32_setgroups32),
      (''fchown32'', NR_ia32_fchown32),
      (''setresuid32'', NR_ia32_setresuid32),
      (''getresuid32'', NR_ia32_getresuid32),
      (''setresgid32'', NR_ia32_setresgid32),
      (''getresgid32'', NR_ia32_getresgid32),
      (''chown32'', NR_ia32_chown32),
      (''setuid32'', NR_ia32_setuid32),
      (''setgid32'', NR_ia32_setgid32),
      (''setfsuid32'', NR_ia32_setfsuid32),
      (''setfsgid32'', NR_ia32_setfsgid32),
      (''pivot_root'', NR_ia32_pivot_root),
      (''mincore'', NR_ia32_mincore),
      (''madvise'', NR_ia32_madvise),
      (''madvise1'', NR_ia32_madvise1),
      (''getdents64'', NR_ia32_getdents64),
      (''fcntl64'', NR_ia32_fcntl64),
      (''gettid'', NR_ia32_gettid),
      (''readahead'', NR_ia32_readahead),
      (''setxattr'', NR_ia32_setxattr),
      (''lsetxattr'', NR_ia32_lsetxattr),
      (''fsetxattr'', NR_ia32_fsetxattr),
      (''getxattr'', NR_ia32_getxattr),
      (''lgetxattr'', NR_ia32_lgetxattr),
      (''fgetxattr'', NR_ia32_fgetxattr),
      (''listxattr'', NR_ia32_listxattr),
      (''llistxattr'', NR_ia32_llistxattr),
      (''flistxattr'', NR_ia32_flistxattr),
      (''removexattr'', NR_ia32_removexattr),
      (''lremovexattr'', NR_ia32_lremovexattr),
      (''fremovexattr'', NR_ia32_fremovexattr),
      (''tkill'', NR_ia32_tkill),
      (''sendfile64'', NR_ia32_sendfile64),
      (''futex'', NR_ia32_futex),
      (''sched_setaffinity'', NR_ia32_sched_setaffinity),
      (''sched_getaffinity'', NR_ia32_sched_getaffinity),
      (''set_thread_area'', NR_ia32_set_thread_area),
      (''get_thread_area'', NR_ia32_get_thread_area),
      (''io_setup'', NR_ia32_io_setup),
      (''io_destroy'', NR_ia32_io_destroy),
      (''io_getevents'', NR_ia32_io_getevents),
      (''io_submit'', NR_ia32_io_submit),
      (''io_cancel'', NR_ia32_io_cancel),
      (''fadvise64'', NR_ia32_fadvise64),
      (''exit_group'', NR_ia32_exit_group),
      (''lookup_dcookie'', NR_ia32_lookup_dcookie),
      (''epoll_create'', NR_ia32_epoll_create),
      (''epoll_ctl'', NR_ia32_epoll_ctl),
      (''epoll_wait'', NR_ia32_epoll_wait),
      (''remap_file_pages'', NR_ia32_remap_file_pages),
      (''set_tid_address'', NR_ia32_set_tid_address),
      (''timer_create'', NR_ia32_timer_create),
      (''timer_settime'', NR_ia32_timer_settime),
      (''timer_gettime'', NR_ia32_timer_gettime),
      (''timer_getoverrun'', NR_ia32_timer_getoverrun),
      (''timer_delete'', NR_ia32_timer_delete),
      (''clock_settime'', NR_ia32_clock_settime),
      (''clock_gettime'', NR_ia32_clock_gettime),
      (''clock_getres'', NR_ia32_clock_getres),
      (''clock_nanosleep'', NR_ia32_clock_nanosleep),
      (''statfs64'', NR_ia32_statfs64),
      (''fstatfs64'', NR_ia32_fstatfs64),
      (''tgkill'', NR_ia32_tgkill),
      (''utimes'', NR_ia32_utimes),
      (''fadvise64_64'', NR_ia32_fadvise64_64),
      (''vserver'', NR_ia32_vserver),
      (''mbind'', NR_ia32_mbind),
      (''get_mempolicy'', NR_ia32_get_mempolicy),
      (''set_mempolicy'', NR_ia32_set_mempolicy),
      (''mq_open'', NR_ia32_mq_open),
      (''mq_unlink'', NR_ia32_mq_unlink),
      (''mq_timedsend'', NR_ia32_mq_timedsend),
      (''mq_timedreceive'', NR_ia32_mq_timedreceive),
      (''mq_notify'', NR_ia32_mq_notify),
      (''mq_getsetattr'', NR_ia32_mq_getsetattr),
      (''kexec_load'', NR_ia32_kexec_load),
      (''waitid'', NR_ia32_waitid),
      (''add_key'', NR_ia32_add_key),
      (''request_key'', NR_ia32_request_key),
      (''keyctl'', NR_ia32_keyctl),
      (''ioprio_set'', NR_ia32_ioprio_set),
      (''ioprio_get'', NR_ia32_ioprio_get),
      (''inotify_init'', NR_ia32_inotify_init),
      (''inotify_add_watch'', NR_ia32_inotify_add_watch),
      (''inotify_rm_watch'', NR_ia32_inotify_rm_watch),
      (''migrate_pages'', NR_ia32_migrate_pages),
      (''openat'', NR_ia32_openat)]"

definition ppm_compat_unistd_32_2 :: "(string \<times> int) list" where
  "ppm_compat_unistd_32_2 =
     [(''mkdirat'', NR_ia32_mkdirat),
      (''mknodat'', NR_ia32_mknodat),
      (''fchownat'', NR_ia32_fchownat),
      (''futimesat'', NR_ia32_futimesat),
      (''fstatat64'', NR_ia32_fstatat64),
      (''unlinkat'', NR_ia32_unlinkat),
      (''renameat'', NR_ia32_renameat),
      (''linkat'', NR_ia32_linkat),
      (''symlinkat'', NR_ia32_symlinkat),
      (''readlinkat'', NR_ia32_readlinkat),
      (''fchmodat'', NR_ia32_fchmodat),
      (''faccessat'', NR_ia32_faccessat),
      (''pselect6'', NR_ia32_pselect6),
      (''ppoll'', NR_ia32_ppoll),
      (''unshare'', NR_ia32_unshare),
      (''set_robust_list'', NR_ia32_set_robust_list),
      (''get_robust_list'', NR_ia32_get_robust_list),
      (''splice'', NR_ia32_splice),
      (''sync_file_range'', NR_ia32_sync_file_range),
      (''tee'', NR_ia32_tee),
      (''vmsplice'', NR_ia32_vmsplice),
      (''move_pages'', NR_ia32_move_pages),
      (''getcpu'', NR_ia32_getcpu),
      (''epoll_pwait'', NR_ia32_epoll_pwait),
      (''utimensat'', NR_ia32_utimensat),
      (''signalfd'', NR_ia32_signalfd),
      (''timerfd_create'', NR_ia32_timerfd_create),
      (''eventfd'', NR_ia32_eventfd),
      (''fallocate'', NR_ia32_fallocate),
      (''timerfd_settime'', NR_ia32_timerfd_settime),
      (''timerfd_gettime'', NR_ia32_timerfd_gettime),
      (''signalfd4'', NR_ia32_signalfd4),
      (''eventfd2'', NR_ia32_eventfd2),
      (''epoll_create1'', NR_ia32_epoll_create1),
      (''dup3'', NR_ia32_dup3),
      (''pipe2'', NR_ia32_pipe2),
      (''inotify_init1'', NR_ia32_inotify_init1),
      (''preadv'', NR_ia32_preadv),
      (''pwritev'', NR_ia32_pwritev),
      (''rt_tgsigqueueinfo'', NR_ia32_rt_tgsigqueueinfo),
      (''perf_event_open'', NR_ia32_perf_event_open),
      (''recvmmsg'', NR_ia32_recvmmsg),
      (''fanotify_init'', NR_ia32_fanotify_init),
      (''fanotify_mark'', NR_ia32_fanotify_mark),
      (''prlimit64'', NR_ia32_prlimit64),
      (''name_to_handle_at'', NR_ia32_name_to_handle_at),
      (''open_by_handle_at'', NR_ia32_open_by_handle_at),
      (''clock_adjtime'', NR_ia32_clock_adjtime),
      (''syncfs'', NR_ia32_syncfs),
      (''sendmmsg'', NR_ia32_sendmmsg),
      (''setns'', NR_ia32_setns),
      (''process_vm_readv'', NR_ia32_process_vm_readv),
      (''process_vm_writev'', NR_ia32_process_vm_writev),
      (''renameat2'', NR_ia32_renameat2),
      (''userfaultfd'', NR_ia32_userfaultfd)]"

definition ppm_compat_unistd_32_rows :: "(string \<times> int) list" where
  "ppm_compat_unistd_32_rows = ppm_compat_unistd_32_0 @ ppm_compat_unistd_32_1 @ ppm_compat_unistd_32_2"

lemmas g_syscall_table_defs = g_syscall_table_rows_def g_syscall_table_0_def g_syscall_table_1_def g_syscall_table_2_def
lemmas g_syscall_ia32_table_defs = g_syscall_ia32_table_rows_def g_syscall_ia32_table_0_def g_syscall_ia32_table_1_def
lemmas g_syscall_code_routing_table_defs = g_syscall_code_routing_table_rows_def g_syscall_code_routing_table_0_def g_syscall_code_routing_table_1_def g_syscall_code_routing_table_2_def g_syscall_code_routing_table_3_def
lemmas g_syscall_ia32_code_routing_table_defs = g_syscall_ia32_code_routing_table_rows_def g_syscall_ia32_code_routing_table_0_def g_syscall_ia32_code_routing_table_1_def g_syscall_ia32_code_routing_table_2_def g_syscall_ia32_code_routing_table_3_def
lemmas g_syscall_info_table_defs = g_syscall_info_table_rows_def g_syscall_info_table_0_def g_syscall_info_table_1_def g_syscall_info_table_2_def
lemmas ppm_syscall_code_defs = ppm_syscall_code_rows_def ppm_syscall_code_0_def ppm_syscall_code_1_def ppm_syscall_code_2_def
lemmas ppm_compat_unistd_32_defs = ppm_compat_unistd_32_rows_def ppm_compat_unistd_32_0_def ppm_compat_unistd_32_1_def ppm_compat_unistd_32_2_def
section \<open>Codes and their descriptions\<close>

text \<open>
  The members of the enumeration whose description has another name, the names compared without
  case; \<open>lower\<close> is lower case for ASCII letters.
\<close>

fun lower :: "char \<Rightarrow> char" where
  "lower (Char b0 b1 b2 b3 b4 b5 b6 b7) =
     (if b6 \<and> Char b0 b1 b2 b3 b4 b5 b6 b7 \<noteq> CHR ''_'' then Char b0 b1 b2 b3 b4 True b6 b7
      else Char b0 b1 b2 b3 b4 b5 b6 b7)"

fun renamed :: "string list \<Rightarrow> ppm_syscall_desc list \<Rightarrow> (string \<times> string) list" where
  "renamed (c # cs) (r # rs) =
     (if map lower c = sd_name r then renamed cs rs else (c, sd_name r) # renamed cs rs)"
| "renamed cs rs = []"

lemma renamed_append:
  "length cs = length rs \<Longrightarrow> renamed (cs @ cs') (rs @ rs') = renamed cs rs @ renamed cs' rs'"
  by (induction cs rs rule: renamed.induct) auto

lemma renamed_0: "renamed ppm_syscall_code_0 g_syscall_info_table_0 = [(''UNKNOWN'', ''<unknown>'')]"
  by code_simp

lemma renamed_1: "renamed ppm_syscall_code_1 g_syscall_info_table_1 = [(''_NEWSELECT'', ''newselect'')]"
  by code_simp

lemma renamed_2:
  "renamed ppm_syscall_code_2 g_syscall_info_table_2 =
     [(''_LLSEEK'', ''llseek''), (''NEWFSSTAT'', ''newfstatat''), (''SETUID32'', ''setuid''), (''GETUID32'', ''getuid''),
      (''SETGID32'', ''setgid''), (''GETEUID32'', ''geteuid''), (''GETGID32'', ''getgid''), (''SETRESUID32'', ''setresuid''),
      (''SETRESGID32'', ''setresgid''), (''GETRESUID32'', ''getresuid''), (''GETRESGID32'', ''getresgid'')]"
  by code_simp

lemma lengths_0: "length ppm_syscall_code_0 = 147" "length g_syscall_info_table_0 = 147"
  by (simp_all add: ppm_syscall_code_0_def g_syscall_info_table_0_def)

lemma lengths_1: "length ppm_syscall_code_1 = 142" "length g_syscall_info_table_1 = 142"
  by (simp_all add: ppm_syscall_code_1_def g_syscall_info_table_1_def)

lemma lengths_2: "length ppm_syscall_code_2 = 33" "length g_syscall_info_table_2 = 33"
  by (simp_all add: ppm_syscall_code_2_def g_syscall_info_table_2_def)

lemma array_of_Nil: "array_of zero [] i = zero"
  by (simp add: array_of_def)

lemma array_of_Cons: "array_of zero ((j, r) # rows) i = array_of (if i = j then r else zero) rows i"
  by (auto simp: array_of_def map_add_def split: option.splits)

lemma array_of_append: "array_of zero (xs @ ys) i = array_of (array_of zero xs i) ys i"
  by (auto simp: array_of_def map_add_def split: option.splits)

lemmas array_of_simps = array_of_append array_of_Nil array_of_Cons

lemma array_of_cases:
  obtains "array_of zero rows i = zero" | r where "(i, r) \<in> set rows" and "array_of zero rows i = r"
proof (cases "map_of (rev rows) i")
  case None
  then show ?thesis using that(1) by (simp add: array_of_def)
next
  case (Some r)
  then show ?thesis using that(2) [of r] by (auto simp: array_of_def dest: map_of_SomeD)
qed

section \<open>32-bit processes\<close>

text \<open>The calls that both tables list, as pairs of their 32-bit and 64-bit numbers, two apart.\<close>

definition shared_calls :: "(int \<times> int) list" where
  "shared_calls =
     [(NR_ia32_open, NR_open), (NR_ia32_creat, NR_creat), (NR_ia32_close, NR_close), (NR_ia32_brk, NR_brk),
      (NR_ia32_read, NR_read), (NR_ia32_write, NR_write), (NR_ia32_execve, NR_execve), (NR_ia32_clone, NR_clone),
      (NR_ia32_fork, NR_fork), (NR_ia32_vfork, NR_vfork), (NR_ia32_pipe, NR_pipe), (NR_ia32_pipe2, NR_pipe2),
      (NR_ia32_eventfd, NR_eventfd), (NR_ia32_eventfd2, NR_eventfd2), (NR_ia32_futex, NR_futex),
      (NR_ia32_stat, NR_stat), (NR_ia32_lstat, NR_lstat), (NR_ia32_fstat, NR_fstat),
      (NR_ia32_epoll_wait, NR_epoll_wait), (NR_ia32_poll, NR_poll), (NR_ia32_select, NR_select),
      (NR_ia32_lseek, NR_lseek), (NR_ia32_ioctl, NR_ioctl), (NR_ia32_getcwd, NR_getcwd), (NR_ia32_chdir, NR_chdir),
      (NR_ia32_fchdir, NR_fchdir), (NR_ia32_mkdir, NR_mkdir), (NR_ia32_rmdir, NR_rmdir),
      (NR_ia32_openat, NR_openat), (NR_ia32_mkdirat, NR_mkdirat), (NR_ia32_link, NR_link),
      (NR_ia32_linkat, NR_linkat), (NR_ia32_unlink, NR_unlink), (NR_ia32_unlinkat, NR_unlinkat),
      (NR_ia32_pread64, NR_pread64), (NR_ia32_pwrite64, NR_pwrite64), (NR_ia32_readv, NR_readv),
      (NR_ia32_writev, NR_writev), (NR_ia32_preadv, NR_preadv), (NR_ia32_pwritev, NR_pwritev),
      (NR_ia32_dup, NR_dup), (NR_ia32_dup2, NR_dup2), (NR_ia32_dup3, NR_dup3), (NR_ia32_signalfd, NR_signalfd),
      (NR_ia32_signalfd4, NR_signalfd4), (NR_ia32_kill, NR_kill), (NR_ia32_tkill, NR_tkill),
      (NR_ia32_tgkill, NR_tgkill), (NR_ia32_nanosleep, NR_nanosleep), (NR_ia32_timerfd_create, NR_timerfd_create),
      (NR_ia32_inotify_init, NR_inotify_init), (NR_ia32_inotify_init1, NR_inotify_init1),
      (NR_ia32_getrlimit, NR_getrlimit), (NR_ia32_setrlimit, NR_setrlimit), (NR_ia32_fchmodat, NR_fchmodat),
      (NR_ia32_fchmod, NR_fchmod), (NR_ia32_prlimit64, NR_prlimit64), (NR_ia32_fcntl, NR_fcntl),
      (NR_ia32_ppoll, NR_ppoll), (NR_ia32_pselect6, NR_pselect6), (NR_ia32_epoll_create, NR_epoll_create),
      (NR_ia32_epoll_ctl, NR_epoll_ctl), (NR_ia32_uselib, NR_uselib), (NR_ia32_sched_setparam, NR_sched_setparam),
      (NR_ia32_sched_getparam, NR_sched_getparam), (NR_ia32_syslog, NR_syslog), (NR_ia32_chmod, NR_chmod),
      (NR_ia32_lchown, NR_lchown), (NR_ia32_utime, NR_utime), (NR_ia32_ptrace, NR_ptrace),
      (NR_ia32_alarm, NR_alarm), (NR_ia32_pause, NR_pause), (NR_ia32_sendmmsg, NR_sendmmsg),
      (NR_ia32_recvmmsg, NR_recvmmsg), (NR_ia32_mmap, NR_mmap), (NR_ia32_munmap, NR_munmap),
      (NR_ia32_splice, NR_splice), (NR_ia32_process_vm_readv, NR_process_vm_readv),
      (NR_ia32_process_vm_writev, NR_process_vm_writev), (NR_ia32_rename, NR_rename),
      (NR_ia32_renameat, NR_renameat), (NR_ia32_symlink, NR_symlink), (NR_ia32_symlinkat, NR_symlinkat),
      (NR_ia32_sendfile, NR_sendfile), (NR_ia32_quotactl, NR_quotactl), (NR_ia32_setresuid, NR_setresuid),
      (NR_ia32_setresgid, NR_setresgid), (NR_ia32_setuid, NR_setuid), (NR_ia32_setgid, NR_setgid),
      (NR_ia32_getuid, NR_getuid), (NR_ia32_geteuid, NR_geteuid), (NR_ia32_getgid, NR_getgid),
      (NR_ia32_getegid, NR_getegid), (NR_ia32_getresuid, NR_getresuid), (NR_ia32_getresgid, NR_getresgid),
      (NR_ia32_access, NR_access), (NR_ia32_chroot, NR_chroot), (NR_ia32_setsid, NR_setsid),
      (NR_ia32_setpgid, NR_setpgid), (NR_ia32_renameat2, NR_renameat2), (NR_ia32_userfaultfd, NR_userfaultfd)]"

lemma shared_rows: "(i, j) \<in> set shared_calls \<Longrightarrow> g_syscall_ia32_table i = g_syscall_table j"
  unfolding shared_calls_def list.set insert_iff empty_iff prod.inject
  apply (elim disjE conjE)
  apply (simp_all only: g_syscall_ia32_table_def g_syscall_table_def g_syscall_ia32_table_defs g_syscall_table_defs)
  apply (simp_all add: array_of_simps)
  done

section \<open>Properties\<close>

text \<open>
  C0. The table of descriptions has one row for each system call code, in the order of the
  enumeration: row \<open>k\<close> carries the name of member \<open>k\<close>, but for the thirteen listed, whose names
  lose an underscore or the suffix 32.
\<close>

theorem syscall_codes_described:
  "length ppm_syscall_code_rows = 322 \<and> length g_syscall_info_table_rows = 322 \<and>
   renamed ppm_syscall_code_rows g_syscall_info_table_rows =
     [(''UNKNOWN'', ''<unknown>''), (''_NEWSELECT'', ''newselect''), (''_LLSEEK'', ''llseek''),
      (''NEWFSSTAT'', ''newfstatat''), (''SETUID32'', ''setuid''), (''GETUID32'', ''getuid''), (''SETGID32'', ''setgid''),
      (''GETEUID32'', ''geteuid''), (''GETGID32'', ''getgid''), (''SETRESUID32'', ''setresuid''),
      (''SETRESGID32'', ''setresgid''), (''GETRESUID32'', ''getresuid''), (''GETRESGID32'', ''getresgid'')]"
  by (simp add: ppm_syscall_code_rows_def g_syscall_info_table_rows_def renamed_append lengths_0 lengths_1 lengths_2
      renamed_0 renamed_1 renamed_2)

text \<open>
  C0. The header of 32-bit numbers derives some of them from the 64-bit numbers of
  \<open>timer_create\<close> and \<open>mq_open\<close>.  Twelve calls share their number with one of those, and the later row
  of the routing table wins: their generic events carry the code, and so the name, of a timer,
  clock or message queue call.  The true 32-bit numbers of those calls (260 to 267 and 278 to 282)
  are not routed at all.
\<close>

theorem ia32_calls_misreported:
  "map (\<lambda>i. sd_name (g_syscall_info_table_rows ! nat (g_syscall_ia32_code_routing_table i)))
     [NR_ia32_gettid, NR_ia32_readahead, NR_ia32_setxattr, NR_ia32_lsetxattr, NR_ia32_fsetxattr, NR_ia32_getxattr,
      NR_ia32_lgetxattr, NR_ia32_sched_setaffinity, NR_ia32_sched_getaffinity, NR_ia32_set_thread_area,
      NR_ia32_get_thread_area, NR_ia32_io_setup] =
   [''timer_gettime'', ''timer_getoverrun'', ''timer_delete'', ''clock_settime'', ''clock_gettime'', ''clock_getres'',
    ''clock_nanosleep'', ''mq_unlink'', ''mq_timedsend'', ''mq_timedreceive'', ''mq_notify'', ''mq_getsetattr''] \<and>
   map g_syscall_ia32_code_routing_table ([260..267] @ [278..282]) = replicate 13 PPM_SC_UNKNOWN"
proof -
  have codes: "map g_syscall_ia32_code_routing_table [NR_ia32_gettid, NR_ia32_readahead, NR_ia32_setxattr,
      NR_ia32_lsetxattr, NR_ia32_fsetxattr, NR_ia32_getxattr, NR_ia32_lgetxattr, NR_ia32_sched_setaffinity,
      NR_ia32_sched_getaffinity, NR_ia32_set_thread_area, NR_ia32_get_thread_area, NR_ia32_io_setup] =
    [PPM_SC_TIMER_GETTIME, PPM_SC_TIMER_GETOVERRUN, PPM_SC_TIMER_DELETE, PPM_SC_CLOCK_SETTIME, PPM_SC_CLOCK_GETTIME,
     PPM_SC_CLOCK_GETRES, PPM_SC_CLOCK_NANOSLEEP, PPM_SC_MQ_UNLINK, PPM_SC_MQ_TIMEDSEND, PPM_SC_MQ_TIMEDRECEIVE,
     PPM_SC_MQ_NOTIFY, PPM_SC_MQ_GETSETATTR]"
    unfolding g_syscall_ia32_code_routing_table_def g_syscall_ia32_code_routing_table_defs
    by (simp add: array_of_simps)
  have names: "map (\<lambda>c. sd_name (g_syscall_info_table_rows ! nat c)) [PPM_SC_TIMER_GETTIME, PPM_SC_TIMER_GETOVERRUN,
     PPM_SC_TIMER_DELETE, PPM_SC_CLOCK_SETTIME, PPM_SC_CLOCK_GETTIME, PPM_SC_CLOCK_GETRES, PPM_SC_CLOCK_NANOSLEEP,
     PPM_SC_MQ_UNLINK, PPM_SC_MQ_TIMEDSEND, PPM_SC_MQ_TIMEDRECEIVE, PPM_SC_MQ_NOTIFY, PPM_SC_MQ_GETSETATTR] =
    [''timer_gettime'', ''timer_getoverrun'', ''timer_delete'', ''clock_settime'', ''clock_gettime'', ''clock_getres'',
     ''clock_nanosleep'', ''mq_unlink'', ''mq_timedsend'', ''mq_timedreceive'', ''mq_notify'', ''mq_getsetattr'']"
    by (simp add: g_syscall_info_table_rows_def nth_append lengths_0 lengths_1 g_syscall_info_table_1_def desc_def)
  have "map g_syscall_ia32_code_routing_table ([260..267] @ [278..282]) = replicate 13 PPM_SC_UNKNOWN"
    unfolding g_syscall_ia32_code_routing_table_def g_syscall_ia32_code_routing_table_defs
    by (simp add: upto_rec1 array_of_simps numeral_eq_Suc)
  with codes names show ?thesis by simp
qed

text \<open>
  C0. A system call of a 32-bit process is recorded with the same event pair and drop flags as the
  same call of a native process, for the 101 calls of \<open>shared_calls\<close>.  The other two that both tables
  list are not: \<open>mount\<close> and \<open>umount2\<close> have events of their own for native processes and are generic
  for 32-bit ones; and \<open>flock\<close>, \<open>unshare\<close>, \<open>setns\<close>, \<open>getdents\<close> and \<open>getdents64\<close> have no row for
  32-bit processes at all.
\<close>

theorem ia32_events_like_native:
  "list_all (\<lambda>(i, j). g_syscall_ia32_table i = g_syscall_table j) shared_calls \<and> length shared_calls = 101 \<and>
   map g_syscall_table [NR_mount, NR_umount2] =
     [evt_pair UF_USED PPME_SYSCALL_MOUNT_E PPME_SYSCALL_MOUNT_X, evt_pair UF_USED PPME_SYSCALL_UMOUNT_E PPME_SYSCALL_UMOUNT_X] \<and>
   map g_syscall_ia32_table [NR_ia32_mount, NR_ia32_umount2] = replicate 2 (evt_pair UF_USED PPME_GENERIC_E PPME_GENERIC_X) \<and>
   list_all (\<lambda>j. sp_flags (g_syscall_table j) AND UF_USED \<noteq> 0) [NR_flock, NR_unshare, NR_setns, NR_getdents, NR_getdents64] \<and>
   map g_syscall_ia32_table [NR_ia32_flock, NR_ia32_unshare, NR_ia32_setns, NR_ia32_getdents, NR_ia32_getdents64] =
     replicate 5 (evt_pair 0 0 0)"
proof -
  have native: "map g_syscall_table [NR_mount, NR_umount2] =
     [evt_pair UF_USED PPME_SYSCALL_MOUNT_E PPME_SYSCALL_MOUNT_X, evt_pair UF_USED PPME_SYSCALL_UMOUNT_E PPME_SYSCALL_UMOUNT_X]"
    "list_all (\<lambda>j. sp_flags (g_syscall_table j) AND UF_USED \<noteq> 0) [NR_flock, NR_unshare, NR_setns, NR_getdents, NR_getdents64]"
    unfolding g_syscall_table_def g_syscall_table_defs
    by (simp_all add: array_of_simps evt_pair_def ppm_consts)
  have ia32: "map g_syscall_ia32_table [NR_ia32_mount, NR_ia32_umount2] = replicate 2 (evt_pair UF_USED PPME_GENERIC_E PPME_GENERIC_X)"
    "map g_syscall_ia32_table [NR_ia32_flock, NR_ia32_unshare, NR_ia32_setns, NR_ia32_getdents, NR_ia32_getdents64] =
     replicate 5 (evt_pair 0 0 0)"
    unfolding g_syscall_ia32_table_def g_syscall_ia32_table_defs
    by (simp_all add: array_of_simps numeral_eq_Suc)
  have "length shared_calls = 101" by (simp add: shared_calls_def)
  with shared_rows native ia32 show ?thesis by (auto simp only: list_all_iff split: prod.splits)
qed

end
