(* ===== verification/Ppm_Device.thy ===== *)
theory Ppm_Device
  imports Ring_Buffer
begin

text \<open>
  The device files of the kernel module (\<open>driver/main.c\<close>): \<open>ppm_open\<close>, \<open>ppm_release\<close>, \<open>ppm_ioctl\<close>
  and \<open>ppm_mmap\<close>, the CPU hotplug callback, and the rings and consumers they create and free.  All of
  them run under \<open>g_consumer_mutex\<close>, the hotplug callback apart, so each is one step on the
  driver's globals.  What the kernel answers (allocations, tracepoint registration, copies to user
  memory, process lookups) is in the environment records.  A null pointer the code would dereference,
  or an access to a consumer that was freed, is the value \<open>None\<close>.
\<close>

section \<open>Constants\<close>

definition EPERM :: int where [ppm_consts]: "EPERM = 1"
definition ENOENT :: int where [ppm_consts]: "ENOENT = 2"
definition EIO :: int where [ppm_consts]: "EIO = 5"
definition ENOMEM :: int where [ppm_consts]: "ENOMEM = 12"
definition EBUSY :: int where [ppm_consts]: "EBUSY = 16"
definition EEXIST :: int where [ppm_consts]: "EEXIST = 17"
definition ENODEV :: int where [ppm_consts]: "ENODEV = 19"
definition EINVAL :: int where [ppm_consts]: "EINVAL = 22"
definition ENOTTY :: int where [ppm_consts]: "ENOTTY = 25"
definition ENOSPC :: int where [ppm_consts]: "ENOSPC = 28"

definition DEI_DISABLE_DROPPING :: u64 where [ppm_consts]: "DEI_DISABLE_DROPPING = 1"
definition PROBE_VERSION :: string where [ppm_consts]: "PROBE_VERSION = ''0.1.1dev''"

datatype ppm_ioctl_cmd =
    PPM_IOCTL_DISABLE_CAPTURE | PPM_IOCTL_ENABLE_CAPTURE | PPM_IOCTL_DISABLE_DROPPING_MODE
  | PPM_IOCTL_ENABLE_DROPPING_MODE | PPM_IOCTL_SET_SNAPLEN | PPM_IOCTL_MASK_ZERO_EVENTS
  | PPM_IOCTL_MASK_SET_EVENT | PPM_IOCTL_MASK_UNSET_EVENT | PPM_IOCTL_DISABLE_DYNAMIC_SNAPLEN
  | PPM_IOCTL_ENABLE_DYNAMIC_SNAPLEN | PPM_IOCTL_GET_VTID | PPM_IOCTL_GET_VPID
  | PPM_IOCTL_GET_CURRENT_TID | PPM_IOCTL_GET_CURRENT_PID | PPM_IOCTL_DISABLE_SIGNAL_DELIVER
  | PPM_IOCTL_ENABLE_SIGNAL_DELIVER | PPM_IOCTL_GET_PROCLIST | PPM_IOCTL_SET_TRACERS_CAPTURE
  | PPM_IOCTL_SET_SIMPLE_MODE | PPM_IOCTL_ENABLE_PAGE_FAULTS | PPM_IOCTL_GET_N_TRACEPOINT_HIT
  | PPM_IOCTL_GET_PROBE_VERSION | PPM_IOCTL_SET_FULLCAPTURE_PORT_RANGE | PPM_IOCTL_SET_STATSD_PORT
  | PPM_IOCTL_MASK_SET_TP | PPM_IOCTL_MASK_UNSET_TP | PPM_IOCTL_OTHER u32

section \<open>Globals\<close>

text \<open>The tracepoints that the module attaches its callbacks to, and its kprobes.\<close>

datatype tracepoint =
    tp_sys_exit | tp_sys_enter | tp_sched_process_exit | tp_sched_switch
  | tp_signal_deliver | tp_net_dev_xmit | tp_page_fault_user | tp_page_fault_kernel

datatype kprobe = kp_tcp_rcv_established | kp_tcp_retransmit_skb | kp_tcp_drop

text \<open>
  \<open>g_consumer_list\<close> is newest first, \<open>None\<close> being a node whose consumer was freed;
  \<open>dv_probes\<close> and \<open>dv_kprobes\<close> are the callbacks that are attached now; \<open>dv_possible\<close> is the
  kernel's mask of possible CPUs, which does not change.
\<close>

record ppm_driver =
  g_consumer_list :: "ppm_consumer_t option list"
  dv_events_mask :: "nat \<Rightarrow> bool"
  g_tracepoint_registered :: bool
  g_kprobe_registered :: bool
  g_fault_tracepoint_registered :: bool
  g_fault_tracepoint_disabled :: bool
  g_simple_mode_enabled :: bool
  g_tracers_enabled :: bool
  g_n_tracepoint_hit :: "nat \<Rightarrow> u64"
  dv_probes :: "tracepoint set"
  dv_kprobes :: "kprobe set"
  max_consumers :: nat
  dv_possible :: "nat list"

fun ppm_find_consumer :: "nat \<Rightarrow> ppm_consumer_t option list \<Rightarrow> ppm_consumer_t option option" where
  "ppm_find_consumer cid [] = Some None"
| "ppm_find_consumer cid (None # els) = None"
| "ppm_find_consumer cid (Some el # els) =
     (if c_consumer_id el = cid then Some (Some el) else ppm_find_consumer cid els)"

text \<open>Writes through the pointer to a listed consumer, unlinking it, and freeing it while listed.\<close>

definition put_consumer :: "ppm_consumer_t \<Rightarrow> ppm_driver \<Rightarrow> ppm_driver" where
  "put_consumer c d = d\<lparr>g_consumer_list := map (\<lambda>el. case el of None \<Rightarrow> None
     | Some x \<Rightarrow> Some (if c_consumer_id x = c_consumer_id c then c else x)) (g_consumer_list d)\<rparr>"

definition list_del_consumer :: "nat \<Rightarrow> ppm_driver \<Rightarrow> ppm_driver" where
  "list_del_consumer cid d = d\<lparr>g_consumer_list := filter (\<lambda>el. case el of None \<Rightarrow> True
     | Some x \<Rightarrow> c_consumer_id x \<noteq> cid) (g_consumer_list d)\<rparr>"

definition vfree_consumer :: "nat \<Rightarrow> ppm_driver \<Rightarrow> ppm_driver" where
  "vfree_consumer cid d = d\<lparr>g_consumer_list := map (\<lambda>el. case el of None \<Rightarrow> None
     | Some x \<Rightarrow> if c_consumer_id x = cid then None else Some x) (g_consumer_list d)\<rparr>"

definition set_ring :: "nat \<Rightarrow> ppm_ring_buffer_context \<Rightarrow> ppm_consumer_t \<Rightarrow> ppm_consumer_t" where
  "set_ring cpu ring c = c\<lparr>c_ring_buffers := (c_ring_buffers c)(cpu := ring)\<rparr>"

section \<open>Rings\<close>

definition free_ring_buffer :: "ppm_ring_buffer_context \<Rightarrow> ppm_ring_buffer_context" where
  "free_ring_buffer ring = ring\<lparr>rc_info := None, rc_buffer := None, rc_str_storage := None\<rparr>"

definition reset_ring_buffer :: "u64 \<Rightarrow> ppm_ring_buffer_context \<Rightarrow> ppm_ring_buffer_context option" where
  "reset_ring_buffer ns ring =
     (case rc_info ring of None \<Rightarrow> None
      | Some info \<Rightarrow> Some (ring\<lparr>rc_open := False, rc_capture_enabled := False,
          rc_info := Some (info\<lparr>rb_head := 0, rb_tail := 0, n_evts := 0, n_drops_buffer := 0, n_drops_pf := 0,
            n_preemptions := 0, n_context_switches := 0\<rparr>),
          rc_nevents := 0, rc_last_print_time := ns\<rparr>))"

text \<open>
  What the kernel answers while a device is opened: the calling task and the minor number, the
  online CPUs, the outcome of each allocation with what fresh memory holds, the time, and the
  result of attaching a callback, given those that are attached.
\<close>

record open_env =
  oe_current :: nat
  oe_ring_no :: nat
  oe_online :: "nat list"
  oe_vmalloc_consumer :: "ppm_consumer_t option"
  oe_alloc_percpu :: bool
  oe_str_page :: "nat \<Rightarrow> u64 option"
  oe_vmalloc_buffer :: "nat \<Rightarrow> bool"
  oe_vmalloc_info :: "nat \<Rightarrow> ppm_ring_buffer_info option"
  oe_init_ns :: "nat \<Rightarrow> u64"
  oe_open_ns :: u64
  oe_register :: "tracepoint set \<Rightarrow> tracepoint \<Rightarrow> int"
  oe_register_kprobe :: "kprobe \<Rightarrow> int"

definition init_ring_buffer ::
    "open_env \<Rightarrow> nat \<Rightarrow> ppm_ring_buffer_context \<Rightarrow> (bool \<times> ppm_ring_buffer_context) option" where
  "init_ring_buffer env cpu ring =
     (case oe_str_page env cpu of None \<Rightarrow> Some (False, free_ring_buffer (ring\<lparr>rc_str_storage := None\<rparr>))
      | Some page \<Rightarrow>
        let ring1 = ring\<lparr>rc_str_storage := Some page\<rparr> in
        if \<not> oe_vmalloc_buffer env cpu then Some (False, free_ring_buffer (ring1\<lparr>rc_buffer := None\<rparr>))
        else
          let ring2 = ring1\<lparr>rc_buffer := Some (\<lambda>j. 0)\<rparr> in
          case oe_vmalloc_info env cpu of None \<Rightarrow> Some (False, free_ring_buffer (ring2\<lparr>rc_info := None\<rparr>))
          | Some info \<Rightarrow>
            map_option (\<lambda>ring4. (True, ring4\<lparr>rc_preempt_count := 0\<rparr>))
              (reset_ring_buffer (oe_init_ns env cpu) (ring2\<lparr>rc_info := Some info\<rparr>)))"

definition check_remove_consumer :: "ppm_consumer_t \<Rightarrow> bool \<Rightarrow> ppm_driver \<Rightarrow> ppm_driver" where
  "check_remove_consumer consumer remove_from_list d =
     (if filter (\<lambda>cpu. rc_open (c_ring_buffers consumer cpu)) (dv_possible d) = [] then
        if remove_from_list then list_del_consumer (c_consumer_id consumer) d
        else vfree_consumer (c_consumer_id consumer) d
      else d)"

section \<open>Opening a device\<close>

text \<open>\<open>alloc_percpu\<close> clears what it allocates.\<close>

definition zero_ring :: ppm_ring_buffer_context where
  "zero_ring = \<lparr>rc_cpu_online = False, rc_open = False, rc_capture_enabled = False, rc_info = None,
     rc_buffer = None, rc_last_print_time = 0, rc_nevents = 0, rc_preempt_count = 0, rc_str_storage = None\<rparr>"

definition null_ring :: "nat \<Rightarrow> ppm_consumer_t \<Rightarrow> ppm_consumer_t" where
  "null_ring cpu c = set_ring cpu ((c_ring_buffers c cpu)\<lparr>rc_cpu_online := False, rc_str_storage := None,
     rc_buffer := None, rc_info := None\<rparr>) c"

fun init_rings :: "open_env \<Rightarrow> nat list \<Rightarrow> ppm_consumer_t \<Rightarrow> (bool \<times> ppm_consumer_t) option" where
  "init_rings env [] c = Some (True, c)"
| "init_rings env (cpu # cpus) c =
     (case init_ring_buffer env cpu (c_ring_buffers c cpu) of None \<Rightarrow> None
      | Some (False, ring) \<Rightarrow> Some (False, set_ring cpu ring c)
      | Some (True, ring) \<Rightarrow> init_rings env cpus (set_ring cpu (ring\<lparr>rc_cpu_online := True\<rparr>) c))"

definition open_settings :: "ppm_consumer_t \<Rightarrow> ppm_consumer_t" where
  "open_settings c = c\<lparr>c_dropping_mode := 0, c_snaplen := RW_SNAPLEN, c_sampling_ratio := 1,
     c_sampling_interval := 0, c_is_dropping := 0, c_do_dynamic_snaplen := False,
     c_need_to_insert_drop_e := 0, c_need_to_insert_drop_x := 0, c_fullcapture_port_range_start := 0,
     c_fullcapture_port_range_end := 0, c_statsd_port := of_nat PPM_PORT_STATSD\<rparr>"

text \<open>The error labels of \<open>ppm_open\<close>, with the callbacks detached from the label on.\<close>

datatype open_label =
  err_net_dev_xmit | err_signal_deliver | err_sched_switch | err_sched_procexit | err_sys_enter | err_sys_exit

fun open_unwind :: "open_label \<Rightarrow> tracepoint list" where
  "open_unwind err_net_dev_xmit =
     [tp_net_dev_xmit, tp_sched_switch, tp_sched_process_exit, tp_sys_enter, tp_sys_exit]"
| "open_unwind err_signal_deliver =
     [tp_sched_switch, tp_sched_process_exit, tp_sys_enter, tp_sys_exit]"
| "open_unwind err_sched_switch = [tp_sched_process_exit, tp_sys_enter, tp_sys_exit]"
| "open_unwind err_sched_procexit = [tp_sys_enter, tp_sys_exit]"
| "open_unwind err_sys_enter = [tp_sys_exit]"
| "open_unwind err_sys_exit = []"

fun register_traces ::
    "(tracepoint set \<Rightarrow> tracepoint \<Rightarrow> int) \<Rightarrow> (tracepoint \<times> open_label) list \<Rightarrow> tracepoint set \<Rightarrow> (int \<times> open_label) option \<times> tracepoint set" where
  "register_traces reg [] ps = (None, ps)"
| "register_traces reg ((p, label) # rest) ps =
     (let ret = reg ps p in
      if ret \<noteq> 0 then (Some (ret, label), ps) else register_traces reg rest (insert p ps))"

definition register_kprobes :: "open_env \<Rightarrow> ppm_driver \<Rightarrow> ppm_driver" where
  "register_kprobes env d =
     (if g_kprobe_registered d then d
      else d\<lparr>dv_kprobes := dv_kprobes d \<union> set (filter (\<lambda>k. oe_register_kprobe env k = 0)
               [kp_tcp_rcv_established, kp_tcp_retransmit_skb, kp_tcp_drop]),
             g_kprobe_registered := True\<rparr>)"

definition open_failed :: "open_env \<Rightarrow> open_label \<Rightarrow> ppm_consumer_t \<Rightarrow> bool \<Rightarrow> ppm_driver \<Rightarrow> ppm_driver" where
  "open_failed env label consumer in_list d =
     (let c = set_ring (oe_ring_no env) ((c_ring_buffers consumer (oe_ring_no env))\<lparr>rc_open := False\<rparr>) consumer in
      check_remove_consumer c in_list (put_consumer c (d\<lparr>dv_probes := dv_probes d - set (open_unwind label)\<rparr>)))"

definition start_capture :: "open_env \<Rightarrow> ppm_consumer_t \<Rightarrow> bool \<Rightarrow> ppm_driver \<Rightarrow> int \<times> ppm_driver" where
  "start_capture env consumer in_list d =
     (case register_traces (oe_register env)
             [(tp_sys_exit, err_sys_exit), (tp_sys_enter, err_sys_enter),
              (tp_sched_process_exit, err_sched_procexit), (tp_sched_switch, err_sched_switch),
              (tp_signal_deliver, err_signal_deliver)] (dv_probes d) of
        (Some (ret, label), ps) \<Rightarrow> (ret, open_failed env label consumer in_list (d\<lparr>dv_probes := ps\<rparr>))
      | (None, ps) \<Rightarrow>
        let d1 = register_kprobes env (d\<lparr>dv_probes := ps\<rparr>) in
        case register_traces (oe_register env) [(tp_net_dev_xmit, err_net_dev_xmit)] ps of
          (Some (ret, label), ps') \<Rightarrow> (ret, open_failed env label consumer in_list (d1\<lparr>dv_probes := ps'\<rparr>))
        | (None, ps') \<Rightarrow> (0, d1\<lparr>dv_probes := ps', g_tracepoint_registered := True\<rparr>))"

definition open_ring :: "open_env \<Rightarrow> ppm_consumer_t \<Rightarrow> bool \<Rightarrow> ppm_driver \<Rightarrow> (int \<times> ppm_driver) option" where
  "open_ring env consumer in_list d =
     (let ring = c_ring_buffers consumer (oe_ring_no env) in
      if \<not> rc_cpu_online ring \<or> rc_buffer ring = None then Some (- ENODEV, d)
      else if rc_open ring then Some (- EBUSY, d)
      else case reset_ring_buffer (oe_open_ns env) ring of None \<Rightarrow> None
      | Some ring1 \<Rightarrow>
        let c = set_ring (oe_ring_no env) (ring1\<lparr>rc_open := True\<rparr>) (open_settings consumer);
            d1 = put_consumer c (d\<lparr>dv_events_mask := (\<lambda>t. t < PPM_EVENT_MAX)\<rparr>) in
        Some (if g_tracepoint_registered d1 then (0, d1) else start_capture env c in_list d1))"

definition ppm_open :: "open_env \<Rightarrow> ppm_driver \<Rightarrow> (int \<times> ppm_driver) option" where
  "ppm_open env d =
     (case ppm_find_consumer (oe_current env) (g_consumer_list d) of None \<Rightarrow> None
      | Some (Some consumer) \<Rightarrow> open_ring env consumer False d
      | Some None \<Rightarrow>
        if length (g_consumer_list d) \<ge> max_consumers d then Some (- EBUSY, d)
        else case oe_vmalloc_consumer env of None \<Rightarrow> Some (- ENOMEM, d)
        | Some fresh \<Rightarrow>
          if \<not> oe_alloc_percpu env then Some (- ENOMEM, d)
          else
            let c = fold null_ring (dv_possible d)
                      (fresh\<lparr>c_consumer_id := oe_current env, c_ring_buffers := (\<lambda>_. zero_ring)\<rparr>) in
            case init_rings env (oe_online env) c of None \<Rightarrow> None
            | Some (False, consumer) \<Rightarrow> Some (- ENOMEM, check_remove_consumer consumer False d)
            | Some (True, consumer) \<Rightarrow>
                open_ring env consumer True (d\<lparr>g_consumer_list := Some consumer # g_consumer_list d\<rparr>))"

section \<open>Closing a device\<close>

definition stop_capture :: "ppm_driver \<Rightarrow> ppm_driver" where
  "stop_capture d =
     (let ps = dv_probes d - set [tp_sys_exit, tp_sys_enter, tp_sched_process_exit,
                  tp_sched_switch, tp_signal_deliver];
          ps' = (if g_fault_tracepoint_registered d then ps - set [tp_page_fault_user, tp_page_fault_kernel] else ps) in
      d\<lparr>dv_probes := ps' - set [tp_net_dev_xmit], g_fault_tracepoint_registered := False,
        g_tracepoint_registered := False, g_simple_mode_enabled := False,
        g_n_tracepoint_hit := (\<lambda>cpu. if cpu \<in> set (dv_possible d) then 0 else g_n_tracepoint_hit d cpu)\<rparr>)"

definition ppm_release :: "nat \<Rightarrow> nat \<Rightarrow> ppm_driver \<Rightarrow> (int \<times> ppm_driver) option" where
  "ppm_release cid ring_no d =
     (case ppm_find_consumer cid (g_consumer_list d) of None \<Rightarrow> None
      | Some None \<Rightarrow> Some (- EBUSY, d)
      | Some (Some consumer) \<Rightarrow>
        let ring = c_ring_buffers consumer ring_no in
        if \<not> rc_open ring then Some (- EBUSY, d)
        else
          let c = set_ring ring_no (ring\<lparr>rc_capture_enabled := False, rc_open := False\<rparr>) consumer;
              d1 = check_remove_consumer c True (put_consumer c d) in
          Some (0, if g_consumer_list d1 = [] \<and> g_tracepoint_registered d1 then stop_capture d1 else d1))"

section \<open>Recording from the driver\<close>

text \<open>The consumers, when none of the listed ones was freed.\<close>

fun live_consumers :: "ppm_consumer_t option list \<Rightarrow> ppm_consumer_t list option" where
  "live_consumers [] = Some []"
| "live_consumers (None # els) = None"
| "live_consumers (Some el # els) = map_option (\<lambda>cs. el # cs) (live_consumers els)"

definition record_all ::
    "driver_env \<Rightarrow> nat \<Rightarrow> u32 \<Rightarrow> u64 \<Rightarrow> event_data_t \<Rightarrow> ppm_driver \<Rightarrow> ppm_driver option" where
  "record_all k event_type drop_flags ns ed d =
     (case live_consumers (g_consumer_list d) of None \<Rightarrow> None
      | Some cs \<Rightarrow> map_option (\<lambda>cs'. d\<lparr>g_consumer_list := map Some cs'\<rparr>)
          (record_event_all_consumers (k\<lparr>g_events_mask := dv_events_mask d\<rparr>) cs event_type drop_flags ns ed))"

section \<open>Control commands\<close>

text \<open>
  What the kernel answers to a control command: whether the copies from and to user memory
  succeed, the process list request with the threads and their times, the process found for a
  number (its task, thread and process number in its namespace), the caller's numbers, the result
  of attaching a callback, and what recording reads.
\<close>

record ioctl_env =
  ie_copy_from_user :: bool
  ie_max_entries :: int
  ie_vmalloc :: bool
  ie_threads :: "(u64 \<times> u64 \<times> u64) list"
  ie_copy_to_user :: bool
  ie_put_user :: "nat \<Rightarrow> bool"
  ie_find_pid :: "u64 \<Rightarrow> (int \<times> int) option option"
  ie_current_tid :: int
  ie_current_tgid :: int
  ie_register :: "tracepoint set \<Rightarrow> tracepoint \<Rightarrow> int"
  ie_driver :: driver_env
  ie_ns :: u64

text \<open>What a command writes to user memory.\<close>

datatype ioctl_out =
    Out_Nothing
  | Out_Proclist nat int "(u64 \<times> u64 \<times> u64) list"
  | Out_Counters "(nat \<times> u64) list"
  | Out_Version string

definition get_proclist :: "ioctl_env \<Rightarrow> int \<times> ioctl_out" where
  "get_proclist env =
     (if \<not> ie_copy_from_user env then (- EINVAL, Out_Nothing)
      else if ie_max_entries env < 0 \<or> ie_max_entries env > 1000000 then (- EINVAL, Out_Nothing)
      else if \<not> ie_vmalloc env then (- EINVAL, Out_Nothing)
      else
        let nentries = length (ie_threads env) in
        if int nentries \<ge> ie_max_entries env then
          if \<not> ie_copy_to_user env then (- EINVAL, Out_Nothing)
          else (- ENOSPC, Out_Proclist nentries (ie_max_entries env) [])
        else if \<not> ie_copy_to_user env then (- EINVAL, Out_Nothing)
        else (0, Out_Proclist nentries (ie_max_entries env) (take (nat (ie_max_entries env)) (ie_threads env))))"

fun put_counters :: "ioctl_env \<Rightarrow> (nat \<Rightarrow> u64) \<Rightarrow> nat list \<Rightarrow> int \<times> (nat \<times> u64) list" where
  "put_counters env hits [] = (0, [])"
| "put_counters env hits (cpu # cpus) =
     (if \<not> ie_put_user env cpu then (- EINVAL, [])
      else let (ret, out) = put_counters env hits cpus in (ret, (cpu, hits cpu) # out))"

definition sampling_ratios :: "u32 list" where
  "sampling_ratios = [1, 2, 4, 8, 16, 32, 64, 128]"

definition modifies_state :: "nat \<Rightarrow> bool" where
  "modifies_state t \<longleftrightarrow> ei_flags (g_event_info t) AND EF_MODIFIES_STATE \<noteq> 0"

definition mask_zero_events :: "nat \<Rightarrow> bool" where
  "mask_zero_events t \<longleftrightarrow> t = PPME_DROP_E \<or> t = PPME_DROP_X \<or> t < PPM_EVENT_MAX \<and> modifies_state t"

definition get_vid :: "ioctl_env \<Rightarrow> bool \<Rightarrow> u64 \<Rightarrow> int" where
  "get_vid env vtid arg =
     (case ie_find_pid env arg of None \<Rightarrow> - EINVAL
      | Some None \<Rightarrow> - EINVAL
      | Some (Some (tid, tgid)) \<Rightarrow> if vtid then tid else tgid)"

definition disable_dropping :: "ioctl_env \<Rightarrow> ppm_consumer_t \<Rightarrow> ppm_driver \<Rightarrow> (int \<times> ppm_driver) option" where
  "disable_dropping env consumer d =
     map_option (\<lambda>(_, c). (0, put_consumer c d))
       (record_event_consumer ((ie_driver env)\<lparr>g_events_mask := dv_events_mask d\<rparr>)
          (consumer\<lparr>c_dropping_mode := 0, c_sampling_interval := 1000000000, c_sampling_ratio := 1\<rparr>)
          PPME_SYSDIGEVENT_E UF_NEVER_DROP (ie_ns env)
          (zero_event_data\<lparr>ed_category := PPMC_CONTEXT_SWITCH, ed_sched_prev := DEI_DISABLE_DROPPING, ed_sched_next := 0\<rparr>))"

definition enable_dropping :: "u64 \<Rightarrow> ppm_consumer_t \<Rightarrow> ppm_driver \<Rightarrow> int \<times> ppm_driver" where
  "enable_dropping arg consumer d =
     (let c = consumer\<lparr>c_dropping_mode := 1\<rparr>;
          new_sampling_ratio = ucast arg :: u32 in
      if new_sampling_ratio \<notin> set sampling_ratios then (- EINVAL, put_consumer c d)
      else (0, put_consumer (c\<lparr>c_sampling_interval := 1000000000 div new_sampling_ratio,
                               c_sampling_ratio := new_sampling_ratio\<rparr>) d))"

definition enable_page_faults :: "ioctl_env \<Rightarrow> ppm_driver \<Rightarrow> int \<times> ppm_driver" where
  "enable_page_faults env d =
     (if g_fault_tracepoint_disabled d then (- EPERM, d)
      else if g_fault_tracepoint_registered d then (0, d)
      else if ie_register env (dv_probes d) tp_page_fault_user \<noteq> 0 then (- EINVAL, d)
      else
        let ps = insert tp_page_fault_user (dv_probes d) in
        if ie_register env ps tp_page_fault_kernel \<noteq> 0
        then (- EINVAL, d\<lparr>dv_probes := ps - {tp_page_fault_user}\<rparr>)
        else (0, d\<lparr>dv_probes := insert tp_page_fault_kernel ps, g_fault_tracepoint_registered := True\<rparr>))"

text \<open>The commands that need the caller's consumer.\<close>

fun ioctl_consumer ::
    "ioctl_env \<Rightarrow> nat \<Rightarrow> ppm_ioctl_cmd \<Rightarrow> u64 \<Rightarrow> ppm_consumer_t \<Rightarrow> ppm_driver \<Rightarrow> (int \<times> ppm_driver) option" where
  "ioctl_consumer env ring_no PPM_IOCTL_DISABLE_CAPTURE arg c d =
     Some (0, put_consumer (set_ring ring_no ((c_ring_buffers c ring_no)\<lparr>rc_capture_enabled := False\<rparr>) c) d)"
| "ioctl_consumer env ring_no PPM_IOCTL_ENABLE_CAPTURE arg c d =
     Some (0, put_consumer (set_ring ring_no ((c_ring_buffers c ring_no)\<lparr>rc_capture_enabled := True\<rparr>) c) d)"
| "ioctl_consumer env ring_no PPM_IOCTL_DISABLE_DROPPING_MODE arg c d = disable_dropping env c d"
| "ioctl_consumer env ring_no PPM_IOCTL_ENABLE_DROPPING_MODE arg c d = Some (enable_dropping arg c d)"
| "ioctl_consumer env ring_no PPM_IOCTL_SET_SNAPLEN arg c d =
     Some (if (ucast arg :: u32) > RW_MAX_SNAPLEN then (- EINVAL, d)
           else (0, put_consumer (c\<lparr>c_snaplen := ucast arg\<rparr>) d))"
| "ioctl_consumer env ring_no PPM_IOCTL_SET_FULLCAPTURE_PORT_RANGE arg c d =
     Some (0, put_consumer (c\<lparr>c_fullcapture_port_range_start := ucast ((ucast arg :: u32) AND 0xFFFF),
                              c_fullcapture_port_range_end := ucast (drop_bit 16 (ucast arg :: u32))\<rparr>) d)"
| "ioctl_consumer env ring_no PPM_IOCTL_SET_STATSD_PORT arg c d =
     Some (0, put_consumer (c\<lparr>c_statsd_port := ucast arg\<rparr>) d)"
| "ioctl_consumer env ring_no PPM_IOCTL_MASK_ZERO_EVENTS arg c d =
     Some (0, d\<lparr>dv_events_mask := mask_zero_events\<rparr>)"
| "ioctl_consumer env ring_no PPM_IOCTL_MASK_SET_EVENT arg c d =
     Some (if unat (ucast arg :: u32) \<ge> PPM_EVENT_MAX then (- EINVAL, d)
           else (0, d\<lparr>dv_events_mask := (dv_events_mask d)(unat (ucast arg :: u32) := True)\<rparr>))"
| "ioctl_consumer env ring_no PPM_IOCTL_MASK_UNSET_EVENT arg c d =
     Some (if unat (ucast arg :: u32) \<ge> PPM_EVENT_MAX then (- EINVAL, d)
           else if \<not> modifies_state (unat (ucast arg :: u32))
           then (0, d\<lparr>dv_events_mask := (dv_events_mask d)(unat (ucast arg :: u32) := False)\<rparr>)
           else (0, d))"
| "ioctl_consumer env ring_no PPM_IOCTL_DISABLE_DYNAMIC_SNAPLEN arg c d =
     Some (0, put_consumer (c\<lparr>c_do_dynamic_snaplen := False\<rparr>) d)"
| "ioctl_consumer env ring_no PPM_IOCTL_ENABLE_DYNAMIC_SNAPLEN arg c d =
     Some (0, put_consumer (c\<lparr>c_do_dynamic_snaplen := True\<rparr>) d)"
| "ioctl_consumer env ring_no PPM_IOCTL_GET_VTID arg c d = Some (get_vid env True arg, d)"
| "ioctl_consumer env ring_no PPM_IOCTL_GET_VPID arg c d = Some (get_vid env False arg, d)"
| "ioctl_consumer env ring_no PPM_IOCTL_GET_CURRENT_TID arg c d = Some (ie_current_tid env, d)"
| "ioctl_consumer env ring_no PPM_IOCTL_GET_CURRENT_PID arg c d = Some (ie_current_tgid env, d)"
| "ioctl_consumer env ring_no PPM_IOCTL_DISABLE_SIGNAL_DELIVER arg c d =
     Some (0, if g_tracepoint_registered d then d\<lparr>dv_probes := dv_probes d - {tp_signal_deliver}\<rparr> else d)"
| "ioctl_consumer env ring_no PPM_IOCTL_ENABLE_SIGNAL_DELIVER arg c d =
     Some (0, if g_tracepoint_registered d \<and> ie_register env (dv_probes d) tp_signal_deliver = 0
              then d\<lparr>dv_probes := insert tp_signal_deliver (dv_probes d)\<rparr> else d)"
| "ioctl_consumer env ring_no PPM_IOCTL_SET_TRACERS_CAPTURE arg c d = Some (0, d\<lparr>g_tracers_enabled := True\<rparr>)"
| "ioctl_consumer env ring_no PPM_IOCTL_SET_SIMPLE_MODE arg c d = Some (0, d\<lparr>g_simple_mode_enabled := True\<rparr>)"
| "ioctl_consumer env ring_no PPM_IOCTL_ENABLE_PAGE_FAULTS arg c d = Some (enable_page_faults env d)"
| "ioctl_consumer env ring_no cmd arg c d = Some (- ENOTTY, d)"

definition ppm_ioctl ::
    "ioctl_env \<Rightarrow> nat \<Rightarrow> nat \<Rightarrow> ppm_ioctl_cmd \<Rightarrow> u64 \<Rightarrow> ppm_driver \<Rightarrow> (int \<times> ioctl_out \<times> ppm_driver) option" where
  "ppm_ioctl env cid ring_no cmd arg d =
     (if cmd = PPM_IOCTL_GET_PROCLIST then (let (ret, out) = get_proclist env in Some (ret, out, d))
      else if cmd = PPM_IOCTL_GET_N_TRACEPOINT_HIT then
        (let (ret, out) = put_counters env (g_n_tracepoint_hit d) (dv_possible d) in Some (ret, Out_Counters out, d))
      else if cmd = PPM_IOCTL_GET_PROBE_VERSION then
        (if \<not> ie_copy_to_user env then Some (- EINVAL, Out_Nothing, d) else Some (0, Out_Version PROBE_VERSION, d))
      else
        case ppm_find_consumer cid (g_consumer_list d) of None \<Rightarrow> None
        | Some None \<Rightarrow> Some (- EBUSY, Out_Nothing, d)
        | Some (Some c) \<Rightarrow> map_option (\<lambda>(ret, d'). (ret, Out_Nothing, d')) (ioctl_consumer env ring_no cmd arg c d))"

section \<open>Mapping a ring\<close>

text \<open>
  The pages a mapping shows: that of the ring's descriptor, or a page of its buffer.  A request is
  the first and last address and the offset of the area and whether it is writable;
  \<open>me_remap\<close> is what \<open>remap_pfn_range\<close> returns for a page.  The result has the pages mapped so far.
\<close>

datatype ring_page = Info_Page | Buffer_Page nat

record mmap_env =
  vm_start :: nat
  vm_end :: nat
  vm_pgoff :: nat
  vm_write :: bool
  me_remap :: "nat \<Rightarrow> ring_page \<Rightarrow> int"

function map_pages :: "mmap_env \<Rightarrow> nat \<Rightarrow> nat \<Rightarrow> nat \<Rightarrow> int \<times> nat \<times> (nat \<times> ring_page) list" where
  "map_pages vma useraddr ptr mlength =
     (if mlength = 0 then (0, useraddr, [])
      else
        let ret = me_remap vma useraddr (Buffer_Page (ptr div unat PAGE_SIZE)) in
        if ret < 0 then (ret, useraddr, [])
        else
          let (ret', useraddr', pages) =
                map_pages vma (useraddr + unat PAGE_SIZE) (ptr + unat PAGE_SIZE) (mlength - unat PAGE_SIZE) in
          (ret', useraddr', (useraddr, Buffer_Page (ptr div unat PAGE_SIZE)) # pages))"

  by pat_completeness auto

termination map_pages
  by (relation "measure (\<lambda>(vma, useraddr, ptr, mlength). mlength)") (auto simp: PAGE_SIZE_def)

declare map_pages.simps [simp del]

definition map_info :: "mmap_env \<Rightarrow> ppm_ring_buffer_context \<Rightarrow> (int \<times> (nat \<times> ring_page) list) option" where
  "map_info vma ring =
     (if rc_info ring = None then None
      else let ret = me_remap vma (vm_start vma) Info_Page in
        Some (if ret < 0 then (ret, []) else (0, [(vm_start vma, Info_Page)])))"

definition map_buffer :: "mmap_env \<Rightarrow> nat \<Rightarrow> ppm_ring_buffer_context \<Rightarrow> (int \<times> (nat \<times> ring_page) list) option" where
  "map_buffer vma len ring =
     (if vm_write vma then Some (- EIO, [])
      else if rc_buffer ring = None then None
      else
        let (ret, useraddr, pages) = map_pages vma (vm_start vma) 0 (len div 2) in
        if ret < 0 then Some (ret, pages)
        else
          let (ret', _, pages') = map_pages vma useraddr 0 (len div 2) in
          Some (if ret' < 0 then ret' else 0, pages @ pages'))"

definition ppm_mmap :: "mmap_env \<Rightarrow> nat \<Rightarrow> nat \<Rightarrow> ppm_driver \<Rightarrow> (int \<times> (nat \<times> ring_page) list) option" where
  "ppm_mmap vma cid ring_no d =
     (case ppm_find_consumer cid (g_consumer_list d) of None \<Rightarrow> None
      | Some None \<Rightarrow> Some (- EIO, [])
      | Some (Some consumer) \<Rightarrow>
        if vm_pgoff vma = 0 then
          let len = vm_end vma - vm_start vma in
          if unat RING_BUF_SIZE < 2 * unat PAGE_SIZE then Some (- EIO, [])
          else if unat RING_BUF_SIZE div unat PAGE_SIZE * unat PAGE_SIZE \<noteq> unat RING_BUF_SIZE then Some (- EIO, [])
          else if len \<le> unat PAGE_SIZE then map_info vma (c_ring_buffers consumer ring_no)
          else if len = unat RING_BUF_SIZE * 2 then map_buffer vma len (c_ring_buffers consumer ring_no)
          else Some (- EIO, [])
        else Some (- EIO, []))"

section \<open>CPU hotplug\<close>

definition set_online :: "nat \<Rightarrow> int \<Rightarrow> ppm_consumer_t \<Rightarrow> ppm_consumer_t" where
  "set_online cpu sd_action c =
     (if sd_action = 1 then set_ring cpu ((c_ring_buffers c cpu)\<lparr>rc_cpu_online := True\<rparr>) c
      else if sd_action = 2 then set_ring cpu ((c_ring_buffers c cpu)\<lparr>rc_cpu_online := False\<rparr>) c
      else c)"

definition do_cpu_callback :: "driver_env \<Rightarrow> u64 \<Rightarrow> nat \<Rightarrow> int \<Rightarrow> ppm_driver \<Rightarrow> ppm_driver option" where
  "do_cpu_callback k ns cpu sd_action d =
     (if sd_action = 0 then Some d
      else case live_consumers (g_consumer_list d) of None \<Rightarrow> None
      | Some cs \<Rightarrow>
        record_all k PPME_CPU_HOTPLUG_E UF_NEVER_DROP ns
          (zero_event_data\<lparr>ed_category := PPMC_CONTEXT_SWITCH, ed_sched_prev := of_nat cpu,
             ed_sched_next := of_int sd_action\<rparr>)
          (d\<lparr>g_consumer_list := map (\<lambda>c. Some (set_online cpu sd_action c)) cs\<rparr>))"

definition sysdig_cpu_online :: "driver_env \<Rightarrow> u64 \<Rightarrow> nat \<Rightarrow> ppm_driver \<Rightarrow> ppm_driver option" where
  "sysdig_cpu_online k ns cpu d = do_cpu_callback k ns cpu 1 d"

definition sysdig_cpu_offline :: "driver_env \<Rightarrow> u64 \<Rightarrow> nat \<Rightarrow> ppm_driver \<Rightarrow> ppm_driver option" where
  "sysdig_cpu_offline k ns cpu d = do_cpu_callback k ns cpu 2 d"

end
