(* ===== verification/Probes.thy ===== *)
theory Probes
  imports Syscall_Table Ppm_Device
begin

text \<open>
  The callbacks the kernel module attaches to tracepoints and kernel functions (\<open>driver/main.c\<close>):
  each counts the hit, decides whether the event is of interest, and hands it to every consumer.
  The parameters are what the kernel passes and what the callback reads of it.
\<close>

abbreviation (input) PPME_SCHEDSWITCH_6_E :: nat where "PPME_SCHEDSWITCH_6_E \<equiv> 152"
abbreviation (input) PPME_PROCEXIT_1_E :: nat where "PPME_PROCEXIT_1_E \<equiv> 186"
abbreviation (input) PPME_SIGNALDELIVER_E :: nat where "PPME_SIGNALDELIVER_E \<equiv> 232"
abbreviation (input) PPME_NET_DEV_XMIT_E :: nat where "PPME_NET_DEV_XMIT_E \<equiv> 324"
abbreviation (input) PPME_TCP_RCV_ESTABLISHED_E :: nat where "PPME_TCP_RCV_ESTABLISHED_E \<equiv> 326"
abbreviation (input) PPME_TCP_DROP_E :: nat where "PPME_TCP_DROP_E \<equiv> 330"
abbreviation (input) PPME_TCP_RETRANCESMIT_SKB_E :: nat where "PPME_TCP_RETRANCESMIT_SKB_E \<equiv> 332"

definition g_n_tracepoint_hit_inc :: "driver_env \<Rightarrow> ppm_driver \<Rightarrow> ppm_driver" where
  "g_n_tracepoint_hit_inc k d =
     d\<lparr>g_n_tracepoint_hit := (g_n_tracepoint_hit d)(de_cpu k := g_n_tracepoint_hit d (de_cpu k) + 1)\<rparr>"

section \<open>System calls\<close>

text \<open>
  The event type and drop flags the two system call callbacks record a call with, if any:
  \<open>event_of\<close> selects the entry or exit event of a row, \<open>generic\<close> and \<open>epollwait\<close> are the types
  of that direction.  For a native process there is no multiplexed socket call, and
  \<open>socketcall_syscall\<close> is -1.
\<close>

definition syscall_choice ::
    "bool \<Rightarrow> (int \<Rightarrow> syscall_evt_pair) \<Rightarrow> int \<Rightarrow> int \<Rightarrow> (syscall_evt_pair \<Rightarrow> nat) \<Rightarrow> nat \<Rightarrow> nat \<Rightarrow> (nat \<times> u32) option" where
  "syscall_choice simple_mode cur_g_syscall_table socketcall_syscall table_index event_of generic epollwait =
     (if 0 \<le> table_index \<and> table_index < SYSCALL_TABLE_SIZE then
        let row = cur_g_syscall_table table_index;
            (used, drop_flags, type) =
              (if table_index = socketcall_syscall then (True, UF_NEVER_DROP, generic)
               else (sp_flags row AND UF_USED \<noteq> 0, sp_flags row, event_of row)) in
        if simple_mode \<and> sp_flags row AND UF_SIMPLEDRIVER_KEEP = 0 then None
        else if type = epollwait then None
        else if used then Some (type, drop_flags)
        else Some (generic, UF_ALWAYS_DROP)
      else None)"

definition syscall_data :: "bool \<Rightarrow> pt_regs \<Rightarrow> int \<Rightarrow> event_data_t" where
  "syscall_data compat32 regs nr =
     zero_event_data\<lparr>ed_category := PPMC_SYSCALL, ed_regs := Some regs, ed_id := nr,
       ed_routing := Some (\<lambda>i. nat (if compat32 then g_syscall_ia32_code_routing_table (int i) else g_syscall_code_routing_table (int i))),
       ed_socketcall_syscall := (if compat32 then NR_ia32_socketcall else -1), ed_compat := compat32\<rparr>"

text \<open>
  \<open>in_ia32_syscall\<close> says whether the call came through the 32-bit entry.
\<close>

definition enter_choice :: "bool \<Rightarrow> bool \<Rightarrow> int \<Rightarrow> (nat \<times> u32) option" where
  "enter_choice simple_mode in_ia32_syscall nr =
     (if in_ia32_syscall
      then syscall_choice simple_mode g_syscall_ia32_table NR_ia32_socketcall nr
             sp_enter_event_type PPME_GENERIC_E PPME_SYSCALL_EPOLLWAIT_E
      else syscall_choice simple_mode g_syscall_table (-1) nr sp_enter_event_type PPME_GENERIC_E PPME_SYSCALL_EPOLLWAIT_E)"

definition exit_compat :: "bool \<Rightarrow> int \<Rightarrow> bool" where
  "exit_compat in_ia32_syscall nr \<longleftrightarrow> in_ia32_syscall \<and> nr \<noteq> NR_execve"

definition exit_choice :: "bool \<Rightarrow> bool \<Rightarrow> int \<Rightarrow> (nat \<times> u32) option" where
  "exit_choice simple_mode in_ia32_syscall nr =
     (if exit_compat in_ia32_syscall nr
      then syscall_choice simple_mode g_syscall_ia32_table NR_ia32_socketcall nr
             sp_exit_event_type PPME_GENERIC_X PPME_SYSCALL_EPOLLWAIT_X
      else syscall_choice simple_mode g_syscall_table (-1) nr sp_exit_event_type PPME_GENERIC_X PPME_SYSCALL_EPOLLWAIT_X)"

definition syscall_enter_probe ::
    "driver_env \<Rightarrow> u64 \<Rightarrow> bool \<Rightarrow> pt_regs \<Rightarrow> int \<Rightarrow> ppm_driver \<Rightarrow> ppm_driver option" where
  "syscall_enter_probe k ns in_ia32_syscall regs nr d =
     (let d1 = g_n_tracepoint_hit_inc k d in
      case enter_choice (g_simple_mode_enabled d1) in_ia32_syscall nr of
        None \<Rightarrow> Some d1
      | Some (type, drop_flags) \<Rightarrow> record_all k type drop_flags ns (syscall_data in_ia32_syscall regs nr) d1)"

text \<open>The exit callback gets the number of the call from the registers.\<close>

definition syscall_exit_probe ::
    "driver_env \<Rightarrow> u64 \<Rightarrow> bool \<Rightarrow> pt_regs \<Rightarrow> int \<Rightarrow> ppm_driver \<Rightarrow> ppm_driver option" where
  "syscall_exit_probe k ns in_ia32_syscall regs nr d =
     (let d1 = g_n_tracepoint_hit_inc k d in
      case exit_choice (g_simple_mode_enabled d1) in_ia32_syscall nr of
        None \<Rightarrow> Some d1
      | Some (type, drop_flags) \<Rightarrow>
          record_all k type drop_flags ns (syscall_data (exit_compat in_ia32_syscall nr) regs nr) d1)"

section \<open>Scheduling, signals and page faults\<close>

definition context_data :: "u64 \<Rightarrow> u64 \<Rightarrow> event_data_t" where
  "context_data prev next =
     zero_event_data\<lparr>ed_category := PPMC_CONTEXT_SWITCH, ed_sched_prev := prev, ed_sched_next := next\<rparr>"

definition syscall_procexit_probe :: "driver_env \<Rightarrow> u64 \<Rightarrow> bool \<Rightarrow> u64 \<Rightarrow> ppm_driver \<Rightarrow> ppm_driver option" where
  "syscall_procexit_probe k ns kthread p d =
     (let d1 = g_n_tracepoint_hit_inc k d in
      if kthread then Some d1
      else record_all k PPME_PROCEXIT_1_E UF_NEVER_DROP ns (context_data p p) d1)"

definition sched_switch_probe :: "driver_env \<Rightarrow> u64 \<Rightarrow> u64 \<Rightarrow> u64 \<Rightarrow> ppm_driver \<Rightarrow> ppm_driver option" where
  "sched_switch_probe k ns prev next d =
     record_all k PPME_SCHEDSWITCH_6_E (UF_USED OR UF_ATOMIC) ns (context_data prev next) (g_n_tracepoint_hit_inc k d)"

text \<open>
  A signal comes with a pointer to its description or with one of three small values in its place;
  \<open>forced_defined\<close> says whether the kernel still defines the third (it does before Linux 4.20).
\<close>

datatype siginfo_ptr = SEND_SIG_NOINFO | SEND_SIG_PRIV | SEND_SIG_FORCED | Siginfo siginfo

definition siginfo_not_a_pointer :: "bool \<Rightarrow> siginfo_ptr \<Rightarrow> bool" where
  "siginfo_not_a_pointer forced_defined info =
     (if forced_defined then info = SEND_SIG_NOINFO \<or> info = SEND_SIG_PRIV \<or> True
      else info = SEND_SIG_NOINFO \<or> info = SEND_SIG_PRIV)"

definition signal_data :: "bool \<Rightarrow> int \<Rightarrow> siginfo_ptr \<Rightarrow> event_data_t" where
  "signal_data forced_defined sig info =
     zero_event_data\<lparr>ed_category := PPMC_SIGNAL, ed_sig := sig,
       ed_info := (if siginfo_not_a_pointer forced_defined info then None
                   else case info of Siginfo i \<Rightarrow> Some i | _ \<Rightarrow> None)\<rparr>"

definition signal_deliver_probe ::
    "driver_env \<Rightarrow> u64 \<Rightarrow> bool \<Rightarrow> int \<Rightarrow> siginfo_ptr \<Rightarrow> ppm_driver \<Rightarrow> ppm_driver option" where
  "signal_deliver_probe k ns forced_defined sig info d =
     record_all k PPME_SIGNALDELIVER_E (UF_USED OR UF_ALWAYS_DROP) ns (signal_data forced_defined sig info)
       (g_n_tracepoint_hit_inc k d)"

definition page_fault_probe :: "driver_env \<Rightarrow> u64 \<Rightarrow> u64 \<Rightarrow> u64 \<Rightarrow> ppm_driver \<Rightarrow> ppm_driver option" where
  "page_fault_probe k ns address error_code d =
     record_all k PPME_PAGE_FAULT_E UF_ALWAYS_DROP ns
       (zero_event_data\<lparr>ed_category := PPMC_PAGE_FAULT, ed_fault_address := address, ed_fault_error := error_code\<rparr>)
       (g_n_tracepoint_hit_inc k d)"

section \<open>Network\<close>

text \<open>
  The fields of a socket buffer that \<open>check_skb\<close> reads; \<open>kmem\<close> is the kernel memory its pointers
  refer to.  Offsets: \<open>protocol\<close> is at 9 of the 20 bytes of an IP header, the destination port at 2
  of a UDP header, the type at 12 of the 14 bytes of an Ethernet header.
\<close>

record sk_buff =
  skb_data :: u64
  skb_head :: u64
  skb_len :: u32
  skb_network_header :: u16

definition be16 :: "(u64 \<Rightarrow> byte) \<Rightarrow> u64 \<Rightarrow> nat" where
  "be16 kmem a = unat (kmem a) * 256 + unat (kmem (a + 1))"

fun same_name :: "nat \<Rightarrow> (nat \<Rightarrow> byte) \<Rightarrow> (nat \<Rightarrow> byte) \<Rightarrow> nat \<Rightarrow> bool" where
  "same_name 0 dev_name setting_name i = False"
| "same_name (Suc n) dev_name setting_name i =
     (if dev_name i \<noteq> setting_name i then False
      else if setting_name i = 0 then True
      else same_name n dev_name setting_name (Suc i))"

definition check_l4 :: "u64 \<Rightarrow> u64 \<Rightarrow> int" where
  "check_l4 iph data_end = (if iph + 20 + 1 > data_end then -1 else 0)"

definition check_inner_ip :: "u64 \<Rightarrow> u64 \<Rightarrow> int" where
  "check_inner_ip iph2 data_end = (if iph2 + 1 > data_end then -1 else check_l4 iph2 data_end)"

definition check_udp :: "(u64 \<Rightarrow> byte) \<Rightarrow> u64 \<Rightarrow> u64 \<Rightarrow> int" where
  "check_udp kmem udph data_end =
     (if udph + 1 > data_end then -1
      else if be16 kmem (udph + 2) = 4789 \<or> be16 kmem (udph + 2) = 8472 then
        let eth2 = udph + 16 in
        if eth2 + 14 > data_end then 0
        else if be16 kmem (eth2 + 12) \<noteq> 0x0800 then -1
        else check_inner_ip (eth2 + 14) data_end
      else -1)"

definition check_skb :: "(u64 \<Rightarrow> byte) \<Rightarrow> sk_buff \<Rightarrow> (nat \<Rightarrow> byte) \<Rightarrow> (nat \<Rightarrow> byte) \<Rightarrow> int" where
  "check_skb kmem skb dev_name setting_name =
     (if same_name 16 dev_name setting_name 0 then -1
      else if skb_head skb = 0 then -1
      else
        let data_end = ucast (skb_len skb) + skb_data skb;
            iph = skb_head skb + ucast (skb_network_header skb) in
        if iph + 1 > data_end then -1
        else
          let ipp = unat (kmem (iph + 9)) in
          if ipp = 6 then check_l4 iph data_end
          else if ipp = 4 then check_inner_ip (iph + 20) data_end
          else if ipp = 17 then check_udp kmem (iph + 20) data_end
          else -1)"

definition lo_name :: "nat \<Rightarrow> byte" where
  "lo_name i = (if i = 0 then 108 else if i = 1 then 111 else 0)"

definition net_dev_xmit_probe ::
    "driver_env \<Rightarrow> u64 \<Rightarrow> (u64 \<Rightarrow> byte) \<Rightarrow> u64 \<Rightarrow> sk_buff \<Rightarrow> u64 \<Rightarrow> (nat \<Rightarrow> byte) \<Rightarrow> ppm_driver \<Rightarrow> ppm_driver option" where
  "net_dev_xmit_probe k ns kmem skb skb_fields dev dev_name d =
     (let d1 = g_n_tracepoint_hit_inc k d in
      if check_skb kmem skb_fields dev_name lo_name = 0 then
        record_all k PPME_NET_DEV_XMIT_E (UF_USED OR UF_NEVER_DROP) ns
          (zero_event_data\<lparr>ed_category := PPMC_SKB_CAPTURE, ed_skb := skb, ed_dev := dev\<rparr>) d1
      else Some d1)"

text \<open>The kprobes get the socket from the registers and read its ports, here in host order.\<close>

definition tcp_event :: "driver_env \<Rightarrow> u64 \<Rightarrow> nat \<Rightarrow> ppm_capture_category \<Rightarrow> u64 \<Rightarrow> ppm_driver \<Rightarrow> ppm_driver option" where
  "tcp_event k ns type category sk d =
     record_all k type (UF_USED OR UF_NEVER_DROP) ns (zero_event_data\<lparr>ed_category := category, ed_sk := sk\<rparr>) d"

definition handler_pre_tcp_drop :: "driver_env \<Rightarrow> u64 \<Rightarrow> u64 \<Rightarrow> u16 \<Rightarrow> u16 \<Rightarrow> ppm_driver \<Rightarrow> ppm_driver option" where
  "handler_pre_tcp_drop k ns sk sport dport d =
     (if sport = 22 \<or> dport = 22 \<or> sport = 0 \<or> dport = 0 then Some d
      else tcp_event k ns PPME_TCP_DROP_E PPMC_TCP_DROP sk d)"

definition handler_pre_tcp_rcv_established ::
    "driver_env \<Rightarrow> u64 \<Rightarrow> u64 \<Rightarrow> u16 \<Rightarrow> u16 \<Rightarrow> ppm_driver \<Rightarrow> ppm_driver option" where
  "handler_pre_tcp_rcv_established k ns sk sport dport d =
     (if sport = 22 \<or> dport = 22 \<or> sport = 0 \<or> dport = 0 then Some d
      else tcp_event k ns PPME_TCP_RCV_ESTABLISHED_E PPMC_TCP_RCV_ESTABLISHED sk d)"

definition handler_pre_tcp_retransmit_skb ::
    "driver_env \<Rightarrow> u64 \<Rightarrow> u64 \<Rightarrow> u16 \<Rightarrow> u16 \<Rightarrow> ppm_driver \<Rightarrow> ppm_driver option" where
  "handler_pre_tcp_retransmit_skb k ns sk sport dport d =
     (if sport = 0 \<or> dport = 0 then Some d
      else tcp_event k ns PPME_TCP_RETRANCESMIT_SKB_E PPMC_TCP_RETRANSMIT_SKB sk d)"

section \<open>All callbacks\<close>

datatype callback =
    Enter_Call bool pt_regs int
  | Exit_Call bool pt_regs int
  | Procexit bool u64
  | Switch u64 u64
  | Signal bool int siginfo_ptr
  | Page_Fault u64 u64
  | Xmit "u64 \<Rightarrow> byte" u64 sk_buff u64 "nat \<Rightarrow> byte"
  | Tcp_Drop u64 u16 u16
  | Tcp_Rcv_Established u64 u16 u16
  | Tcp_Retransmit u64 u16 u16
  | Cpu_Online nat
  | Cpu_Offline nat

fun fire :: "driver_env \<Rightarrow> u64 \<Rightarrow> callback \<Rightarrow> ppm_driver \<Rightarrow> ppm_driver option" where
  "fire k ns (Enter_Call ia32 regs nr) d = syscall_enter_probe k ns ia32 regs nr d"
| "fire k ns (Exit_Call ia32 regs nr) d = syscall_exit_probe k ns ia32 regs nr d"
| "fire k ns (Procexit kthread p) d = syscall_procexit_probe k ns kthread p d"
| "fire k ns (Switch prev next) d = sched_switch_probe k ns prev next d"
| "fire k ns (Signal forced sig info) d = signal_deliver_probe k ns forced sig info d"
| "fire k ns (Page_Fault address error_code) d = page_fault_probe k ns address error_code d"
| "fire k ns (Xmit kmem skb skb_fields dev dev_name) d = net_dev_xmit_probe k ns kmem skb skb_fields dev dev_name d"
| "fire k ns (Tcp_Drop sk sport dport) d = handler_pre_tcp_drop k ns sk sport dport d"
| "fire k ns (Tcp_Rcv_Established sk sport dport) d = handler_pre_tcp_rcv_established k ns sk sport dport d"
| "fire k ns (Tcp_Retransmit sk sport dport) d = handler_pre_tcp_retransmit_skb k ns sk sport dport d"
| "fire k ns (Cpu_Online cpu) d = sysdig_cpu_online k ns cpu d"
| "fire k ns (Cpu_Offline cpu) d = sysdig_cpu_offline k ns cpu d"

section \<open>Entry and exit\<close>

definition paired :: "syscall_evt_pair \<Rightarrow> bool" where
  "paired r \<longleftrightarrow> even (sp_enter_event_type r) \<and> sp_exit_event_type r = sp_enter_event_type r + 1 \<and>
     sp_exit_event_type r < PPM_EVENT_MAX"

lemma rows_paired: "list_all (\<lambda>(i, r). paired r) g_syscall_table_rows"
  by (simp add: paired_def g_syscall_table_defs evt_pair_def ppm_consts)

lemma ia32_rows_paired: "list_all (\<lambda>(i, r). paired r) g_syscall_ia32_table_rows"
  by (simp add: paired_def g_syscall_ia32_table_defs evt_pair_def ppm_consts)

lemma array_of_paired:
  assumes "list_all (\<lambda>(i, r). paired r) rows"
  shows "array_of (evt_pair 0 0 0) rows i = evt_pair 0 0 0 \<or> paired (array_of (evt_pair 0 0 0) rows i)"
  by (rule array_of_cases [of "evt_pair 0 0 0" rows i]) (use assms in \<open>auto simp: list_all_iff\<close>)

lemma table_paired:
  "g_syscall_table i = evt_pair 0 0 0 \<or> paired (g_syscall_table i)"
  "g_syscall_ia32_table i = evt_pair 0 0 0 \<or> paired (g_syscall_ia32_table i)"
  unfolding g_syscall_table_def g_syscall_ia32_table_def
  by (rule array_of_paired [OF rows_paired] array_of_paired [OF ia32_rows_paired])+

definition same_call :: "(nat \<times> u32) option \<Rightarrow> (nat \<times> u32) option \<Rightarrow> bool" where
  "same_call a b =
     (case (a, b) of
        (None, None) \<Rightarrow> True
      | (Some (e, f), Some (x, f')) \<Rightarrow> even e \<and> x = e + 1 \<and> x < PPM_EVENT_MAX \<and> f' = f
      | _ \<Rightarrow> False)"

lemma syscall_choice_pair:
  assumes "tbl nr = evt_pair 0 0 0 \<or> paired (tbl nr)"
  shows "same_call
    (syscall_choice simple_mode tbl sc nr sp_enter_event_type PPME_GENERIC_E PPME_SYSCALL_EPOLLWAIT_E)
    (syscall_choice simple_mode tbl sc nr sp_exit_event_type PPME_GENERIC_X PPME_SYSCALL_EPOLLWAIT_X)"
  using assms by (auto simp: same_call_def syscall_choice_def paired_def evt_pair_def ppm_consts Let_def split: prod.splits)

section \<open>Properties\<close>

text \<open>
  C0. The two callbacks agree on every system call: either both ignore it, or the entry is recorded
  with an even type and the exit with the next one, under the same drop flags.  The exception is a
  64-bit process that has just become a 32-bit one by \<open>execve\<close>: the exit is recorded as that of the
  native \<open>execve\<close>.
\<close>

theorem enter_exit_paired:
  "(if in_ia32_syscall \<and> nr = NR_execve
    then exit_choice simple_mode in_ia32_syscall nr = exit_choice simple_mode False NR_execve
    else same_call (enter_choice simple_mode in_ia32_syscall nr) (exit_choice simple_mode in_ia32_syscall nr))"
  by (auto simp: enter_choice_def exit_choice_def exit_compat_def intro!: syscall_choice_pair table_paired)

text \<open>
  C0. In simple mode every socket call of a 32-bit process is lost: the multiplexed call has no row of
  its own, so its flags do not keep it, and this is decided before the call is recognised as a
  socket call.  The same calls of a native process are kept.
\<close>

theorem simple_mode_loses_socketcall:
  "enter_choice True True NR_ia32_socketcall = None \<and> exit_choice True True NR_ia32_socketcall = None \<and>
   enter_choice True False NR_socket = Some (PPME_SOCKET_SOCKET_E, UF_USED OR UF_NEVER_DROP OR UF_SIMPLEDRIVER_KEEP) \<and>
   enter_choice True False NR_connect = Some (PPME_SOCKET_CONNECT_E, UF_USED OR UF_SIMPLEDRIVER_KEEP)"
proof -
  have "g_syscall_ia32_table NR_ia32_socketcall = evt_pair 0 0 0"
    unfolding g_syscall_ia32_table_def g_syscall_ia32_table_defs by (simp add: array_of_simps)
  moreover have "g_syscall_table NR_socket =
      evt_pair (UF_USED OR UF_NEVER_DROP OR UF_SIMPLEDRIVER_KEEP) PPME_SOCKET_SOCKET_E PPME_SOCKET_SOCKET_X"
    "g_syscall_table NR_connect = evt_pair (UF_USED OR UF_SIMPLEDRIVER_KEEP) PPME_SOCKET_CONNECT_E PPME_SOCKET_CONNECT_X"
    unfolding g_syscall_table_def g_syscall_table_defs by (simp_all add: array_of_simps)
  ultimately show ?thesis
    by (simp add: enter_choice_def exit_choice_def exit_compat_def syscall_choice_def evt_pair_def ppm_consts)
qed

end
