(* ===== verification/Spec2Isabelle.thy ===== *)
theory Spec2Isabelle
  imports Capture Flag_Names Filter_Roundtrip Probes
begin

text \<open>
  A verification development of the capture path of this repository: the kernel module that
  records system events into per-CPU rings, \<open>libscap\<close> that reads the rings, and the part of
  \<open>libsinsp\<close> that splits and renders events.
\<close>

end
